(* ===== verification/Prelude.thy ===== *)
theory Prelude
  imports Main "HOL-Library.Word" "HOL-Library.Signed_Division"
begin

text \<open>
  Shared vocabulary of the development: the fragment of JavaScript's string, number and
  collection library that the frontend under \<^verbatim>\<open>src/frontend/src\<close> uses, the collections of
  simplification rules, and the interfaces (locales) that several components implement.

  A JavaScript string is a HOL \<open>string\<close>: the model covers texts whose code units lie below
  256. \<open>int\<close> stands for \<open>BigInt\<close> and for those \<open>number\<close>s the code keeps
  integral; a \<open>Uint8Array\<close> is a list of \<open>8 word\<close>s. A thrown exception is the left
  summand of a result, \<open>undefined\<close> and \<open>null\<close> are \<open>None\<close>.
\<close>

unbundle bit_operations_syntax

named_theorems js_defs \<open>definitions of the string primitives, for evaluation\<close>
named_theorems codec_simps \<open>decode-after-encode equations\<close>
named_theorems frame_simps \<open>fields an operation leaves unchanged\<close>

type_synonym byte = "8 word"
type_synonym bytes = "8 word list"
type_synonym 'a result = "string + 'a"

section \<open>Results\<close>

text \<open>\<open>await\<close> and a call that may throw: the first exception ends the computation.\<close>

fun and_then :: "'e + 'a \<Rightarrow> ('a \<Rightarrow> 'e + 'b) \<Rightarrow> 'e + 'b" where
  "and_then (Inl e) f = Inl e"
| "and_then (Inr x) f = f x"

lemma and_then_Inr_iff:
  "and_then r f = Inr y \<longleftrightarrow> (\<exists>x. r = Inr x \<and> f x = Inr y)"
  by (cases r) auto

lemma and_then_Inl_iff:
  "and_then r f = Inl e \<longleftrightarrow> r = Inl e \<or> (\<exists>x. r = Inr x \<and> f x = Inl e)"
  by (cases r) auto

fun to_option :: "'e + 'a \<Rightarrow> 'a option" where
  "to_option (Inl e) = None"
| "to_option (Inr x) = Some x"

lemma to_option_Some_iff [simp]: "to_option r = Some x \<longleftrightarrow> r = Inr x"
  by (cases r) auto

section \<open>Characters and strings\<close>

text \<open>
  \<open>String.prototype.toLowerCase\<close> and \<open>toUpperCase\<close> on code units below 256. Upper case
  leaves the three letters 181, 223 and 255 alone, whose images leave that range.
\<close>

definition lower_char :: "char \<Rightarrow> char" where
  "lower_char c = (let n = (of_char c :: nat) in
     if (65 \<le> n \<and> n \<le> 90) \<or> (192 \<le> n \<and> n \<le> 222 \<and> n \<noteq> 215) then char_of (n + 32) else c)"

definition upper_char :: "char \<Rightarrow> char" where
  "upper_char c = (let n = (of_char c :: nat) in
     if (97 \<le> n \<and> n \<le> 122) \<or> (224 \<le> n \<and> n \<le> 254 \<and> n \<noteq> 247) then char_of (n - 32) else c)"

definition toLowerCase :: "string \<Rightarrow> string" where
  "toLowerCase s = map lower_char s"

definition toUpperCase :: "string \<Rightarrow> string" where
  "toUpperCase s = map upper_char s"

lemma length_case [simp]:
  "length (toLowerCase s) = length s" "length (toUpperCase s) = length s"
  by (simp_all add: toLowerCase_def toUpperCase_def)

lemma case_append [simp]:
  "toLowerCase (s @ t) = toLowerCase s @ toLowerCase t"
  "toUpperCase (s @ t) = toUpperCase s @ toUpperCase t"
  by (simp_all add: toLowerCase_def toUpperCase_def)

lemma lower_char_idem [simp]: "lower_char (lower_char c) = lower_char c"
  by (auto simp: lower_char_def Let_def of_char_of)

lemma toLowerCase_idem [simp]: "toLowerCase (toLowerCase s) = toLowerCase s"
  by (simp add: toLowerCase_def)

text \<open>The white space class \<open>\s\<close>, again below 256.\<close>

definition is_space :: "char \<Rightarrow> bool" where
  "is_space c \<longleftrightarrow> (of_char c :: nat) \<in> {9, 10, 11, 12, 13, 32, 160}"

definition js_trim_start :: "string \<Rightarrow> string" where
  "js_trim_start s = dropWhile is_space s"

definition js_trim_end :: "string \<Rightarrow> string" where
  "js_trim_end s = rev (dropWhile is_space (rev s))"

definition js_trim :: "string \<Rightarrow> string" where
  "js_trim s = js_trim_end (js_trim_start s)"

lemma js_trim_id:
  assumes "s \<noteq> []" and "\<not> is_space (hd s)" and "\<not> is_space (last s)"
  shows "js_trim s = s"
proof -
  have "js_trim_start s = s" using assms(1,2) by (cases s) (simp_all add: js_trim_start_def)
  moreover have "js_trim_end s = s"
    using assms(1,3) by (cases s rule: rev_cases) (simp_all add: js_trim_end_def)
  ultimately show ?thesis by (simp add: js_trim_def)
qed

definition startsWith :: "string \<Rightarrow> string \<Rightarrow> bool" where
  "startsWith s p \<longleftrightarrow> take (length p) s = p"

lemma startsWith_append [simp]: "startsWith (p @ s) p"
  by (simp add: startsWith_def)

lemma startsWith_iff: "startsWith s p \<longleftrightarrow> (\<exists>t. s = p @ t)"
  by (metis append_eq_conv_conj append_take_drop_id startsWith_def)

fun str_includes :: "string \<Rightarrow> string \<Rightarrow> bool" where
  "str_includes [] p \<longleftrightarrow> p = []"
| "str_includes (c # cs) p \<longleftrightarrow> startsWith (c # cs) p \<or> str_includes cs p"

lemma str_includes_iff: "str_includes s p \<longleftrightarrow> (\<exists>u v. s = u @ p @ v)"
proof (induction s)
  case Nil
  then show ?case by auto
next
  case (Cons c cs)
  have "(\<exists>u v. c # cs = u @ p @ v) \<longleftrightarrow> (\<exists>v. c # cs = p @ v) \<or> (\<exists>u v. cs = u @ p @ v)"
    by (metis append_Cons append_Nil list.exhaust list.inject)
  then show ?case by (simp add: Cons.IH startsWith_iff)
qed

text \<open>\<open>split\<close> on a single-character separator, and \<open>join\<close>.\<close>

fun split_on :: "char \<Rightarrow> string \<Rightarrow> string list" where
  "split_on c [] = [[]]"
| "split_on c (x # xs) =
     (if x = c then [] # split_on c xs
      else (case split_on c xs of [] \<Rightarrow> [[x]] | y # ys \<Rightarrow> (x # y) # ys))"

fun join :: "string \<Rightarrow> string list \<Rightarrow> string" where
  "join sep [] = []"
| "join sep [s] = s"
| "join sep (s # t # ts) = s @ sep @ join sep (t # ts)"

lemma split_on_nonempty [simp]: "split_on c s \<noteq> []"
  by (induction s) (auto split: list.splits)

lemma join_Cons: "ts \<noteq> [] \<Longrightarrow> join sep (s # ts) = s @ sep @ join sep ts"
  by (cases ts) auto

lemma join_split: "join [c] (split_on c s) = s"
proof (induction s)
  case (Cons x xs)
  then show ?case
    by (cases "split_on c xs"; cases "tl (split_on c xs)") (auto simp: join_Cons)
qed simp

lemma split_on_none: "c \<notin> set s \<Longrightarrow> split_on c s = [s]"
  by (induction s) auto

lemma split_on_append: "c \<notin> set s \<Longrightarrow> split_on c (s @ c # t) = s # split_on c t"
  by (induction s) auto

lemma split_join:
  "ts \<noteq> [] \<Longrightarrow> \<forall>t \<in> set ts. c \<notin> set t \<Longrightarrow> split_on c (join [c] ts) = ts"
  by (induction "[c]" ts rule: join.induct) (auto simp: split_on_none split_on_append)

lemma split_on_parts: "t \<in> set (split_on c s) \<Longrightarrow> c \<notin> set t"
  by (induction s arbitrary: t) (auto split: if_splits list.splits)

definition padStart :: "nat \<Rightarrow> char \<Rightarrow> string \<Rightarrow> string" where
  "padStart n c s = replicate (n - length s) c @ s"

definition slice :: "nat \<Rightarrow> nat \<Rightarrow> 'a list \<Rightarrow> 'a list" where
  "slice i j xs = take (j - i) (drop i xs)"

lemma length_two_obtain:
  assumes "length xs = 2"
  obtains x y where "xs = [x, y]"
  using assms by (metis One_nat_def Suc_1 length_0_conv length_Suc_conv)

text \<open>\<open>indexOf\<close>, with \<open>None\<close> for \<open>-1\<close>.\<close>

fun index_of :: "'a \<Rightarrow> 'a list \<Rightarrow> nat option" where
  "index_of x [] = None"
| "index_of x (y # ys) = (if x = y then Some 0 else map_option Suc (index_of x ys))"

lemma index_of_nth: "distinct xs \<Longrightarrow> i < length xs \<Longrightarrow> index_of (xs ! i) xs = Some i"
proof (induction xs arbitrary: i)
  case (Cons y ys)
  then show ?case by (cases i) (auto simp: nth_eq_iff_index_eq)
qed simp

lemma index_of_Some: "index_of x xs = Some i \<Longrightarrow> i < length xs \<and> xs ! i = x"
  by (induction xs arbitrary: i) (auto split: if_splits)

lemma index_of_None_iff: "index_of x xs = None \<longleftrightarrow> x \<notin> set xs"
  by (induction xs) auto

text \<open>\<open>a || b\<close> on strings: the empty string is falsy.\<close>

definition str_or :: "string \<Rightarrow> string \<Rightarrow> string" where
  "str_or a b = (if a = [] then b else a)"

section \<open>Numbers in a radix\<close>

definition digit_of :: "char \<Rightarrow> nat option" where
  "digit_of c = (let n = (of_char c :: nat) in
     if 48 \<le> n \<and> n \<le> 57 then Some (n - 48)
     else if 97 \<le> n \<and> n \<le> 122 then Some (n - 87)
     else if 65 \<le> n \<and> n \<le> 90 then Some (n - 55)
     else None)"

definition digit_char :: "nat \<Rightarrow> char" where
  "digit_char d = (if d < 10 then char_of (d + 48) else char_of (d + 87))"

lemma digit_of_char [simp]: "d < 36 \<Longrightarrow> digit_of (digit_char d) = Some d"
  by (simp add: digit_of_def digit_char_def of_char_of)

definition is_digit :: "nat \<Rightarrow> char \<Rightarrow> bool" where
  "is_digit r c \<longleftrightarrow> (case digit_of c of Some d \<Rightarrow> d < r | None \<Rightarrow> False)"

lemma is_digit_char [simp]: "d < r \<Longrightarrow> r \<le> 36 \<Longrightarrow> is_digit r (digit_char d)"
  by (simp add: is_digit_def)

definition digit_val :: "char \<Rightarrow> nat" where
  "digit_val c = (case digit_of c of Some d \<Rightarrow> d | None \<Rightarrow> 0)"

lemma digit_val_char [simp]: "d < 36 \<Longrightarrow> digit_val (digit_char d) = d"
  by (simp add: digit_val_def)

definition radix_val :: "nat \<Rightarrow> string \<Rightarrow> nat" where
  "radix_val r s = foldl (\<lambda>a c. a * r + digit_val c) 0 s"

lemma radix_val_Nil [simp]: "radix_val r [] = 0"
  by (simp add: radix_val_def)

lemma radix_val_snoc [simp]: "radix_val r (s @ [c]) = radix_val r s * r + digit_val c"
  by (simp add: radix_val_def)

lemma is_digit_val: "is_digit r c \<Longrightarrow> digit_val c < r"
  by (auto simp: is_digit_def digit_val_def split: option.splits)

lemma radix_val_bound: "\<forall>c \<in> set s. is_digit r c \<Longrightarrow> radix_val r s < r ^ length s"
proof (induction s rule: rev_induct)
  case (snoc c s)
  then have "radix_val r s + 1 \<le> r ^ length s" and d: "digit_val c + 1 \<le> r"
    by (auto simp: Suc_le_eq is_digit_val)
  then have "(radix_val r s + 1) * r \<le> r ^ length s * r"
    by (intro mult_right_mono) auto
  with d show ?case by (simp add: algebra_simps)
qed simp

lemma radix_val_replicate_0: "radix_val r (replicate n (CHR ''0'') @ s) = radix_val r s"
proof (induction s rule: rev_induct)
  case Nil
  have "digit_val (CHR ''0'') = 0" by (simp add: digit_val_def digit_of_def)
  then show ?case by (induction n) (simp_all add: radix_val_def)
next
  case (snoc c s)
  then show ?case by (metis append_assoc radix_val_snoc)
qed

text \<open>\<open>n.toString(radix)\<close>.\<close>

fun nat_to_radix :: "nat \<Rightarrow> nat \<Rightarrow> string" where
  "nat_to_radix r n =
     (if r < 2 \<or> n < r then [digit_char n]
      else nat_to_radix r (n div r) @ [digit_char (n mod r)])"

declare nat_to_radix.simps [simp del]

definition int_to_radix :: "nat \<Rightarrow> int \<Rightarrow> string" where
  "int_to_radix r n = (if n < 0 then CHR ''-'' # nat_to_radix r (nat (- n)) else nat_to_radix r (nat n))"

definition string_of_nat :: "nat \<Rightarrow> string" where
  "string_of_nat n = nat_to_radix 10 n"

definition string_of_int :: "int \<Rightarrow> string" where
  "string_of_int n = int_to_radix 10 n"

lemma nat_to_radix_nonempty [simp]: "nat_to_radix r n \<noteq> []"
  by (subst nat_to_radix.simps) simp

lemma radix_val_to_radix:
  "2 \<le> r \<Longrightarrow> r \<le> 36 \<Longrightarrow> radix_val r (nat_to_radix r n) = n"
proof (induction r n rule: nat_to_radix.induct)
  case (1 r n)
  show ?case
  proof (cases "n < r")
    case True
    with 1 show ?thesis by (subst nat_to_radix.simps) (simp add: radix_val_def)
  next
    case False
    with 1 have "radix_val r (nat_to_radix r (n div r)) = n div r" by simp
    moreover have "n mod r < 36" using 1 mod_less_divisor [of r n] by linarith
    ultimately show ?thesis using False 1 by (subst nat_to_radix.simps) simp
  qed
qed

lemma nat_to_radix_digits:
  "2 \<le> r \<Longrightarrow> r \<le> 36 \<Longrightarrow> c \<in> set (nat_to_radix r n) \<Longrightarrow> is_digit r c"
proof (induction r n rule: nat_to_radix.induct)
  case (1 r n)
  then show ?case
    by (subst (asm) (2) nat_to_radix.simps) (auto split: if_splits)
qed

lemma length_nat_to_radix:
  "2 \<le> r \<Longrightarrow> n < r ^ k \<Longrightarrow> 0 < k \<Longrightarrow> length (nat_to_radix r n) \<le> k"
proof (induction r n arbitrary: k rule: nat_to_radix.induct)
  case (1 r n)
  show ?case
  proof (cases "n < r")
    case True
    with 1 show ?thesis by (subst nat_to_radix.simps) simp
  next
    case False
    with 1 have "k \<noteq> 1" by (metis power_one_right)
    with 1 obtain j where k: "k = Suc j" and "0 < j"
      by (cases k) auto
    with 1 have "n div r < r ^ j"
      by (simp add: less_mult_imp_div_less mult.commute)
    with 1 False \<open>0 < j\<close> have "length (nat_to_radix r (n div r)) \<le> j" by simp
    with False 1 k show ?thesis by (subst nat_to_radix.simps) simp
  qed
qed

text \<open>
  \<open>parseInt(s, radix)\<close> for radix 10 and 16: leading white space, a sign, for radix 16 an
  optional \<open>0x\<close>, then the longest run of digits; \<open>None\<close> is \<open>NaN\<close>.
\<close>

definition strip_0x :: "nat \<Rightarrow> string \<Rightarrow> string" where
  "strip_0x r s = (if r = 16 \<and> (startsWith s ''0x'' \<or> startsWith s ''0X'') then drop 2 s else s)"

definition parse_digits :: "nat \<Rightarrow> string \<Rightarrow> nat option" where
  "parse_digits r s = (let ds = takeWhile (is_digit r) (strip_0x r s) in
     if ds = [] then None else Some (radix_val r ds))"

definition parseInt :: "nat \<Rightarrow> string \<Rightarrow> int option" where
  "parseInt r s = (case js_trim_start s of
      [] \<Rightarrow> None
    | c # cs \<Rightarrow>
        if c = CHR ''-'' then map_option (\<lambda>n. - int n) (parse_digits r cs)
        else if c = CHR ''+'' then map_option int (parse_digits r cs)
        else map_option int (parse_digits r (c # cs)))"

section \<open>JSON values\<close>

datatype json =
    JNull
  | JBool bool
  | JNum int
  | JStr string
  | JArr "json list"
  | JObj "(string \<times> json) list"

fun truthy :: "json \<Rightarrow> bool" where
  "truthy JNull = False"
| "truthy (JBool b) = b"
| "truthy (JNum n) = (n \<noteq> 0)"
| "truthy (JStr s) = (s \<noteq> [])"
| "truthy (JArr xs) = True"
| "truthy (JObj fs) = True"

section \<open>Ordered objects\<close>

text \<open>
  A \<open>Record<string, v>\<close> whose enumeration order matters: an association list without
  repeated keys, in insertion order. Assignment overwrites in place or appends.
\<close>

type_synonym 'v obj = "(string \<times> 'v) list"

fun obj_set :: "string \<Rightarrow> 'v \<Rightarrow> 'v obj \<Rightarrow> 'v obj" where
  "obj_set k v [] = [(k, v)]"
| "obj_set k v ((k', v') # ps) = (if k = k' then (k, v) # ps else (k', v') # obj_set k v ps)"

definition obj_get :: "'v obj \<Rightarrow> string \<Rightarrow> 'v option" where
  "obj_get ps k = map_of ps k"

definition obj_keys :: "'v obj \<Rightarrow> string list" where
  "obj_keys ps = map fst ps"

definition obj_wf :: "'v obj \<Rightarrow> bool" where
  "obj_wf ps \<longleftrightarrow> distinct (obj_keys ps)"

lemma obj_get_set [simp]: "obj_get (obj_set k v ps) k' = (if k' = k then Some v else obj_get ps k')"
  by (induction ps) (auto simp: obj_get_def)

lemma obj_get_Nil [simp]: "obj_get [] k = None"
  by (simp add: obj_get_def)

lemma set_obj_keys_set [simp]: "set (obj_keys (obj_set k v ps)) = insert k (set (obj_keys ps))"
  unfolding obj_keys_def set_map
  by (induction k v ps rule: obj_set.induct) (simp_all add: insert_commute)

lemma obj_wf_set [intro]: "obj_wf ps \<Longrightarrow> obj_wf (obj_set k v ps)"
proof (induction ps)
  case (Cons p ps)
  then show ?case
    using set_obj_keys_set [of k v ps]
    by (cases p) (simp add: obj_wf_def obj_keys_def del: set_map)
qed (simp add: obj_wf_def obj_keys_def)

lemma obj_wf_Nil [simp]: "obj_wf []"
  by (simp add: obj_wf_def obj_keys_def)

section \<open>Interfaces\<close>

text \<open>
  A codec: what an encoder promises its clients is that the decoder recovers every value of
  its domain. Injectivity of the encoding follows once and for all.
\<close>

locale codec =
  fixes enc :: "'a \<Rightarrow> 'b"
    and dec :: "'b \<Rightarrow> 'a option"
    and ok :: "'a \<Rightarrow> bool"
  assumes dec_enc: "ok x \<Longrightarrow> dec (enc x) = Some x"
begin

lemma enc_eq_iff: "ok x \<Longrightarrow> ok y \<Longrightarrow> enc x = enc y \<longleftrightarrow> x = y"
  by (metis dec_enc option.inject)

lemma enc_inj_on: "inj_on enc {x. ok x}"
  by (rule inj_onI) (simp add: enc_eq_iff)

end

text \<open>Two codecs in a row, the first landing in the domain of the second, form a codec.\<close>

locale codec_pair = inner: codec enc1 dec1 ok1 + outer: codec enc2 dec2 ok2
  for enc1 :: "'a \<Rightarrow> 'b" and dec1 ok1 and enc2 :: "'b \<Rightarrow> 'c" and dec2 ok2 +
  assumes enc1_ok2: "ok1 x \<Longrightarrow> ok2 (enc1 x)"

sublocale codec_pair \<subseteq> both: codec "enc2 \<circ> enc1" "\<lambda>y. Option.bind (dec2 y) dec1" ok1
  by unfold_locales (simp add: enc1_ok2 outer.dec_enc inner.dec_enc)

text \<open>
  A machine driven by events (user actions, timers, server answers) with an invariant that
  every event keeps; the invariant then holds after every sequence of events.
\<close>

locale event_machine =
  fixes step :: "'e \<Rightarrow> 's \<Rightarrow> 's"
    and inv :: "'s \<Rightarrow> bool"
  assumes step_inv: "inv s \<Longrightarrow> inv (step e s)"
begin

lemma run_inv: "inv s \<Longrightarrow> inv (fold step es s)"
  by (induction es arbitrary: s) (auto intro: step_inv)

end

text \<open>The same for a step relation, where the environment chooses among several steps.\<close>

locale transition_system =
  fixes init :: "'s"
    and step :: "'s \<Rightarrow> 's \<Rightarrow> bool"
    and inv :: "'s \<Rightarrow> bool"
  assumes inv_init: "inv init"
    and inv_step: "inv s \<Longrightarrow> step s t \<Longrightarrow> inv t"
begin

lemma reachable_inv: "step\<^sup>*\<^sup>* init s \<Longrightarrow> inv s"
  by (induction rule: rtranclp_induct) (auto intro: inv_init inv_step)

end

end
