(* ===== verification/Bytes.thy ===== *)
theory Bytes
  imports Prelude
begin

text \<open>
  Byte arrays and their text encodings: hexadecimal (\<^verbatim>\<open>lib/crypto/srp.ts\<close>,
  \<^verbatim>\<open>lib/crypto/registration.ts\<close>), base64 (\<^verbatim>\<open>lib/crypto/dataEncryption.ts\<close>,
  \<^verbatim>\<open>lib/crypto/registration.ts\<close>, over the browser's \<open>btoa\<close> and \<open>atob\<close>) and UTF-8
  (\<open>TextEncoder\<close> and \<open>TextDecoder\<close>). Each encoder is an instance of the interface
  \<open>codec\<close> of the prelude.
\<close>

section \<open>Hexadecimal\<close>

definition toHex :: "int \<Rightarrow> string" where
  "toHex n = int_to_radix 16 n"

text \<open>Storing a number into a \<open>Uint8Array\<close> keeps it modulo 256; \<open>NaN\<close> is stored as 0.\<close>

definition to_uint8 :: "int option \<Rightarrow> byte" where
  "to_uint8 x = (case x of None \<Rightarrow> 0 | Some n \<Rightarrow> word_of_int n)"

definition even_hex :: "string \<Rightarrow> string" where
  "even_hex hex = (if length hex mod 2 = 1 then CHR ''0'' # hex else hex)"

definition hexToBytes :: "string \<Rightarrow> bytes" where
  "hexToBytes hex = (let padded = even_hex hex in
     map (\<lambda>i. to_uint8 (parseInt 16 (slice (i * 2) (i * 2 + 2) padded)))
       [0..<length padded div 2])"

definition byte_hex :: "byte \<Rightarrow> string" where
  "byte_hex b = padStart 2 (CHR ''0'') (nat_to_radix 16 (unat b))"

fun bytesToHex :: "bytes \<Rightarrow> string" where
  "bytesToHex [] = []"
| "bytesToHex (b # bs) = byte_hex b @ bytesToHex bs"

lemma even_length_even_hex [simp]: "even (length (even_hex s))"
  by (auto simp: even_hex_def odd_iff_mod_2_eq_one)

lemma even_hex_id: "even (length s) \<Longrightarrow> even_hex s = s"
  by (auto simp: even_hex_def)

lemma map_pairs_Cons:
  "map (\<lambda>i. f (slice (i * 2) (i * 2 + 2) (x # y # zs))) [0..<Suc (length zs div 2)] =
   f [x, y] # map (\<lambda>i. f (slice (i * 2) (i * 2 + 2) zs)) [0..<length zs div 2]"
proof -
  have "[0..<Suc (length zs div 2)] = 0 # map Suc [0..<length zs div 2]"
    by (simp add: upt_conv_Cons map_Suc_upt del: upt_Suc)
  then show ?thesis by (simp add: slice_def del: upt_Suc)
qed

lemma hexToBytes_Cons:
  assumes "even (length s)"
  shows "hexToBytes (x # y # s) = to_uint8 (parseInt 16 [x, y]) # hexToBytes s"
proof -
  have e: "even_hex (x # y # s) = x # y # s" "even_hex s = s"
    using assms by (simp_all add: even_hex_def even_iff_mod_2_eq_zero)
  show ?thesis
    unfolding hexToBytes_def Let_def e
    using map_pairs_Cons [of "\<lambda>p. to_uint8 (parseInt 16 p)" x y s] assms
    by (simp del: upt_Suc)
qed

lemma hexToBytes_Nil [simp]: "hexToBytes [] = []"
  by (simp add: hexToBytes_def even_hex_def)

lemma length_hexToBytes: "length (hexToBytes s) = (length s + 1) div 2"
  by (auto simp: hexToBytes_def even_hex_def Let_def)

lemma is_digit_hex_not_special:
  "is_digit 16 c \<Longrightarrow> \<not> is_space c \<and> c \<noteq> CHR ''-'' \<and> c \<noteq> CHR ''+'' \<and> c \<noteq> CHR ''x'' \<and> c \<noteq> CHR ''X''"
  by (auto simp: is_digit_def digit_of_def is_space_def Let_def split: if_splits option.splits)

lemma parseInt_hex:
  assumes "s \<noteq> []" and "\<forall>c \<in> set s. is_digit 16 c"
  shows "parseInt 16 s = Some (int (radix_val 16 s))"
proof -
  obtain c cs where s: "s = c # cs" using assms by (cases s) auto
  have c: "\<not> is_space c" "c \<noteq> CHR ''-''" "c \<noteq> CHR ''+''"
    using assms s is_digit_hex_not_special by auto
  have "\<not> startsWith s ''0x''" "\<not> startsWith s ''0X''"
    using assms(2) is_digit_hex_not_special by (fastforce simp: startsWith_iff)+
  then have st: "strip_0x 16 s = s" by (simp add: strip_0x_def)
  have tw: "takeWhile (is_digit 16) s = s" using assms(2) by (simp add: takeWhile_eq_all_conv)
  have "parse_digits 16 s = Some (radix_val 16 s)"
    unfolding parse_digits_def Let_def st tw using assms(1) by simp
  with c s show ?thesis by (simp add: parseInt_def js_trim_start_def)
qed

lemma unat_byte_lt [simp]: "unat (b :: byte) < 256"
  using unsigned_less [of b, where ?'a = nat] by simp

lemma byte_hex_length [simp]: "length (byte_hex b) = 2"
proof -
  have "length (nat_to_radix 16 (unat b)) \<le> 2"
    by (rule length_nat_to_radix) auto
  then show ?thesis by (simp add: byte_hex_def padStart_def)
qed

lemma zero_is_digit [simp]: "is_digit 16 (CHR ''0'')" "digit_val (CHR ''0'') = 0"
  by (simp_all add: is_digit_def digit_val_def digit_of_def)

lemma byte_hex_digits: "c \<in> set (byte_hex b) \<Longrightarrow> is_digit 16 c"
  by (auto simp: byte_hex_def padStart_def intro: nat_to_radix_digits [of 16 c])

lemma radix_val_byte_hex [simp]: "radix_val 16 (byte_hex b) = unat b"
  by (simp add: byte_hex_def padStart_def radix_val_replicate_0 radix_val_to_radix)

lemma bytesToHex_length [simp]: "length (bytesToHex bs) = 2 * length bs"
  by (induction bs) auto

lemma bytesToHex_append [simp]: "bytesToHex (as @ bs) = bytesToHex as @ bytesToHex bs"
  by (induction as) auto

lemma bytesToHex_digits: "c \<in> set (bytesToHex bs) \<Longrightarrow> is_digit 16 c"
  by (induction bs) (auto intro: byte_hex_digits)

lemma hexToBytes_bytesToHex [codec_simps]: "hexToBytes (bytesToHex bs) = bs"
proof (induction bs)
  case (Cons b bs)
  obtain x y where xy: "byte_hex b = [x, y]"
    using byte_hex_length [of b] by (rule length_two_obtain)
  have "parseInt 16 [x, y] = Some (int (unat b))"
    using parseInt_hex [of "byte_hex b"] byte_hex_digits [of _ b] xy radix_val_byte_hex [of b] by simp
  then show ?case
    using Cons xy by (simp add: hexToBytes_Cons to_uint8_def)
qed simp

text \<open>The value of a byte array read as a big-endian number.\<close>

definition bytes_val :: "bytes \<Rightarrow> nat" where
  "bytes_val bs = foldl (\<lambda>a b. a * 256 + unat b) 0 bs"

lemma bytes_val_Nil [simp]: "bytes_val [] = 0"
  by (simp add: bytes_val_def)

lemma bytes_val_snoc [simp]: "bytes_val (bs @ [b]) = bytes_val bs * 256 + unat b"
  by (simp add: bytes_val_def)

lemma radix_val_bytesToHex: "radix_val 16 (bytesToHex bs) = bytes_val bs"
proof (induction bs rule: rev_induct)
  case (snoc b bs)
  obtain x y where xy: "byte_hex b = [x, y]"
    using byte_hex_length [of b] by (rule length_two_obtain)
  then have "unat b = digit_val x * 16 + digit_val y"
    using radix_val_byte_hex [of b] by (simp add: radix_val_def)
  moreover have "radix_val 16 (s @ [x, y]) = radix_val 16 s * 256 + (digit_val x * 16 + digit_val y)" for s
    by (simp add: radix_val_def)
  ultimately show ?case using snoc xy by simp
qed simp

interpretation hex: codec bytesToHex "\<lambda>s. Some (hexToBytes s)" "\<lambda>_. True"
  by unfold_locales (simp add: codec_simps)

section \<open>Base64\<close>

definition b64_chars :: string where
  "b64_chars = ''ABCDEFGHIJKLMNOPQRSTUVWXYZabcdefghijklmnopqrstuvwxyz0123456789+/''"

fun b64_sextets :: "nat list \<Rightarrow> nat list" where
  "b64_sextets [] = []"
| "b64_sextets [a] = [a div 4, (a mod 4) * 16]"
| "b64_sextets [a, b] = [a div 4, (a mod 4) * 16 + b div 16, (b mod 16) * 4]"
| "b64_sextets (a # b # c # r) =
     (a div 4) # ((a mod 4) * 16 + b div 16) # ((b mod 16) * 4 + c div 64) # (c mod 64)
       # b64_sextets r"

fun b64_octets :: "nat list \<Rightarrow> nat list" where
  "b64_octets (p # q # r # s # t) =
     (p * 4 + q div 16) # ((q mod 16) * 16 + r div 4) # ((r mod 4) * 64 + s) # b64_octets t"
| "b64_octets [p, q, r] = [p * 4 + q div 16, (q mod 16) * 16 + r div 4]"
| "b64_octets [p, q] = [p * 4 + q div 16]"
| "b64_octets _ = []"

definition btoa :: "string \<Rightarrow> string" where
  "btoa s = map (\<lambda>i. b64_chars ! i) (b64_sextets (map of_char s))
     @ replicate ((3 - length s mod 3) mod 3) (CHR ''='')"

definition is_ascii_space :: "char \<Rightarrow> bool" where
  "is_ascii_space c \<longleftrightarrow> (of_char c :: nat) \<in> {9, 10, 12, 13, 32}"

definition strip_padding :: "string \<Rightarrow> string" where
  "strip_padding s = (if length s mod 4 \<noteq> 0 then s else case rev s of
      a # b # r \<Rightarrow> if a = CHR ''='' \<and> b = CHR ''='' then rev r
                   else if a = CHR ''='' then rev (b # r) else s
    | _ \<Rightarrow> s)"

text \<open>
  \<open>atob\<close> drops ASCII white space, removes at most two trailing \<open>=\<close> from a text whose length
  is a multiple of four, and throws on a length of one modulo four or on a foreign character.
\<close>

definition atob :: "string \<Rightarrow> string option" where
  "atob s = (let t = strip_padding (filter (\<lambda>c. \<not> is_ascii_space c) s) in
     if length t mod 4 = 1 \<or> (\<exists>c \<in> set t. c \<notin> set b64_chars) then None
     else Some (map char_of (b64_octets (map (\<lambda>c. the (index_of c b64_chars)) t))))"

definition uint8ToBase64 :: "bytes \<Rightarrow> string" where
  "uint8ToBase64 bs = btoa (map (\<lambda>b. char_of (unat b)) bs)"

definition base64ToUint8 :: "string \<Rightarrow> bytes option" where
  "base64ToUint8 s = map_option (map (\<lambda>c. word_of_nat (of_char c))) (atob s)"

lemma b64_chars_distinct: "distinct b64_chars" and length_b64_chars [simp]: "length b64_chars = 64"
  by (simp_all add: b64_chars_def)

lemma b64_chars_plain: "c \<in> set b64_chars \<Longrightarrow> c \<noteq> CHR ''='' \<and> \<not> is_ascii_space c"
  by (auto simp: b64_chars_def is_ascii_space_def)

lemma sextets_bound: "\<forall>x \<in> set xs. x < 256 \<Longrightarrow> \<forall>y \<in> set (b64_sextets xs). y < 64"
proof (induction xs rule: b64_sextets.induct)
  case (4 a b c r)
  then have "a div 4 < 64" "(a mod 4) * 16 + b div 16 < 64" "(b mod 16) * 4 + c div 64 < 64"
    by auto
  with 4 show ?case by simp
qed auto

lemma octets_sextets: "\<forall>x \<in> set xs. x < 256 \<Longrightarrow> b64_octets (b64_sextets xs) = xs"
  by (induction xs rule: b64_sextets.induct) auto

lemma length_sextets:
  "length (b64_sextets xs) =
     4 * (length xs div 3) + (if length xs mod 3 = 0 then 0 else length xs mod 3 + 1)"
proof (induction xs rule: b64_sextets.induct)
  case (4 a b c r)
  have "length (a # b # c # r) div 3 = Suc (length r div 3)"
    and "length (a # b # c # r) mod 3 = length r mod 3"
    by simp_all
  with 4 show ?case by simp
qed simp_all

lemma btoa_length: "length (btoa s) mod 4 = 0"
proof -
  have "n mod 3 = 0 \<or> n mod 3 = 1 \<or> n mod 3 = 2" for n :: nat by linarith
  from this [of "length s"] show ?thesis
    by (auto simp: btoa_def length_sextets)
qed

lemma sextets_char_bound:
  "\<forall>y \<in> set (b64_sextets (map of_char (s :: string))). y < (64 :: nat)"
  by (rule sextets_bound) simp

lemma strip_padding_btoa:
  "strip_padding (btoa s) = map (\<lambda>i. b64_chars ! i) (b64_sextets (map of_char s))"
proof -
  define t where "t = map (\<lambda>i. b64_chars ! i) (b64_sextets (map of_char s))"
  have lt: "length t = length (b64_sextets (map of_char s))"
    by (simp add: t_def)
  have last: "last t \<noteq> CHR ''=''" if "t \<noteq> []"
  proof -
    from that have "last t \<in> set t" by simp
    then have "last t \<in> set b64_chars" using sextets_char_bound [of s] by (auto simp: t_def)
    then show ?thesis using b64_chars_plain by blast
  qed
  have b: "btoa s = t @ replicate ((3 - length s mod 3) mod 3) (CHR ''='')"
    by (simp add: btoa_def t_def)
  have m: "length (btoa s) mod 4 = 0" by (rule btoa_length)
  consider "length s mod 3 = 0" | "length s mod 3 = 1" | "length s mod 3 = 2" by linarith
  then have "strip_padding (btoa s) = t"
  proof cases
    case 1
    then have b0: "btoa s = t" using b by simp
    show ?thesis
    proof (cases "rev t")
      case (Cons a r)
      then have "a \<noteq> CHR ''=''" using last by (cases t rule: rev_cases) auto
      with Cons m b0 show ?thesis by (auto simp: strip_padding_def split: list.splits)
    qed (use m b0 in \<open>simp add: strip_padding_def\<close>)
  next
    case 2
    then have "btoa s = t @ [CHR ''='', CHR ''='']" using b by (simp add: numeral_2_eq_2)
    with m show ?thesis by (simp add: strip_padding_def)
  next
    case 3
    then have b1: "btoa s = t @ [CHR ''='']" using b by simp
    from 3 lt have "t \<noteq> []" by (auto simp: length_sextets)
    then obtain u x where t: "t = u @ [x]" by (cases t rule: rev_cases) auto
    then have "x \<noteq> CHR ''=''" using last by simp
    with b1 m t show ?thesis by (simp add: strip_padding_def)
  qed
  then show ?thesis by (simp add: t_def)
qed

lemma btoa_no_space: "filter (\<lambda>c. \<not> is_ascii_space c) (btoa s) = btoa s"
proof -
  have "\<not> is_ascii_space (b64_chars ! i)" if "i < 64" for i
    using b64_chars_plain nth_mem [of i b64_chars] that by auto
  then show ?thesis
    using sextets_char_bound [of s] by (auto simp: btoa_def is_ascii_space_def filter_id_conv)
qed

lemma atob_btoa [codec_simps]: "atob (btoa s) = Some s"
proof -
  let ?xs = "b64_sextets (map of_char s) :: nat list"
  let ?t = "map (\<lambda>i. b64_chars ! i) ?xs"
  have len: "length ?t mod 4 \<noteq> 1"
    by (simp add: length_sextets)
  have mem: "\<forall>c \<in> set ?t. c \<in> set b64_chars"
    using sextets_char_bound [of s] by auto
  have unmap: "map (\<lambda>c. the (index_of c b64_chars)) ?t = ?xs"
    using sextets_char_bound [of s]
    by (simp add: map_idI index_of_nth b64_chars_distinct)
  have "map char_of (b64_octets ?xs) = s"
    by (simp add: octets_sextets map_idI)
  then show ?thesis
    using len mem unmap by (simp add: atob_def btoa_no_space strip_padding_btoa)
qed

lemma base64_roundtrip [codec_simps]: "base64ToUint8 (uint8ToBase64 bs) = Some bs"
  by (simp add: base64ToUint8_def uint8ToBase64_def atob_btoa of_char_of map_idI take_bit_nat_def)

interpretation b64: codec uint8ToBase64 base64ToUint8 "\<lambda>_. True"
  by unfold_locales (simp add: codec_simps)

section \<open>UTF-8\<close>

text \<open>
  \<open>TextEncoder.encode\<close> on code points below 256 (one or two bytes each), and the part of
  \<open>TextDecoder.decode\<close> whose result stays in that range; \<open>None\<close> marks bytes that decode to
  a text outside the model.
\<close>

fun utf8_encode :: "string \<Rightarrow> bytes" where
  "utf8_encode [] = []"
| "utf8_encode (c # cs) = (let n = (of_char c :: nat) in
     (if n < 128 then [word_of_nat n]
      else [word_of_nat (192 + n div 64), word_of_nat (128 + n mod 64)]) @ utf8_encode cs)"

fun utf8_decode :: "bytes \<Rightarrow> string option" where
  "utf8_decode [] = Some []"
| "utf8_decode (b # bs) =
     (if unat b < 128 then map_option ((#) (char_of (unat b))) (utf8_decode bs)
      else if unat b = 194 \<or> unat b = 195 then
        (case bs of
          [] \<Rightarrow> None
        | d # ds \<Rightarrow>
            if 128 \<le> unat d \<and> unat d < 192
            then map_option ((#) (char_of ((unat b - 192) * 64 + (unat d - 128)))) (utf8_decode ds)
            else None)
      else None)"

lemma utf8_roundtrip [codec_simps]: "utf8_decode (utf8_encode s) = Some s"
proof (induction s)
  case (Cons c s)
  let ?n = "of_char c :: nat"
  have n: "?n < 256" by simp
  show ?case
  proof (cases "?n < 128")
    case True
    then have "unat (word_of_nat ?n :: byte) = ?n" by (simp add: unat_of_nat)
    with True Cons show ?thesis by simp
  next
    case False
    have "?n div 64 < 4" "?n mod 64 < 64" using less_mult_imp_div_less [of ?n 4 64] n by simp_all
    then have "unat (word_of_nat (192 + ?n div 64) :: byte) = 192 + ?n div 64"
      and "unat (word_of_nat (128 + ?n mod 64) :: byte) = 128 + ?n mod 64"
      by (simp_all only: unat_of_nat) simp_all
    moreover have "?n div 64 = 2 \<or> ?n div 64 = 3" using n False by linarith
    ultimately show ?thesis using False Cons by (auto simp: Let_def)
  qed
qed simp

interpretation utf8: codec utf8_encode utf8_decode "\<lambda>_. True"
  by unfold_locales (simp add: codec_simps)

text \<open>Text that travels as the base64 of its UTF-8 bytes: the two codecs composed.\<close>

interpretation utf8_b64: codec_pair utf8_encode utf8_decode "\<lambda>_. True"
    uint8ToBase64 base64ToUint8 "\<lambda>_. True"
  by unfold_locales simp

end
