(* ===== verification/SecretKey.thy ===== *)
theory SecretKey
  imports Bytes
begin

text \<open>
  The Secret Key: its printed form \<open>A3-XXXXXX-XXXXXX-XXXXXX-XXXXXX-XXX\<close> and the parser
  (\<^verbatim>\<open>lib/crypto/secretKey.ts\<close>), and the grouped entry field through which a user types or
  pastes it (\<^verbatim>\<open>components/auth/SecretKeyInput.tsx\<close>).
\<close>

section \<open>Printing and parsing\<close>

definition CHARSET :: string where
  "CHARSET = ''ABCDEFGHJKMNPQRTUVWXYZ23456789''"

definition BASE :: nat where
  "BASE = length CHARSET"

definition KEY_CHAR_LENGTH :: nat where
  "KEY_CHAR_LENGTH = 27"

definition RAW_BYTE_LENGTH :: nat where
  "RAW_BYTE_LENGTH = 16"

text \<open>\<open>n = (n << 8n) | BigInt(byte)\<close> over the bytes: the big-endian value.\<close>

definition bytes_to_bigint :: "bytes \<Rightarrow> nat" where
  "bytes_to_bigint raw = foldl (\<lambda>n b. push_bit 8 n OR unat b) 0 raw"

fun base30_chars :: "nat \<Rightarrow> nat \<Rightarrow> string" where
  "base30_chars 0 n = []"
| "base30_chars (Suc k) n = CHARSET ! (n mod BASE) # base30_chars k (n div BASE)"

function groups_of_6 :: "string \<Rightarrow> string list" where
  "groups_of_6 s = (if s = [] then [] else take 6 s # groups_of_6 (drop 6 s))"
  by pat_completeness auto
termination
  by (relation "measure length") auto

declare groups_of_6.simps [simp del]

definition formatSecretKey :: "bytes \<Rightarrow> string" where
  "formatSecretKey raw =
     ''A3-'' @ join ''-'' (groups_of_6 (base30_chars KEY_CHAR_LENGTH (bytes_to_bigint raw)))"

text \<open>\<open>generateSecretKey\<close>: the sixteen random bytes are an argument.\<close>

definition generateSecretKey :: "bytes \<Rightarrow> string \<times> bytes" where
  "generateSecretKey raw = (formatSecretKey raw, raw)"

definition clean_key :: "string \<Rightarrow> string" where
  "clean_key input = toUpperCase (filter (\<lambda>c. \<not> is_space c) (filter (\<lambda>c. c \<noteq> CHR ''-'') input))"

text \<open>The loop that walks the key part from its last character to its first.\<close>

fun base30_value :: "string \<Rightarrow> nat \<Rightarrow> nat option" where
  "base30_value [] n = Some n"
| "base30_value (c # cs) n =
     (case index_of c CHARSET of None \<Rightarrow> None | Some idx \<Rightarrow> base30_value cs (n * BASE + idx))"

fun bigint_to_bytes :: "nat \<Rightarrow> nat \<Rightarrow> bytes" where
  "bigint_to_bytes 0 n = []"
| "bigint_to_bytes (Suc k) n = bigint_to_bytes k (drop_bit 8 n) @ [word_of_nat (n AND 255)]"

definition parseSecretKey :: "string \<Rightarrow> bytes option" where
  "parseSecretKey input = (let cleaned = clean_key input in
     if \<not> startsWith cleaned ''A3'' then None
     else let keyPart = drop 2 cleaned in
       if length keyPart < 26 then None
       else map_option (bigint_to_bytes RAW_BYTE_LENGTH) (base30_value (rev keyPart) 0))"

lemma BASE_eq [simp]: "BASE = 30"
  by (simp add: BASE_def CHARSET_def)

lemma CHARSET_length [simp]: "length CHARSET = 30"
  by (simp add: CHARSET_def)

lemma CHARSET_distinct: "distinct CHARSET"
  by (simp add: CHARSET_def)

lemma CHARSET_plain:
  "c \<in> set CHARSET \<Longrightarrow> c \<noteq> CHR ''-'' \<and> \<not> is_space c \<and> upper_char c = c"
proof -
  have "list_all (\<lambda>c. c \<noteq> CHR ''-'' \<and> \<not> is_space c \<and> upper_char c = c) CHARSET"
    by code_simp
  then show "c \<in> set CHARSET \<Longrightarrow> c \<noteq> CHR ''-'' \<and> \<not> is_space c \<and> upper_char c = c"
    by (simp add: list_all_iff)
qed

lemma push_bit_or_byte: "push_bit 8 n OR unat (b :: byte) = n * 256 + unat b"
proof -
  have "push_bit 8 n AND unat b = 0"
    by (rule bit_eqI) (auto simp: bit_simps dest: bit_imp_le_length)
  from disjunctive_add_eq_or [OF this] show ?thesis
    by (simp add: push_bit_eq_mult)
qed

lemma bytes_to_bigint_val: "bytes_to_bigint raw = bytes_val raw"
  by (simp add: bytes_to_bigint_def bytes_val_def push_bit_or_byte)

lemma length_base30_chars [simp]: "length (base30_chars k n) = k"
  by (induction k arbitrary: n) auto

lemma base30_chars_mem: "set (base30_chars k n) \<subseteq> set CHARSET"
  by (induction k arbitrary: n) auto

lemma base30_value_append:
  "base30_value (s @ t) n = Option.bind (base30_value s n) (base30_value t)"
  by (induction s arbitrary: n) (auto split: option.splits)

lemma base30_value_chars: "base30_value (rev (base30_chars k n)) m = Some (m * 30 ^ k + n mod 30 ^ k)"
proof (induction k arbitrary: n)
  case (Suc k)
  have idx: "index_of (CHARSET ! (n mod 30)) CHARSET = Some (n mod 30)"
    by (simp add: index_of_nth CHARSET_distinct)
  have "n mod (30 * 30 ^ k) = 30 * (n div 30 mod 30 ^ k) + n mod 30"
    by (simp add: mod_mult2_eq)
  then show ?case
    by (simp add: base30_value_append Suc idx algebra_simps)
qed simp

lemma base30_value_defined: "set s \<subseteq> set CHARSET \<Longrightarrow> \<exists>m. base30_value s n = Some m"
  by (induction s arbitrary: n) (auto split: option.splits simp: index_of_None_iff)

lemma base30_value_None: "base30_value s n = None \<longleftrightarrow> \<not> set s \<subseteq> set CHARSET"
proof
  assume "\<not> set s \<subseteq> set CHARSET"
  then show "base30_value s n = None"
  proof (induction s arbitrary: n)
    case (Cons c s)
    then show ?case
      using index_of_None_iff [of c CHARSET] by (cases "index_of c CHARSET") auto
  qed simp
qed (metis base30_value_defined option.distinct(1))

lemma length_bigint_to_bytes [simp]: "length (bigint_to_bytes k n) = k"
  by (induction k arbitrary: n) auto

lemma bigint_to_bytes_val: "bigint_to_bytes (length raw) (bytes_val raw) = raw"
proof (induction raw rule: rev_induct)
  case (snoc b bs)
  have "drop_bit 8 (bytes_val bs * 256 + unat b) = bytes_val bs"
    by (simp add: drop_bit_eq_div)
  moreover have "(bytes_val bs * 256 + unat b) AND 255 = unat b"
    using take_bit_eq_mask [of 8 "bytes_val bs * 256 + unat b"]
    by (simp add: take_bit_eq_mod mask_eq_exp_minus_1)
  ultimately show ?case using snoc by simp
qed simp

lemma bytes_val_bound: "bytes_val raw < 256 ^ length raw"
proof (induction raw rule: rev_induct)
  case (snoc b bs)
  then have "bytes_val bs + 1 \<le> 256 ^ length bs" by simp
  then have "(bytes_val bs + 1) * 256 \<le> 256 ^ length bs * 256" by (rule mult_right_mono) simp
  moreover have "unat b < 256" by simp
  ultimately have "bytes_val bs * 256 + unat b < 256 ^ length bs * 256"
    unfolding distrib_right by linarith
  then show ?case by simp
qed simp

lemma bigint_to_bytes_mod: "bigint_to_bytes k n = bigint_to_bytes k (n mod 256 ^ k)"
proof (induction k arbitrary: n)
  case (Suc k)
  have "drop_bit 8 (n mod 256 ^ Suc k) = drop_bit 8 n mod 256 ^ k"
    by (simp add: drop_bit_eq_div mod_mult2_eq)
  moreover have "(n mod 256 ^ Suc k) AND 255 = n AND 255"
    using take_bit_eq_mask [of 8 n] take_bit_eq_mask [of 8 "n mod 256 ^ Suc k"]
    by (simp add: take_bit_eq_mod mask_eq_exp_minus_1 mod_mod_cancel)
  ultimately show ?case using Suc [of "drop_bit 8 n"] by (metis bigint_to_bytes.simps(2))
qed simp

subsection \<open>Grouping\<close>

lemma groups_of_6_props:
  "concat (groups_of_6 s) = s \<and> (\<forall>g \<in> set (groups_of_6 s). g \<noteq> [] \<and> length g \<le> 6)"
proof (induction s rule: groups_of_6.induct)
  case (1 s)
  then show ?case by (subst (1 2) groups_of_6.simps) auto
qed

lemma filter_join:
  "(\<forall>t \<in> set ts. \<forall>c \<in> set t. P c) \<Longrightarrow> \<not> P sep \<Longrightarrow> filter P (join [sep] ts) = concat ts"
  by (induction "[sep]" ts rule: join.induct) (auto simp: filter_id_conv)

lemma clean_key_plain:
  assumes "set s \<subseteq> set CHARSET"
  shows "clean_key s = s"
proof -
  have "filter (\<lambda>c. \<not> is_space c) (filter (\<lambda>c. c \<noteq> CHR ''-'') s) = s" and "map upper_char s = s"
    using assms CHARSET_plain by (auto simp: filter_id_conv intro!: map_idI)
  then show ?thesis by (simp add: clean_key_def toUpperCase_def)
qed

lemma clean_key_append [simp]: "clean_key (s @ t) = clean_key s @ clean_key t"
  by (simp add: clean_key_def)

lemma clean_key_join:
  assumes "\<forall>t \<in> set ts. set t \<subseteq> set CHARSET"
  shows "clean_key (join ''-'' ts) = concat ts"
proof -
  have j: "filter (\<lambda>c. c \<noteq> CHR ''-'') (join ''-'' ts) = concat ts"
    using assms CHARSET_plain by (intro filter_join) auto
  have "filter (\<lambda>c. c \<noteq> CHR ''-'') (concat ts) = concat ts"
    using assms CHARSET_plain by (auto simp: filter_id_conv)
  moreover have "clean_key (concat ts) = concat ts"
    using assms by (intro clean_key_plain) auto
  ultimately show ?thesis using j by (simp add: clean_key_def del: filter_filter)
qed

lemma clean_key_format:
  "clean_key (formatSecretKey raw) = ''A3'' @ base30_chars 27 (bytes_val raw)"
proof -
  let ?s = "base30_chars 27 (bytes_val raw)"
  have cat: "concat (groups_of_6 ?s) = ?s"
    using groups_of_6_props [of ?s] by simp
  then have "set (concat (groups_of_6 ?s)) \<subseteq> set CHARSET"
    using base30_chars_mem [of 27] by metis
  then have "clean_key (join ''-'' (groups_of_6 ?s)) = concat (groups_of_6 ?s)"
    by (intro clean_key_join) auto
  note this [unfolded cat]
  moreover have "clean_key ''A3-'' = ''A3''" by (simp add: clean_key_def is_space_def toUpperCase_def upper_char_def)
  ultimately show ?thesis
    by (simp add: formatSecretKey_def KEY_CHAR_LENGTH_def bytes_to_bigint_val del: append_Cons)
qed

lemma parseSecretKey_cleaned:
  assumes "clean_key input = ''A3'' @ base30_chars 27 (bytes_val raw)" and "length raw = 16"
  shows "parseSecretKey input = Some raw"
proof -
  have "bytes_val raw < 30 ^ 27"
    using bytes_val_bound [of raw] assms(2) by simp
  then have "base30_value (rev (base30_chars 27 (bytes_val raw))) 0 = Some (bytes_val raw)"
    by (simp add: base30_value_chars)
  then show ?thesis
    using assms bigint_to_bytes_val [of raw]
    by (simp add: parseSecretKey_def startsWith_def RAW_BYTE_LENGTH_def)
qed

interpretation secret_key: codec formatSecretKey parseSecretKey "\<lambda>raw. length raw = 16"
  by unfold_locales (rule parseSecretKey_cleaned [OF clean_key_format])

section \<open>The entry field\<close>

text \<open>
  \<open>parseGroups\<close> drops a leading \<open>A3\<close> (in either case) with the separators after it, then all
  separators, and cuts the rest into five groups of six; \<open>buildKey\<close> puts them together again.
\<close>

definition is_sep :: "char \<Rightarrow> bool" where
  "is_sep c \<longleftrightarrow> c = CHR ''-'' \<or> is_space c"

definition strip_a3 :: "string \<Rightarrow> string" where
  "strip_a3 raw = (if toUpperCase (take 2 raw) = ''A3'' then dropWhile is_sep (drop 2 raw) else raw)"

definition parseGroups :: "string \<Rightarrow> string list" where
  "parseGroups raw = (let cleaned = toUpperCase (filter (\<lambda>c. \<not> is_sep c) (strip_a3 raw)) in
     map (\<lambda>i. slice (i * 6) ((i + 1) * 6) cleaned) [0..<5])"

definition buildKey :: "string list \<Rightarrow> string" where
  "buildKey g = (if concat g = [] then [] else ''A3-'' @ join ''-'' (filter (\<lambda>s. s \<noteq> []) g))"

text \<open>State of the field: the five groups, the value last handed to \<open>onChange\<close>, and which
  input was focused last.\<close>

record key_input =
  ki_groups :: "string list"
  ki_value :: string
  ki_focus :: "nat option"

datatype key_event =
    GroupChange nat string
  | Paste string
  | BackspaceKey nat

definition valid_chars :: "string \<Rightarrow> string" where
  "valid_chars input = filter (\<lambda>c. c \<in> set CHARSET) (toUpperCase input)"

definition handleGroupChange :: "nat \<Rightarrow> string \<Rightarrow> key_input \<Rightarrow> key_input" where
  "handleGroupChange index input st =
     (let filtered = take 6 (valid_chars input);
          newGroups = (ki_groups st)[index := filtered]
      in st\<lparr>ki_groups := newGroups, ki_value := buildKey newGroups,
            ki_focus := (if length filtered = 6 \<and> index < 4 then Some (index + 1) else ki_focus st)\<rparr>)"

fun findIndex :: "('a \<Rightarrow> bool) \<Rightarrow> 'a list \<Rightarrow> nat option" where
  "findIndex P [] = None"
| "findIndex P (x # xs) = (if P x then Some 0 else map_option Suc (findIndex P xs))"

definition handlePaste :: "string \<Rightarrow> key_input \<Rightarrow> key_input" where
  "handlePaste pasted st =
     (let parsed = parseGroups pasted in
      if \<exists>g \<in> set parsed. 0 < length g then
        st\<lparr>ki_groups := parsed, ki_value := buildKey parsed,
           ki_focus := (case findIndex (\<lambda>g. length g < 6) parsed of
                          Some i \<Rightarrow> Some i | None \<Rightarrow> Some 4)\<rparr>
      else st)"

definition handleBackspace :: "nat \<Rightarrow> key_input \<Rightarrow> key_input" where
  "handleBackspace index st =
     (if index < length (ki_groups st) \<and> ki_groups st ! index = [] \<and> index > 0
      then st\<lparr>ki_focus := Some (index - 1)\<rparr> else st)"

fun key_step :: "key_event \<Rightarrow> key_input \<Rightarrow> key_input" where
  "key_step (GroupChange i s) st = (if i < 5 then handleGroupChange i s st else st)"
| "key_step (Paste s) st = handlePaste s st"
| "key_step (BackspaceKey i) st = handleBackspace i st"

definition key_input_init :: "string \<Rightarrow> key_input" where
  "key_input_init v = \<lparr>ki_groups = parseGroups v, ki_value = v, ki_focus = None\<rparr>"

definition isComplete :: "string list \<Rightarrow> bool" where
  "isComplete groups \<longleftrightarrow> (\<forall>g \<in> set (take 4 groups). length g = 6) \<and> 2 \<le> length (groups ! 4)"

definition hasContent :: "string list \<Rightarrow> bool" where
  "hasContent groups \<longleftrightarrow> (\<exists>g \<in> set groups. 0 < length g)"

definition borderColor :: "bool \<Rightarrow> string list \<Rightarrow> string" where
  "borderColor error groups =
     (if error then ''border-error''
      else if isComplete groups then ''border-success''
      else if hasContent groups then ''border-warning''
      else ''border-border'')"

definition key_input_wf :: "key_input \<Rightarrow> bool" where
  "key_input_wf st \<longleftrightarrow> length (ki_groups st) = 5 \<and> (\<forall>g \<in> set (ki_groups st). length g \<le> 6)"

lemma parseGroups_wf: "length (parseGroups s) = 5 \<and> (\<forall>g \<in> set (parseGroups s). length g \<le> 6)"
  by (auto simp: parseGroups_def slice_def Let_def)

lemma key_step_wf: "key_input_wf st \<Longrightarrow> key_input_wf (key_step e st)"
proof (cases e)
  case (Paste s)
  then show "key_input_wf st \<Longrightarrow> ?thesis"
    using parseGroups_wf [of s] by (simp add: key_input_wf_def handlePaste_def Let_def)
qed (auto simp: key_input_wf_def handleGroupChange_def handleBackspace_def Let_def
          dest!: set_update_subset_insert [THEN subsetD])

interpretation key_field: event_machine key_step key_input_wf
  by unfold_locales (rule key_step_wf)

text \<open>The groups of a printed key are exactly its five blocks.\<close>

lemma groups_of_6_27:
  assumes "length s = 27"
  shows "groups_of_6 s = map (\<lambda>i. slice (i * 6) ((i + 1) * 6) s) [0..<5]"
proof -
  have "groups_of_6 s = [take 6 s, take 6 (drop 6 s), take 6 (drop 12 s), take 6 (drop 18 s), take 6 (drop 24 s)]"
  proof -
    have ne: "drop k s \<noteq> []" if "k < 27" for k using assms that by simp
    show ?thesis
      using ne [of 0] ne [of 6] ne [of 12] ne [of 18] ne [of 24] assms
      by (simp add: groups_of_6.simps)
  qed
  moreover have "[0..<5] = [0, 1, 2, 3, 4 :: nat]" by code_simp
  ultimately show ?thesis by (simp add: slice_def)
qed

lemma filter_sep_join:
  assumes "\<forall>t \<in> set ts. set t \<subseteq> set CHARSET"
  shows "toUpperCase (filter (\<lambda>c. \<not> is_sep c) (join ''-'' ts)) = concat ts"
proof -
  have "filter (\<lambda>c. \<not> is_sep c) (join ''-'' ts) = concat ts"
    using assms CHARSET_plain by (intro filter_join) (auto simp: is_sep_def)
  moreover have "map upper_char (concat ts) = concat ts"
    using assms CHARSET_plain by (intro map_idI) auto
  ultimately show ?thesis by (simp add: toUpperCase_def)
qed

lemma blocks_of_27:
  assumes "length s = 27"
  shows "isComplete (groups_of_6 s)" and "findIndex (\<lambda>g. length g < 6) (groups_of_6 s) = Some 4"
    and "\<exists>g \<in> set (groups_of_6 s). g \<noteq> []"
proof -
  have five: "[0..<5] = [0, 1, 2, 3, 4 :: nat]" by code_simp
  obtain a b c d e where gs: "groups_of_6 s = [a, b, c, d, e]"
    and len: "length a = 6" "length b = 6" "length c = 6" "length d = 6" "length e = 3"
    using assms by (simp add: groups_of_6_27 five slice_def)
  show "isComplete (groups_of_6 s)" by (simp add: gs len isComplete_def)
  show "findIndex (\<lambda>g. length g < 6) (groups_of_6 s) = Some 4" by (simp add: gs len)
  show "\<exists>g \<in> set (groups_of_6 s). g \<noteq> []" using len(1) by (auto simp: gs)
qed

lemma base30_27: "base30_chars 27 n = x # xs \<Longrightarrow> x \<in> set CHARSET"
  using base30_chars_mem [of 27 n] by auto

lemma parseGroups_format:
  "parseGroups (formatSecretKey raw) = groups_of_6 (base30_chars 27 (bytes_val raw))"
proof -
  let ?s = "base30_chars 27 (bytes_val raw)"
  let ?gs = "groups_of_6 ?s"
  have cat: "concat ?gs = ?s" and ne: "\<forall>g \<in> set ?gs. g \<noteq> []"
    using groups_of_6_props [of ?s] by auto
  have mem: "\<forall>g \<in> set ?gs. set g \<subseteq> set CHARSET"
    using base30_chars_mem [of 27 "bytes_val raw"] cat by (metis UN_upper set_concat subset_trans)
  have "?s \<noteq> []" by (metis length_base30_chars list.size(3) zero_neq_numeral)
  then obtain g gs where gs: "?gs = g # gs" using cat by (cases ?gs) auto
  obtain x xs where "g = x # xs" and x: "x \<in> set CHARSET"
    using ne mem gs by (cases g) auto
  then obtain t where j: "join ''-'' ?gs = x # t"
    using gs by (cases gs) auto
  have "\<not> is_sep x" using CHARSET_plain [OF x] by (simp add: is_sep_def)
  then have "strip_a3 (formatSecretKey raw) = join ''-'' ?gs"
    using j by (simp add: strip_a3_def formatSecretKey_def KEY_CHAR_LENGTH_def bytes_to_bigint_val
        toUpperCase_def upper_char_def is_sep_def)
  then have "toUpperCase (filter (\<lambda>c. \<not> is_sep c) (strip_a3 (formatSecretKey raw))) = ?s"
    using filter_sep_join [OF mem] cat by simp
  then show ?thesis
    by (simp only: parseGroups_def Let_def groups_of_6_27 length_base30_chars)
qed

lemma buildKey_format:
  "buildKey (groups_of_6 (base30_chars 27 (bytes_val raw))) = formatSecretKey raw"
proof -
  let ?s = "base30_chars 27 (bytes_val raw)"
  have "?s \<noteq> []" by (metis length_base30_chars list.size(3) zero_neq_numeral)
  moreover have "filter (\<lambda>g. g \<noteq> []) (groups_of_6 ?s) = groups_of_6 ?s"
    using groups_of_6_props [of ?s] by (simp add: filter_id_conv)
  ultimately show ?thesis
    using groups_of_6_props [of ?s]
    by (simp add: buildKey_def formatSecretKey_def KEY_CHAR_LENGTH_def bytes_to_bigint_val)
qed

subsection \<open>Typed keys\<close>

text \<open>What typing alone maintains: only alphabet characters, and the reported value is the key
  built from the groups.\<close>

definition typed_inv :: "key_input \<Rightarrow> bool" where
  "typed_inv st \<longleftrightarrow> key_input_wf st \<and> ki_value st = buildKey (ki_groups st)
     \<and> (\<forall>g \<in> set (ki_groups st). set g \<subseteq> set CHARSET)"

definition type_step :: "nat \<times> string \<Rightarrow> key_input \<Rightarrow> key_input" where
  "type_step e st = key_step (GroupChange (fst e) (snd e)) st"

lemma type_step_inv: "typed_inv st \<Longrightarrow> typed_inv (type_step e st)"
proof -
  assume st: "typed_inv st"
  then have "key_input_wf (type_step e st)"
    unfolding type_step_def typed_inv_def by (intro key_step_wf) simp
  moreover have "set (take 6 (valid_chars (snd e))) \<subseteq> set CHARSET"
    using set_take_subset [of 6 "valid_chars (snd e)"] by (auto simp: valid_chars_def)
  ultimately show ?thesis
    using st by (auto simp: typed_inv_def type_step_def handleGroupChange_def Let_def
        dest!: set_update_subset_insert [THEN subsetD])
qed

interpretation typing: event_machine type_step typed_inv
  by unfold_locales (rule type_step_inv)

lemma typed_inv_init: "typed_inv (key_input_init [])"
proof -
  have "parseGroups [] = replicate 5 []" by code_simp
  then show ?thesis
    by (simp add: typed_inv_def key_input_init_def key_input_wf_def buildKey_def)
qed

lemma parse_buildKey:
  assumes "\<forall>g \<in> set gs. set g \<subseteq> set CHARSET" and "26 \<le> length (concat gs)"
  shows "\<exists>raw. parseSecretKey (buildKey gs) = Some raw \<and> length raw = 16"
proof -
  have "clean_key ''A3-'' = ''A3''"
    by (simp add: clean_key_def is_space_def toUpperCase_def upper_char_def)
  moreover have "clean_key (join ''-'' (filter (\<lambda>g. g \<noteq> []) gs)) = concat (filter (\<lambda>g. g \<noteq> []) gs)"
    using assms(1) by (intro clean_key_join) auto
  moreover have "concat (filter (\<lambda>g. g \<noteq> []) gs) = concat gs"
    by (induction gs) auto
  ultimately have "clean_key (buildKey gs) = ''A3'' @ concat gs"
    using assms(2) by (auto simp: buildKey_def simp del: append_Cons concat_eq_Nil_conv)
  moreover have "set (rev (concat gs)) \<subseteq> set CHARSET" using assms(1) by auto
  then obtain m where "base30_value (rev (concat gs)) 0 = Some m"
    using base30_value_defined by blast
  ultimately show ?thesis
    using assms(2) by (simp add: parseSecretKey_def startsWith_def RAW_BYTE_LENGTH_def)
qed

lemma complete_length:
  assumes "isComplete gs" and "length gs = 5"
  shows "26 \<le> length (concat gs)"
proof -
  obtain a b c d e where "gs = [a, b, c, d, e]"
    using assms(2) by (auto simp: numeral_eq_Suc length_Suc_conv)
  with assms(1) show ?thesis by (simp add: isComplete_def numeral_eq_Suc)
qed

section \<open>Properties\<close>

text \<open>C3: A Secret Key survives being printed and read back. Any text that differs from the
  printed form of sixteen bytes only in hyphens, white space and letter case parses to those
  bytes.\<close>
theorem secret_key_roundtrip:
  assumes "length raw = 16" and "clean_key input = clean_key (formatSecretKey raw)"
  shows "parseSecretKey input = Some raw"
  using assms by (intro parseSecretKey_cleaned) (simp_all add: clean_key_format)

theorem secret_key_roundtrip_witness:
  "parseSecretKey ('' '' @ formatSecretKey (replicate 16 7)) = Some (replicate 16 7)"
proof (rule secret_key_roundtrip)
  have "clean_key '' '' = []" by code_simp
  then show "clean_key ('' '' @ formatSecretKey (replicate 16 7)) =
      clean_key (formatSecretKey (replicate 16 7))"
    unfolding clean_key_append by simp
qed simp

text \<open>Pasting a printed key into the entry field fills the five groups, reports exactly the
  printed key to the form, marks the field complete, moves the focus to the last group (three
  characters long), and the reported value parses to the original bytes.\<close>
theorem paste_printed_key:
  assumes "length raw = 16"
  shows "let st' = key_step (Paste (formatSecretKey raw)) st in
    ki_value st' = formatSecretKey raw \<and> parseSecretKey (ki_value st') = Some raw
    \<and> isComplete (ki_groups st') \<and> ki_focus st' = Some 4"
proof -
  let ?s = "base30_chars 27 (bytes_val raw)"
  show ?thesis
    using secret_key.dec_enc [OF assms] blocks_of_27 [OF length_base30_chars, of "bytes_val raw"]
    by (simp add: handlePaste_def parseGroups_format buildKey_format Let_def)
qed

theorem paste_printed_key_witness:
  "ki_value (key_step (Paste (formatSecretKey (replicate 16 9))) (key_input_init []))
     = formatSecretKey (replicate 16 9)"
  using paste_printed_key [of "replicate 16 9" "key_input_init []"] by (simp add: Let_def)

text \<open>A key entered by typing alone is never rejected once the field shows it as complete:
  after any sequence of edits to the groups, a complete field reports a value that parses to
  sixteen bytes.\<close>
theorem typed_key_parses:
  assumes "st = fold type_step es (key_input_init [])" and "isComplete (ki_groups st)"
  shows "\<exists>raw. parseSecretKey (ki_value st) = Some raw \<and> length raw = 16"
proof -
  have "typed_inv st" unfolding assms(1) by (rule typing.run_inv [OF typed_inv_init])
  then show ?thesis
    using parse_buildKey complete_length [OF assms(2)] by (simp add: typed_inv_def key_input_wf_def)
qed

theorem typed_key_parses_witness:
  "\<exists>raw. parseSecretKey (ki_value (fold type_step
       [(0, ''aaaaaa''), (1, ''bbbbbb''), (2, ''cccccc''), (3, ''dddddd''), (4, ''ee2'')]
       (key_input_init []))) = Some raw \<and> length raw = 16"
  by (rule typed_key_parses [OF refl]) code_simp

text \<open>The parser reduces what it reads modulo 2 to the 128: a key of 26 or more alphabet
  characters is always accepted, and its numeric value is silently truncated to sixteen
  bytes. Hence different keys of the full length 27 parse to the same bytes.\<close>
theorem secret_key_truncated:
  assumes "set key \<subseteq> set CHARSET" and "26 \<le> length key"
    and "base30_value (rev key) 0 = Some v"
  shows "parseSecretKey (''A3'' @ key) = Some (bigint_to_bytes 16 (v mod 2 ^ 128))"
proof -
  have "clean_key (''A3'' @ key) = ''A3'' @ key"
    using clean_key_plain [OF assms(1)]
    by (simp add: clean_key_def is_space_def toUpperCase_def upper_char_def)
  then have "parseSecretKey (''A3'' @ key) = Some (bigint_to_bytes 16 v)"
    using assms by (simp add: parseSecretKey_def startsWith_def RAW_BYTE_LENGTH_def)
  then show ?thesis using bigint_to_bytes_mod [of 16 v] by simp
qed

theorem secret_key_truncated_witness:
  "base30_chars 27 (2 ^ 128) \<noteq> base30_chars 27 0
   \<and> parseSecretKey (''A3'' @ base30_chars 27 (2 ^ 128)) = Some (replicate 16 0)
   \<and> parseSecretKey (''A3'' @ base30_chars 27 0) = Some (replicate 16 0)"
proof (intro conjI)
  have v: "base30_value (rev (base30_chars 27 n)) 0 = Some (n mod 30 ^ 27)" for n
    by (simp add: base30_value_chars)
  have zero: "bigint_to_bytes 16 0 = replicate 16 0" by code_simp
  show "parseSecretKey (''A3'' @ base30_chars 27 (2 ^ 128)) = Some (replicate 16 0)"
    using secret_key_truncated [OF base30_chars_mem _ v, of "2 ^ 128"] zero by simp
  show "parseSecretKey (''A3'' @ base30_chars 27 0) = Some (replicate 16 0)"
    using secret_key_truncated [OF base30_chars_mem _ v, of 0] zero by simp
  have "base30_value (rev (base30_chars 27 (2 ^ 128))) 0 \<noteq> base30_value (rev (base30_chars 27 0)) 0"
    unfolding v by simp
  then show "base30_chars 27 (2 ^ 128) \<noteq> base30_chars 27 0" by metis
qed

end
