(* ===== verification/Srp.thy ===== *)
theory Srp
  imports Bytes
begin

text \<open>
  The SRP-6a client of \<^verbatim>\<open>lib/crypto/srp.ts\<close>. SHA-256 is the browser's
  (\<open>crypto.subtle.digest\<close>) and enters as the parameter \<open>sha\<close>; random bytes are arguments. The
  group (the modulus, the generator and the byte length used for padding) is the record
  \<open>srp_group\<close>, with the constants of the source in \<open>rfc5054_2048\<close>. The theorems hold for
  every group in which Fermat's congruence holds for the generator.
\<close>

section \<open>Group parameters and byte helpers\<close>

record srp_group =
  grp_N :: int
  grp_g :: int
  grp_bytes :: nat

definition N_HEX :: string where
  "N_HEX =
    ''ac6bdb41324a9a9bf166de5e1389582faf72b6651987ee07fc3192943db56050'' @
    ''a37329cbb4a099ed8193e0757767a13dd52312ab4b03310dcd7f48a9da04fd50'' @
    ''e8083969edb767b0cf6095179a163ab3661a05fbd5faaae82918a9962f0b93b8'' @
    ''55f97993ec975eeaa80d740adbf4ff747359d041d5c33ea71d281e446b14773b'' @
    ''ca97b43a23fb801676bd207a436c6481f1d2b9078717461a5b9d32e688f87748'' @
    ''544523b524b0d57d5ea77a2775d2ecfa032cfbdbf52fb3786160279004e57ae6'' @
    ''af874e7303ce53299ccc041c7bc308d82a5698f3a8d0c38271ae35f8e9dbfbb6'' @
    ''94b5c803d89f7ae435de236d525f54759b65e372fcd68ef20fa7111f9e4aff73''"

text \<open>\<open>BigInt('0x' + s)\<close>: trailing white space is ignored, anything that is not a non-empty run
  of hexadecimal digits is a \<open>SyntaxError\<close>.\<close>

definition BigInt_hex :: "string \<Rightarrow> int result" where
  "BigInt_hex s = (let t = js_trim_end s in
     if t = [] \<or> (\<exists>c \<in> set t. \<not> is_digit 16 c) then Inl ''SyntaxError: Cannot convert to a BigInt''
     else Inr (int (radix_val 16 t)))"

definition rfc5054_2048 :: srp_group where
  "rfc5054_2048 = \<lparr>grp_N = int (radix_val 16 N_HEX), grp_g = 2, grp_bytes = 256\<rparr>"

text \<open>\<open>TypedArray.prototype.set\<close>, and \<open>H\<close>, which copies its inputs one after the other into a
  buffer of the total length and hashes it.\<close>

definition uint8_set :: "bytes \<Rightarrow> bytes \<Rightarrow> nat \<Rightarrow> bytes" where
  "uint8_set arr src off = take off arr @ src @ drop (off + length src) arr"

fun fill :: "bytes list \<Rightarrow> bytes \<Rightarrow> nat \<Rightarrow> bytes" where
  "fill [] combined offset = combined"
| "fill (i # is) combined offset = fill is (uint8_set combined i offset) (offset + length i)"

definition H :: "(bytes \<Rightarrow> bytes) \<Rightarrow> bytes list \<Rightarrow> bytes" where
  "H sha inputs = sha (fill inputs (replicate (sum_list (map length inputs)) 0) 0)"

definition bigintToBytes :: "int \<Rightarrow> bytes" where
  "bigintToBytes n = hexToBytes (toHex n)"

definition padBigInt :: "srp_group \<Rightarrow> int \<Rightarrow> bytes" where
  "padBigInt grp n = (let bytes = bigintToBytes n in
     if grp_bytes grp \<le> length bytes then bytes
     else uint8_set (replicate (grp_bytes grp) 0) bytes (grp_bytes grp - length bytes))"

text \<open>JavaScript's \<open>%\<close> on \<open>BigInt\<close> truncates towards zero: \<open>smod\<close>. The Montgomery ladder
  walks the binary text of the exponent.\<close>

definition ladder_step :: "int \<Rightarrow> int \<times> int \<Rightarrow> char \<Rightarrow> int \<times> int" where
  "ladder_step m r c = (let r0 = fst r; r1 = snd r in
     if c = CHR ''1'' then ((r0 * r1) smod m, (r1 * r1) smod m)
     else ((r0 * r0) smod m, (r0 * r1) smod m))"

definition modPow :: "int \<Rightarrow> int \<Rightarrow> int \<Rightarrow> int result" where
  "modPow base e m =
     (if m = 0 then Inl ''modPow: modulus cannot be zero''
      else if m = 1 then Inr 0
      else let b = ((base smod m) + m) smod m in
        Inr (fst (foldl (ladder_step m) (1, b) (int_to_radix 2 e))))"

definition generateRandomBigInt :: "bytes \<Rightarrow> int" where
  "generateRandomBigInt rnd = foldl (\<lambda>n b. push_bit 8 n OR uint b) 0 rnd"

section \<open>The client\<close>

record srp_client =
  cl_group :: srp_group
  cl_a :: int
  cl_A :: int
  cl_email :: string
  cl_A_hex :: string
  cl_M1 :: "bytes option"
  cl_K :: "bytes option"

definition new_SRPClient :: "srp_group \<Rightarrow> string \<Rightarrow> bytes \<Rightarrow> srp_client result" where
  "new_SRPClient grp email rnd =
     (let a = generateRandomBigInt rnd in
      and_then (modPow (grp_g grp) a (grp_N grp)) (\<lambda>A.
        if A smod grp_N grp = 0
        then Inl ''SRP: invalid client public ephemeral (A mod N == 0)''
        else Inr \<lparr>cl_group = grp, cl_a = a, cl_A = A, cl_email = email,
                  cl_A_hex = [], cl_M1 = None, cl_K = None\<rparr>))"

definition getPublicEphemeral :: "srp_client \<Rightarrow> string" where
  "getPublicEphemeral c = even_hex (toHex (cl_A c))"

definition xor_bytes :: "bytes \<Rightarrow> bytes \<Rightarrow> bytes" where
  "xor_bytes hN hg = map (\<lambda>i. hN ! i XOR (if i < length hg then hg ! i else 0)) [0..<length hN]"

definition srp_k :: "(bytes \<Rightarrow> bytes) \<Rightarrow> srp_group \<Rightarrow> int result" where
  "srp_k sha grp =
     BigInt_hex (bytesToHex (H sha [bigintToBytes (grp_N grp), padBigInt grp (grp_g grp)]))"

definition srp_u :: "(bytes \<Rightarrow> bytes) \<Rightarrow> srp_group \<Rightarrow> int \<Rightarrow> int \<Rightarrow> int result" where
  "srp_u sha grp A B = BigInt_hex (bytesToHex (H sha [padBigInt grp A, padBigInt grp B]))"

definition client_S :: "srp_group \<Rightarrow> int \<Rightarrow> int \<Rightarrow> int \<Rightarrow> int \<Rightarrow> int \<Rightarrow> int result" where
  "client_S grp k u x a B = (let N = grp_N grp in
     and_then (modPow (grp_g grp) x N) (\<lambda>gx.
       let kgx = (k * gx) smod N;
           base = ((B - kgx) smod N + N) smod N;
           e = (a + u * x) smod (N - 1)
       in modPow base e N))"

definition client_M1 :: "(bytes \<Rightarrow> bytes) \<Rightarrow> srp_client \<Rightarrow> string \<Rightarrow> int \<Rightarrow> bytes \<Rightarrow> bytes" where
  "client_M1 sha c saltHex B K =
     (let hN = H sha [bigintToBytes (grp_N (cl_group c))];
          hg = H sha [bigintToBytes (grp_g (cl_group c))];
          hI = H sha [utf8_encode (cl_email c)]
      in H sha [xor_bytes hN hg, hI, hexToBytes saltHex,
                hexToBytes (toHex (cl_A c)), hexToBytes (toHex B), K])"

definition computeSession ::
  "(bytes \<Rightarrow> bytes) \<Rightarrow> srp_client \<Rightarrow> bytes \<Rightarrow> string \<Rightarrow> string
     \<Rightarrow> (srp_client \<times> string \<times> bytes) result" where
  "computeSession sha c srpX saltHex serverPublicHex =
     (let grp = cl_group c in
      and_then (BigInt_hex serverPublicHex) (\<lambda>B.
      if B smod grp_N grp = 0 then Inl ''SRP: invalid server public ephemeral (B mod N == 0)'' else
      and_then (srp_k sha grp) (\<lambda>k.
      and_then (srp_u sha grp (cl_A c) B) (\<lambda>u.
      if u = 0 then Inl ''SRP: invalid scrambling parameter (u == 0)'' else
      and_then (BigInt_hex (bytesToHex srpX)) (\<lambda>x.
      and_then (client_S grp k u x (cl_a c) B) (\<lambda>S.
      let K = H sha [bigintToBytes S];
          M1 = client_M1 sha c saltHex B K
      in Inr (c\<lparr>cl_A_hex := toHex (cl_A c), cl_M1 := Some M1, cl_K := Some K\<rparr>,
              bytesToHex M1, K)))))))"

text \<open>The comparison of the two proofs accumulates the bitwise differences of all characters.\<close>

definition char_diff :: "string \<Rightarrow> string \<Rightarrow> nat" where
  "char_diff e a = foldl (\<lambda>d i. d OR (of_char (e ! i) XOR of_char (a ! i))) 0 [0..<length e]"

definition verifyServerProof :: "(bytes \<Rightarrow> bytes) \<Rightarrow> srp_client \<Rightarrow> string \<Rightarrow> bool result" where
  "verifyServerProof sha c serverProofHex =
     (case (cl_M1 c, cl_K c) of
       (Some M1, Some K) \<Rightarrow>
         (let expectedHex = bytesToHex (H sha [hexToBytes (cl_A_hex c), M1, K]);
              actualHex = toLowerCase serverProofHex
          in if length expectedHex \<noteq> length actualHex then Inr False
             else Inr (char_diff expectedHex actualHex = 0))
     | _ \<Rightarrow> Inl ''SRP: computeSession() must be called before verifyServerProof()'')"

definition computeVerifier :: "srp_group \<Rightarrow> string \<Rightarrow> string result" where
  "computeVerifier grp srpXHex =
     and_then (BigInt_hex srpXHex) (\<lambda>x.
       and_then (modPow (grp_g grp) x (grp_N grp)) (\<lambda>v. Inr (even_hex (toHex v))))"

section \<open>Arithmetic\<close>

lemma smod_nonneg: "0 \<le> a \<Longrightarrow> 0 < m \<Longrightarrow> a smod m = a mod (m :: int)"
  by (cases "a = 0") (simp_all add: smod_int_alt_def)

lemma smod_normalise: "0 < m \<Longrightarrow> ((b smod m) + m) smod m = b mod (m :: int)"
proof -
  assume m: "0 < m"
  define t where "t = \<bar>b\<bar> mod \<bar>m\<bar>"
  have "0 \<le> t" and "t < m" using m by (simp_all add: t_def)
  then have "- m < b smod m"
    unfolding smod_int_alt_def t_def [symmetric] by (auto simp: sgn_if)
  then have "((b smod m) + m) smod m = ((b smod m) + m) mod m"
    using m by (intro smod_nonneg) auto
  also have "\<dots> = b mod m"
    using sdiv_mult_smod_eq [of b m] by (metis add.commute mod_add_self2 mod_mult_self3)
  finally show ?thesis .
qed

lemma is_digit_2: "is_digit 2 c \<Longrightarrow> c = CHR ''0'' \<or> c = CHR ''1''"
proof -
  assume "is_digit 2 c"
  then have "of_char c = (48 :: nat) \<or> of_char c = (49 :: nat)"
    by (auto simp: is_digit_def digit_of_def Let_def split: if_splits option.splits)
  then have "c = char_of (48 :: nat) \<or> c = char_of (49 :: nat)"
    by (metis char_of_char)
  moreover have "char_of (48 :: nat) = CHR ''0''" by code_simp
  moreover have "char_of (49 :: nat) = CHR ''1''" by code_simp
  ultimately show ?thesis by argo
qed

lemma ladder_invariant:
  assumes "1 < m" and "\<forall>c \<in> set s. is_digit 2 c"
  shows "foldl (ladder_step m) (1, b mod m) s =
    (b ^ radix_val 2 s mod m, b ^ (radix_val 2 s + 1) mod m)"
  using assms(2)
proof (induction s rule: rev_induct)
  case Nil
  then show ?case using assms(1) by simp
next
  case (snoc c s)
  let ?v = "radix_val 2 s"
  have IH: "foldl (ladder_step m) (1, b mod m) s = (b ^ ?v mod m, b ^ (?v + 1) mod m)"
    using snoc by simp
  have m0: "0 < m" using assms(1) by simp
  have nonneg: "0 \<le> x mod m" for x using m0 by simp
  have mult: "(b ^ i mod m) * (b ^ j mod m) smod m = b ^ (i + j) mod m" for i j
    using smod_nonneg [OF mult_nonneg_nonneg [OF nonneg nonneg] m0]
    by (simp add: mod_mult_eq power_add)
  have step: "foldl (ladder_step m) (1, b mod m) (s @ [c]) =
      ladder_step m (b ^ ?v mod m, b ^ (?v + 1) mod m) c"
    by (simp add: IH)
  show ?case
  proof (cases "c = CHR ''1''")
    case True
    moreover have "digit_val (CHR ''1'') = 1" by code_simp
    ultimately have "radix_val 2 (s @ [c]) = ?v + (?v + 1)" by simp
    with True show ?thesis
      unfolding step unfolding ladder_step_def Let_def fst_conv snd_conv mult by (simp add: ac_simps mult_2)
  next
    case False
    have "c = CHR ''0''" using snoc.prems False is_digit_2 [of c] by auto
    then have "digit_val c = 0" by simp
    then have "radix_val 2 (s @ [c]) = ?v + ?v" by simp
    with False show ?thesis
      unfolding step unfolding ladder_step_def Let_def fst_conv snd_conv mult by (simp add: ac_simps mult_2)
  qed
qed

lemma modPow_correct:
  assumes "1 < m" and "0 \<le> e"
  shows "modPow b e m = Inr (b ^ nat e mod m)"
proof -
  have "foldl (ladder_step m) (1, b mod m) (nat_to_radix 2 (nat e)) =
      (b ^ nat e mod m, b ^ (nat e + 1) mod m)"
    using ladder_invariant [OF assms(1), of "nat_to_radix 2 (nat e)" b]
    by (simp add: nat_to_radix_digits radix_val_to_radix)
  then show ?thesis
    using assms by (simp add: modPow_def int_to_radix_def smod_normalise Let_def)
qed

lemma push_bit_or_byte_int:
  assumes "0 \<le> n"
  shows "push_bit 8 n OR uint (b :: byte) = n * 256 + uint b"
proof -
  have "push_bit 8 n AND uint b = 0"
    by (rule bit_eqI) (auto simp: bit_simps dest: bit_imp_le_length)
  from disjunctive_add_eq_or [OF this] show ?thesis by (simp add: push_bit_eq_mult)
qed

lemma generateRandomBigInt_val: "generateRandomBigInt rnd = int (bytes_val rnd)"
proof (induction rnd rule: rev_induct)
  case (snoc b bs)
  then show ?case
    by (simp add: generateRandomBigInt_def push_bit_or_byte_int)
qed (simp add: generateRandomBigInt_def)

section \<open>Encodings\<close>

lemma fill_concat:
  "length buf = length pre + sum_list (map length is) \<Longrightarrow> take (length pre) buf = pre \<Longrightarrow>
   fill is buf (length pre) = pre @ concat is"
proof (induction "is" arbitrary: buf pre)
  case (Cons i "is")
  have "take (length (pre @ i)) (uint8_set buf i (length pre)) = pre @ i"
    and "length (uint8_set buf i (length pre)) = length (pre @ i) + sum_list (map length is)"
    using Cons.prems by (auto simp: uint8_set_def)
  from Cons.IH [OF this(2,1)] show ?case by simp
qed (simp add: take_all_iff)

lemma H_concat: "H sha inputs = sha (concat inputs)"
  using fill_concat [of "replicate (sum_list (map length inputs)) 0" "[]" inputs]
  by (simp add: H_def)

lemma js_trim_end_id: "\<forall>c \<in> set s. \<not> is_space c \<Longrightarrow> js_trim_end s = s"
  by (cases s rule: rev_cases) (auto simp: js_trim_end_def)

lemma BigInt_hex_digits:
  assumes "s \<noteq> []" and "\<forall>c \<in> set s. is_digit 16 c"
  shows "BigInt_hex s = Inr (int (radix_val 16 s))"
proof -
  have "js_trim_end s = s"
    using assms(2) is_digit_hex_not_special by (intro js_trim_end_id) blast
  then show ?thesis using assms by (simp add: BigInt_hex_def)
qed

lemma toHex_digits: "0 \<le> n \<Longrightarrow> c \<in> set (toHex n) \<Longrightarrow> is_digit 16 c"
  by (auto simp: toHex_def int_to_radix_def intro: nat_to_radix_digits [of 16 c])

lemma BigInt_toHex: "0 \<le> n \<Longrightarrow> BigInt_hex (toHex n) = Inr n"
  by (subst BigInt_hex_digits)
    (auto simp: toHex_def int_to_radix_def radix_val_to_radix intro: nat_to_radix_digits [of 16])

lemma BigInt_even_hex: "0 \<le> n \<Longrightarrow> BigInt_hex (even_hex (toHex n)) = Inr n"
proof -
  assume n: "0 \<le> n"
  have "radix_val 16 (even_hex s) = radix_val 16 s" for s
    using radix_val_replicate_0 [of 16 1 s] by (simp add: even_hex_def)
  then show ?thesis
    using n BigInt_toHex [OF n] BigInt_hex_digits [of "toHex n"] BigInt_hex_digits [of "even_hex (toHex n)"]
      toHex_digits [OF n]
    by (auto simp: even_hex_def toHex_def int_to_radix_def)
qed

lemma BigInt_bytesToHex: "bs \<noteq> [] \<Longrightarrow> BigInt_hex (bytesToHex bs) = Inr (int (bytes_val bs))"
proof -
  assume "bs \<noteq> []"
  then have "bytesToHex bs \<noteq> []" by (metis bytesToHex_length length_0_conv mult_eq_0_iff zero_neq_numeral)
  then show ?thesis
    using BigInt_hex_digits [of "bytesToHex bs"] bytesToHex_digits [of _ bs]
    by (simp add: radix_val_bytesToHex)
qed

lemma length_padBigInt:
  assumes "0 \<le> n" and "n < 256 ^ grp_bytes grp" and "0 < grp_bytes grp"
  shows "length (padBigInt grp n) = grp_bytes grp"
proof -
  have "(16 :: nat) ^ (2 * grp_bytes grp) = 256 ^ grp_bytes grp"
    by (simp add: power_mult)
  then have "nat n < 16 ^ (2 * grp_bytes grp)"
    using assms by (simp add: nat_less_iff)
  then have "length (toHex n) \<le> 2 * grp_bytes grp"
    using assms by (simp add: toHex_def int_to_radix_def length_nat_to_radix)
  then have "length (bigintToBytes n) \<le> grp_bytes grp"
    by (simp add: bigintToBytes_def length_hexToBytes)
  then show ?thesis by (auto simp: padBigInt_def uint8_set_def Let_def)
qed

section \<open>The protocol\<close>

text \<open>What the two sides of SRP-6a compute from their private exponents, as the protocol
  specifies it: the server holds the verifier \<open>v\<close> and its ephemeral \<open>b\<close>.\<close>

definition server_B :: "srp_group \<Rightarrow> int \<Rightarrow> int \<Rightarrow> nat \<Rightarrow> int" where
  "server_B grp k v b = (k * v + grp_g grp ^ b) mod grp_N grp"

definition server_S :: "srp_group \<Rightarrow> int \<Rightarrow> int \<Rightarrow> int \<Rightarrow> nat \<Rightarrow> int" where
  "server_S grp A v u b = (A * v ^ nat u) ^ b mod grp_N grp"

text \<open>Exponents may be reduced modulo \<open>N - 1\<close> once Fermat's congruence holds for the base.\<close>

lemma power_mod_order:
  fixes g N :: int
  assumes "g ^ n mod N = 1"
  shows "g ^ (b * (e mod n)) mod N = g ^ (b * e) mod N"
proof -
  have "g ^ (b * e) = (g ^ n) ^ (b * (e div n)) * g ^ (b * (e mod n))"
    by (metis (no_types, lifting) add_mult_distrib2 mult.assoc mult.commute mult_div_mod_eq power_add power_mult)
  then have "g ^ (b * e) mod N = ((g ^ n mod N) ^ (b * (e div n)) mod N * (g ^ (b * (e mod n)))) mod N"
    by (metis mod_mult_left_eq power_mod)
  then show ?thesis using assms by (simp add: mod_mult_left_eq)
qed

lemma power_mult_mod:
  fixes M :: int
  shows "(p * q ^ n) ^ m mod M = ((p mod M) * (q mod M) ^ n) ^ m mod M"
  using power_mod [of "p * q ^ n" M m] power_mod [of "(p mod M) * (q mod M) ^ n" M m]
    mod_mult_eq [of p M "q ^ n"] mod_mult_right_eq [of "p mod M" "(q mod M) ^ n" M] power_mod [of q M n]
  by simp

lemma client_S_server_S:
  assumes N: "2 < grp_N grp"
    and fermat: "grp_g grp ^ nat (grp_N grp - 1) mod grp_N grp = 1"
    and nn: "0 \<le> u" "0 \<le> x" "0 \<le> a"
    and v: "v = grp_g grp ^ nat x mod grp_N grp"
    and A: "A = grp_g grp ^ nat a mod grp_N grp"
    and k: "0 \<le> k"
  shows "client_S grp k u x a (server_B grp k v b) = Inr (server_S grp A v u b)"
proof -
  let ?N = "grp_N grp" and ?g = "grp_g grp"
  let ?e = "(a + u * x) mod (?N - 1)"
  have N0: "0 < ?N" "1 < ?N" using N by auto
  have vn: "0 \<le> v" using v N0 by simp
  have kgx: "(k * v) smod ?N = (k * v) mod ?N" using k vn N0 by (intro smod_nonneg) auto
  have base: "((server_B grp k v b - (k * v) mod ?N) smod ?N + ?N) smod ?N = ?g ^ b mod ?N"
    using smod_normalise [OF N0(1)] by (simp add: server_B_def mod_diff_eq)
  have es: "(a + u * x) smod (?N - 1) = ?e" using N nn by (intro smod_nonneg) auto
  have e: "nat ?e = nat (a + u * x) mod nat (?N - 1)"
    using nn N by (simp add: nat_mod_distrib)
  have "client_S grp k u x a (server_B grp k v b) = modPow (?g ^ b mod ?N) ?e ?N"
    using nn by (simp add: client_S_def modPow_correct [OF N0(2)] v [symmetric] Let_def kgx base es)
  also have "\<dots> = Inr (?g ^ (b * nat ?e) mod ?N)"
    using N by (subst modPow_correct [OF N0(2)]) (simp_all add: power_mod power_mult)
  also have "?g ^ (b * nat ?e) mod ?N = ?g ^ (b * nat (a + u * x)) mod ?N"
    unfolding e by (rule power_mod_order [OF fermat])
  also have "?g ^ (b * nat (a + u * x)) = (?g ^ nat a * (?g ^ nat x) ^ nat u) ^ b"
    using nn by (simp add: nat_add_distrib nat_mult_distrib power_add power_mult [symmetric]
        power_mult_distrib ac_simps add_mult_distrib2)
  also have "\<dots> mod ?N = server_S grp A v u b"
    unfolding server_S_def A v by (rule power_mult_mod)
  finally show ?thesis .
qed

text \<open>Facts about a client that the constructor returned.\<close>

lemma new_SRPClient_fields:
  assumes "new_SRPClient grp email rnd = Inr c" and "1 < grp_N grp"
  shows "cl_group c = grp" "cl_a c = int (bytes_val rnd)" "cl_email c = email"
    "cl_A c = grp_g grp ^ bytes_val rnd mod grp_N grp"
  using assms by (auto simp: new_SRPClient_def generateRandomBigInt_val modPow_correct Let_def split: if_splits)

lemma computeSession_Inr:
  assumes "BigInt_hex Bhex = Inr B" and "B smod grp_N (cl_group c) \<noteq> 0"
    and "srp_k sha (cl_group c) = Inr k" and "srp_u sha (cl_group c) (cl_A c) B = Inr u" and "u \<noteq> 0"
    and "BigInt_hex (bytesToHex srpX) = Inr x" and "client_S (cl_group c) k u x (cl_a c) B = Inr S"
  shows "computeSession sha c srpX saltHex Bhex =
    (let K = sha (bigintToBytes S); M1 = client_M1 sha c saltHex B K in
     Inr (c\<lparr>cl_A_hex := toHex (cl_A c), cl_M1 := Some M1, cl_K := Some K\<rparr>, bytesToHex M1, K))"
  using assms by (auto simp: computeSession_def Let_def H_concat)

lemma fold_or_zero:
  "foldl (\<lambda>d i. d OR (f i :: nat)) z xs = 0 \<longleftrightarrow> z = 0 \<and> (\<forall>i \<in> set xs. f i = 0)"
proof (induction xs arbitrary: z)
  case (Cons x xs)
  have "(z OR f x = 0) = (z = 0 \<and> f x = 0)" by (rule or_eq_0_iff)
  with Cons show ?case by simp
qed simp

lemma char_diff_zero:
  assumes "length e = length a"
  shows "char_diff e a = 0 \<longleftrightarrow> e = a"
proof -
  have eq: "(of_char c XOR of_char d = (0 :: nat)) \<longleftrightarrow> c = d" for c d :: char
    using xor.assoc [of "of_char c" "of_char d" "of_char d :: nat"] by auto
  have "char_diff e a = 0 \<longleftrightarrow> (\<forall>i \<in> set [0..<length e]. e ! i = a ! i)"
    by (simp add: char_diff_def fold_or_zero eq)
  moreover have "e = a \<longleftrightarrow> (\<forall>i < length e. e ! i = a ! i)"
    using assms list_eq_iff_nth_eq [of e a] by blast
  ultimately show ?thesis by auto
qed

text \<open>Hexadecimal output is in lower case already.\<close>

lemma lower_digit_char: "d < 36 \<Longrightarrow> lower_char (digit_char d) = digit_char d"
  by (simp add: lower_char_def digit_char_def of_char_of Let_def)

lemma lower_nat_to_radix: "2 \<le> r \<Longrightarrow> r \<le> 36 \<Longrightarrow> toLowerCase (nat_to_radix r n) = nat_to_radix r n"
proof (induction r n rule: nat_to_radix.induct)
  case (1 r n)
  have "n mod r < 36" using 1 mod_less_divisor [of r n] by linarith
  with 1 show ?case
    by (subst nat_to_radix.simps, subst (2) nat_to_radix.simps)
      (auto simp: toLowerCase_def lower_digit_char)
qed

lemma lower_bytesToHex [simp]: "toLowerCase (bytesToHex bs) = bytesToHex bs"
proof (induction bs)
  case (Cons b bs)
  have "toLowerCase (replicate n (CHR ''0'')) = replicate n (CHR ''0'')" for n
    by (simp add: toLowerCase_def lower_char_def)
  with Cons show ?case by (simp add: byte_hex_def padStart_def lower_nat_to_radix)
qed (simp add: toLowerCase_def)

lemma verifyServerProof_expected:
  assumes "cl_M1 c = Some M1" and "cl_K c = Some K"
  shows "verifyServerProof sha c (bytesToHex (sha (hexToBytes (cl_A_hex c) @ M1 @ K))) = Inr True"
  using assms by (simp add: verifyServerProof_def H_concat char_diff_zero)

text \<open>A session of a client with a server that holds the registered verifier.\<close>

lemma srp_session:
  assumes grp: "2 < grp_N grp" "grp_g grp ^ nat (grp_N grp - 1) mod grp_N grp = 1"
    and sha: "\<And>m. sha m \<noteq> []"
    and client: "new_SRPClient grp email rnd = Inr c"
    and srpX: "srpX \<noteq> []"
    and verifier: "computeVerifier grp (bytesToHex srpX) = Inr vhex" "BigInt_hex vhex = Inr v"
    and server: "srp_k sha grp = Inr k" "B = server_B grp k v b" "BigInt_hex Bhex = Inr B"
    and scramble: "srp_u sha grp (cl_A c) B = Inr u" "u \<noteq> 0" "B \<noteq> 0"
  shows "computeSession sha c srpX salt Bhex =
    (let K = sha (bigintToBytes (server_S grp (cl_A c) v u b)); M1 = client_M1 sha c salt B K in
     Inr (c\<lparr>cl_A_hex := toHex (cl_A c), cl_M1 := Some M1, cl_K := Some K\<rparr>, bytesToHex M1, K))"
proof -
  let ?x = "int (bytes_val srpX)"
  have N: "1 < grp_N grp" "0 < grp_N grp" using grp(1) by auto
  note c = new_SRPClient_fields [OF client N(1)]
  have x: "BigInt_hex (bytesToHex srpX) = Inr ?x" by (rule BigInt_bytesToHex [OF srpX])
  have v: "v = grp_g grp ^ nat ?x mod grp_N grp"
  proof -
    have "vhex = even_hex (toHex (grp_g grp ^ nat ?x mod grp_N grp))"
      using verifier(1) by (auto simp: computeVerifier_def x modPow_correct N(1) and_then_Inr_iff)
    then show ?thesis using verifier(2) BigInt_even_hex N(2) by simp
  qed
  have k: "0 \<le> k" and u: "0 \<le> u"
    using server(1) scramble(1) sha by (auto simp: srp_k_def srp_u_def H_concat BigInt_bytesToHex)
  have S: "client_S grp k u ?x (cl_a c) B = Inr (server_S grp (cl_A c) v u b)"
    unfolding server(2)
    by (rule client_S_server_S [OF grp u _ _ v _ k]) (simp_all add: c)
  have "0 \<le> B" "B < grp_N grp" using server(2) N(2) by (auto simp: server_B_def)
  then have "B smod grp_N (cl_group c) \<noteq> 0" using scramble(3) N(2) by (simp add: c smod_nonneg)
  then show ?thesis
    using computeSession_Inr [OF server(3) _ _ _ scramble(2) x, of c sha k _ salt]
      server(1) scramble(1) S by (simp add: c)
qed

section \<open>Properties\<close>

text \<open>C10: The Montgomery ladder computes modular exponentiation: for a positive modulus and a
  non-negative exponent, \<open>modPow\<close> returns the power reduced into the range of the modulus,
  also for a negative base; a modulus of zero is the error it throws.\<close>
theorem modPow_spec:
  assumes "0 \<le> e" and "0 \<le> m"
  shows "modPow b e m =
    (if m = 0 then Inl ''modPow: modulus cannot be zero'' else Inr (b ^ nat e mod m))"
  using modPow_correct [of m e b] assms by (cases "m = 1") (auto simp: modPow_def)

theorem modPow_spec_witness: "modPow (-3) 5 7 = Inr 2"
  using modPow_spec [of 5 7 "-3"] by simp

text \<open>C2: Client and server agree on the session key. In a group where Fermat's congruence holds
  for the generator, if the server stores the verifier that \<open>computeVerifier\<close> produced for the
  derived secret and answers with the SRP-6a value \<open>B\<close> for it, then \<open>computeSession\<close>
  succeeds unless \<open>B\<close> or the scrambling parameter is zero, the session key \<open>K\<close> is the hash of
  the value the server computes, the client proof is the \<open>M1\<close> for it, and the client accepts the
  server's proof \<open>M2\<close> made from the same values.\<close>
theorem srp_agreement:
  assumes "2 < grp_N grp" and "grp_g grp ^ nat (grp_N grp - 1) mod grp_N grp = 1"
    and "\<And>m. sha m \<noteq> []"
    and "new_SRPClient grp email rnd = Inr c"
    and "srpX \<noteq> []"
    and "computeVerifier grp (bytesToHex srpX) = Inr vhex" and "BigInt_hex vhex = Inr v"
    and "srp_k sha grp = Inr k" and "B = server_B grp k v b" and "BigInt_hex Bhex = Inr B"
    and "srp_u sha grp (cl_A c) B = Inr u" and "u \<noteq> 0" and "B \<noteq> 0"
    and "K = sha (bigintToBytes (server_S grp (cl_A c) v u b))"
    and "M1 = client_M1 sha c salt B K"
  shows "\<exists>c'. computeSession sha c srpX salt Bhex = Inr (c', bytesToHex M1, K)
    \<and> verifyServerProof sha c' (bytesToHex (sha (hexToBytes (toHex (cl_A c)) @ M1 @ K))) = Inr True"
proof (intro exI conjI)
  let ?c = "c\<lparr>cl_A_hex := toHex (cl_A c), cl_M1 := Some M1, cl_K := Some K\<rparr>"
  show "computeSession sha c srpX salt Bhex = Inr (?c, bytesToHex M1, K)"
    using srp_session [OF assms(1-13), of salt] unfolding assms(14,15) by (simp add: Let_def)
  show "verifyServerProof sha ?c (bytesToHex (sha (hexToBytes (toHex (cl_A c)) @ M1 @ K))) = Inr True"
    using verifyServerProof_expected [of ?c M1 K sha] by simp
qed

theorem srp_agreement_witness:
  "\<exists>c' M1. computeSession (\<lambda>m. m @ [1])
     \<lparr>cl_group = \<lparr>grp_N = 23, grp_g = 2, grp_bytes = 1\<rparr>, cl_a = 6, cl_A = 18,
      cl_email = ''a@b.c'', cl_A_hex = [], cl_M1 = None, cl_K = None\<rparr> [4] ''00'' ''a''
   = Inr (c', M1, (\<lambda>m. m @ [1]) (bigintToBytes
       (server_S \<lparr>grp_N = 23, grp_g = 2, grp_bytes = 1\<rparr> 18 16 1182209 7)))"
proof -
  let ?g = "\<lparr>grp_N = 23, grp_g = 2, grp_bytes = 1\<rparr> :: srp_group"
  have 1: "2 < grp_N ?g" by simp
  have 2: "grp_g ?g ^ nat (grp_N ?g - 1) mod grp_N ?g = 1" by simp
  have 3: "new_SRPClient ?g ''a@b.c'' [6] = Inr \<lparr>cl_group = ?g, cl_a = 6, cl_A = 18,
      cl_email = ''a@b.c'', cl_A_hex = [], cl_M1 = None, cl_K = None\<rparr>" by code_simp
  have 4: "computeVerifier ?g (bytesToHex [4]) = Inr ''10''" by code_simp
  have 5: "BigInt_hex ''10'' = Inr 16" by code_simp
  have b: "bigintToBytes 23 = [23]" "padBigInt ?g 2 = [2]" "padBigInt ?g 18 = [18]" "padBigInt ?g 10 = [10]"
    by code_simp+
  have 6: "srp_k (\<lambda>m. m @ [1]) ?g = Inr 1507841"
    by (simp add: srp_k_def H_concat b BigInt_bytesToHex bytes_val_def del: bytesToHex.simps One_nat_def)
  have 7: "10 = server_B ?g 1507841 16 7" by (simp add: server_B_def)
  have 8: "BigInt_hex ''a'' = Inr 10" by code_simp
  have 9: "srp_u (\<lambda>m. m @ [1]) ?g (cl_A \<lparr>cl_group = ?g, cl_a = 6, cl_A = 18,
      cl_email = ''a@b.c'', cl_A_hex = [], cl_M1 = None, cl_K = None\<rparr>) 10 = Inr 1182209"
    by (simp add: srp_u_def H_concat b BigInt_bytesToHex bytes_val_def del: bytesToHex.simps One_nat_def)
  show ?thesis
    using srp_agreement [OF 1 2 _ 3 _ 4 5 6 7 8 9 _ _ refl refl, of "''00''"] by auto
qed

text \<open>C11: A client accepts exactly one server proof, up to letter case: after
  \<open>computeSession\<close>, \<open>verifyServerProof\<close> answers true if and only if the received text is the
  hexadecimal form of the hash of the client's ephemeral, its proof and the session key. Before
  \<open>computeSession\<close> it throws.\<close>
theorem verifyServerProof_iff:
  "verifyServerProof sha c hex =
    (case (cl_M1 c, cl_K c) of
       (Some M1, Some K) \<Rightarrow>
         Inr (toLowerCase hex = bytesToHex (sha (hexToBytes (cl_A_hex c) @ M1 @ K)))
     | _ \<Rightarrow> Inl ''SRP: computeSession() must be called before verifyServerProof()'')"
proof (cases "cl_M1 c"; cases "cl_K c")
  fix M1 K
  assume "cl_M1 c = Some M1" and "cl_K c = Some K"
  then show ?thesis
    using char_diff_zero [of "bytesToHex (sha (hexToBytes (cl_A_hex c) @ M1 @ K))" "toLowerCase hex"]
    by (auto simp: verifyServerProof_def H_concat Let_def dest: arg_cong [of _ _ length])
qed (simp_all add: verifyServerProof_def)

end
