(* ===== verification/Keys.thy ===== *)
theory Keys
  imports Bytes
begin

text \<open>
  Two-secret key derivation (\<^verbatim>\<open>lib/crypto/keys.ts\<close>, \<^verbatim>\<open>lib/crypto/types.ts\<close>), on the main
  thread and through the Web Worker (\<^verbatim>\<open>lib/crypto/worker.ts\<close>). The browser's Web Crypto API
  is the record \<open>subtle\<close> of parameters; every call may reject, which is the left summand.
\<close>

section \<open>The Web Crypto API\<close>

record 'key subtle =
  sc_available :: bool
  sc_digest :: "bytes \<Rightarrow> bytes"
  sc_hkdf :: "bytes \<Rightarrow> bytes \<Rightarrow> bytes \<Rightarrow> bytes result"
  sc_pbkdf2 :: "bytes \<Rightarrow> bytes \<Rightarrow> nat \<Rightarrow> bytes result"
  sc_import_aes :: "bytes \<Rightarrow> bool \<Rightarrow> string list \<Rightarrow> 'key result"
  sc_encrypt :: "'key \<Rightarrow> bytes \<Rightarrow> bytes \<Rightarrow> bytes result"
  sc_decrypt :: "'key \<Rightarrow> bytes \<Rightarrow> bytes \<Rightarrow> bytes result"
  sc_wrap :: "string \<Rightarrow> 'key \<Rightarrow> 'key \<Rightarrow> bytes \<Rightarrow> bytes result"
  sc_unwrap :: "string \<Rightarrow> bytes \<Rightarrow> 'key \<Rightarrow> bytes \<Rightarrow> bool \<Rightarrow> string list \<Rightarrow> 'key result"
  sc_export_spki :: "'key \<Rightarrow> bytes result"

section \<open>Derivation\<close>

record derive_params =
  masterPassword :: string
  secretKeyBytes :: bytes
  dp_email :: string
  accountId :: string
  pbkdf2Salt :: bytes
  hkdfSalt :: bytes
  iterations :: "nat option"

definition DEFAULT_ITERATIONS :: nat where
  "DEFAULT_ITERATIONS = 650000"

text \<open>The default of a destructured optional field.\<close>

definition or_default :: "'a option \<Rightarrow> 'a \<Rightarrow> 'a" where
  "or_default x d = (case x of None \<Rightarrow> d | Some v \<Rightarrow> v)"

text \<open>\<open>pbkdf2Result[i]! ^ skDerived[i]!\<close> for the 32 positions; a missing element counts as 0.\<close>

definition byte_at :: "bytes \<Rightarrow> nat \<Rightarrow> byte" where
  "byte_at bs i = (if i < length bs then bs ! i else 0)"

definition xor32 :: "bytes \<Rightarrow> bytes \<Rightarrow> bytes" where
  "xor32 p q = map (\<lambda>i. byte_at p i XOR byte_at q i) [0..<32]"

definition deriveRawBytes :: "'key subtle \<Rightarrow> derive_params \<Rightarrow> (bytes \<times> bytes) result" where
  "deriveRawBytes sc p =
     and_then (sc_hkdf sc (pbkdf2Salt p) (utf8_encode (toLowerCase (dp_email p))) (utf8_encode ''srp''))
       (\<lambda>stretchedSalt.
     and_then (sc_pbkdf2 sc (utf8_encode (masterPassword p)) stretchedSalt
                (or_default (iterations p) DEFAULT_ITERATIONS)) (\<lambda>pbkdf2Result.
     and_then (sc_hkdf sc (secretKeyBytes p) (utf8_encode (accountId p)) (utf8_encode ''auk''))
       (\<lambda>skDerived.
     let stretched = xor32 pbkdf2Result skDerived in
     and_then (sc_hkdf sc stretched [] (utf8_encode ''auk'')) (\<lambda>aukBits.
     and_then (sc_hkdf sc stretched [] (utf8_encode ''srp-x'')) (\<lambda>srpBits.
     Inr (aukBits, srpBits))))))"

definition AUK_USAGES :: "string list" where
  "AUK_USAGES = [''wrapKey'', ''unwrapKey'', ''encrypt'', ''decrypt'']"

definition deriveKeys :: "'key subtle \<Rightarrow> derive_params \<Rightarrow> ('key \<times> bytes) result" where
  "deriveKeys sc p =
     and_then (deriveRawBytes sc p) (\<lambda>(aukBits, srpBits).
       and_then (sc_import_aes sc aukBits False AUK_USAGES) (\<lambda>auk. Inr (auk, srpBits)))"

definition deriveKeysRaw :: "'key subtle \<Rightarrow> derive_params \<Rightarrow> (bytes \<times> bytes) result" where
  "deriveKeysRaw sc p = and_then (deriveRawBytes sc p) (\<lambda>(aukBits, srpBits). Inr (aukBits, srpBits))"

section \<open>Through the worker\<close>

text \<open>Byte arrays cross \<open>postMessage\<close> as arrays of numbers.\<close>

definition array_from :: "bytes \<Rightarrow> int list" where
  "array_from bs = map uint bs"

definition uint8_of :: "int list \<Rightarrow> bytes" where
  "uint8_of ns = map word_of_int ns"

record worker_payload =
  wp_masterPassword :: string
  wp_secretKeyBytes :: "int list"
  wp_email :: string
  wp_accountId :: string
  wp_pbkdf2Salt :: "int list"
  wp_hkdfSalt :: "int list"
  wp_iterations :: nat

record worker_response =
  wr_type :: string
  wr_aukRaw :: "int list option"
  wr_srpX :: "int list option"
  wr_error :: "string option"

text \<open>The worker's \<open>onmessage\<close>: \<open>None\<close> when the message is of another type.\<close>

definition worker_onmessage ::
  "'key subtle \<Rightarrow> string \<Rightarrow> worker_payload \<Rightarrow> worker_response option" where
  "worker_onmessage sc ty payload =
     (if ty = ''deriveKeys'' then
        Some (case deriveKeysRaw sc
                \<lparr>masterPassword = wp_masterPassword payload,
                 secretKeyBytes = uint8_of (wp_secretKeyBytes payload),
                 dp_email = wp_email payload, accountId = wp_accountId payload,
                 pbkdf2Salt = uint8_of (wp_pbkdf2Salt payload),
                 hkdfSalt = uint8_of (wp_hkdfSalt payload),
                 iterations = Some (wp_iterations payload)\<rparr> of
            Inr (aukRaw, srpX) \<Rightarrow>
              \<lparr>wr_type = ''keysReady'', wr_aukRaw = Some (array_from aukRaw),
               wr_srpX = Some (array_from srpX), wr_error = None\<rparr>
          | Inl err \<Rightarrow>
              \<lparr>wr_type = ''error'', wr_aukRaw = None, wr_srpX = None, wr_error = Some err\<rparr>)
      else None)"

text \<open>The main thread's handler of the worker's answer.\<close>

definition main_onmessage :: "'key subtle \<Rightarrow> worker_response \<Rightarrow> ('key \<times> bytes) result" where
  "main_onmessage sc r =
     (case (wr_type r = ''keysReady'', wr_aukRaw r, wr_srpX r) of
        (True, Some aukRaw, Some srpX) \<Rightarrow>
          and_then (sc_import_aes sc (uint8_of aukRaw) False AUK_USAGES)
            (\<lambda>auk. Inr (auk, uint8_of srpX))
      | _ \<Rightarrow> Inl (or_default (wr_error r) ''Worker key derivation failed''))"

definition worker_request :: "derive_params \<Rightarrow> worker_payload" where
  "worker_request p =
     \<lparr>wp_masterPassword = masterPassword p, wp_secretKeyBytes = array_from (secretKeyBytes p),
      wp_email = dp_email p, wp_accountId = accountId p,
      wp_pbkdf2Salt = array_from (pbkdf2Salt p), wp_hkdfSalt = array_from (hkdfSalt p),
      wp_iterations = or_default (iterations p) DEFAULT_ITERATIONS\<rparr>"

text \<open>\<open>worker_error\<close> is the message of a worker that failed before it could answer
  (\<open>onerror\<close>).\<close>

definition deriveKeysInWorker ::
  "'key subtle \<Rightarrow> string option \<Rightarrow> derive_params \<Rightarrow> ('key \<times> bytes) result" where
  "deriveKeysInWorker sc worker_error p =
     (case worker_error of
        Some m \<Rightarrow> Inl (''Worker error: '' @ m)
      | None \<Rightarrow>
          (case worker_onmessage sc ''deriveKeys'' (worker_request p) of
             Some r \<Rightarrow> main_onmessage sc r
           | None \<Rightarrow> Inl ''no answer''))"

lemma uint8_array_from [codec_simps, simp]: "uint8_of (array_from bs) = bs"
  by (simp add: uint8_of_def array_from_def map_idI)

interpretation post_message: codec array_from "\<lambda>ns. Some (uint8_of ns)" "\<lambda>_. True"
  by unfold_locales simp

lemma length_xor32 [simp]: "length (xor32 p q) = 32"
  by (simp add: xor32_def)

lemma xor32_cancel:
  assumes "length p = 32" and "length q = 32"
  shows "xor32 (xor32 p q) q = p"
  using assms by (auto intro!: nth_equalityI simp: xor32_def byte_at_def xor.assoc)

lemma worker_derivation_eq: "deriveKeysInWorker sc None p = deriveKeys sc p"
proof -
  have "deriveRawBytes sc (p\<lparr>iterations := Some (or_default (iterations p) DEFAULT_ITERATIONS)\<rparr>)
      = deriveRawBytes sc p"
    by (simp add: deriveRawBytes_def or_default_def split: option.splits)
  moreover have "p\<lparr>iterations := Some n\<rparr> = \<lparr>masterPassword = masterPassword p,
      secretKeyBytes = secretKeyBytes p, dp_email = dp_email p, accountId = accountId p,
      pbkdf2Salt = pbkdf2Salt p, hkdfSalt = hkdfSalt p, iterations = Some n\<rparr>" for n
    by simp
  ultimately show ?thesis
    by (cases "deriveRawBytes sc p")
      (auto simp: deriveKeysInWorker_def worker_onmessage_def worker_request_def main_onmessage_def
        deriveKeys_def deriveKeysRaw_def or_default_def split: prod.splits)
qed

section \<open>Properties\<close>

text \<open>C8: Deriving in the worker is deriving on the main thread: for every Web Crypto
  implementation and all parameters, a worker that answers yields the same keys, and fails with
  the same error, as \<open>deriveKeys\<close> would.\<close>
theorem worker_derivation_equivalent:
  "deriveKeysInWorker sc None p = deriveKeys sc p"
  by (rule worker_derivation_eq)

text \<open>What a derivation depends on. The address is used in lower case, so spellings of one
  address derive the same keys as long as the account id is the same; the HKDF salt is not used
  at all.\<close>
theorem derivation_inputs:
  assumes "toLowerCase e1 = toLowerCase e2"
  shows "deriveKeys sc (p\<lparr>dp_email := e1, hkdfSalt := s1\<rparr>) = deriveKeys sc (p\<lparr>dp_email := e2, hkdfSalt := s2\<rparr>)"
  using assms by (simp add: deriveKeys_def deriveRawBytes_def)

theorem derivation_inputs_witness:
  "toLowerCase ''Bob@Example.com'' = toLowerCase ''bob@example.com'' \<and>
   (\<forall>sc :: unit subtle. \<forall>p. deriveKeys sc (p\<lparr>dp_email := ''Bob@Example.com'', hkdfSalt := []\<rparr>)
     = deriveKeys sc (p\<lparr>dp_email := ''bob@example.com'', hkdfSalt := [1]\<rparr>))"
proof -
  have h: "toLowerCase ''Bob@Example.com'' = toLowerCase ''bob@example.com''" by code_simp
  show ?thesis using h derivation_inputs [OF h] by blast
qed

text \<open>The account id, unlike the address, is hashed as it is spelled. The callers pass the
  address as the account id, so two spellings of one address that agree in lower case can derive
  different keys.\<close>
theorem account_id_case_sensitive:
  "toLowerCase ''Bob'' = toLowerCase ''bob'' \<and>
   (\<exists>(sc :: bytes subtle) p.
      deriveKeys sc (p\<lparr>dp_email := ''Bob'', accountId := ''Bob''\<rparr>)
    \<noteq> deriveKeys sc (p\<lparr>dp_email := ''bob'', accountId := ''bob''\<rparr>))"
proof (intro conjI exI)
  let ?sc = "\<lparr>sc_available = True, sc_digest = id, sc_hkdf = \<lambda>k s i. Inr (k @ s @ i),
      sc_pbkdf2 = \<lambda>_ _ _. Inr [], sc_import_aes = \<lambda>r _ _. Inr r, sc_encrypt = \<lambda>_ _ d. Inr d,
      sc_decrypt = \<lambda>_ _ d. Inr d, sc_wrap = \<lambda>_ k _ _. Inr k, sc_unwrap = \<lambda>_ b _ _ _ _. Inr b,
      sc_export_spki = Inr\<rparr> :: bytes subtle"
  let ?p = "\<lparr>masterPassword = [], secretKeyBytes = [], dp_email = [], accountId = [],
      pbkdf2Salt = [], hkdfSalt = [], iterations = None\<rparr> :: derive_params"
  show "toLowerCase ''Bob'' = toLowerCase ''bob''" by code_simp
  have "hd (xor32 [] (utf8_encode ''Bob'' @ utf8_encode ''auk'')) \<noteq>
      hd (xor32 [] (utf8_encode ''bob'' @ utf8_encode ''auk''))" by code_simp
  then show "deriveKeys ?sc (?p\<lparr>dp_email := ''Bob'', accountId := ''Bob''\<rparr>)
      \<noteq> deriveKeys ?sc (?p\<lparr>dp_email := ''bob'', accountId := ''bob''\<rparr>)"
    by (auto simp: deriveKeys_def deriveRawBytes_def Let_def)
qed

end
