(* ===== verification/KeyStore.thy ===== *)
theory KeyStore
  imports Prelude
begin

text \<open>
  The key store of \<^verbatim>\<open>lib/crypto/keyStore.ts\<close>: the session keys held in module variables, and the
  Secret Keys persisted in IndexedDB per lower-case address. The database is a map; every access
  may fail, so the operations on it take the failure of the browser, if any, as an argument.
\<close>

record 'key key_store =
  ks_auk :: "'key option"
  ks_vaultKey :: "'key option"
  ks_privateKey :: "'key option"
  ks_db :: "string \<rightharpoonup> 8 word list"

definition key_store_init :: "'key key_store" where
  "key_store_init = \<lparr>ks_auk = None, ks_vaultKey = None, ks_privateKey = None, ks_db = Map.empty\<rparr>"

section \<open>Session keys\<close>

definition setAUK :: "'key \<Rightarrow> 'key key_store \<Rightarrow> 'key key_store" where
  "setAUK k s = s\<lparr>ks_auk := Some k\<rparr>"

definition setVaultKey :: "'key \<Rightarrow> 'key key_store \<Rightarrow> 'key key_store" where
  "setVaultKey k s = s\<lparr>ks_vaultKey := Some k\<rparr>"

definition setPrivateKey :: "'key \<Rightarrow> 'key key_store \<Rightarrow> 'key key_store" where
  "setPrivateKey k s = s\<lparr>ks_privateKey := Some k\<rparr>"

definition getAUK :: "'key key_store \<Rightarrow> 'key option" where
  "getAUK s = ks_auk s"

definition getVaultKey :: "'key key_store \<Rightarrow> 'key option" where
  "getVaultKey s = ks_vaultKey s"

definition getPrivateKey :: "'key key_store \<Rightarrow> 'key option" where
  "getPrivateKey s = ks_privateKey s"

definition clearAll :: "'key key_store \<Rightarrow> 'key key_store" where
  "clearAll s = s\<lparr>ks_auk := None, ks_vaultKey := None, ks_privateKey := None\<rparr>"

section \<open>Persisted Secret Keys\<close>

definition storeSecretKey ::
  "string option \<Rightarrow> string \<Rightarrow> bytes \<Rightarrow> 'key key_store \<Rightarrow> 'key key_store result" where
  "storeSecretKey fault email k s =
     (case fault of
        Some e \<Rightarrow> Inl e
      | None \<Rightarrow> Inr (s\<lparr>ks_db := (ks_db s)(toLowerCase email \<mapsto> k)\<rparr>))"

definition getSecretKey :: "string option \<Rightarrow> string \<Rightarrow> 'key key_store \<Rightarrow> bytes option result" where
  "getSecretKey fault email s =
     (case fault of Some e \<Rightarrow> Inl e | None \<Rightarrow> Inr (ks_db s (toLowerCase email)))"

definition hasSecretKey :: "string option \<Rightarrow> string \<Rightarrow> 'key key_store \<Rightarrow> bool result" where
  "hasSecretKey fault email s = and_then (getSecretKey fault email s) (\<lambda>k. Inr (k \<noteq> None))"

definition deleteSecretKey ::
  "string option \<Rightarrow> string \<Rightarrow> 'key key_store \<Rightarrow> 'key key_store result" where
  "deleteSecretKey fault email s =
     (case fault of
        Some e \<Rightarrow> Inl e
      | None \<Rightarrow> Inr (s\<lparr>ks_db := (ks_db s)(toLowerCase email := None)\<rparr>))"

lemmas key_store_defs = key_store_init_def setAUK_def setVaultKey_def setPrivateKey_def getAUK_def
  getVaultKey_def getPrivateKey_def clearAll_def storeSecretKey_def getSecretKey_def
  hasSecretKey_def deleteSecretKey_def

section \<open>The interface to its clients\<close>

text \<open>
  What the login flow relies on: a dictionary keyed by addresses up to letter case, where
  writing affects one key only. Clients reason from these laws.
\<close>

locale secret_key_store =
  fixes store :: "string \<Rightarrow> bytes \<Rightarrow> 's \<Rightarrow> 's"
    and get :: "string \<Rightarrow> 's \<Rightarrow> bytes option"
    and delete :: "string \<Rightarrow> 's \<Rightarrow> 's"
  assumes get_store: "get e (store e' k s) = (if toLowerCase e = toLowerCase e' then Some k else get e s)"
    and get_delete: "get e (delete e' s) = (if toLowerCase e = toLowerCase e' then None else get e s)"
begin

lemma get_store_twice: "get e (store e k2 (store e k1 s)) = Some k2"
  by (simp add: get_store)

lemma delete_after_store: "get e (delete e (store e k s)) = None"
  by (simp add: get_delete)

lemma store_commute:
  assumes "toLowerCase e1 \<noteq> toLowerCase e2"
  shows "get e (store e1 k1 (store e2 k2 s)) = get e (store e2 k2 (store e1 k1 s))"
  using assms by (auto simp: get_store)

end

text \<open>The operations when the database works.\<close>

definition db_store :: "string \<Rightarrow> bytes \<Rightarrow> 'key key_store \<Rightarrow> 'key key_store" where
  "db_store e k s = s\<lparr>ks_db := (ks_db s)(toLowerCase e \<mapsto> k)\<rparr>"

definition db_delete :: "string \<Rightarrow> 'key key_store \<Rightarrow> 'key key_store" where
  "db_delete e s = s\<lparr>ks_db := (ks_db s)(toLowerCase e := None)\<rparr>"

definition db_get :: "string \<Rightarrow> 'key key_store \<Rightarrow> bytes option" where
  "db_get e s = ks_db s (toLowerCase e)"

lemma db_ops:
  "storeSecretKey None e k s = Inr (db_store e k s)"
  "deleteSecretKey None e s = Inr (db_delete e s)"
  "getSecretKey None e s = Inr (db_get e s)"
  by (simp_all add: key_store_defs db_store_def db_delete_def db_get_def)

interpretation device_keys: secret_key_store db_store db_get db_delete
  by unfold_locales (auto simp: db_store_def db_get_def db_delete_def)

section \<open>Properties\<close>

text \<open>A Secret Key stored on a device is found again under any spelling of the address, other
  addresses are unaffected, and deleting it removes it; each write leaves the session keys
  alone.\<close>
theorem secret_key_persistence:
  assumes "storeSecretKey None e k s = Inr s'" and "toLowerCase e1 = toLowerCase e"
    and "toLowerCase e2 \<noteq> toLowerCase e" and "deleteSecretKey None e s' = Inr s''"
  shows "getSecretKey None e1 s' = Inr (Some k) \<and> hasSecretKey None e1 s' = Inr True
    \<and> getSecretKey None e2 s' = getSecretKey None e2 s
    \<and> getSecretKey None e1 s'' = Inr None
    \<and> getAUK s' = getAUK s \<and> getVaultKey s'' = getVaultKey s \<and> getPrivateKey s'' = getPrivateKey s"
proof -
  have s': "s' = db_store e k s" and s'': "s'' = db_delete e s'"
    using assms(1,4) by (simp_all add: db_ops)
  show ?thesis
    using assms(2,3) device_keys.get_store [of e1 e k s] device_keys.get_store [of e2 e k s]
      device_keys.get_delete [of e1 e s']
    by (simp add: s' s'' db_ops hasSecretKey_def)
      (simp add: key_store_defs db_store_def db_delete_def)
qed

theorem secret_key_persistence_witness:
  "getSecretKey None ''BOB'' (db_store ''bob'' [7] (key_store_init :: unit key_store)) = Inr (Some [7])"
proof -
  have "toLowerCase ''BOB'' = toLowerCase ''bob''" and "toLowerCase ''eve'' \<noteq> toLowerCase ''bob''"
    by code_simp+
  from secret_key_persistence [OF db_ops(1) this db_ops(2), of "[7]" "key_store_init :: unit key_store"]
  show ?thesis by simp
qed

end
