(* ===== verification/DataEncryption.thy ===== *)
theory DataEncryption
  imports Keys
begin

text \<open>
  Client-side encryption of tenant data (\<^verbatim>\<open>lib/crypto/dataEncryption.ts\<close>) and the text diffs
  computed from encrypted configuration versions (\<^verbatim>\<open>lib/diffUtils.ts\<close>). AES-GCM is the
  parameter \<open>sc_encrypt\<close>/\<open>sc_decrypt\<close> of the Web Crypto record, the fresh nonce is an argument,
  and the line diff of the \<open>diff\<close> package is the parameter \<open>diffLines\<close>.
\<close>

section \<open>Encryption\<close>

definition NONCE_BYTES :: nat where
  "NONCE_BYTES = 12"

record encrypted_payload =
  ep_ciphertext :: bytes
  ep_nonce :: bytes

definition encryptForStorage ::
  "'key subtle \<Rightarrow> bytes \<Rightarrow> bytes \<Rightarrow> 'key \<Rightarrow> encrypted_payload result" where
  "encryptForStorage sc nonce data vaultKey =
     and_then (sc_encrypt sc vaultKey nonce data) (\<lambda>c. Inr \<lparr>ep_ciphertext = c, ep_nonce = nonce\<rparr>)"

definition decryptFromStorage :: "'key subtle \<Rightarrow> bytes \<Rightarrow> bytes \<Rightarrow> 'key \<Rightarrow> bytes result" where
  "decryptFromStorage sc ciphertext nonce vaultKey = sc_decrypt sc vaultKey nonce ciphertext"

definition packEncrypted :: "bytes \<Rightarrow> bytes \<Rightarrow> bytes" where
  "packEncrypted nonce ciphertext = nonce @ ciphertext"

definition unpackEncrypted :: "bytes \<Rightarrow> (bytes \<times> bytes) result" where
  "unpackEncrypted packed =
     (if length packed < NONCE_BYTES + 1
      then Inl (''Packed data too short: expected at least '' @ string_of_nat (NONCE_BYTES + 1)
                @ '' bytes, got '' @ string_of_nat (length packed))
      else Inr (slice 0 NONCE_BYTES packed, drop NONCE_BYTES packed))"

text \<open>\<open>base64ToUint8\<close> throws where \<open>atob\<close> does; decoded text that leaves the modelled range of
  characters is reported as an error of the model.\<close>

definition b64_or_throw :: "string \<Rightarrow> bytes result" where
  "b64_or_throw s = (case base64ToUint8 s of
      None \<Rightarrow> Inl ''InvalidCharacterError'' | Some bs \<Rightarrow> Inr bs)"

definition decode_text :: "bytes \<Rightarrow> string result" where
  "decode_text bs = (case utf8_decode bs of None \<Rightarrow> Inl ''text outside the model'' | Some s \<Rightarrow> Inr s)"

definition encryptBinary :: "'key subtle \<Rightarrow> bytes \<Rightarrow> bytes \<Rightarrow> 'key \<Rightarrow> string result" where
  "encryptBinary sc nonce data vaultKey =
     and_then (encryptForStorage sc nonce data vaultKey) (\<lambda>p.
       Inr (uint8ToBase64 (packEncrypted (ep_nonce p) (ep_ciphertext p))))"

definition encryptText :: "'key subtle \<Rightarrow> bytes \<Rightarrow> string \<Rightarrow> 'key \<Rightarrow> string result" where
  "encryptText sc nonce text vaultKey =
     and_then (encryptForStorage sc nonce (utf8_encode text) vaultKey) (\<lambda>p.
       Inr (uint8ToBase64 (packEncrypted (ep_nonce p) (ep_ciphertext p))))"

definition decryptBinary :: "'key subtle \<Rightarrow> string \<Rightarrow> 'key \<Rightarrow> bytes result" where
  "decryptBinary sc base64Encrypted vaultKey =
     and_then (b64_or_throw base64Encrypted) (\<lambda>packed.
     and_then (unpackEncrypted packed) (\<lambda>(nonce, ciphertext).
       decryptFromStorage sc ciphertext nonce vaultKey))"

definition decryptText :: "'key subtle \<Rightarrow> string \<Rightarrow> 'key \<Rightarrow> string result" where
  "decryptText sc base64Encrypted vaultKey =
     and_then (b64_or_throw base64Encrypted) (\<lambda>packed.
     and_then (unpackEncrypted packed) (\<lambda>(nonce, ciphertext).
     and_then (decryptFromStorage sc ciphertext nonce vaultKey) decode_text))"

text \<open>AES-GCM as documented: decryption inverts encryption under the same key and nonce, and the
  ciphertext is longer than the plaintext by the 16-byte tag.\<close>

definition aead_documented :: "'key subtle \<Rightarrow> bool" where
  "aead_documented sc \<longleftrightarrow>
     (\<forall>k n d c. sc_encrypt sc k n d = Inr c \<longrightarrow>
        sc_decrypt sc k n c = Inr d \<and> length c = length d + 16)"

text \<open>A stand-in that satisfies the documented behaviour: the tag is sixteen zero bytes.\<close>

definition stub_subtle :: "unit subtle" where
  "stub_subtle = \<lparr>sc_available = True, sc_digest = id, sc_hkdf = \<lambda>k s i. Inr k,
     sc_pbkdf2 = \<lambda>_ _ _. Inr [], sc_import_aes = \<lambda>_ _ _. Inr (),
     sc_encrypt = \<lambda>_ _ d. Inr (d @ replicate 16 0),
     sc_decrypt = \<lambda>_ _ d. Inr (take (length d - 16) d), sc_wrap = \<lambda>_ _ _ _. Inr [],
     sc_unwrap = \<lambda>_ _ _ _ _ _. Inr (), sc_export_spki = \<lambda>_. Inr []\<rparr>"

lemma stub_subtle_aead: "aead_documented stub_subtle"
  by (auto simp: aead_documented_def stub_subtle_def)

lemma unpack_pack:
  "length nonce = 12 \<Longrightarrow> c \<noteq> [] \<Longrightarrow> unpackEncrypted (packEncrypted nonce c) = Inr (nonce, c)"
  by (cases c) (auto simp: unpackEncrypted_def packEncrypted_def NONCE_BYTES_def slice_def)

interpretation packed: codec "\<lambda>(n, c). packEncrypted n c" "\<lambda>p. to_option (unpackEncrypted p)"
    "\<lambda>(n, c). length n = 12 \<and> c \<noteq> []"
  by unfold_locales (auto simp: unpack_pack)

interpretation wire: codec_pair "\<lambda>(n, c). packEncrypted n c" "\<lambda>p. to_option (unpackEncrypted p)"
    "\<lambda>(n, c). length n = 12 \<and> c \<noteq> []" uint8ToBase64 base64ToUint8 "\<lambda>_. True"
  by unfold_locales simp

lemma b64_or_throw_enc [simp]: "b64_or_throw (uint8ToBase64 bs) = Inr bs"
  by (simp add: b64_or_throw_def codec_simps)

lemma decode_text_enc [simp]: "decode_text (utf8_encode s) = Inr s"
  by (simp add: decode_text_def codec_simps)

lemma decryptBinary_encryptBinary:
  assumes "aead_documented sc" and "length nonce = 12"
    and "encryptBinary sc nonce data k = Inr s"
  shows "decryptBinary sc s k = Inr data"
proof -
  obtain c where c: "sc_encrypt sc k nonce data = Inr c" and s: "s = uint8ToBase64 (packEncrypted nonce c)"
    using assms(3) by (auto simp: encryptBinary_def encryptForStorage_def and_then_Inr_iff)
  have "sc_decrypt sc k nonce c = Inr data" and "length c = length data + 16"
    using assms(1) c by (auto simp: aead_documented_def)
  moreover from this(2) have "c \<noteq> []" by auto
  ultimately show ?thesis
    using unpack_pack [OF assms(2)] by (simp add: decryptBinary_def decryptFromStorage_def s)
qed

lemma encryptText_binary: "encryptText sc nonce t k = encryptBinary sc nonce (utf8_encode t) k"
  by (simp add: encryptText_def encryptBinary_def)

lemma decryptText_binary: "decryptText sc s k = and_then (decryptBinary sc s k) decode_text"
proof (cases "b64_or_throw s")
  case (Inr packed)
  then show ?thesis
    by (cases "unpackEncrypted packed") (auto simp: decryptText_def decryptBinary_def split: prod.splits)
qed (simp add: decryptText_def decryptBinary_def)

section \<open>Diffs of encrypted versions\<close>

record diff_result =
  df_value :: string
  df_added :: bool
  df_removed :: bool
  df_count :: "nat option"

definition computeConfigDiff ::
  "(string \<Rightarrow> string \<Rightarrow> diff_result list) \<Rightarrow> string \<Rightarrow> string \<Rightarrow> diff_result list" where
  "computeConfigDiff diffLines oldText newText = diffLines oldText newText"

definition decryptByTier :: "'key subtle \<Rightarrow> string \<Rightarrow> int option \<Rightarrow> 'key \<Rightarrow> string result" where
  "decryptByTier sc text tier vaultKey = (if tier = Some 1 then decryptText sc text vaultKey else Inr text)"

definition computeEncryptedConfigDiff ::
  "'key subtle \<Rightarrow> (string \<Rightarrow> string \<Rightarrow> diff_result list)
     \<Rightarrow> string \<Rightarrow> int option \<Rightarrow> string \<Rightarrow> int option \<Rightarrow> 'key \<Rightarrow> diff_result list result" where
  "computeEncryptedConfigDiff sc diffLines oldEncrypted oldTier newEncrypted newTier vaultKey =
     and_then (decryptByTier sc oldEncrypted oldTier vaultKey) (\<lambda>oldText.
     and_then (decryptByTier sc newEncrypted newTier vaultKey) (\<lambda>newText.
       Inr (computeConfigDiff diffLines oldText newText)))"

definition decryptForDiff ::
  "'key subtle \<Rightarrow> string \<Rightarrow> int option \<Rightarrow> string \<Rightarrow> int option \<Rightarrow> 'key \<Rightarrow> (string \<times> string) result" where
  "decryptForDiff sc oldEncrypted oldTier newEncrypted newTier vaultKey =
     and_then (decryptByTier sc oldEncrypted oldTier vaultKey) (\<lambda>oldText.
     and_then (decryptByTier sc newEncrypted newTier vaultKey) (\<lambda>newText.
       Inr (oldText, newText)))"

definition diff_lines :: "diff_result \<Rightarrow> nat" where
  "diff_lines d = (case df_count d of Some n \<Rightarrow> n
     | None \<Rightarrow> length (filter (\<lambda>l. l \<noteq> []) (split_on (CHR 0x0A) (df_value d))))"

fun line_counts_from :: "diff_result list \<Rightarrow> nat \<Rightarrow> nat \<Rightarrow> nat \<times> nat" where
  "line_counts_from [] added removed = (added, removed)"
| "line_counts_from (d # ds) added removed =
     (if df_added d then line_counts_from ds (added + diff_lines d) removed
      else if df_removed d then line_counts_from ds added (removed + diff_lines d)
      else line_counts_from ds added removed)"

definition computeLineCounts :: "diff_result list \<Rightarrow> nat \<times> nat" where
  "computeLineCounts diffs = line_counts_from diffs 0 0"

lemma line_counts_from_sum:
  "line_counts_from ds a r =
     (a + sum_list (map diff_lines (filter df_added ds)),
      r + sum_list (map diff_lines (filter (\<lambda>d. df_removed d \<and> \<not> df_added d) ds)))"
  by (induction ds arbitrary: a r) auto

section \<open>Properties\<close>

text \<open>C9: What a client encrypts it can decrypt: with AES-GCM as documented and a twelve-byte
  nonce, decrypting the transport text gives back the data, for binary data and for text, and
  distinct plaintexts never share a transport text under one key.\<close>
theorem encryption_roundtrip:
  assumes "aead_documented sc" and "length nonce = 12" and "length nonce' = 12"
    and "encryptText sc nonce t k = Inr s" and "encryptBinary sc nonce' data k = Inr s'"
  shows "decryptText sc s k = Inr t \<and> decryptBinary sc s' k = Inr data
    \<and> (s = s' \<longrightarrow> data = utf8_encode t)"
proof -
  have b: "decryptBinary sc s k = Inr (utf8_encode t)" and d: "decryptBinary sc s' k = Inr data"
    using assms by (auto intro: decryptBinary_encryptBinary simp: encryptText_binary)
  then show ?thesis by (auto simp: decryptText_binary)
qed

theorem encryption_roundtrip_witness:
  "\<exists>sc :: unit subtle. aead_documented sc
    \<and> encryptText sc (replicate 12 1) ''hi'' () = Inr (uint8ToBase64 (replicate 12 1 @ utf8_encode ''hi'' @ replicate 16 0))
    \<and> decryptText sc (uint8ToBase64 (replicate 12 1 @ utf8_encode ''hi'' @ replicate 16 0)) () = Inr ''hi''"
proof -
  note a = stub_subtle_aead
  have e: "encryptText stub_subtle (replicate 12 1) ''hi'' () = Inr (uint8ToBase64 (replicate 12 1 @ utf8_encode ''hi'' @ replicate 16 0))"
    and e': "encryptBinary stub_subtle (replicate 12 1) [] () = Inr (uint8ToBase64 (replicate 12 1 @ replicate 16 0))"
    by (simp_all add: encryptText_def encryptBinary_def encryptForStorage_def packEncrypted_def stub_subtle_def)
  show ?thesis
    using encryption_roundtrip [OF a _ _ e e'] a e by (intro exI [of _ stub_subtle]) simp
qed

text \<open>Packed data shorter than a nonce and one byte is refused, and nothing else is: unpacking
  splits every longer array at byte twelve, and packing the parts restores it.\<close>
theorem unpack_spec:
  "unpackEncrypted p =
     (if length p < 13
      then Inl (''Packed data too short: expected at least 13 bytes, got '' @ string_of_nat (length p))
      else Inr (take 12 p, drop 12 p))
   \<and> (\<forall>n c. unpackEncrypted p = Inr (n, c) \<longrightarrow> packEncrypted n c = p)"
proof -
  have "string_of_nat (12 + 1) = ''13''" by code_simp
  then show ?thesis
    by (auto simp: unpackEncrypted_def packEncrypted_def NONCE_BYTES_def slice_def split: if_splits)
qed

theorem unpack_spec_witness:
  "unpackEncrypted (replicate 13 5) = Inr (replicate 12 5, [5]) \<and> packEncrypted (replicate 12 5) [5] = replicate 13 5"
proof -
  have "unpackEncrypted (replicate 13 5) = Inr (replicate 12 5, [5])"
    using unpack_spec [of "replicate 13 5"] by simp
  then show ?thesis using unpack_spec [of "replicate 13 5"] by blast
qed

text \<open>A diff across encryption tiers is the diff of the plaintexts: whichever of the two
  versions is stored client-side encrypted (tier 1), the result is what \<open>diffLines\<close> gives for
  the two configuration texts.\<close>
theorem encrypted_diff_is_plain_diff:
  assumes "aead_documented sc" and "length n1 = 12" and "length n2 = 12"
    and "oldTier = Some 1 \<and> encryptText sc n1 old k = Inr oldE \<or> oldTier \<noteq> Some 1 \<and> oldE = old"
    and "newTier = Some 1 \<and> encryptText sc n2 new k = Inr newE \<or> newTier \<noteq> Some 1 \<and> newE = new"
  shows "computeEncryptedConfigDiff sc diffLines oldE oldTier newE newTier k
     = Inr (computeConfigDiff diffLines old new)
   \<and> decryptForDiff sc oldE oldTier newE newTier k = Inr (old, new)"
proof -
  have "decryptByTier sc oldE oldTier k = Inr old" and "decryptByTier sc newE newTier k = Inr new"
    using assms decryptBinary_encryptBinary [OF assms(1)]
    by (auto simp: decryptByTier_def decryptText_binary encryptText_binary)
  then show ?thesis by (simp add: computeEncryptedConfigDiff_def decryptForDiff_def)
qed

theorem encrypted_diff_is_plain_diff_witness:
  "\<exists>sc :: unit subtle. computeEncryptedConfigDiff sc (\<lambda>_ _. []) ''a'' None
      (uint8ToBase64 (replicate 12 1 @ utf8_encode ''hi'' @ replicate 16 0)) (Some 1) ()
    = Inr (computeConfigDiff (\<lambda>_ _. []) ''a'' ''hi'')"
proof -
  note a = stub_subtle_aead
  have e: "encryptText stub_subtle (replicate 12 1) ''hi'' () = Inr (uint8ToBase64 (replicate 12 1 @ utf8_encode ''hi'' @ replicate 16 0))"
    by (simp add: encryptText_def encryptForStorage_def packEncrypted_def stub_subtle_def)
  show ?thesis
    using encrypted_diff_is_plain_diff [OF a, of "replicate 12 1" "replicate 12 1" None "''a''" "()" "''a''" "Some 1" "''hi''"] e
    by (intro exI [of _ stub_subtle]) simp
qed

text \<open>The line counts of a diff are the numbers of lines of its added and of its removed
  chunks; unchanged chunks count for neither, and the counts of a concatenation add up.\<close>
theorem line_counts_sum:
  "computeLineCounts ds =
     (sum_list (map diff_lines (filter df_added ds)),
      sum_list (map diff_lines (filter (\<lambda>d. df_removed d \<and> \<not> df_added d) ds)))
   \<and> computeLineCounts (ds @ es) =
     (fst (computeLineCounts ds) + fst (computeLineCounts es),
      snd (computeLineCounts ds) + snd (computeLineCounts es))"
  by (simp add: computeLineCounts_def line_counts_from_sum)

end
