(* ===== verification/Errors.thy ===== *)
theory Errors
  imports Prelude
begin

text \<open>
  Thrown values and the messages shown for them (\<^verbatim>\<open>lib/errors.ts\<close>). A thrown value is an
  \<open>AxiosError\<close> with an optional response, another \<open>Error\<close>, or anything else.
\<close>

record axios_response =
  rs_status :: int
  rs_detail :: "json option"

datatype thrown =
    AxiosError "axios_response option" string
  | JsError string
  | OtherThrown

definition response_of :: "thrown \<Rightarrow> axios_response option" where
  "response_of e = (case e of AxiosError r m \<Rightarrow> r | _ \<Rightarrow> None)"

definition status_of :: "thrown \<Rightarrow> int option" where
  "status_of e = map_option rs_status (response_of e)"

definition detail_of :: "thrown \<Rightarrow> json option" where
  "detail_of e = Option.bind (response_of e) rs_detail"

definition FALLBACK :: string where
  "FALLBACK = ''Something went wrong''"

text \<open>The switch on the status in \<open>getErrorMessage\<close>; the arm for 409 prefers the detail it got,
  which is not a string there.\<close>

definition status_message :: "int option \<Rightarrow> json option \<Rightarrow> string \<Rightarrow> json" where
  "status_message status detail fallback =
     (if status = Some 400 then JStr ''Invalid request. Please check your input.''
      else if status = Some 401 then JStr ''Your session has expired. Please sign in again.''
      else if status = Some 403 then JStr ''You do not have permission for this action.''
      else if status = Some 404 then JStr ''The requested resource was not found.''
      else if status = Some 409 then
        (case detail of
           Some d \<Rightarrow> if truthy d then d else JStr ''This action conflicts with the current state.''
         | None \<Rightarrow> JStr ''This action conflicts with the current state.'')
      else if status = Some 422 then JStr ''Please check your input and try again.''
      else if status = Some 429 then JStr ''Too many requests. Please wait a moment and try again.''
      else if status = Some 500 then JStr ''Something went wrong on our end. Please try again.''
      else if status = Some 502 \<or> status = Some 503
        then JStr ''The service is temporarily unavailable. Please try again later.''
      else JStr fallback)"

definition getErrorMessage :: "thrown \<Rightarrow> string \<Rightarrow> json" where
  "getErrorMessage error fallback =
     (case error of
        AxiosError r m \<Rightarrow>
          (case detail_of error of
             Some (JStr s) \<Rightarrow> JStr s
           | d \<Rightarrow> status_message (status_of error) d fallback)
      | JsError m \<Rightarrow>
          if startsWith m ''Request failed with status code'' then JStr fallback else JStr m
      | OtherThrown \<Rightarrow> JStr fallback)"

definition getAuthErrorMessage :: "thrown \<Rightarrow> string" where
  "getAuthErrorMessage error =
     (case error of
        AxiosError r m \<Rightarrow>
          (case detail_of error of
             Some (JStr s) \<Rightarrow> s
           | _ \<Rightarrow>
               if status_of error = Some 400 then ''Sign in failed. Please check your credentials.''
               else if status_of error = Some 401 then ''Invalid email or password.''
               else if status_of error = Some 500 then ''Something went wrong during sign in. Please try again.''
               else ''Sign in failed. Please try again.'')
      | JsError m \<Rightarrow> m
      | OtherThrown \<Rightarrow> ''Sign in failed. Please try again.'')"

fun is_text :: "json \<Rightarrow> bool" where
  "is_text (JStr s) = True"
| "is_text _ = False"

section \<open>Properties\<close>

text \<open>\<open>getErrorMessage\<close> gives a text for every error but one: a response with status 409 whose
  detail is a truthy value that is not a string is handed through as it is, against the declared
  return type.\<close>
theorem error_message_is_text:
  "is_text (getErrorMessage e fallback) \<longleftrightarrow>
     \<not> (status_of e = Some 409 \<and> (\<exists>d. detail_of e = Some d \<and> truthy d \<and> \<not> is_text d))"
proof (cases e)
  case (AxiosError r m)
  have "is_text (status_message st d f) \<longleftrightarrow> \<not> (st = Some 409 \<and> (\<exists>x. d = Some x \<and> truthy x \<and> \<not> is_text x))"
    for st d f
    by (cases d) (auto simp: status_message_def)
  with AxiosError show ?thesis
    by (auto simp: getErrorMessage_def split: option.splits json.splits)
qed (auto simp: getErrorMessage_def status_of_def response_of_def)

end
