(* ===== verification/ApiClient.thy ===== *)
theory ApiClient
  imports Errors
begin

text \<open>
  The HTTP client of \<^verbatim>\<open>lib/api.ts\<close>: the response interceptor that answers a 401 by refreshing the
  session once for all requests that failed meanwhile, and retries each of them once. The
  requests in flight, the module variable \<open>refreshPromise\<close> and the answers of the server, in any
  order, form an event machine.
\<close>

section \<open>State\<close>

text \<open>A request is on the wire, waits for the refresh, or has settled.\<close>

datatype phase = Sent | AwaitRefresh | Resolved | Rejected

record request =
  rq_url :: string
  rq_retry :: bool
  rq_phase :: phase
  rq_sends :: nat

record client =
  cl_refreshing :: bool
  cl_refreshes :: nat
  cl_requests :: "nat \<rightharpoonup> request"

definition client_init :: client where
  "client_init = \<lparr>cl_refreshing = False, cl_refreshes = 0, cl_requests = Map.empty\<rparr>"

datatype client_event =
    Issue nat string
  | Success nat
  | Failure nat "int option"
  | RefreshSucceeds
  | RefreshFails

section \<open>The interceptor\<close>

definition is_auth_url :: "string \<Rightarrow> bool" where
  "is_auth_url url \<longleftrightarrow> str_includes url ''/auth/refresh'' \<or> str_includes url ''/auth/login''"

definition set_request :: "nat \<Rightarrow> request \<Rightarrow> client \<Rightarrow> client" where
  "set_request i r c = c\<lparr>cl_requests := (cl_requests c)(i \<mapsto> r)\<rparr>"

text \<open>The error branch for one request. The refresh call is posted only when none is pending.\<close>

definition on_error :: "nat \<Rightarrow> request \<Rightarrow> int option \<Rightarrow> client \<Rightarrow> client" where
  "on_error i r status c =
     (if status = Some 401 \<and> \<not> rq_retry r then
        (if is_auth_url (rq_url r)
         then set_request i (r\<lparr>rq_retry := True, rq_phase := Rejected\<rparr>) c
         else
           let c' = (if cl_refreshing c then c
                     else c\<lparr>cl_refreshing := True, cl_refreshes := cl_refreshes c + 1\<rparr>)
           in set_request i (r\<lparr>rq_retry := True, rq_phase := AwaitRefresh\<rparr>) c')
      else set_request i (r\<lparr>rq_phase := Rejected\<rparr>) c)"

text \<open>When the refresh settles, \<open>refreshPromise\<close> is cleared and every request that awaited it is
  sent again or rejected.\<close>

definition resume :: "bool \<Rightarrow> request \<Rightarrow> request" where
  "resume ok r =
     (if rq_phase r = AwaitRefresh
      then (if ok then r\<lparr>rq_phase := Sent, rq_sends := rq_sends r + 1\<rparr> else r\<lparr>rq_phase := Rejected\<rparr>)
      else r)"

definition settle_refresh :: "bool \<Rightarrow> client \<Rightarrow> client" where
  "settle_refresh ok c =
     (if cl_refreshing c
      then c\<lparr>cl_refreshing := False, cl_refreshes := cl_refreshes c - 1,
             cl_requests := map_option (resume ok) \<circ> cl_requests c\<rparr>
      else c)"

fun client_step :: "client_event \<Rightarrow> client \<Rightarrow> client" where
  "client_step (Issue i url) c =
     (if cl_requests c i = None
      then set_request i \<lparr>rq_url = url, rq_retry = False, rq_phase = Sent, rq_sends = 1\<rparr> c
      else c)"
| "client_step (Success i) c =
     (case cl_requests c i of
        Some r \<Rightarrow> if rq_phase r = Sent then set_request i (r\<lparr>rq_phase := Resolved\<rparr>) c else c
      | None \<Rightarrow> c)"
| "client_step (Failure i status) c =
     (case cl_requests c i of
        Some r \<Rightarrow> if rq_phase r = Sent then on_error i r status c else c
      | None \<Rightarrow> c)"
| "client_step RefreshSucceeds c = settle_refresh True c"
| "client_step RefreshFails c = settle_refresh False c"

section \<open>Invariant\<close>

definition request_wf :: "bool \<Rightarrow> request \<Rightarrow> bool" where
  "request_wf refreshing r \<longleftrightarrow>
     (rq_phase r = AwaitRefresh \<longrightarrow> refreshing \<and> rq_retry r \<and> rq_sends r = 1 \<and> \<not> is_auth_url (rq_url r))
     \<and> rq_sends r \<le> (if rq_retry r \<and> \<not> is_auth_url (rq_url r) then 2 else 1)
     \<and> 1 \<le> rq_sends r"

definition client_inv :: "client \<Rightarrow> bool" where
  "client_inv c \<longleftrightarrow> cl_refreshes c = (if cl_refreshing c then 1 else 0)
     \<and> (\<forall>i r. cl_requests c i = Some r \<longrightarrow> request_wf (cl_refreshing c) r)"

lemma request_wf_refreshing: "request_wf b r \<Longrightarrow> request_wf True r"
  by (simp add: request_wf_def)

lemma request_wf_resume: "request_wf b r \<Longrightarrow> request_wf False (resume ok r)"
  by (auto simp: request_wf_def resume_def split: if_splits)

lemma client_inv_init: "client_inv client_init"
  by (simp add: client_inv_def client_init_def)

lemma settle_inv: "client_inv c \<Longrightarrow> client_inv (settle_refresh ok c)"
  by (auto simp: client_inv_def settle_refresh_def intro: request_wf_resume)

lemma set_request_inv:
  "client_inv c \<Longrightarrow> request_wf (cl_refreshing c) r \<Longrightarrow> client_inv (set_request i r c)"
  by (simp add: client_inv_def set_request_def)

lemma start_refresh_inv:
  "client_inv c \<Longrightarrow> \<not> cl_refreshing c \<Longrightarrow>
   client_inv (c\<lparr>cl_refreshing := True, cl_refreshes := cl_refreshes c + 1\<rparr>)"
  by (auto simp: client_inv_def intro: request_wf_refreshing)

lemma on_error_inv:
  assumes "client_inv c" and "cl_requests c i = Some r" and "rq_phase r = Sent"
  shows "client_inv (on_error i r status c)"
proof -
  have wf: "request_wf (cl_refreshing c) r" using assms by (simp add: client_inv_def)
  have rej: "request_wf b (r\<lparr>rq_phase := Rejected\<rparr>)" for b
    using wf by (simp add: request_wf_def)
  have rej': "request_wf b (r\<lparr>rq_retry := True, rq_phase := Rejected\<rparr>)" if "\<not> rq_retry r" for b
    using wf that by (simp add: request_wf_def)
  have wait: "request_wf True (r\<lparr>rq_retry := True, rq_phase := AwaitRefresh\<rparr>)"
    if "\<not> rq_retry r" "\<not> is_auth_url (rq_url r)"
    using wf that by (simp add: request_wf_def)
  show ?thesis
    unfolding on_error_def Let_def
    using assms(1) rej rej' wait start_refresh_inv [OF assms(1)]
    by (auto intro!: set_request_inv)
qed

lemma client_step_inv: "client_inv c \<Longrightarrow> client_inv (client_step e c)"
proof (induction e c rule: client_step.induct)
  case (1 i url c)
  then show ?case by (auto intro!: set_request_inv simp: request_wf_def)
next
  case (2 i c)
  have "request_wf (cl_refreshing c) (r\<lparr>rq_phase := Resolved\<rparr>)" if "cl_requests c i = Some r" for r
    using 2 that by (auto simp: client_inv_def request_wf_def)
  with 2 show ?case by (auto intro!: set_request_inv split: option.splits)
next
  case (3 i status c)
  then show ?case by (auto intro: on_error_inv split: option.splits)
qed (auto intro: settle_inv)

interpretation http: event_machine client_step client_inv
  by unfold_locales (rule client_step_inv)

lemma client_inv_reachable: "client_inv (fold client_step es client_init)"
  by (rule http.run_inv [OF client_inv_init])

section \<open>Properties\<close>

text \<open>C7: However answers and failures interleave, at most one refresh call is in flight, and
  exactly when \<open>refreshPromise\<close> is set; every request that waits does so for that refresh.\<close>
theorem single_refresh:
  assumes "c = fold client_step es client_init"
  shows "cl_refreshes c = (if cl_refreshing c then 1 else 0)
    \<and> (\<forall>i r. cl_requests c i = Some r \<and> rq_phase r = AwaitRefresh \<longrightarrow> cl_refreshing c)"
  using client_inv_reachable [of es] unfolding assms by (auto simp: client_inv_def request_wf_def)

theorem single_refresh_witness:
  "let c = fold client_step [Issue 0 ''/api/a'', Issue 1 ''/api/b'', Failure 0 (Some 401), Failure 1 (Some 401)] client_init
   in cl_refreshing c \<and> cl_refreshes c = 1"
  using single_refresh [OF refl, of "[Issue 0 ''/api/a'', Issue 1 ''/api/b'', Failure 0 (Some 401), Failure 1 (Some 401)]"]
  by (simp add: client_init_def set_request_def on_error_def is_auth_url_def startsWith_def Let_def)

text \<open>The interceptor cannot loop: a request is sent at most twice, a login or refresh request
  at most once, and a second 401 is reported to the caller.\<close>
theorem bounded_retries:
  assumes "cl_requests (fold client_step es client_init) i = Some r"
  shows "rq_sends r \<le> 2 \<and> (is_auth_url (rq_url r) \<longrightarrow> rq_sends r = 1)
    \<and> (rq_sends r = 2 \<longrightarrow> rq_phase (the (cl_requests (on_error i r (Some 401) c) i)) = Rejected)"
proof -
  have wf: "\<exists>b. request_wf b r" using client_inv_reachable [of es] assms by (auto simp: client_inv_def)
  then have "rq_sends r = 2 \<longrightarrow> rq_retry r" by (auto simp: request_wf_def split: if_splits)
  with wf show ?thesis by (auto simp: request_wf_def on_error_def set_request_def split: if_splits)
qed

theorem bounded_retries_witness:
  "\<exists>r. cl_requests (fold client_step
      [Issue 0 ''/api/a'', Failure 0 (Some 401), RefreshSucceeds, Failure 0 (Some 401)] client_init) 0 = Some r
    \<and> rq_sends r = 2 \<and> rq_sends r \<le> 2 \<and> rq_phase r = Rejected"
proof -
  let ?es = "[Issue 0 ''/api/a'', Failure 0 (Some 401), RefreshSucceeds, Failure 0 (Some 401)]"
  have e: "cl_requests (fold client_step ?es client_init) 0 =
      Some \<lparr>rq_url = ''/api/a'', rq_retry = True, rq_phase = Rejected, rq_sends = 2\<rparr>"
    by (simp add: client_init_def set_request_def on_error_def is_auth_url_def startsWith_def
        settle_refresh_def resume_def Let_def)
  from bounded_retries [OF e] e show ?thesis by simp
qed

text \<open>C28: When the refresh settles nobody is left waiting: every waiting request is sent again after
  a success and rejected after a failure, all others are untouched, and a later 401 may start a
  new refresh.\<close>
theorem refresh_releases_waiters:
  assumes "client_inv c" and "cl_refreshing c" and "cl_requests c i = Some r"
  shows "\<not> cl_refreshing (settle_refresh ok c)
    \<and> cl_requests (settle_refresh ok c) i =
       Some (if rq_phase r = AwaitRefresh
             then (if ok then r\<lparr>rq_phase := Sent, rq_sends := 2\<rparr> else r\<lparr>rq_phase := Rejected\<rparr>)
             else r)
    \<and> client_inv (settle_refresh ok c)"
proof -
  have "request_wf True r" using assms by (simp add: client_inv_def)
  then show ?thesis
    using assms settle_inv [OF assms(1), of ok]
    by (auto simp: settle_refresh_def resume_def request_wf_def numeral_2_eq_2)
qed

theorem refresh_releases_waiters_witness:
  "let c = fold client_step [Issue 0 ''/api/a'', Failure 0 (Some 401)] client_init
   in client_inv c \<and> cl_refreshing c \<and> \<not> cl_refreshing (settle_refresh True c)"
proof -
  let ?c = "fold client_step [Issue 0 ''/api/a'', Failure 0 (Some 401)] client_init"
  have a: "client_inv ?c" by (rule client_inv_reachable)
  have b: "cl_refreshing ?c" "cl_requests ?c 0 =
      Some \<lparr>rq_url = ''/api/a'', rq_retry = True, rq_phase = AwaitRefresh, rq_sends = 1\<rparr>"
    by (simp_all add: client_init_def set_request_def on_error_def is_auth_url_def startsWith_def Let_def)
  from refresh_releases_waiters [OF a b, of True] a b show ?thesis by (simp add: Let_def)
qed

end
