(* ===== verification/Actions.thy ===== *)
theory Actions
  imports Prelude
begin

text \<open>
  Sequential asynchronous handlers. A handler reads and writes a state and either returns or
  throws; the state it has written when it throws stays written, as with \<open>set\<close> calls and module
  variables in front of a \<open>throw\<close>. The triples at the end state what holds after a return and
  what holds after a throw.
\<close>

type_synonym ('s, 'e, 'a) action = "'s \<Rightarrow> 's \<times> ('e + 'a)"

definition act_return :: "'a \<Rightarrow> ('s, 'e, 'a) action" where
  "act_return x = (\<lambda>s. (s, Inr x))"

definition act_throw :: "'e \<Rightarrow> ('s, 'e, 'a) action" where
  "act_throw e = (\<lambda>s. (s, Inl e))"

text \<open>A call that yields a result without touching the state.\<close>

definition act_call :: "'e + 'a \<Rightarrow> ('s, 'e, 'a) action" where
  "act_call r = (\<lambda>s. (s, r))"

definition act_read :: "('s \<Rightarrow> 'e + 'a) \<Rightarrow> ('s, 'e, 'a) action" where
  "act_read f = (\<lambda>s. (s, f s))"

definition act_update :: "('s \<Rightarrow> 's) \<Rightarrow> ('s, 'e, unit) action" where
  "act_update f = (\<lambda>s. (f s, Inr ()))"

text \<open>An update that may fail, leaving the state alone then.\<close>

definition act_try_update :: "('s \<Rightarrow> 'e + 's) \<Rightarrow> ('s, 'e, unit) action" where
  "act_try_update f = (\<lambda>s. case f s of Inl e \<Rightarrow> (s, Inl e) | Inr s' \<Rightarrow> (s', Inr ()))"

definition act_bind :: "('s, 'e, 'a) action \<Rightarrow> ('a \<Rightarrow> ('s, 'e, 'b) action) \<Rightarrow> ('s, 'e, 'b) action" where
  "act_bind m f = (\<lambda>s. case m s of (s', Inl e) \<Rightarrow> (s', Inl e) | (s', Inr x) \<Rightarrow> f x s')"

definition act_catch :: "('s, 'e, 'a) action \<Rightarrow> ('e \<Rightarrow> ('s, 'f, 'a) action) \<Rightarrow> ('s, 'f, 'a) action" where
  "act_catch m h = (\<lambda>s. case m s of (s', Inl e) \<Rightarrow> h e s' | (s', Inr x) \<Rightarrow> (s', Inr x))"

lemmas act_defs = act_return_def act_throw_def act_call_def act_read_def act_update_def
  act_try_update_def act_bind_def act_catch_def

text \<open>Running a chain of calls that succeed.\<close>

lemma act_run [simp]:
  "act_bind (act_return x) f = f x"
  "act_bind (act_throw e) f = act_throw e"
  "act_bind (act_call (Inr x)) f = f x"
  "act_bind (act_call (Inl e)) f = act_throw e"
  "act_bind (act_update g) k s = k () (g s)"
  "act_catch (act_return x) h = act_return x"
  "act_catch (act_throw e) h = h e"
  "act_return x s = (s, Inr x)"
  "act_throw e s = (s, Inl e)"
  "act_call r s = (s, r)"
  "act_update g s = (g s, Inr ())"
  by (simp_all add: act_defs)

section \<open>Triples\<close>

definition triple ::
  "('s \<Rightarrow> bool) \<Rightarrow> ('s, 'e, 'a) action \<Rightarrow> ('a \<Rightarrow> 's \<Rightarrow> bool) \<Rightarrow> ('e \<Rightarrow> 's \<Rightarrow> bool) \<Rightarrow> bool" where
  "triple P m Q E \<longleftrightarrow>
     (\<forall>s. P s \<longrightarrow> (case m s of (s', Inr x) \<Rightarrow> Q x s' | (s', Inl e) \<Rightarrow> E e s'))"

named_theorems triple_rules \<open>one rule per constructor of actions\<close>

lemma triple_returnI [triple_rules]: "(\<And>s. P s \<Longrightarrow> Q x s) \<Longrightarrow> triple P (act_return x) Q E"
  by (simp add: triple_def)

lemma triple_throwI [triple_rules]: "(\<And>s. P s \<Longrightarrow> E e s) \<Longrightarrow> triple P (act_throw e) Q E"
  by (simp add: triple_def)

lemma triple_updateI [triple_rules]: "(\<And>s. P s \<Longrightarrow> Q () (f s)) \<Longrightarrow> triple P (act_update f) Q E"
  by (simp add: triple_def)

lemma triple_bind_callI [triple_rules]:
  "(\<And>x. r = Inr x \<Longrightarrow> triple P (f x) Q E) \<Longrightarrow> (\<And>e s. r = Inl e \<Longrightarrow> P s \<Longrightarrow> E e s) \<Longrightarrow>
   triple P (act_bind (act_call r) f) Q E"
  by (cases r) (auto simp: triple_def)

text \<open>Updates push their strongest postcondition forward.\<close>

lemma triple_bind_updateI [triple_rules]:
  "triple (\<lambda>s. \<exists>t. P t \<and> s = g t) (f ()) Q E \<Longrightarrow> triple P (act_bind (act_update g) f) Q E"
  by (auto simp: triple_def)

lemma triple_bind_readI [triple_rules]:
  "(\<And>x. triple (\<lambda>s. P s \<and> g s = Inr x) (f x) Q E) \<Longrightarrow> (\<And>e s. g s = Inl e \<Longrightarrow> P s \<Longrightarrow> E e s) \<Longrightarrow>
   triple P (act_bind (act_read g) f) Q E"
  by (auto simp: triple_def act_bind_def act_read_def split: sum.split)

lemma triple_bind_try_updateI [triple_rules]:
  "triple (\<lambda>s. \<exists>t. P t \<and> g t = Inr s) (f ()) Q E \<Longrightarrow> (\<And>e s. g s = Inl e \<Longrightarrow> P s \<Longrightarrow> E e s) \<Longrightarrow>
   triple P (act_bind (act_try_update g) f) Q E"
  by (fastforce simp: triple_def act_bind_def act_try_update_def split: sum.splits)

lemma triple_bindI:
  "triple P m R E \<Longrightarrow> (\<And>x. triple (R x) (f x) Q E) \<Longrightarrow> triple P (act_bind m f) Q E"
  unfolding triple_def act_bind_def by (fastforce split: prod.splits sum.splits)

lemma triple_catchI:
  "triple P m Q R \<Longrightarrow> (\<And>e. triple (R e) (h e) Q E) \<Longrightarrow> triple P (act_catch m h) Q E"
  unfolding triple_def act_catch_def by (fastforce split: prod.splits sum.splits)

lemma triple_ifI [triple_rules]:
  "(b \<Longrightarrow> triple P m Q E) \<Longrightarrow> (\<not> b \<Longrightarrow> triple P n Q E) \<Longrightarrow> triple P (if b then m else n) Q E"
  by simp

lemma triple_optionI [triple_rules]:
  "(x = None \<Longrightarrow> triple P m Q E) \<Longrightarrow> (\<And>y. x = Some y \<Longrightarrow> triple P (n y) Q E) \<Longrightarrow>
   triple P (case x of None \<Rightarrow> m | Some y \<Rightarrow> n y) Q E"
  by (cases x) auto

lemma triple_prodI [triple_rules]:
  "(\<And>a b. x = (a, b) \<Longrightarrow> triple P (f a b) Q E) \<Longrightarrow> triple P (case x of (a, b) \<Rightarrow> f a b) Q E"
  by (cases x) auto

lemma triple_weaken:
  "triple P m Q E \<Longrightarrow> (\<And>s. P' s \<Longrightarrow> P s) \<Longrightarrow> (\<And>x s. Q x s \<Longrightarrow> Q' x s)
   \<Longrightarrow> (\<And>e s. E e s \<Longrightarrow> E' e s) \<Longrightarrow> triple P' m Q' E'"
  unfolding triple_def by (fastforce split: prod.splits sum.splits)

lemma triple_run:
  "triple P m Q E \<Longrightarrow> P s \<Longrightarrow> m s = (s', Inr x) \<Longrightarrow> Q x s'"
  "triple P m Q E \<Longrightarrow> P s \<Longrightarrow> m s = (s', Inl e) \<Longrightarrow> E e s'"
  by (fastforce simp: triple_def)+

lemma triple_fst:
  "triple P m (\<lambda>_. Q) (\<lambda>_. Q) \<Longrightarrow> P s \<Longrightarrow> Q (fst (m s))"
  by (cases "m s"; cases "snd (m s)") (auto simp: triple_def)

end
