(* ===== verification/Registration.thy ===== *)
theory Registration
  imports SecretKey Srp Keys DataEncryption
begin

text \<open>
  Client-side registration (\<^verbatim>\<open>lib/crypto/registration.ts\<close>): the Secret Key, the SRP verifier and
  the key bundle a new account sends to the server. The randomness and the generated keys are an
  argument; what wrapping and unwrapping a key promise is stated at the end.
\<close>

definition assertWebCryptoAvailable :: "'key subtle \<Rightarrow> unit result" where
  "assertWebCryptoAvailable sc =
     (if sc_available sc then Inr ()
      else Inl (''Your browser requires a secure connection (HTTPS) for encryption features. '' @
                ''Please access this application via HTTPS or localhost.''))"

record key_bundle =
  encrypted_private_key :: string
  private_key_nonce :: string
  encrypted_vault_key :: string
  vault_key_nonce :: string
  public_key :: string
  pbkdf2_salt :: string
  hkdf_salt :: string

record registration_result =
  rg_secretKey :: string
  rg_secretKeyRaw :: bytes
  rg_srp_salt :: string
  rg_srp_verifier :: string
  rg_keyBundle :: key_bundle

text \<open>The answers of \<open>getRandomValues\<close> and \<open>generateKey\<close>, in the order of the calls.\<close>

record 'key reg_source =
  rnd_secretKey :: bytes
  rnd_pbkdf2Salt :: bytes
  rnd_hkdfSalt :: bytes
  rnd_srpSalt :: bytes
  gen_rsa :: "('key \<times> 'key) result"
  rnd_privateKeyNonce :: bytes
  gen_vaultKey :: "'key result"
  rnd_vaultKeyNonce :: bytes

definition toBase64 :: "bytes \<Rightarrow> string" where
  "toBase64 buf = btoa (map (\<lambda>b. char_of (unat b)) buf)"

text \<open>The local \<open>toHex\<close>, on bytes.\<close>

definition reg_toHex :: "bytes \<Rightarrow> string" where
  "reg_toHex bs = concat (map (\<lambda>b. padStart 2 (CHR ''0'') (int_to_radix 16 (uint b))) bs)"

definition registration_params :: "'key reg_source \<Rightarrow> string \<Rightarrow> string \<Rightarrow> derive_params" where
  "registration_params src email password =
     \<lparr>masterPassword = password, secretKeyBytes = snd (generateSecretKey (rnd_secretKey src)),
      dp_email = email, accountId = email, pbkdf2Salt = rnd_pbkdf2Salt src,
      hkdfSalt = rnd_hkdfSalt src, iterations = None\<rparr>"

definition performRegistration ::
  "'key subtle \<Rightarrow> srp_group \<Rightarrow> string option \<Rightarrow> 'key reg_source \<Rightarrow> string \<Rightarrow> string
   \<Rightarrow> registration_result result" where
  "performRegistration sc grp worker_error src email password =
     and_then (assertWebCryptoAvailable sc) (\<lambda>_.
     and_then (deriveKeysInWorker sc worker_error (registration_params src email password)) (\<lambda>(auk, srpX).
     and_then (computeVerifier grp (reg_toHex srpX)) (\<lambda>verifierHex.
     and_then (gen_rsa src) (\<lambda>(publicKey, privateKey).
     and_then (sc_export_spki sc publicKey) (\<lambda>publicKeyBuffer.
     and_then (sc_wrap sc ''pkcs8'' privateKey auk (rnd_privateKeyNonce src)) (\<lambda>wrappedPrivateKey.
     and_then (gen_vaultKey src) (\<lambda>vaultKey.
     and_then (sc_wrap sc ''raw'' vaultKey auk (rnd_vaultKeyNonce src)) (\<lambda>wrappedVaultKey.
     Inr \<lparr>rg_secretKey = fst (generateSecretKey (rnd_secretKey src)),
          rg_secretKeyRaw = snd (generateSecretKey (rnd_secretKey src)),
          rg_srp_salt = reg_toHex (rnd_srpSalt src), rg_srp_verifier = verifierHex,
          rg_keyBundle =
            \<lparr>encrypted_private_key = toBase64 wrappedPrivateKey,
             private_key_nonce = toBase64 (rnd_privateKeyNonce src),
             encrypted_vault_key = toBase64 wrappedVaultKey,
             vault_key_nonce = toBase64 (rnd_vaultKeyNonce src),
             public_key = toBase64 publicKeyBuffer,
             pbkdf2_salt = toBase64 (rnd_pbkdf2Salt src),
             hkdf_salt = toBase64 (rnd_hkdfSalt src)\<rparr>\<rparr>))))))))"

section \<open>The encodings agree with those of the login\<close>

lemma toBase64_eq: "toBase64 = uint8ToBase64"
  by (simp add: fun_eq_iff toBase64_def uint8ToBase64_def)

lemma toBase64_decodes [codec_simps, simp]: "b64_or_throw (toBase64 bs) = Inr bs"
  by (simp add: toBase64_eq b64_or_throw_enc)

lemma reg_toHex_eq: "reg_toHex bs = bytesToHex bs"
  by (induction bs) (simp_all add: reg_toHex_def byte_hex_def int_to_radix_def linorder_not_less)

text \<open>AES-GCM key wrapping as documented: unwrapping with the same key, nonce and format recovers
  an equivalent key, as the import with the requested extractability and usages.\<close>

definition wrap_documented :: "'key subtle \<Rightarrow> (bool \<Rightarrow> string list \<Rightarrow> 'key \<Rightarrow> 'key) \<Rightarrow> bool" where
  "wrap_documented sc restrict \<longleftrightarrow>
     (\<forall>fmt key auk iv blob ext us. sc_wrap sc fmt key auk iv = Inr blob \<longrightarrow>
        sc_unwrap sc fmt blob auk iv ext us = Inr (restrict ext us key))"

lemma performRegistration_Inr:
  assumes "performRegistration sc grp we src email pw = Inr reg"
  obtains auk srpX publicKey privateKey vaultKey wpriv wvault where
    "sc_available sc"
    "deriveKeysInWorker sc we (registration_params src email pw) = Inr (auk, srpX)"
    "computeVerifier grp (bytesToHex srpX) = Inr (rg_srp_verifier reg)"
    "gen_rsa src = Inr (publicKey, privateKey)" "gen_vaultKey src = Inr vaultKey"
    "sc_wrap sc ''pkcs8'' privateKey auk (rnd_privateKeyNonce src) = Inr wpriv"
    "sc_wrap sc ''raw'' vaultKey auk (rnd_vaultKeyNonce src) = Inr wvault"
    "rg_secretKey reg = formatSecretKey (rnd_secretKey src)"
    "rg_secretKeyRaw reg = rnd_secretKey src"
    "pbkdf2_salt (rg_keyBundle reg) = toBase64 (rnd_pbkdf2Salt src)"
    "hkdf_salt (rg_keyBundle reg) = toBase64 (rnd_hkdfSalt src)"
    "encrypted_private_key (rg_keyBundle reg) = toBase64 wpriv"
    "private_key_nonce (rg_keyBundle reg) = toBase64 (rnd_privateKeyNonce src)"
    "encrypted_vault_key (rg_keyBundle reg) = toBase64 wvault"
    "vault_key_nonce (rg_keyBundle reg) = toBase64 (rnd_vaultKeyNonce src)"
  using assms
  by (auto simp: performRegistration_def and_then_Inr_iff assertWebCryptoAvailable_def
      generateSecretKey_def reg_toHex_eq split: if_splits)

end
