(* ===== verification/Auth.thy ===== *)
theory Auth
  imports Actions Registration KeyStore Errors
begin

text \<open>
  The authentication store of \<^verbatim>\<open>lib/auth.ts\<close>: password login, SRP login with the Secret Key, the
  upgrade of legacy accounts, logout, and the role helpers. A handler is an action on the pair of
  the store and the key store; the answers of the server and of the browser during one handler
  are its environment.
\<close>

section \<open>State\<close>

record user_me =
  um_id :: string
  um_email :: string
  um_name :: string
  um_role :: string
  um_tenant_id :: "string option"
  um_auth_version :: int

record auth_state =
  au_user :: "user_me option"
  isAuthenticated :: bool
  isLoading :: bool
  au_error :: "string option"
  needsSecretKey :: bool
  isDerivingKeys :: bool
  isUpgrading :: bool
  pendingUpgradeEmail :: "string option"
  pendingUpgradePassword :: "string option"

definition auth_init :: auth_state where
  "auth_init = \<lparr>au_user = None, isAuthenticated = False, isLoading = True, au_error = None,
     needsSecretKey = False, isDerivingKeys = False, isUpgrading = False,
     pendingUpgradeEmail = None, pendingUpgradePassword = None\<rparr>"

record srp_init_response =
  si_salt :: string
  si_server_public :: string
  si_session_id :: string
  si_pbkdf2_salt :: string
  si_hkdf_salt :: string

record srp_verify_params =
  sv_email :: string
  sv_session_id :: string
  sv_client_public :: string
  sv_client_proof :: string

record srp_verify_response =
  sr_server_proof :: string
  sr_encrypted_key_set :: "key_bundle option"

text \<open>Everything outside the store that one handler observes.\<close>

record 'key auth_env =
  ae_sc :: "'key subtle"
  ae_group :: srp_group
  ae_worker_error :: "string option"
  ae_get_fault :: "string option"
  ae_put_fault :: "string option"
  ae_rnd :: bytes
  ae_login :: "string \<Rightarrow> string \<Rightarrow> thrown + bool"
  ae_me :: "thrown + user_me"
  ae_srpInit :: "string \<Rightarrow> thrown + srp_init_response"
  ae_srpVerify :: "srp_verify_params \<Rightarrow> thrown + srp_verify_response"
  ae_logout :: "thrown + unit"

record 'key session =
  se_auth :: auth_state
  se_keys :: "'key key_store"

type_synonym ('key, 'a) handler = "('key session, thrown, 'a) action"

definition set_auth :: "(auth_state \<Rightarrow> auth_state) \<Rightarrow> ('key, unit) handler" where
  "set_auth f = act_update (\<lambda>s. s\<lparr>se_auth := f (se_auth s)\<rparr>)"

definition set_keys :: "('key key_store \<Rightarrow> 'key key_store) \<Rightarrow> ('key, unit) handler" where
  "set_keys f = act_update (\<lambda>s. s\<lparr>se_keys := f (se_keys s)\<rparr>)"

text \<open>An exception raised by the browser or by the client's own code is an \<open>Error\<close>.\<close>

fun js :: "'a result \<Rightarrow> thrown + 'a" where
  "js (Inl m) = Inl (JsError m)"
| "js (Inr x) = Inr x"

lemma js_Inr_iff [simp]: "js r = Inr x \<longleftrightarrow> r = Inr x"
  by (cases r) auto

definition truthy_str :: "string option \<Rightarrow> bool" where
  "truthy_str s \<longleftrightarrow> (case s of None \<Rightarrow> False | Some t \<Rightarrow> t \<noteq> [])"

section \<open>SRP login\<close>

definition srp_params :: "string \<Rightarrow> string \<Rightarrow> bytes \<Rightarrow> bytes \<Rightarrow> bytes \<Rightarrow> derive_params" where
  "srp_params email password secretKey salt1 salt2 =
     \<lparr>masterPassword = password, secretKeyBytes = secretKey, dp_email = email, accountId = email,
      pbkdf2Salt = salt1, hkdfSalt = salt2, iterations = None\<rparr>"

text \<open>Step 8: the key set is unwrapped with the account unlock key; a failure is logged only.\<close>

definition unlock_keys :: "'key auth_env \<Rightarrow> 'key \<Rightarrow> key_bundle \<Rightarrow> ('key, unit) handler" where
  "unlock_keys env auk ks =
     act_catch
       (act_bind (act_call (js (b64_or_throw (encrypted_vault_key ks)))) (\<lambda>wvault.
        act_bind (act_call (js (b64_or_throw (vault_key_nonce ks)))) (\<lambda>nvault.
        act_bind (act_call (js (sc_unwrap (ae_sc env) ''raw'' wvault auk nvault False [''encrypt'', ''decrypt''])))
          (\<lambda>vaultKey.
        act_bind (set_keys (setVaultKey vaultKey)) (\<lambda>_.
        act_bind (act_call (js (b64_or_throw (encrypted_private_key ks)))) (\<lambda>wpriv.
        act_bind (act_call (js (b64_or_throw (private_key_nonce ks)))) (\<lambda>npriv.
        act_bind (act_call (js (sc_unwrap (ae_sc env) ''pkcs8'' wpriv auk npriv False [''decrypt''])))
          (\<lambda>privateKey. set_keys (setPrivateKey privateKey)))))))))
       (\<lambda>_. act_return ())"

text \<open>Steps 2 to 7, once the Secret Key is known: both sides prove themselves. The result is the
  unlock key and the server's key set.\<close>

definition srp_authenticate ::
  "'key auth_env \<Rightarrow> string \<Rightarrow> string \<Rightarrow> bytes \<Rightarrow> ('key, 'key \<times> key_bundle option) handler" where
  "srp_authenticate env email password secretKey =
     act_bind (act_call (ae_srpInit env email)) (\<lambda>init.
     act_bind (act_call (js (b64_or_throw (si_pbkdf2_salt init)))) (\<lambda>salt1.
     act_bind (act_call (js (b64_or_throw (si_hkdf_salt init)))) (\<lambda>salt2.
     act_bind (act_call (js (deriveKeysInWorker (ae_sc env) (ae_worker_error env)
                               (srp_params email password secretKey salt1 salt2)))) (\<lambda>(auk, srpX).
     act_bind (set_auth (\<lambda>a. a\<lparr>isDerivingKeys := False\<rparr>)) (\<lambda>_.
     act_bind (act_call (js (new_SRPClient (ae_group env) email (ae_rnd env)))) (\<lambda>client.
     act_bind (act_call (js (computeSession (sc_digest (ae_sc env)) client srpX
                               (si_salt init) (si_server_public init)))) (\<lambda>(client, clientProof, _).
     act_bind (act_call (ae_srpVerify env
                 \<lparr>sv_email = email, sv_session_id = si_session_id init,
                  sv_client_public = getPublicEphemeral client, sv_client_proof = clientProof\<rparr>))
       (\<lambda>result.
     act_bind (act_call (js (verifyServerProof (sc_digest (ae_sc env)) client (sr_server_proof result))))
       (\<lambda>serverValid.
     if \<not> serverValid then act_throw (JsError ''Server authentication failed'')
     else act_return (auk, sr_encrypted_key_set result))))))))))"

text \<open>Steps 8 to 10: the keys are kept, the Secret Key is stored, the profile is fetched.\<close>

definition srp_finish ::
  "'key auth_env \<Rightarrow> string \<Rightarrow> bytes \<Rightarrow> 'key \<Rightarrow> key_bundle option \<Rightarrow> ('key, unit) handler" where
  "srp_finish env email secretKey auk key_set =
     act_bind (set_keys (setAUK auk)) (\<lambda>_.
     act_bind (case key_set of None \<Rightarrow> act_return () | Some ks \<Rightarrow> unlock_keys env auk ks) (\<lambda>_.
     act_bind (act_try_update (\<lambda>s. js (and_then (storeSecretKey (ae_put_fault env) email secretKey (se_keys s))
                                            (\<lambda>k. Inr (s\<lparr>se_keys := k\<rparr>))))) (\<lambda>_.
     act_bind (act_call (ae_me env)) (\<lambda>user.
     set_auth (\<lambda>a. a\<lparr>au_user := Some user, isAuthenticated := True, isLoading := False,
                     needsSecretKey := False\<rparr>)))))"

definition srp_handshake ::
  "'key auth_env \<Rightarrow> string \<Rightarrow> string \<Rightarrow> bytes \<Rightarrow> ('key, unit) handler" where
  "srp_handshake env email password secretKey =
     act_bind (srp_authenticate env email password secretKey) (\<lambda>(auk, key_set).
       srp_finish env email secretKey auk key_set)"

text \<open>The body of the \<open>try\<close>: the stored key wins over the entered one.\<close>

definition srp_try ::
  "'key auth_env \<Rightarrow> string \<Rightarrow> string \<Rightarrow> string option \<Rightarrow> ('key, unit) handler" where
  "srp_try env email password secretKeyInput =
     act_bind (act_call (js (assertWebCryptoAvailable (ae_sc env)))) (\<lambda>_.
     act_bind (act_read (\<lambda>s. js (getSecretKey (ae_get_fault env) email (se_keys s)))) (\<lambda>stored.
     case stored of
       Some k \<Rightarrow> srp_handshake env email password k
     | None \<Rightarrow>
         if truthy_str secretKeyInput then
           (case parseSecretKey (the secretKeyInput) of
              None \<Rightarrow> set_auth (\<lambda>a. a\<lparr>au_error := Some ''Invalid Secret Key format'', isLoading := False,
                                      isDerivingKeys := False\<rparr>)
            | Some k \<Rightarrow> srp_handshake env email password k)
         else set_auth (\<lambda>a. a\<lparr>needsSecretKey := True, isLoading := False, isDerivingKeys := False\<rparr>)))"

text \<open>\<open>detail.includes(...)\<close> on the detail of the response, absent and null counting as the empty
  string: strings and arrays have the method, on other values the call itself throws
  (\<open>None\<close>).\<close>

fun detail_includes :: "json option \<Rightarrow> string \<Rightarrow> bool option" where
  "detail_includes None p = Some (str_includes [] p)"
| "detail_includes (Some JNull) p = Some (str_includes [] p)"
| "detail_includes (Some (JStr s)) p = Some (str_includes s p)"
| "detail_includes (Some (JArr xs)) p = Some (JStr p \<in> set xs)"
| "detail_includes (Some _) p = None"

definition OUTDATED_KEY :: string where
  "OUTDATED_KEY = ''This device has an outdated Secret Key. Please enter your current Secret Key from your Emergency Kit.''"

definition srp_fail ::
  "string option \<Rightarrow> thrown \<Rightarrow> ('key, unit) handler" where
  "srp_fail secretKeyInput err =
     act_bind (set_keys clearAll) (\<lambda>_.
     if status_of err = Some 401 then
       (if \<not> truthy_str secretKeyInput then
          set_auth (\<lambda>a. a\<lparr>needsSecretKey := True, isLoading := False, isDerivingKeys := False,
                          au_error := Some OUTDATED_KEY\<rparr>)
        else
          act_bind (set_auth (\<lambda>a. a\<lparr>isLoading := False, isDerivingKeys := False, au_error :=
            Some ''Sign in failed. Check your password and Secret Key. If you lost your Secret Key, use \"Forgot password?\" to reset your account and get a new one.''\<rparr>))
            (\<lambda>_. act_throw err))
     else
       (case detail_includes (detail_of err) ''initialization failed'' of
          None \<Rightarrow> act_throw (JsError ''detail.includes is not a function'')
        | Some b \<Rightarrow>
            act_bind (set_auth (\<lambda>a. a\<lparr>isLoading := False, isDerivingKeys := False, au_error :=
              Some (if b then ''Authentication setup failed. Please try again or reset your password.''
                    else getAuthErrorMessage err)\<rparr>))
              (\<lambda>_. act_throw err)))"

definition srpLogin ::
  "'key auth_env \<Rightarrow> string \<Rightarrow> string \<Rightarrow> string option \<Rightarrow> ('key, unit) handler" where
  "srpLogin env email password secretKeyInput =
     act_bind (set_auth (\<lambda>a. a\<lparr>isLoading := True, isDerivingKeys := True, au_error := None\<rparr>)) (\<lambda>_.
     act_catch (srp_try env email password secretKeyInput) (srp_fail secretKeyInput))"

section \<open>The other handlers\<close>

definition set_user :: "user_me \<Rightarrow> auth_state \<Rightarrow> auth_state" where
  "set_user u a = a\<lparr>au_user := Some u, isAuthenticated := True, isLoading := False, au_error := None\<rparr>"

definition login :: "'key auth_env \<Rightarrow> string \<Rightarrow> string \<Rightarrow> ('key, unit) handler" where
  "login env email password =
     act_bind (set_auth (\<lambda>a. a\<lparr>isLoading := True, au_error := None\<rparr>)) (\<lambda>_.
     act_catch
       (act_bind (act_call (ae_login env email password)) (\<lambda>auth_upgrade_required.
        if auth_upgrade_required \<and> sc_available (ae_sc env) then
          set_auth (\<lambda>a. a\<lparr>isLoading := False, isUpgrading := True, pendingUpgradeEmail := Some email,
                          pendingUpgradePassword := Some password\<rparr>)
        else act_bind (act_call (ae_me env)) (\<lambda>user. set_auth (set_user user))))
       (\<lambda>err.
        if status_of err = Some 409 \<and> detail_of err = Some (JStr ''srp_required'')
        then srpLogin env email password None
        else
          act_bind (set_auth (\<lambda>a. a\<lparr>isLoading := False, isAuthenticated := False, au_user := None,
                                    au_error := Some (getAuthErrorMessage err)\<rparr>)) (\<lambda>_.
          act_throw (JsError (getAuthErrorMessage err)))))"

definition completeUpgrade :: "'key auth_env \<Rightarrow> ('key, unit) handler" where
  "completeUpgrade env =
     act_bind (set_auth (\<lambda>a. a\<lparr>isUpgrading := False, pendingUpgradeEmail := None,
                               pendingUpgradePassword := None\<rparr>)) (\<lambda>_.
     act_catch
       (act_bind (act_call (ae_me env)) (\<lambda>user. set_auth (set_user user)))
       (\<lambda>err.
        act_bind (set_auth (\<lambda>a. a\<lparr>isLoading := False, au_error := Some (getAuthErrorMessage err)\<rparr>))
          (\<lambda>_. act_throw err)))"

definition cancelUpgrade :: "('key, unit) handler" where
  "cancelUpgrade = set_auth (\<lambda>a. a\<lparr>isUpgrading := False, pendingUpgradeEmail := None,
     pendingUpgradePassword := None, isLoading := False\<rparr>)"

definition logout :: "'key auth_env \<Rightarrow> ('key, unit) handler" where
  "logout env =
     act_bind (set_keys clearAll) (\<lambda>_.
     act_bind (set_auth (\<lambda>a. a\<lparr>isLoading := True\<rparr>)) (\<lambda>_.
     act_bind (act_catch (act_call (ae_logout env)) (\<lambda>_. act_return ())) (\<lambda>_.
     set_auth (\<lambda>a. a\<lparr>au_user := None, isAuthenticated := False, isLoading := False, au_error := None,
                     needsSecretKey := False, isDerivingKeys := False, isUpgrading := False,
                     pendingUpgradeEmail := None, pendingUpgradePassword := None\<rparr>))))"

definition checkAuth :: "'key auth_env \<Rightarrow> ('key, unit) handler" where
  "checkAuth env =
     act_bind (set_auth (\<lambda>a. a\<lparr>isLoading := True\<rparr>)) (\<lambda>_.
     act_catch
       (act_bind (act_call (ae_me env)) (\<lambda>user. set_auth (set_user user)))
       (\<lambda>_. set_auth (\<lambda>a. a\<lparr>au_user := None, isAuthenticated := False, isLoading := False,
                            au_error := None\<rparr>)))"

definition clearError :: "('key, unit) handler" where
  "clearError = set_auth (\<lambda>a. a\<lparr>au_error := None\<rparr>)"

definition clearNeedsSecretKey :: "('key, unit) handler" where
  "clearNeedsSecretKey = set_auth (\<lambda>a. a\<lparr>needsSecretKey := False\<rparr>)"

section \<open>Roles\<close>

definition isSuperAdmin :: "user_me option \<Rightarrow> bool" where
  "isSuperAdmin user \<longleftrightarrow> map_option um_role user = Some ''super_admin''"

definition isTenantAdmin :: "user_me option \<Rightarrow> bool" where
  "isTenantAdmin user \<longleftrightarrow>
     map_option um_role user = Some ''tenant_admin'' \<or> map_option um_role user = Some ''super_admin''"

definition isOperator :: "user_me option \<Rightarrow> bool" where
  "isOperator user \<longleftrightarrow>
     map_option um_role user = Some ''operator'' \<or> map_option um_role user = Some ''tenant_admin''
     \<or> map_option um_role user = Some ''super_admin''"

definition canWrite :: "user_me option \<Rightarrow> bool" where
  "canWrite user = isOperator user"

definition canDelete :: "user_me option \<Rightarrow> bool" where
  "canDelete user = isTenantAdmin user"

text \<open>The specification of the helpers: a linear order of privilege levels.\<close>

datatype level = No_privilege | Operator_level | Tenant_admin_level | Super_admin_level

primrec level_rank :: "level \<Rightarrow> nat" where
  "level_rank No_privilege = 0"
| "level_rank Operator_level = 1"
| "level_rank Tenant_admin_level = 2"
| "level_rank Super_admin_level = 3"

instantiation level :: linorder
begin

definition less_eq_level :: "level \<Rightarrow> level \<Rightarrow> bool" where
  "less_eq_level a b \<longleftrightarrow> level_rank a \<le> level_rank b"

definition less_level :: "level \<Rightarrow> level \<Rightarrow> bool" where
  "less_level a b \<longleftrightarrow> level_rank a < level_rank b"

instance
proof
  fix a b :: level
  show "a \<le> b \<Longrightarrow> b \<le> a \<Longrightarrow> a = b"
    by (cases a; cases b) (simp_all add: less_eq_level_def)
qed (auto simp: less_eq_level_def less_level_def)

end

definition level_of :: "user_me option \<Rightarrow> level" where
  "level_of user = (case user of
      None \<Rightarrow> No_privilege
    | Some u \<Rightarrow>
        if um_role u = ''super_admin'' then Super_admin_level
        else if um_role u = ''tenant_admin'' then Tenant_admin_level
        else if um_role u = ''operator'' then Operator_level
        else No_privilege)"

section \<open>The store as a machine\<close>

datatype 'key auth_event =
    Login "'key auth_env" string string
  | SrpLogin "'key auth_env" string string "string option"
  | CompleteUpgrade "'key auth_env"
  | CancelUpgrade
  | Logout "'key auth_env"
  | CheckAuth "'key auth_env"
  | ClearError
  | ClearNeedsSecretKey

fun auth_handler :: "'key auth_event \<Rightarrow> ('key, unit) handler" where
  "auth_handler (Login env e p) = login env e p"
| "auth_handler (SrpLogin env e p k) = srpLogin env e p k"
| "auth_handler (CompleteUpgrade env) = completeUpgrade env"
| "auth_handler CancelUpgrade = cancelUpgrade"
| "auth_handler (Logout env) = logout env"
| "auth_handler (CheckAuth env) = checkAuth env"
| "auth_handler ClearError = clearError"
| "auth_handler ClearNeedsSecretKey = clearNeedsSecretKey"

definition auth_step :: "'key auth_event \<Rightarrow> 'key session \<Rightarrow> 'key session" where
  "auth_step e s = fst (auth_handler e s)"

definition session_init :: "'key session" where
  "session_init = \<lparr>se_auth = auth_init, se_keys = key_store_init\<rparr>"

text \<open>A user is present exactly while authenticated; the password of an upgrade is held exactly
  while the upgrade is pending; unwrapped keys are held only together with the unlock key.\<close>

definition auth_inv :: "'key session \<Rightarrow> bool" where
  "auth_inv s \<longleftrightarrow>
     (isAuthenticated (se_auth s) \<longleftrightarrow> au_user (se_auth s) \<noteq> None)
   \<and> (isUpgrading (se_auth s) \<longleftrightarrow> pendingUpgradeEmail (se_auth s) \<noteq> None)
   \<and> (isUpgrading (se_auth s) \<longleftrightarrow> pendingUpgradePassword (se_auth s) \<noteq> None)
   \<and> (getVaultKey (se_keys s) \<noteq> None \<or> getPrivateKey (se_keys s) \<noteq> None \<longrightarrow> getAUK (se_keys s) \<noteq> None)"

lemmas handler_defs = set_auth_def set_keys_def set_user_def

lemma unlock_keys_triple:
  assumes "\<And>v s. P s \<Longrightarrow> P (s\<lparr>se_keys := setVaultKey v (se_keys s)\<rparr>)"
    and "\<And>v s. P s \<Longrightarrow> P (s\<lparr>se_keys := setPrivateKey v (se_keys s)\<rparr>)"
  shows "triple P (unlock_keys env auk ks) (\<lambda>_. P) E"
  unfolding unlock_keys_def set_keys_def
  by (rule triple_catchI [where R = "\<lambda>_. P"]; intro triple_rules) (blast intro: assms)+

text \<open>What it means that both sides have proved themselves with the keys derived from \<open>k\<close>.\<close>

definition srp_proved ::
  "'key auth_env \<Rightarrow> string \<Rightarrow> string \<Rightarrow> bytes \<Rightarrow> 'key \<Rightarrow> key_bundle option \<Rightarrow> bool" where
  "srp_proved env email pw k auk key_set \<longleftrightarrow>
     (\<exists>init salt1 salt2 srpX client client' proof K result.
        ae_srpInit env email = Inr init
      \<and> base64ToUint8 (si_pbkdf2_salt init) = Some salt1 \<and> base64ToUint8 (si_hkdf_salt init) = Some salt2
      \<and> deriveKeysInWorker (ae_sc env) (ae_worker_error env) (srp_params email pw k salt1 salt2) = Inr (auk, srpX)
      \<and> new_SRPClient (ae_group env) email (ae_rnd env) = Inr client
      \<and> computeSession (sc_digest (ae_sc env)) client srpX (si_salt init) (si_server_public init)
          = Inr (client', proof, K)
      \<and> ae_srpVerify env \<lparr>sv_email = email, sv_session_id = si_session_id init,
          sv_client_public = getPublicEphemeral client', sv_client_proof = proof\<rparr> = Inr result
      \<and> verifyServerProof (sc_digest (ae_sc env)) client' (sr_server_proof result) = Inr True
      \<and> key_set = sr_encrypted_key_set result)"

lemma b64_or_throw_Inr: "b64_or_throw s = Inr bs \<longleftrightarrow> base64ToUint8 s = Some bs"
  by (simp add: b64_or_throw_def split: option.splits)

text \<open>The states a handshake passes through before it succeeds: the store is as at the start,
  up to the flag for the key derivation.\<close>

definition inv_at :: "auth_state \<Rightarrow> 'key session \<Rightarrow> bool" where
  "inv_at a s \<longleftrightarrow> auth_inv s \<and> (se_auth s)\<lparr>isDerivingKeys := False\<rparr> = a\<lparr>isDerivingKeys := False\<rparr>"

text \<open>The display flags play no part in the invariant.\<close>

lemma auth_inv_flags [simp]:
  "auth_inv (s\<lparr>se_auth := b\<lparr>isLoading := x\<rparr>\<rparr>) = auth_inv (s\<lparr>se_auth := b\<rparr>)"
  "auth_inv (s\<lparr>se_auth := b\<lparr>isDerivingKeys := x\<rparr>\<rparr>) = auth_inv (s\<lparr>se_auth := b\<rparr>)"
  "auth_inv (s\<lparr>se_auth := b\<lparr>needsSecretKey := x\<rparr>\<rparr>) = auth_inv (s\<lparr>se_auth := b\<rparr>)"
  "auth_inv (s\<lparr>se_auth := b\<lparr>au_error := e\<rparr>\<rparr>) = auth_inv (s\<lparr>se_auth := b\<rparr>)"
  "auth_inv (s\<lparr>se_auth := se_auth s\<rparr>) = auth_inv s"
  by (simp_all add: auth_inv_def)

lemma inv_at_deriving: "inv_at a s \<Longrightarrow> inv_at a (s\<lparr>se_auth := (se_auth s)\<lparr>isDerivingKeys := b\<rparr>\<rparr>)"
  by (simp add: inv_at_def)

lemma inv_at_keys:
  "inv_at a s \<Longrightarrow> inv_at a (s\<lparr>se_keys := setAUK auk (se_keys s)\<rparr>)"
  "inv_at a s \<Longrightarrow> getAUK (se_keys s) \<noteq> None \<Longrightarrow> inv_at a (s\<lparr>se_keys := setVaultKey k (se_keys s)\<rparr>)"
  "inv_at a s \<Longrightarrow> getAUK (se_keys s) \<noteq> None \<Longrightarrow> inv_at a (s\<lparr>se_keys := setPrivateKey k (se_keys s)\<rparr>)"
  "inv_at a s \<Longrightarrow> inv_at a (s\<lparr>se_keys := (se_keys s)\<lparr>ks_db := m\<rparr>\<rparr>)"
  "inv_at a s \<Longrightarrow> inv_at a (s\<lparr>se_keys := clearAll (se_keys s)\<rparr>)"
  by (auto simp: inv_at_def auth_inv_def key_store_defs)

lemma getAUK_set [simp]:
  "getAUK (setAUK auk k) = Some auk" "getAUK (setVaultKey v k) = getAUK k"
  "getAUK (setPrivateKey v k) = getAUK k" "getAUK (k\<lparr>ks_db := m\<rparr>) = getAUK k"
  by (simp_all add: key_store_defs)

lemma srp_authenticate_triple:
  "triple (inv_at a) (srp_authenticate env email pw k)
    (\<lambda>x s. inv_at a s \<and> isDerivingKeys (se_auth s) = False \<and> srp_proved env email pw k (fst x) (snd x))
    (\<lambda>_. inv_at a)"
  unfolding srp_authenticate_def set_auth_def
  by (intro triple_rules) (fastforce intro: inv_at_deriving simp: srp_proved_def b64_or_throw_Inr)+

definition unlocked :: "'key auth_env \<Rightarrow> string \<Rightarrow> bytes \<Rightarrow> 'key \<Rightarrow> auth_state \<Rightarrow> 'key session \<Rightarrow> bool" where
  "unlocked env email k auk a s \<longleftrightarrow>
     auth_inv s \<and> getAUK (se_keys s) = Some auk \<and> db_get email (se_keys s) = Some k
   \<and> (\<exists>user. ae_me env = Inr user \<and> se_auth s =
        a\<lparr>isDerivingKeys := False, au_user := Some user, isAuthenticated := True, isLoading := False,
          needsSecretKey := False\<rparr>)"

lemma store_step:
  assumes "and_then (storeSecretKey fault email k (se_keys t)) (\<lambda>k. Inr (t\<lparr>se_keys := k\<rparr>)) = Inr s"
  shows "s = t\<lparr>se_keys := (se_keys t)\<lparr>ks_db := (ks_db (se_keys t))(toLowerCase email \<mapsto> k)\<rparr>\<rparr>"
  using assms by (auto simp: and_then_Inr_iff storeSecretKey_def split: option.splits)

lemma srp_finish_triple:
  "triple (\<lambda>s. inv_at a s \<and> isDerivingKeys (se_auth s) = False) (srp_finish env email k auk key_set)
    (\<lambda>_. unlocked env email k auk a) (\<lambda>_. inv_at a)"
proof -
  let ?P = "\<lambda>s. inv_at a s \<and> isDerivingKeys (se_auth s) = False"
  let ?R = "\<lambda>s. ?P s \<and> getAUK (se_keys s) = Some auk"
  let ?S = "\<lambda>s. ?R s \<and> db_get email (se_keys s) = Some k"
  have keys: "triple ?R (case key_set of None \<Rightarrow> act_return () | Some ks \<Rightarrow> unlock_keys env auk ks)
      (\<lambda>_. ?R) (\<lambda>_. inv_at a)"
    by (intro triple_optionI triple_returnI unlock_keys_triple) (auto intro: inv_at_keys)
  have final: "unlocked env email k auk a (s\<lparr>se_auth := (se_auth s)\<lparr>au_user := Some u,
      isAuthenticated := True, isLoading := False, needsSecretKey := False\<rparr>\<rparr>)"
    if "?S s" "ae_me env = Inr u" for s u
  proof -
    have "se_auth s = a\<lparr>isDerivingKeys := False\<rparr>"
      using that by (cases "se_auth s") (simp add: inv_at_def)
    then show ?thesis using that by (simp add: unlocked_def inv_at_def auth_inv_def) metis
  qed
  have tail: "triple ?S (act_bind (act_call (ae_me env)) (\<lambda>user.
      act_update (\<lambda>s. s\<lparr>se_auth := (se_auth s)\<lparr>au_user := Some user, isAuthenticated := True,
        isLoading := False, needsSecretKey := False\<rparr>\<rparr>))) (\<lambda>_. unlocked env email k auk a) (\<lambda>_. inv_at a)"
    by (intro triple_rules) (auto intro: final)
  have store: "triple ?R (act_bind (act_try_update (\<lambda>s. js (and_then
      (storeSecretKey (ae_put_fault env) email k (se_keys s)) (\<lambda>k. Inr (s\<lparr>se_keys := k\<rparr>)))))
      (\<lambda>_. act_bind (act_call (ae_me env)) (\<lambda>user.
      act_update (\<lambda>s. s\<lparr>se_auth := (se_auth s)\<lparr>au_user := Some user, isAuthenticated := True,
        isLoading := False, needsSecretKey := False\<rparr>\<rparr>)))) (\<lambda>_. unlocked env email k auk a) (\<lambda>_. inv_at a)"
    by (rule triple_bind_try_updateI, rule triple_weaken [OF tail])
      (auto dest!: store_step simp: db_get_def intro: inv_at_keys)
  show ?thesis
    unfolding srp_finish_def handler_defs
    by (intro triple_bind_updateI triple_bindI [OF _ store], rule triple_weaken [OF keys])
      (auto intro: inv_at_keys)
qed

lemma srp_handshake_triple:
  "triple (inv_at a) (srp_handshake env email pw k)
    (\<lambda>_ s. \<exists>auk key_set. srp_proved env email pw k auk key_set \<and> unlocked env email k auk a s)
    (\<lambda>_. inv_at a)"
  unfolding srp_handshake_def
proof (rule triple_bindI [OF srp_authenticate_triple])
  fix x :: "'a \<times> key_bundle option"
  show "triple (\<lambda>s. inv_at a s \<and> isDerivingKeys (se_auth s) = False \<and> srp_proved env email pw k (fst x) (snd x))
      (case x of (auk, key_set) \<Rightarrow> srp_finish env email k auk key_set)
      (\<lambda>_ s. \<exists>auk key_set. srp_proved env email pw k auk key_set \<and> unlocked env email k auk a s) (\<lambda>_. inv_at a)"
  proof (cases "srp_proved env email pw k (fst x) (snd x)")
    case True
    then show ?thesis
      unfolding case_prod_beta by (intro triple_weaken [OF srp_finish_triple [where a = a]]) blast+
  qed (simp add: triple_def)
qed

text \<open>Where \<open>srpLogin\<close> can end without a session: it asks for the Secret Key, reports a malformed
  key, or throws with all session keys wiped.\<close>

definition keys_wiped :: "'key session \<Rightarrow> bool" where
  "keys_wiped s \<longleftrightarrow> getAUK (se_keys s) = None \<and> getVaultKey (se_keys s) = None \<and> getPrivateKey (se_keys s) = None"

definition same_login :: "auth_state \<Rightarrow> auth_state \<Rightarrow> bool" where
  "same_login a b \<longleftrightarrow> au_user a = au_user b \<and> isAuthenticated a = isAuthenticated b
     \<and> isUpgrading a = isUpgrading b \<and> pendingUpgradeEmail a = pendingUpgradeEmail b
     \<and> pendingUpgradePassword a = pendingUpgradePassword b"

definition asks_key :: "auth_state \<Rightarrow> bool" where
  "asks_key a \<longleftrightarrow> \<not> isLoading a \<and> \<not> isDerivingKeys a
     \<and> (needsSecretKey a \<or> au_error a = Some ''Invalid Secret Key format'')"

definition srp_success where
  "srp_success env email pw input a s \<longleftrightarrow>
     (\<exists>k auk key_set. srp_proved env email pw k auk key_set \<and> unlocked env email k auk a s)"

definition gave_up where
  "gave_up a s \<longleftrightarrow> auth_inv s \<and> same_login (se_auth s) a \<and> asks_key (se_auth s)"

definition failed where
  "failed a e s \<longleftrightarrow> auth_inv s \<and> same_login (se_auth s) a \<and> keys_wiped s
     \<and> (e \<noteq> JsError ''detail.includes is not a function'' \<longrightarrow>
          \<not> isLoading (se_auth s) \<and> \<not> isDerivingKeys (se_auth s) \<and> au_error (se_auth s) \<noteq> None)"

lemma inv_at_same:
  assumes "inv_at a s"
  shows "auth_inv s" "same_login (se_auth s) a"
proof -
  have "same_login ((se_auth s)\<lparr>isDerivingKeys := False\<rparr>) (a\<lparr>isDerivingKeys := False\<rparr>)"
    using assms by (simp add: inv_at_def same_login_def)
  then show "auth_inv s" "same_login (se_auth s) a" using assms by (simp_all add: inv_at_def same_login_def)
qed

lemma same_login_flags [simp]:
  "same_login (b\<lparr>isLoading := x\<rparr>) a = same_login b a"
  "same_login (b\<lparr>isDerivingKeys := x\<rparr>) a = same_login b a"
  "same_login (b\<lparr>needsSecretKey := x\<rparr>) a = same_login b a"
  "same_login (b\<lparr>au_error := e\<rparr>) a = same_login b a"
  by (simp_all add: same_login_def)

lemma keys_wiped_auth [simp]: "keys_wiped (s\<lparr>se_auth := b\<rparr>) = keys_wiped s"
  by (simp add: keys_wiped_def)

lemma keys_wiped_clear [simp]: "keys_wiped (s\<lparr>se_keys := clearAll (se_keys s)\<rparr>)"
  by (simp add: keys_wiped_def key_store_defs)

lemma srp_try_triple:
  "triple (inv_at a) (srp_try env email pw input)
    (\<lambda>_ s. srp_success env email pw input a s \<or> gave_up a s) (\<lambda>_. inv_at a)"
proof -
  have h: "triple (\<lambda>s. inv_at a s \<and> B s) (srp_handshake env email pw k)
     (\<lambda>_ s. srp_success env email pw input a s \<or> gave_up a s) (\<lambda>_. inv_at a)" for k B
    by (rule triple_weaken [OF srp_handshake_triple [where a = a]]) (auto simp: srp_success_def)
  show ?thesis
    unfolding srp_try_def set_auth_def
    by (intro triple_rules h)
      (auto dest: inv_at_same simp: gave_up_def asks_key_def same_login_def auth_inv_def)
qed

lemma srp_fail_triple:
  "triple (inv_at a) (srp_fail input e) (\<lambda>_ s. gave_up a s \<and> keys_wiped s \<and> status_of e = Some 401)
    (\<lambda>e' s. failed a e' s)"
proof -
  have start: "triple (\<lambda>s. inv_at a s \<and> keys_wiped s) m Q E \<Longrightarrow>
      triple (\<lambda>s. \<exists>t. inv_at a t \<and> s = t\<lparr>se_keys := clearAll (se_keys t)\<rparr>) m Q E"
    for m :: "('a, unit) handler" and Q E
    by (erule triple_weaken) (auto intro: inv_at_keys)
  show ?thesis
    unfolding srp_fail_def handler_defs
    by (intro triple_bind_updateI start, intro triple_rules)
      (auto simp: gave_up_def asks_key_def failed_def dest: inv_at_same)
qed

lemma srpLogin_triple:
  "triple (\<lambda>s. auth_inv s \<and> se_auth s = a) (srpLogin env email pw input)
    (\<lambda>_ s. srp_success env email pw input (a\<lparr>isLoading := True, au_error := None\<rparr>) s \<or> gave_up a s)
    (failed a)"
proof -
  let ?a = "a\<lparr>isLoading := True, au_error := None\<rparr>"
  have c: "triple (inv_at ?a) (act_catch (srp_try env email pw input) (srp_fail input))
     (\<lambda>_ s. srp_success env email pw input ?a s \<or> gave_up ?a s) (failed ?a)"
    by (rule triple_catchI [OF srp_try_triple triple_weaken [OF srp_fail_triple]]) auto
  have "gave_up ?a s = gave_up a s" "failed ?a e s = failed a e s" for e s
    by (simp_all add: gave_up_def failed_def same_login_def)
  then show ?thesis
    unfolding srpLogin_def set_auth_def
    by (intro triple_bind_updateI triple_weaken [OF c]) (auto simp: inv_at_def auth_inv_def)
qed

lemma srpLogin_inv: "triple auth_inv (srpLogin env email pw input) (\<lambda>_. auth_inv) (\<lambda>_. auth_inv)"
proof -
  have "triple (\<lambda>s. auth_inv s \<and> se_auth s = a) (srpLogin env email pw input) (\<lambda>_. auth_inv) (\<lambda>_. auth_inv)" for a
    by (rule triple_weaken [OF srpLogin_triple])
      (auto simp: srp_success_def unlocked_def gave_up_def failed_def)
  then show ?thesis by (simp add: triple_def)
qed

lemma login_inv: "triple auth_inv (login env email pw) (\<lambda>_. auth_inv) (\<lambda>_. auth_inv)"
proof -
  have start: "triple auth_inv m Q E \<Longrightarrow>
      triple (\<lambda>s. \<exists>t. auth_inv t \<and> s = t\<lparr>se_auth := (se_auth t)\<lparr>isLoading := True, au_error := None\<rparr>\<rparr>) m Q E"
    for m :: "('a, unit) handler" and Q E
    by (erule triple_weaken) auto
  have upgrade: "auth_inv (s\<lparr>se_auth := (se_auth s)\<lparr>isLoading := False, isUpgrading := True,
      pendingUpgradeEmail := Some email, pendingUpgradePassword := Some pw\<rparr>\<rparr>)"
    and user: "auth_inv (s\<lparr>se_auth := set_user u (se_auth s)\<rparr>)"
    and drop: "auth_inv (s\<lparr>se_auth := (se_auth s)\<lparr>isLoading := False, isAuthenticated := False,
      au_user := None, au_error := m\<rparr>\<rparr>)"
    if "auth_inv s" for s :: "'a session" and m u
    using that by (auto simp: auth_inv_def set_user_def)
  show ?thesis
    unfolding login_def set_auth_def
    apply (intro triple_bind_updateI start triple_catchI [where R = "\<lambda>_. auth_inv"])
     apply (intro triple_bind_callI triple_ifI triple_updateI)
      apply (assumption | erule upgrade user)+
    apply (intro triple_ifI srpLogin_inv triple_bind_updateI triple_throwI)
    apply (auto dest: drop)
    done
qed

lemma auth_handler_inv: "triple auth_inv (auth_handler e) (\<lambda>_. auth_inv) (\<lambda>_. auth_inv)"
proof (cases e)
  case (CompleteUpgrade env)
  show ?thesis
    unfolding CompleteUpgrade auth_handler.simps completeUpgrade_def handler_defs
    by (rule triple_bind_updateI, rule triple_catchI [where R = "\<lambda>_. auth_inv"]; intro triple_rules)
      (auto simp: auth_inv_def)
next
  case (Logout env)
  show ?thesis
    unfolding Logout auth_handler.simps logout_def handler_defs
    by (intro triple_bind_updateI triple_bindI [where R = "\<lambda>_. auth_inv"] triple_catchI [where R = "\<lambda>_. auth_inv"])
      (auto simp: auth_inv_def triple_def key_store_defs split: sum.split)
next
  case (CheckAuth env)
  show ?thesis
    unfolding CheckAuth auth_handler.simps checkAuth_def handler_defs
    by (rule triple_bind_updateI, rule triple_catchI [where R = "\<lambda>_. auth_inv"]; intro triple_rules)
      (auto simp: auth_inv_def)
qed (auto simp: login_inv srpLogin_inv cancelUpgrade_def clearError_def clearNeedsSecretKey_def handler_defs
    auth_inv_def intro!: triple_rules)

lemma session_init_inv: "auth_inv session_init"
  by (simp add: auth_inv_def session_init_def auth_init_def key_store_defs)

interpretation auth: event_machine auth_step auth_inv
  by unfold_locales (auto simp: auth_step_def intro: triple_fst [OF auth_handler_inv])

section \<open>A concrete environment\<close>

text \<open>A small group, a constant digest and a server that knows the verifier: an instance on which
  the handlers can be run.\<close>

definition demo_group :: srp_group where
  "demo_group = \<lparr>grp_N = 23, grp_g = 2, grp_bytes = 1\<rparr>"

definition bad_group :: srp_group where
  "bad_group = \<lparr>grp_N = 15, grp_g = 2, grp_bytes = 1\<rparr>"

definition demo_subtle :: "unit subtle" where
  "demo_subtle = \<lparr>sc_available = True, sc_digest = \<lambda>_. [3], sc_hkdf = \<lambda>_ _ _. Inr [4],
     sc_pbkdf2 = \<lambda>_ _ _. Inr [], sc_import_aes = \<lambda>_ _ _. Inr (), sc_encrypt = \<lambda>_ _ d. Inr d,
     sc_decrypt = \<lambda>_ _ d. Inr d, sc_wrap = \<lambda>_ _ _ _. Inr [], sc_unwrap = \<lambda>_ _ _ _ _ _. Inr (),
     sc_export_spki = \<lambda>_. Inr []\<rparr>"

definition demo_env :: "unit auth_env" where
  "demo_env = \<lparr>ae_sc = demo_subtle, ae_group = demo_group,
     ae_worker_error = None, ae_get_fault = None, ae_put_fault = None, ae_rnd = [6],
     ae_login = \<lambda>_ _. Inr False,
     ae_me = Inr \<lparr>um_id = ''1'', um_email = ''a'', um_name = ''A'', um_role = ''operator'',
                  um_tenant_id = None, um_auth_version = 2\<rparr>,
     ae_srpInit = \<lambda>_. Inr \<lparr>si_salt = ''00'', si_server_public = ''f'', si_session_id = ''s'',
                           si_pbkdf2_salt = [], si_hkdf_salt = []\<rparr>,
     ae_srpVerify = \<lambda>_. Inr \<lparr>sr_server_proof = ''03'', sr_encrypted_key_set = None\<rparr>,
     ae_logout = Inr ()\<rparr>"

definition demo_session :: "unit session" where
  "demo_session = \<lparr>se_auth = auth_init, se_keys = db_store ''a'' [7] key_store_init\<rparr>"

definition demo_client :: srp_client where
  "demo_client = \<lparr>cl_group = demo_group, cl_a = 6, cl_A = 18,
     cl_email = ''a'', cl_A_hex = [], cl_M1 = None, cl_K = None\<rparr>"

lemma demo_keys:
  "b64_or_throw [] = Inr []"
  "deriveKeysInWorker demo_subtle None (srp_params e pw k s1 s2) = Inr ((), [4])"
  by code_simp (simp add: deriveKeysInWorker_def worker_onmessage_def worker_request_def deriveKeysRaw_def
    deriveRawBytes_def main_onmessage_def demo_subtle_def Let_def)

lemma demo_srp:
  "new_SRPClient demo_group ''a'' [6] = Inr demo_client"
  "computeSession (\<lambda>_. [3]) demo_client [4] ''00'' ''f'' =
     Inr (demo_client\<lparr>cl_A_hex := ''12'', cl_M1 := Some [3], cl_K := Some [3]\<rparr>, ''03'', [3])"
  "verifyServerProof (\<lambda>_. [3]) (demo_client\<lparr>cl_A_hex := ''12'', cl_M1 := Some [3], cl_K := Some [3]\<rparr>) ''03'' = Inr True"
  "new_SRPClient bad_group ''a'' [6] =
     Inr (demo_client\<lparr>cl_group := bad_group, cl_A := 4\<rparr>)"
  "computeSession (\<lambda>_. [3]) (demo_client\<lparr>cl_group := bad_group, cl_A := 4\<rparr>) [4] ''00'' ''f'' =
     Inl ''SRP: invalid server public ephemeral (B mod N == 0)''"
  by code_simp+

lemma demo_session_inv: "auth_inv demo_session"
  by (simp add: auth_inv_def demo_session_def auth_init_def db_store_def key_store_defs)

section \<open>Properties\<close>

text \<open>C5: However handlers follow each other, and whatever the server and the browser answer, a user
  profile is present exactly while the store says authenticated, the plaintext password kept for
  the SRP upgrade is held exactly while an upgrade is pending, and vault and private key are held
  only together with the account unlock key.\<close>
theorem session_invariant:
  "let s = fold auth_step es session_init; a = se_auth s; ks = se_keys s in
     (isAuthenticated a \<longleftrightarrow> au_user a \<noteq> None)
   \<and> (isUpgrading a \<longleftrightarrow> pendingUpgradeEmail a \<noteq> None)
   \<and> (isUpgrading a \<longleftrightarrow> pendingUpgradePassword a \<noteq> None)
   \<and> (getVaultKey ks = None \<and> getPrivateKey ks = None \<or> (\<exists>auk. getAUK ks = Some auk))"
  using auth.run_inv [OF session_init_inv, of es] unfolding auth_inv_def Let_def by blast

text \<open>C4: An SRP login that turns an anonymous session into an authenticated one returns normally,
  and only after both sides proved themselves: the keys derived from password and Secret Key gave
  a client proof the server accepted, the server's own proof was verified, the unlock key is the
  derived one, and the Secret Key is stored for the address.\<close>
theorem srp_login_authenticates:
  assumes "auth_inv s" and "\<not> isAuthenticated (se_auth s)"
    and "srpLogin env email pw input s = (s', r)" and "isAuthenticated (se_auth s')"
  shows "r = Inr () \<and> \<not> isLoading (se_auth s') \<and> ae_me env = Inr (the (au_user (se_auth s')))
    \<and> (\<exists>k auk key_set. srp_proved env email pw k auk key_set
         \<and> getAUK (se_keys s') = Some auk \<and> getSecretKey None email (se_keys s') = Inr (Some k))"
proof (cases r)
  case (Inl e)
  then show ?thesis
    using triple_run(2) [OF srpLogin_triple, of s "se_auth s" env email pw input s' e] assms
    by (simp add: failed_def same_login_def)
next
  case (Inr x)
  then have "srp_success env email pw input ((se_auth s)\<lparr>isLoading := True, au_error := None\<rparr>) s'
      \<or> gave_up (se_auth s) s'"
    using triple_run(1) [OF srpLogin_triple, of s "se_auth s" env email pw input s' x] assms by simp
  moreover have "\<not> gave_up (se_auth s) s'" using assms by (simp add: gave_up_def same_login_def)
  ultimately obtain k auk key_set where "srp_proved env email pw k auk key_set"
      "unlocked env email k auk ((se_auth s)\<lparr>isLoading := True, au_error := None\<rparr>) s'"
    by (auto simp: srp_success_def)
  then show ?thesis using Inr by (auto simp: unlocked_def db_ops)
qed

theorem srp_login_authenticates_witness:
  "\<exists>s' auk key_set. srpLogin demo_env ''a'' ''pw'' None demo_session = (s', Inr ())
    \<and> srp_proved demo_env ''a'' ''pw'' [7] auk key_set \<and> getAUK (se_keys s') = Some auk"
proof -
  obtain s' r where run: "srpLogin demo_env ''a'' ''pw'' None demo_session = (s', r)" by fastforce
  have "isAuthenticated (se_auth (fst (srpLogin demo_env ''a'' ''pw'' None demo_session)))"
    and k: "getSecretKey None ''a'' (se_keys (fst (srpLogin demo_env ''a'' ''pw'' None demo_session))) = Inr (Some [7])"
    and n: "\<not> isAuthenticated (se_auth demo_session)"
    by (simp_all add: srpLogin_def srp_try_def srp_handshake_def srp_authenticate_def srp_finish_def demo_env_def
        demo_session_def demo_keys demo_srp handler_defs demo_subtle_def [THEN arg_cong [of _ _ sc_digest]]
        demo_subtle_def [THEN arg_cong [of _ _ sc_available]] assertWebCryptoAvailable_def act_read_def act_bind_def
        act_catch_def act_try_update_def db_ops db_store_def key_store_defs auth_init_def)
  then show ?thesis
    using srp_login_authenticates [OF demo_session_inv n run] run by auto
qed

text \<open>C12: An SRP login that throws leaves no key material and does not touch who is signed in; it
  ends the busy indicators and shows a message, except when the error handler itself throws on a
  response detail that is neither a string nor an array.\<close>
theorem srp_login_failure_wipes:
  assumes "auth_inv s" and "srpLogin env email pw input s = (s', Inl e)"
  shows "getAUK (se_keys s') = None \<and> getVaultKey (se_keys s') = None \<and> getPrivateKey (se_keys s') = None
    \<and> au_user (se_auth s') = au_user (se_auth s) \<and> isAuthenticated (se_auth s') = isAuthenticated (se_auth s)
    \<and> (e \<noteq> JsError ''detail.includes is not a function'' \<longrightarrow>
        \<not> isLoading (se_auth s') \<and> \<not> isDerivingKeys (se_auth s') \<and> au_error (se_auth s') \<noteq> None)"
  using triple_run(2) [OF srpLogin_triple _ assms(2), of "se_auth s"] assms(1)
  by (simp add: failed_def same_login_def keys_wiped_def)

theorem srp_login_failure_wipes_witness:
  "\<exists>s' e. srpLogin (demo_env\<lparr>ae_group := bad_group\<rparr>) ''a'' ''pw'' None demo_session
      = (s', Inl e) \<and> getAUK (se_keys s') = None \<and> \<not> isLoading (se_auth s')"
proof -
  let ?r = "srpLogin (demo_env\<lparr>ae_group := bad_group\<rparr>) ''a'' ''pw'' None demo_session"
  have "snd ?r = Inl (JsError ''SRP: invalid server public ephemeral (B mod N == 0)'')"
    by (simp add: srpLogin_def srp_try_def srp_handshake_def srp_authenticate_def demo_env_def
        demo_session_def demo_keys demo_srp handler_defs demo_subtle_def [THEN arg_cong [of _ _ sc_digest]]
        demo_subtle_def [THEN arg_cong [of _ _ sc_available]] assertWebCryptoAvailable_def act_read_def act_bind_def
        act_catch_def srp_fail_def status_of_def response_of_def detail_of_def db_store_def key_store_defs)
  then have run: "?r = (fst ?r, Inl (JsError ''SRP: invalid server public ephemeral (B mod N == 0)''))"
    by (simp add: prod_eq_iff)
  show ?thesis using srp_login_failure_wipes [OF demo_session_inv run] run by auto
qed

text \<open>A Secret Key stored on the device always wins: when one is stored for the address, the key
  the user types in has no influence whatsoever, so the recovery the failure message asks for
  (enter the current key) cannot succeed on that device.\<close>
theorem entered_key_shadowed:
  assumes "getSecretKey (ae_get_fault env) email (se_keys s) = Inr (Some k)"
    and "i1 \<noteq> []" and "i2 \<noteq> []"
  shows "srpLogin env email pw (Some i1) s = srpLogin env email pw (Some i2) s"
proof -
  have "srp_fail (Some i1) = (srp_fail (Some i2) :: thrown \<Rightarrow> ('a, unit) handler)"
    using assms(2,3) by (simp add: fun_eq_iff srp_fail_def truthy_str_def)
  moreover have "srp_try env email pw (Some i1) t = srp_try env email pw (Some i2) t"
    if "se_keys t = se_keys s" for t
    using assms(1) that unfolding srp_try_def
    by (cases "assertWebCryptoAvailable (ae_sc env)") (simp_all add: act_bind_def act_read_def)
  ultimately show ?thesis
    by (simp add: srpLogin_def set_auth_def act_catch_def)
qed

theorem entered_key_shadowed_witness:
  "srpLogin demo_env ''a'' ''pw'' (Some ''A3-OLD'') demo_session = srpLogin demo_env ''a'' ''pw'' (Some ''A3-NEW'') demo_session"
proof (rule entered_key_shadowed)
  show "getSecretKey (ae_get_fault demo_env) ''a'' (se_keys demo_session) = Inr (Some [7])"
    by (simp add: demo_env_def demo_session_def getSecretKey_def db_store_def)
qed simp_all

lemma logout_run:
  "logout env s = (s\<lparr>se_auth := auth_init\<lparr>isLoading := False\<rparr>, se_keys := clearAll (se_keys s)\<rparr>, Inr ())"
  by (cases "se_auth s"; cases "ae_logout env")
    (simp_all add: logout_def handler_defs act_catch_def act_bind_def auth_init_def key_store_defs)

text \<open>Signing out always succeeds on the client: whatever the server answers, every field of the
  store is reset, no session key remains, and only the stored Secret Keys survive.\<close>
theorem logout_total:
  "logout env s = (s\<lparr>se_auth := auth_init\<lparr>isLoading := False\<rparr>, se_keys := clearAll (se_keys s)\<rparr>, Inr ())
   \<and> getAUK (clearAll (se_keys s)) = None \<and> getVaultKey (clearAll (se_keys s)) = None
   \<and> getPrivateKey (clearAll (se_keys s)) = None \<and> ks_db (clearAll (se_keys s)) = ks_db (se_keys s)"
  by (simp add: logout_run key_store_defs)

text \<open>The role helpers are the thresholds of a linear order of privileges, so whoever may delete
  may write, and nobody without a profile may do either.\<close>
theorem role_hierarchy:
  "isSuperAdmin u = (Super_admin_level \<le> level_of u)
   \<and> canDelete u = (Tenant_admin_level \<le> level_of u)
   \<and> canWrite u = (Operator_level \<le> level_of u)
   \<and> level_of None < Operator_level"
  by (cases u) (auto simp: isSuperAdmin_def canDelete_def isTenantAdmin_def canWrite_def isOperator_def
      level_of_def less_eq_level_def less_level_def)

end
