(* ===== verification/Account.thy ===== *)
theory Account
  imports Auth
begin

text \<open>
  The account screens around the authentication store: the login page (\<^verbatim>\<open>routes/login.tsx\<close>) and the
  route guard (\<^verbatim>\<open>routes/_authenticated.tsx\<close>), the upgrade dialog
  (\<^verbatim>\<open>components/auth/SrpUpgradeDialog.tsx\<close>) with its Emergency Kit
  (\<^verbatim>\<open>components/auth/EmergencyKitDialog.tsx\<close>), the password change
  (\<^verbatim>\<open>components/settings/ChangePasswordForm.tsx\<close>) and the two reset pages. Each handler is an action on
  the state of its screen together with the session; the strength estimate of the \<open>zxcvbn\<close> package is a
  parameter.
\<close>

section \<open>Login page\<close>

record login_page =
  lp_email :: string
  lp_password :: string
  lp_secretKey :: string
  lp_submitting :: bool
  lp_location :: string

record 'key login_screen =
  ls_page :: login_page
  ls_session :: "'key session"

definition login_page_init :: login_page where
  "login_page_init = \<lparr>lp_email = [], lp_password = [], lp_secretKey = [], lp_submitting = False, lp_location = ''/login''\<rparr>"

text \<open>The effect that runs when \<open>isAuthenticated\<close> or \<open>isLoading\<close> changed.\<close>

definition login_effect :: "'key login_screen \<Rightarrow> 'key login_screen" where
  "login_effect st = (if isAuthenticated (se_auth (ls_session st)) \<and> \<not> isLoading (se_auth (ls_session st))
     then st\<lparr>ls_page := (ls_page st)\<lparr>lp_location := ''/''\<rparr>\<rparr> else st)"

definition login_call :: "'key auth_env \<Rightarrow> 'key login_screen \<Rightarrow> ('key, unit) handler" where
  "login_call env st =
     (if needsSecretKey (se_auth (ls_session st))
      then srpLogin env (lp_email (ls_page st)) (lp_password (ls_page st)) (Some (lp_secretKey (ls_page st)))
      else login env (lp_email (ls_page st)) (lp_password (ls_page st)))"

definition login_handleSubmit :: "'key auth_env \<Rightarrow> 'key login_screen \<Rightarrow> 'key login_screen" where
  "login_handleSubmit env st =
     (if lp_email (ls_page st) = [] \<or> lp_password (ls_page st) = [] then st
      else let (s', r) = login_call env st (ls_session st) in
        \<lparr>ls_page = (ls_page st)\<lparr>lp_submitting := False,
           lp_location := (if \<not> isl r \<and> \<not> isUpgrading (se_auth s') \<and> \<not> needsSecretKey (se_auth s')
                           then ''/'' else lp_location (ls_page st))\<rparr>,
         ls_session = s'\<rparr>)"

definition login_handleChange :: "'key login_screen \<Rightarrow> 'key login_screen" where
  "login_handleChange st =
     (if truthy_str (au_error (se_auth (ls_session st)))
      then st\<lparr>ls_session := fst (clearError (ls_session st))\<rparr> else st)"

definition handleEmailChange :: "string \<Rightarrow> 'key login_screen \<Rightarrow> 'key login_screen" where
  "handleEmailChange newEmail st =
     (let st = (if needsSecretKey (se_auth (ls_session st)) \<and> toLowerCase newEmail \<noteq> toLowerCase (lp_email (ls_page st))
                then st\<lparr>ls_session := fst (clearNeedsSecretKey (ls_session st)),
                        ls_page := (ls_page st)\<lparr>lp_secretKey := []\<rparr>\<rparr> else st)
      in login_handleChange (st\<lparr>ls_page := (ls_page st)\<lparr>lp_email := newEmail\<rparr>\<rparr>))"

definition handlePasswordChange :: "string \<Rightarrow> 'key login_screen \<Rightarrow> 'key login_screen" where
  "handlePasswordChange p st = login_handleChange (st\<lparr>ls_page := (ls_page st)\<lparr>lp_password := p\<rparr>\<rparr>)"

definition handleSecretKeyChange :: "string \<Rightarrow> 'key login_screen \<Rightarrow> 'key login_screen" where
  "handleSecretKeyChange k st = login_handleChange (st\<lparr>ls_page := (ls_page st)\<lparr>lp_secretKey := k\<rparr>\<rparr>)"

definition buttonText :: "'key login_screen \<Rightarrow> string" where
  "buttonText st =
     (if isDerivingKeys (se_auth (ls_session st)) then ''Unlocking your vault...''
      else if lp_submitting (ls_page st) then ''Signing in...''
      else if needsSecretKey (se_auth (ls_session st)) then ''Unlock''
      else ''Sign In'')"

definition submit_disabled :: "'key login_screen \<Rightarrow> bool" where
  "submit_disabled st \<longleftrightarrow>
     (let p = ls_page st; a = se_auth (ls_session st) in
      lp_submitting p \<or> isLoading a \<or> isDerivingKeys a \<or> lp_email p = [] \<or> lp_password p = [] \<or>
      (needsSecretKey a \<and> length (filter (\<lambda>c. \<not> is_sep c) (lp_secretKey p)) < 28))"

text \<open>The guard in front of every page behind the login: \<open>beforeLoad\<close>.\<close>

definition beforeLoad :: "auth_state \<Rightarrow> string option" where
  "beforeLoad a = (if isAuthenticated a then None else Some ''/login'')"

section \<open>Emergency Kit\<close>

text \<open>\<open>s.replace(/c/g, t)\<close> for a single character.\<close>

definition replace_all :: "char \<Rightarrow> string \<Rightarrow> string \<Rightarrow> string" where
  "replace_all c t s = concat (map (\<lambda>x. if x = c then t else [x]) s)"

definition esc :: "string \<Rightarrow> string" where
  "esc s = replace_all (CHR 0x22) ''&quot;'' (replace_all (CHR ''>'') ''&gt;''
     (replace_all (CHR ''<'') ''&lt;'' (replace_all (CHR ''&'') ''&amp;'' s)))"

record kit_dialog =
  kd_acknowledged :: bool
  kd_toasts :: "string list"

text \<open>The close button is disabled until the box is ticked; the dialog cannot be left otherwise.\<close>

definition kit_close_enabled :: "kit_dialog \<Rightarrow> bool" where
  "kit_close_enabled d \<longleftrightarrow> kd_acknowledged d"

section \<open>Upgrade to SRP\<close>

datatype upgrade_step = Explain | Generating | Emergency_kit

record upgrade_dialog =
  ud_step :: upgrade_step
  ud_secretKey :: string
  ud_error :: "json option"
  ud_toasts :: "json list"

text \<open>\<open>us_accepted\<close> holds the registrations the server has accepted.\<close>

record 'key upgrade_screen =
  us_dialog :: upgrade_dialog
  us_session :: "'key session"
  us_accepted :: "registration_result list"
  us_location :: string

definition upgrade_init :: upgrade_dialog where
  "upgrade_init = \<lparr>ud_step = Explain, ud_secretKey = [], ud_error = None, ud_toasts = []\<rparr>"

definition set_dialog :: "(upgrade_dialog \<Rightarrow> upgrade_dialog) \<Rightarrow> ('key upgrade_screen, 'e, unit) action" where
  "set_dialog f = act_update (\<lambda>s. s\<lparr>us_dialog := f (us_dialog s)\<rparr>)"

text \<open>The answers of the browser and of the server to one attempt; the server's depends on what it has
  accepted before.\<close>

record 'key upgrade_env =
  ue_sc :: "'key subtle"
  ue_group :: srp_group
  ue_worker_error :: "string option"
  ue_source :: "'key reg_source"
  ue_registerSRP :: "registration_result list \<Rightarrow> registration_result \<Rightarrow> thrown + unit"
  ue_put_fault :: "string option"

definition register_call :: "'key upgrade_env \<Rightarrow> registration_result \<Rightarrow> ('key upgrade_screen, thrown, unit) action" where
  "register_call env result = act_try_update (\<lambda>s.
     case ue_registerSRP env (us_accepted s) result of
       Inl e \<Rightarrow> Inl e | Inr _ \<Rightarrow> Inr (s\<lparr>us_accepted := us_accepted s @ [result]\<rparr>))"

definition store_call :: "'key upgrade_env \<Rightarrow> string \<Rightarrow> registration_result \<Rightarrow> ('key upgrade_screen, thrown, unit) action" where
  "store_call env email result = act_try_update (\<lambda>s.
     js (and_then (storeSecretKey (ue_put_fault env) email (rg_secretKeyRaw result) (se_keys (us_session s)))
       (\<lambda>k. Inr (s\<lparr>us_session := (us_session s)\<lparr>se_keys := k\<rparr>\<rparr>))))"

definition handleUpgrade :: "'key upgrade_env \<Rightarrow> string \<Rightarrow> string \<Rightarrow> ('key upgrade_screen, thrown, unit) action" where
  "handleUpgrade env email password =
     act_bind (set_dialog (\<lambda>d. d\<lparr>ud_step := Generating, ud_error := None\<rparr>)) (\<lambda>_.
     act_catch
       (act_bind (act_call (js (performRegistration (ue_sc env) (ue_group env) (ue_worker_error env) (ue_source env)
                                  email password))) (\<lambda>result.
        act_bind (register_call env result) (\<lambda>_.
        act_bind (store_call env email result) (\<lambda>_.
        set_dialog (\<lambda>d. d\<lparr>ud_secretKey := rg_secretKey result, ud_step := Emergency_kit\<rparr>)))))
       (\<lambda>err.
        let msg = getErrorMessage err ''Security upgrade failed. Please try again.'' in
        set_dialog (\<lambda>d. d\<lparr>ud_error := Some msg, ud_step := Explain, ud_toasts := ud_toasts d @ [msg]\<rparr>)))"

text \<open>\<open>onComplete\<close> and \<open>onCancel\<close> are those of the login page.\<close>

definition handleEmergencyKitClose :: "'key auth_env \<Rightarrow> 'key upgrade_screen \<Rightarrow> 'key upgrade_screen" where
  "handleEmergencyKitClose env s =
     (case completeUpgrade env (us_session s) of
        (t, Inr _) \<Rightarrow> s\<lparr>us_session := t, us_location := ''/''\<rparr>
      | (t, Inl _) \<Rightarrow>
          s\<lparr>us_session := fst (cancelUpgrade t),
            us_dialog := (us_dialog s)\<lparr>ud_toasts := ud_toasts (us_dialog s)
              @ [JStr ''Login failed after upgrade. Please try signing in again.'']\<rparr>\<rparr>)"

section \<open>Password change\<close>

definition getPasswordScore :: "(string \<Rightarrow> nat) \<Rightarrow> string \<Rightarrow> nat" where
  "getPasswordScore zxcvbn password = (if password = [] then 0 else zxcvbn password)"

record pw_form =
  pf_current :: string
  pf_new :: string
  pf_confirm :: string
  pf_submitting :: bool
  pf_error :: "json option"

record password_change =
  pr_current :: string
  pr_new :: string
  pr_srp :: "(string \<times> string \<times> key_bundle) option"

text \<open>\<open>pc_sent\<close> holds the changes the server has accepted.\<close>

record 'key pw_screen =
  pc_form :: pw_form
  pc_session :: "'key session"
  pc_sent :: "password_change list"
  pc_toasts :: "string list"
  pc_location :: string

record 'key pw_env =
  pe_zxcvbn :: "string \<Rightarrow> nat"
  pe_sc :: "'key subtle"
  pe_group :: srp_group
  pe_worker_error :: "string option"
  pe_source :: "'key reg_source"
  pe_get_fault :: "string option"
  pe_changePassword :: "password_change \<Rightarrow> thrown + unit"
  pe_auth :: "'key auth_env"

definition set_form :: "(pw_form \<Rightarrow> pw_form) \<Rightarrow> ('key pw_screen, 'e, unit) action" where
  "set_form f = act_update (\<lambda>s. s\<lparr>pc_form := f (pc_form s)\<rparr>)"

text \<open>The checks in front of a submission: the message shown, or nothing.\<close>

definition pw_check :: "(string \<Rightarrow> nat) \<Rightarrow> pw_form \<Rightarrow> string option" where
  "pw_check zxcvbn f =
     (if length (pf_new f) < 8 then Some ''New password must be at least 8 characters''
      else if getPasswordScore zxcvbn (pf_new f) < 3
        then Some ''Password is too weak. Please choose a stronger password.''
      else if pf_new f \<noteq> pf_confirm f then Some ''New passwords do not match''
      else if pf_current f = pf_new f then Some ''New password must be different from current password''
      else None)"

definition change_params :: "'key reg_source \<Rightarrow> bytes \<Rightarrow> string \<Rightarrow> string \<Rightarrow> derive_params" where
  "change_params src k email newPassword =
     \<lparr>masterPassword = newPassword, secretKeyBytes = k, dp_email = email, accountId = email,
      pbkdf2Salt = rnd_pbkdf2Salt src, hkdfSalt = rnd_hkdfSalt src, iterations = None\<rparr>"

text \<open>What an SRP user sends: a new verifier and a new key pair and vault key under new salts.\<close>

definition srp_change :: "'key pw_env \<Rightarrow> bytes \<Rightarrow> string \<Rightarrow> pw_form \<Rightarrow> password_change result" where
  "srp_change env k email f =
     (let sc = pe_sc env; src = pe_source env in
     and_then (deriveKeysInWorker sc (pe_worker_error env) (change_params src k email (pf_new f))) (\<lambda>(auk, srpX).
     and_then (computeVerifier (pe_group env) (reg_toHex srpX)) (\<lambda>verifierHex.
     and_then (gen_rsa src) (\<lambda>(publicKey, privateKey).
     and_then (sc_export_spki sc publicKey) (\<lambda>publicKeyBuffer.
     and_then (sc_wrap sc ''pkcs8'' privateKey auk (rnd_privateKeyNonce src)) (\<lambda>wrappedPrivateKey.
     and_then (gen_vaultKey src) (\<lambda>vaultKey.
     and_then (sc_wrap sc ''raw'' vaultKey auk (rnd_vaultKeyNonce src)) (\<lambda>wrappedVaultKey.
     Inr \<lparr>pr_current = pf_current f, pr_new = pf_new f,
          pr_srp = Some (reg_toHex (rnd_srpSalt src), verifierHex,
            \<lparr>encrypted_private_key = toBase64 wrappedPrivateKey,
             private_key_nonce = toBase64 (rnd_privateKeyNonce src),
             encrypted_vault_key = toBase64 wrappedVaultKey,
             vault_key_nonce = toBase64 (rnd_vaultKeyNonce src),
             public_key = toBase64 publicKeyBuffer,
             pbkdf2_salt = toBase64 (rnd_pbkdf2Salt src),
             hkdf_salt = toBase64 (rnd_hkdfSalt src)\<rparr>)\<rparr>))))))))"

definition password_call :: "'key pw_env \<Rightarrow> password_change \<Rightarrow> ('key pw_screen, thrown, unit) action" where
  "password_call env r = act_try_update (\<lambda>s.
     case pe_changePassword env r of Inl e \<Rightarrow> Inl e | Inr _ \<Rightarrow> Inr (s\<lparr>pc_sent := pc_sent s @ [r]\<rparr>))"

text \<open>The \<open>try\<close> block up to the end of the branches; the result says whether the handler goes on, the
  early return being the other case.\<close>

definition change_try :: "'key pw_env \<Rightarrow> pw_form \<Rightarrow> user_me option \<Rightarrow> ('key pw_screen, thrown, bool) action" where
  "change_try env f user =
     (if map_option um_auth_version user = Some 2 then
        (let email = um_email (the user) in
         act_bind (act_read (\<lambda>s. js (getSecretKey (pe_get_fault env) email (se_keys (pc_session s))))) (\<lambda>stored.
         case stored of
           None \<Rightarrow>
             act_bind (set_form (\<lambda>f. f\<lparr>pf_error := Some (JStr ''Secret Key not found on this device. Cannot change password.''),
                                       pf_submitting := False\<rparr>))
               (\<lambda>_. act_return False)
         | Some k \<Rightarrow>
             act_bind (act_call (js (srp_change env k email f))) (\<lambda>r.
             act_bind (password_call env r) (\<lambda>_. act_return True))))
      else act_bind (password_call env \<lparr>pr_current = pf_current f, pr_new = pf_new f, pr_srp = None\<rparr>)
             (\<lambda>_. act_return True))"

definition sign_out :: "'key auth_env \<Rightarrow> ('key pw_screen, thrown, unit) action" where
  "sign_out env = (\<lambda>s. case logout env (pc_session s) of (t, r) \<Rightarrow> (s\<lparr>pc_session := t\<rparr>, r))"

definition change_handleSubmit :: "'key pw_env \<Rightarrow> ('key pw_screen, thrown, unit) action" where
  "change_handleSubmit env = (\<lambda>s0.
     let f = pc_form s0; user = au_user (se_auth (pc_session s0)) in
     act_bind (set_form (\<lambda>f. f\<lparr>pf_error := None\<rparr>)) (\<lambda>_.
     case pw_check (pe_zxcvbn env) f of
       Some m \<Rightarrow> set_form (\<lambda>f. f\<lparr>pf_error := Some (JStr m)\<rparr>)
     | None \<Rightarrow>
         act_bind (set_form (\<lambda>f. f\<lparr>pf_submitting := True\<rparr>)) (\<lambda>_.
         act_bind
           (act_catch
             (act_bind (change_try env f user) (\<lambda>goes_on.
              if goes_on then
                act_bind (act_update (\<lambda>s. s\<lparr>pc_toasts := pc_toasts s @ [''Password changed. Please sign in again.'']\<rparr>)) (\<lambda>_.
                act_bind (sign_out (pe_auth env)) (\<lambda>_.
                act_update (\<lambda>s. s\<lparr>pc_location := ''/login''\<rparr>)))
              else act_return ()))
             (\<lambda>err. set_form (\<lambda>f. f\<lparr>pf_error := Some (getErrorMessage err ''Failed to change password'')\<rparr>))) (\<lambda>_.
         set_form (\<lambda>f. f\<lparr>pf_submitting := False\<rparr>)))) s0)"

section \<open>Reset pages\<close>

record reset_page =
  rp_password :: string
  rp_confirm :: string
  rp_submitting :: bool
  rp_success :: bool
  rp_error :: "json option"

text \<open>The page for a token: \<open>resetPassword\<close> is the server's answer; nothing is sent unless the two
  entries agree and are long enough.\<close>

definition reset_ready :: "reset_page \<Rightarrow> bool" where
  "reset_ready p \<longleftrightarrow> rp_password p \<noteq> [] \<and> rp_confirm p \<noteq> [] \<and> rp_password p = rp_confirm p \<and> 8 \<le> length (rp_password p)"

definition reset_handleSubmit ::
  "(string \<Rightarrow> string \<Rightarrow> thrown + unit) \<Rightarrow> string \<Rightarrow> reset_page \<Rightarrow> (string \<times> string) list \<times> reset_page" where
  "reset_handleSubmit resetPassword token p =
     (if \<not> reset_ready p then ([], p)
      else ([(token, rp_password p)],
        case resetPassword token (rp_password p) of
          Inr _ \<Rightarrow> p\<lparr>rp_submitting := False, rp_error := None, rp_success := True\<rparr>
        | Inl err \<Rightarrow> p\<lparr>rp_submitting := False, rp_error := Some (case detail_of err of
              Some d \<Rightarrow> if d = JNull then JStr ''Something went wrong. Please try again.'' else d
            | None \<Rightarrow> JStr ''Something went wrong. Please try again.'')\<rparr>))"

record forgot_page =
  fp_email :: string
  fp_submitting :: bool
  fp_sent :: bool
  fp_error :: "string option"

definition forgot_handleSubmit :: "(string \<Rightarrow> thrown + unit) \<Rightarrow> forgot_page \<Rightarrow> string list \<times> forgot_page" where
  "forgot_handleSubmit forgotPassword p =
     (if fp_email p = [] then ([], p)
      else ([fp_email p],
        case forgotPassword (fp_email p) of
          Inr _ \<Rightarrow> p\<lparr>fp_submitting := False, fp_error := None, fp_sent := True\<rparr>
        | Inl _ \<Rightarrow> p\<lparr>fp_submitting := False, fp_error := Some ''Something went wrong. Please try again.''\<rparr>))"

section \<open>Where a login ends\<close>

text \<open>A login that returns normally has a session, asks for the Secret Key or starts the upgrade.\<close>

lemma srp_authenticate_keeps:
  assumes "\<And>b s. P s \<Longrightarrow> P (s\<lparr>se_auth := (se_auth s)\<lparr>isDerivingKeys := b\<rparr>\<rparr>)"
  shows "triple P (srp_authenticate env email pw k) (\<lambda>_. P) (\<lambda>_. P)"
  unfolding srp_authenticate_def set_auth_def by (intro triple_rules) (auto intro: assms)

lemma srp_handshake_outcome:
  "triple (\<lambda>s. b \<longrightarrow> needsSecretKey (se_auth s)) (srp_handshake env email pw k)
     (\<lambda>_ s. isAuthenticated (se_auth s)) (\<lambda>_ s. b \<longrightarrow> needsSecretKey (se_auth s))"
proof -
  let ?P = "\<lambda>s. b \<longrightarrow> needsSecretKey (se_auth s)"
  have keys: "triple ?P (case ks of None \<Rightarrow> act_return () | Some ks \<Rightarrow> unlock_keys env auk ks) (\<lambda>_. ?P) (\<lambda>_. ?P)" for auk ks
    by (intro triple_optionI triple_returnI unlock_keys_triple) auto
  have finish: "triple ?P (srp_finish env email k auk ks) (\<lambda>_ s. isAuthenticated (se_auth s)) (\<lambda>_. ?P)" for auk ks
    unfolding srp_finish_def handler_defs
    by (intro triple_bind_updateI triple_bindI [OF triple_weaken [OF keys]] triple_rules)
      (auto dest: store_step)
  show ?thesis
    unfolding srp_handshake_def
    by (rule triple_bindI [OF srp_authenticate_keeps]) (auto intro!: triple_prodI finish)
qed

lemma srpLogin_outcome:
  "triple (\<lambda>s. truthy_str input \<longrightarrow> needsSecretKey (se_auth s)) (srpLogin env email pw input)
     (\<lambda>_ s. needsSecretKey (se_auth s) \<or> isAuthenticated (se_auth s)) (\<lambda>_ _. True)"
proof -
  let ?P = "\<lambda>s. truthy_str input \<longrightarrow> needsSecretKey (se_auth s)"
  let ?Q = "\<lambda>s. needsSecretKey (se_auth s) \<or> isAuthenticated (se_auth s)"
  have h: "triple (\<lambda>s. ?P s \<and> B s) (srp_handshake env email pw k) (\<lambda>_. ?Q) (\<lambda>_. ?P)" for k B
    by (rule triple_weaken [OF srp_handshake_outcome]) auto
  have try_ok: "triple ?P (srp_try env email pw input) (\<lambda>_. ?Q) (\<lambda>_. ?P)"
    unfolding srp_try_def set_auth_def by (intro triple_rules h) auto
  have fail: "triple ?P (srp_fail input e) (\<lambda>_. ?Q) (\<lambda>_ _. True)" for e
    unfolding srp_fail_def handler_defs by (intro triple_rules) auto
  show ?thesis
    unfolding srpLogin_def set_auth_def
    by (intro triple_bind_updateI triple_weaken [OF triple_catchI [OF try_ok fail]]) auto
qed

lemma login_outcome:
  "triple (\<lambda>_. True) (login env email pw)
     (\<lambda>_ s. isAuthenticated (se_auth s) \<or> isUpgrading (se_auth s) \<or> needsSecretKey (se_auth s)) (\<lambda>_ _. True)"
proof -
  have srp: "triple (\<lambda>_. True) (srpLogin env email pw None)
      (\<lambda>_ s. isAuthenticated (se_auth s) \<or> isUpgrading (se_auth s) \<or> needsSecretKey (se_auth s)) (\<lambda>_ _. True)"
    by (rule triple_weaken [OF srpLogin_outcome]) (auto simp: truthy_str_def)
  show ?thesis
    unfolding login_def handler_defs
    by (intro triple_bind_updateI triple_catchI [where R = "\<lambda>_ _. True"] triple_rules triple_weaken [OF srp])
      (auto simp: set_user_def)
qed



section \<open>A login against the stored account\<close>

lemma hexToBytes_even [simp]: "hexToBytes (even_hex s) = hexToBytes s"
  by (simp add: hexToBytes_def even_hex_id)

text \<open>An SRP login in which every call succeeds.\<close>

lemma unlock_keys_run:
  assumes "wrap_documented sc restrict" and "ae_sc env = sc"
    and "sc_wrap sc ''raw'' vaultKey auk nvault = Inr wvault"
    and "sc_wrap sc ''pkcs8'' privateKey auk npriv = Inr wpriv"
    and "encrypted_vault_key ks = toBase64 wvault" "vault_key_nonce ks = toBase64 nvault"
    and "encrypted_private_key ks = toBase64 wpriv" "private_key_nonce ks = toBase64 npriv"
  shows "unlock_keys env auk ks s =
    (s\<lparr>se_keys := setPrivateKey (restrict False [''decrypt''] privateKey)
        (setVaultKey (restrict False [''encrypt'', ''decrypt''] vaultKey) (se_keys s))\<rparr>, Inr ())"
  using assms by (simp add: unlock_keys_def wrap_documented_def handler_defs act_catch_def)

lemma derive_nonempty:
  assumes "deriveKeysInWorker sc None p = Inr (auk, srpX)"
    and "\<And>key salt info out. sc_hkdf sc key salt info = Inr out \<Longrightarrow> out \<noteq> []"
  shows "srpX \<noteq> []"
  using assms by (auto simp: worker_derivation_eq deriveKeys_def deriveRawBytes_def and_then_Inr_iff Let_def)

text \<open>The server stores a verifier, salts and a key bundle that were made from a password and a Secret Key,
  and follows SRP-6a: then the handshake with the same two secrets ends with the session, the keys of
  the bundle and the Secret Key stored.\<close>

lemma srp_handshake_run:
  assumes grp: "2 < grp_N grp" "grp_g grp ^ nat (grp_N grp - 1) mod grp_N grp = 1"
    and sha: "sha = sc_digest sc" "\<And>m. sha m \<noteq> []"
    and hkdf: "\<And>key salt info out. sc_hkdf sc key salt info = Inr out \<Longrightarrow> out \<noteq> []"
    and wrap: "wrap_documented sc restrict"
    and account: "deriveKeysInWorker sc None (srp_params email pw sk salt1 salt2) = Inr (auk, srpX)"
      "computeVerifier grp (bytesToHex srpX) = Inr verifier"
    and wvault: "sc_wrap sc ''raw'' vaultKey auk nvault = Inr wvault"
    and wpriv: "sc_wrap sc ''pkcs8'' privateKey auk npriv = Inr wpriv"
    and ks: "encrypted_vault_key ks = toBase64 wvault" "vault_key_nonce ks = toBase64 nvault"
      "encrypted_private_key ks = toBase64 wpriv" "private_key_nonce ks = toBase64 npriv"
    and env: "ae_sc env = sc" "ae_group env = grp" "ae_worker_error env = None" "ae_put_fault env = None"
      "ae_me env = Inr user"
    and init: "ae_srpInit env email = Inr init" "si_pbkdf2_salt init = toBase64 salt1" "si_hkdf_salt init = toBase64 salt2"
    and server: "BigInt_hex verifier = Inr v" "srp_k sha grp = Inr k" "B = server_B grp k v b"
      "BigInt_hex (si_server_public init) = Inr B"
    and client: "new_SRPClient grp email (ae_rnd env) = Inr c"
    and scramble: "srp_u sha grp (cl_A c) B = Inr u" "u \<noteq> 0" "B \<noteq> 0"
    and K: "K = sha (bigintToBytes (server_S grp (cl_A c) v u b))"
    and verify: "\<And>p. sv_client_proof p = bytesToHex (client_M1 sha c (si_salt init) B K) \<Longrightarrow>
      ae_srpVerify env p = Inr \<lparr>sr_server_proof = bytesToHex (sha (hexToBytes (sv_client_public p)
          @ hexToBytes (sv_client_proof p) @ K)), sr_encrypted_key_set = Some ks\<rparr>"
  shows "srp_handshake env email pw sk t =
    (t\<lparr>se_auth := (se_auth t)\<lparr>isDerivingKeys := False, au_user := Some user, isAuthenticated := True,
          isLoading := False, needsSecretKey := False\<rparr>,
       se_keys := db_store email sk (setPrivateKey (restrict False [''decrypt''] privateKey)
         (setVaultKey (restrict False [''encrypt'', ''decrypt''] vaultKey) (setAUK auk (se_keys t))))\<rparr>, Inr ())"
proof -
  have "srpX \<noteq> []" by (rule derive_nonempty [OF account(1)]) (rule hkdf)
  note session = srp_session [OF grp sha(2) client this account(2) server scramble, of "si_salt init"]
  let ?M1 = "client_M1 sha c (si_salt init) B K"
  let ?c = "c\<lparr>cl_A_hex := toHex (cl_A c), cl_M1 := Some ?M1, cl_K := Some K\<rparr>"
  have proof_ok: "verifyServerProof sha ?c (bytesToHex (sha (hexToBytes (toHex (cl_A c)) @ ?M1 @ K))) = Inr True"
    using verifyServerProof_expected [of ?c ?M1 K sha] by simp
  have "srp_authenticate env email pw sk t =
      (t\<lparr>se_auth := (se_auth t)\<lparr>isDerivingKeys := False\<rparr>\<rparr>, Inr (auk, Some ks))"
    using session account(1) proof_ok
    by (simp add: srp_authenticate_def init env client handler_defs sha(1) [symmetric] K [symmetric]
        Let_def verify getPublicEphemeral_def hexToBytes_bytesToHex)
  then have "srp_handshake env email pw sk t =
      srp_finish env email sk auk (Some ks) (t\<lparr>se_auth := (se_auth t)\<lparr>isDerivingKeys := False\<rparr>\<rparr>)"
    by (simp add: srp_handshake_def act_bind_def)
  then show ?thesis
    by (simp add: srp_finish_def handler_defs act_bind_def act_try_update_def
        unlock_keys_run [OF wrap env(1) wvault wpriv ks] db_ops env)
qed

text \<open>The Secret Key used is the one stored on the device, or the one entered when there is none.\<close>

lemma srpLogin_run:
  assumes "sc_available (ae_sc env)" and "ae_get_fault env = None"
    and "db_get email (se_keys s) = Some sk \<or>
         db_get email (se_keys s) = None \<and> input = Some i \<and> i \<noteq> [] \<and> parseSecretKey i = Some sk"
    and "\<And>t. se_keys t = se_keys s \<Longrightarrow> \<exists>s'. srp_handshake env email pw sk t = (s', Inr ()) \<and> P s'"
  shows "\<exists>s'. srpLogin env email pw input s = (s', Inr ()) \<and> P s'"
proof -
  let ?t = "s\<lparr>se_auth := (se_auth s)\<lparr>isLoading := True, isDerivingKeys := True, au_error := None\<rparr>\<rparr>"
  have "srp_try env email pw input ?t = srp_handshake env email pw sk ?t"
    using assms(1-3) by (auto simp: srp_try_def assertWebCryptoAvailable_def act_bind_def act_read_def
        truthy_str_def db_ops)
  then show ?thesis
    using assms(4) [of ?t] by (auto simp: srpLogin_def handler_defs act_catch_def)
qed

section \<open>A changed password\<close>

text \<open>What the browser promises: the group of the parameters, non-empty digests and derived keys, key
  wrapping that can be undone.\<close>

definition platform_ok :: "'key subtle \<Rightarrow> srp_group \<Rightarrow> (bool \<Rightarrow> string list \<Rightarrow> 'key \<Rightarrow> 'key) \<Rightarrow> bool" where
  "platform_ok sc grp restrict \<longleftrightarrow>
     2 < grp_N grp \<and> grp_g grp ^ nat (grp_N grp - 1) mod grp_N grp = 1 \<and> (\<forall>m. sc_digest sc m \<noteq> []) \<and>
     (\<forall>key salt info out. sc_hkdf sc key salt info = Inr out \<longrightarrow> out \<noteq> []) \<and> wrap_documented sc restrict"

text \<open>A server that has stored the account and answers as SRP-6a prescribes, in a run in which the
  scrambling parameter and the public value are not zero.\<close>

definition server_follows :: "'key auth_env \<Rightarrow> string \<Rightarrow> string \<Rightarrow> key_bundle \<Rightarrow> bool" where
  "server_follows env email verifier ks \<longleftrightarrow>
     (let sha = sc_digest (ae_sc env); grp = ae_group env in
      \<exists>init v k b B c u K.
        ae_srpInit env email = Inr init \<and> si_pbkdf2_salt init = pbkdf2_salt ks \<and> si_hkdf_salt init = hkdf_salt ks
      \<and> BigInt_hex verifier = Inr v \<and> srp_k sha grp = Inr k \<and> B = server_B grp k v b
      \<and> BigInt_hex (si_server_public init) = Inr B \<and> new_SRPClient grp email (ae_rnd env) = Inr c
      \<and> srp_u sha grp (cl_A c) B = Inr u \<and> u \<noteq> 0 \<and> B \<noteq> 0
      \<and> K = sha (bigintToBytes (server_S grp (cl_A c) v u b))
      \<and> (\<forall>p. sv_client_proof p = bytesToHex (client_M1 sha c (si_salt init) B K) \<longrightarrow>
           ae_srpVerify env p = Inr \<lparr>sr_server_proof = bytesToHex (sha (hexToBytes (sv_client_public p)
             @ hexToBytes (sv_client_proof p) @ K)), sr_encrypted_key_set = Some ks\<rparr>))"

definition browser_works :: "'key auth_env \<Rightarrow> user_me \<Rightarrow> bool" where
  "browser_works env user \<longleftrightarrow> sc_available (ae_sc env) \<and> ae_worker_error env = None \<and> ae_get_fault env = None \<and>
     ae_put_fault env = None \<and> ae_me env = Inr user"

text \<open>A submission that ends on the login page has passed the checks, and the server has accepted the
  change made from the stored Secret Key.\<close>

lemma change_submit_srp:
  assumes "change_handleSubmit env s = (s1, r)" and "pc_location s \<noteq> ''/login''" and "pc_location s1 = ''/login''"
    and "au_user (se_auth (pc_session s)) = Some u" and "um_auth_version u = 2"
  obtains sk req where "pw_check (pe_zxcvbn env) (pc_form s) = None"
    "getSecretKey (pe_get_fault env) (um_email u) (se_keys (pc_session s)) = Inr (Some sk)"
    "srp_change env sk (um_email u) (pc_form s) = Inr req" "pc_sent s1 = pc_sent s @ [req]"
    "se_keys (pc_session s1) = clearAll (se_keys (pc_session s))"
proof (cases "pw_check (pe_zxcvbn env) (pc_form s)")
  case None
  show ?thesis
  proof (cases "getSecretKey (pe_get_fault env) (um_email u) (se_keys (pc_session s))")
    case (Inl e)
    then show ?thesis
      using assms None by (auto simp: change_handleSubmit_def change_try_def set_form_def act_defs Let_def)
  next
    case (Inr stored)
    show ?thesis
    proof (cases stored)
      case None': None
      then show ?thesis
        using assms None Inr by (auto simp: change_handleSubmit_def change_try_def set_form_def act_defs Let_def)
    next
      case (Some sk)
      show ?thesis
      proof (cases "srp_change env sk (um_email u) (pc_form s)")
        case (Inl e)
        then show ?thesis
          using assms None Inr Some by (auto simp: change_handleSubmit_def change_try_def set_form_def act_defs Let_def)
      next
        case req: (Inr req)
        show ?thesis
        proof (cases "pe_changePassword env req")
          case (Inl e)
          then show ?thesis
            using assms None Inr Some req
            by (auto simp: change_handleSubmit_def change_try_def password_call_def set_form_def act_defs Let_def)
        next
          case ok: (Inr x)
          show ?thesis
            by (rule that [OF None Inr [unfolded Some] req])
              (use assms None Inr Some req ok in \<open>auto simp: change_handleSubmit_def change_try_def password_call_def
                set_form_def sign_out_def logout_run act_defs Let_def\<close>)
        qed
      qed
    qed
  qed
next
  case (Some m)
  then show ?thesis using assms by (auto simp: change_handleSubmit_def set_form_def act_defs Let_def)
qed

lemma srp_change_Inr:
  assumes "srp_change env sk email f = Inr req"
  obtains auk srpX publicKey privateKey vaultKey wpriv wvault verifier ks where
    "deriveKeysInWorker (pe_sc env) (pe_worker_error env)
       (srp_params email (pf_new f) sk (rnd_pbkdf2Salt (pe_source env)) (rnd_hkdfSalt (pe_source env))) = Inr (auk, srpX)"
    "computeVerifier (pe_group env) (bytesToHex srpX) = Inr verifier"
    "gen_rsa (pe_source env) = Inr (publicKey, privateKey)" "gen_vaultKey (pe_source env) = Inr vaultKey"
    "sc_wrap (pe_sc env) ''raw'' vaultKey auk (rnd_vaultKeyNonce (pe_source env)) = Inr wvault"
    "sc_wrap (pe_sc env) ''pkcs8'' privateKey auk (rnd_privateKeyNonce (pe_source env)) = Inr wpriv"
    "encrypted_vault_key ks = toBase64 wvault" "vault_key_nonce ks = toBase64 (rnd_vaultKeyNonce (pe_source env))"
    "encrypted_private_key ks = toBase64 wpriv" "private_key_nonce ks = toBase64 (rnd_privateKeyNonce (pe_source env))"
    "pbkdf2_salt ks = toBase64 (rnd_pbkdf2Salt (pe_source env))" "hkdf_salt ks = toBase64 (rnd_hkdfSalt (pe_source env))"
    "req = \<lparr>pr_current = pf_current f, pr_new = pf_new f,
       pr_srp = Some (reg_toHex (rnd_srpSalt (pe_source env)), verifier, ks)\<rparr>"
  using assms
  by (auto simp: srp_change_def change_params_def srp_params_def reg_toHex_eq and_then_Inr_iff Let_def)

lemma change_then_login:
  assumes sub: "change_handleSubmit penv s = (s1, r)" "pc_location s \<noteq> ''/login''" "pc_location s1 = ''/login''"
    and u: "au_user (se_auth (pc_session s)) = Some u" "um_auth_version u = 2"
    and penv: "pe_sc penv = ae_sc env" "pe_group penv = ae_group env" "pe_worker_error penv = None" "pe_get_fault penv = None"
    and platform: "platform_ok (ae_sc env) (ae_group env) restrict"
    and env: "browser_works env user"
    and stored: "pr_srp (last (pc_sent s1)) = Some (salt, verifier, ks)" "server_follows env (um_email u) verifier ks"
    and gen: "gen_vaultKey (pe_source penv) = Inr vaultKey"
  shows "pw_check (pe_zxcvbn penv) (pc_form s) = None \<and>
    (\<exists>s'. srpLogin env (um_email u) (pf_new (pc_form s)) None (pc_session s1) = (s', Inr ()) \<and>
       isAuthenticated (se_auth s') \<and> au_user (se_auth s') = Some user \<and>
       getVaultKey (se_keys s') = Some (restrict False [''encrypt'', ''decrypt''] vaultKey))"
proof -
  obtain sk req where check: "pw_check (pe_zxcvbn penv) (pc_form s) = None"
    and sk: "getSecretKey (pe_get_fault penv) (um_email u) (se_keys (pc_session s)) = Inr (Some sk)"
    and req: "srp_change penv sk (um_email u) (pc_form s) = Inr req" "pc_sent s1 = pc_sent s @ [req]"
    and keys: "se_keys (pc_session s1) = clearAll (se_keys (pc_session s))"
    by (rule change_submit_srp [OF sub u])
  obtain auk srpX publicKey privateKey vaultKey' wpriv wvault verifier' ks' where
    derive: "deriveKeysInWorker (ae_sc env) None (srp_params (um_email u) (pf_new (pc_form s)) sk
        (rnd_pbkdf2Salt (pe_source penv)) (rnd_hkdfSalt (pe_source penv))) = Inr (auk, srpX)"
    and v: "computeVerifier (ae_group env) (bytesToHex srpX) = Inr verifier'"
    and vk: "gen_vaultKey (pe_source penv) = Inr vaultKey'"
    and wraps: "sc_wrap (ae_sc env) ''raw'' vaultKey' auk (rnd_vaultKeyNonce (pe_source penv)) = Inr wvault"
      "sc_wrap (ae_sc env) ''pkcs8'' privateKey auk (rnd_privateKeyNonce (pe_source penv)) = Inr wpriv"
    and kb: "encrypted_vault_key ks' = toBase64 wvault" "vault_key_nonce ks' = toBase64 (rnd_vaultKeyNonce (pe_source penv))"
      "encrypted_private_key ks' = toBase64 wpriv" "private_key_nonce ks' = toBase64 (rnd_privateKeyNonce (pe_source penv))"
    and salts: "pbkdf2_salt ks' = toBase64 (rnd_pbkdf2Salt (pe_source penv))"
      "hkdf_salt ks' = toBase64 (rnd_hkdfSalt (pe_source penv))"
    and r: "req = \<lparr>pr_current = pf_current (pc_form s), pr_new = pf_new (pc_form s),
      pr_srp = Some (reg_toHex (rnd_srpSalt (pe_source penv)), verifier', ks')\<rparr>"
    using req(1) by (elim srp_change_Inr) (simp add: penv)
  have eqs: "verifier' = verifier" "ks' = ks" "vaultKey' = vaultKey"
    using stored(1) req(2) r vk gen by simp_all
  obtain init vv k b B c uu K where server: "ae_srpInit env (um_email u) = Inr init"
      "si_pbkdf2_salt init = pbkdf2_salt ks" "si_hkdf_salt init = hkdf_salt ks"
    and srv: "BigInt_hex verifier = Inr vv" "srp_k (sc_digest (ae_sc env)) (ae_group env) = Inr k"
      "B = server_B (ae_group env) k vv b" "BigInt_hex (si_server_public init) = Inr B"
      "new_SRPClient (ae_group env) (um_email u) (ae_rnd env) = Inr c"
      "srp_u (sc_digest (ae_sc env)) (ae_group env) (cl_A c) B = Inr uu" "uu \<noteq> 0" "B \<noteq> 0"
      "K = sc_digest (ae_sc env) (bigintToBytes (server_S (ae_group env) (cl_A c) vv uu b))"
    and verify: "\<And>p. sv_client_proof p = bytesToHex (client_M1 (sc_digest (ae_sc env)) c (si_salt init) B K) \<Longrightarrow>
       ae_srpVerify env p = Inr \<lparr>sr_server_proof = bytesToHex (sc_digest (ae_sc env) (hexToBytes (sv_client_public p)
         @ hexToBytes (sv_client_proof p) @ K)), sr_encrypted_key_set = Some ks\<rparr>"
    using stored(2) unfolding server_follows_def Let_def by blast
  have run: "\<exists>s'. srp_handshake env (um_email u) (pf_new (pc_form s)) sk t = (s', Inr ()) \<and>
      isAuthenticated (se_auth s') \<and> au_user (se_auth s') = Some user \<and>
      getVaultKey (se_keys s') = Some (restrict False [''encrypt'', ''decrypt''] vaultKey)" for t
    using srp_handshake_run [of "ae_group env" "sc_digest (ae_sc env)" "ae_sc env" restrict, OF _ _ refl _ _ _ derive
        v [unfolded eqs] wraps [unfolded eqs] kb [unfolded eqs] refl refl _ _ _ server(1)
        server(2) [folded eqs, unfolded salts] server(3) [folded eqs, unfolded salts]
        srv(1-4) srv(5-9) verify, of user t]
      platform env unfolding platform_ok_def browser_works_def by (auto simp: key_store_defs db_store_def)
  have "db_get (um_email u) (se_keys (pc_session s1)) = Some sk"
    using sk by (simp add: keys penv db_ops) (simp add: db_get_def key_store_defs)
  then show ?thesis
    using check env srpLogin_run [of env "um_email u" "pc_session s1" sk None undefined, OF _ _ _ run]
    by (simp add: browser_works_def)
qed


text \<open>AES-GCM rejects a key with other key material; restricting a key leaves its material alone.\<close>

definition other_key_rejected :: "'key subtle \<Rightarrow> ('key \<Rightarrow> 'm) \<Rightarrow> (bool \<Rightarrow> string list \<Rightarrow> 'key \<Rightarrow> 'key) \<Rightarrow> bool" where
  "other_key_rejected sc material restrict \<longleftrightarrow>
     (\<forall>k k' n d c. sc_encrypt sc k n d = Inr c \<and> material k' \<noteq> material k \<longrightarrow> (\<exists>e. sc_decrypt sc k' n c = Inl e)) \<and>
     (\<forall>ext us k. material (restrict ext us k) = material k)"

lemma other_key_fails:
  assumes "other_key_rejected sc material restrict" and "aead_documented sc" and "length nonce = 12"
    and "encryptText sc nonce text k = Inr c" and "material k' \<noteq> material k"
  shows "\<exists>e. decryptText sc c (restrict ext us k') = Inl e"
proof -
  obtain d where d: "sc_encrypt sc k nonce (utf8_encode text) = Inr d" "c = uint8ToBase64 (packEncrypted nonce d)"
    using assms(4) by (auto simp: encryptText_def encryptForStorage_def and_then_Inr_iff)
  then have "length d = length (utf8_encode text) + 16" using assms(2) unfolding aead_documented_def by blast
  then have "d \<noteq> []" by auto
  moreover have "\<exists>e. sc_decrypt sc (restrict ext us k') nonce d = Inl e"
    using assms(1,5) d(1) unfolding other_key_rejected_def by metis
  ultimately show ?thesis
    using unpack_pack [OF assms(3)] by (auto simp: d(2) decryptText_def decryptFromStorage_def)
qed

text \<open>A password change gives up the vault. The change wraps a freshly generated vault key instead of the
  one in use, so whatever was encrypted under the former key cannot be decrypted with the key the next
  login unlocks.\<close>
theorem password_change_loses_vault:
  assumes "change_handleSubmit penv s = (s1, r)" "pc_location s \<noteq> ''/login''" "pc_location s1 = ''/login''"
    and "au_user (se_auth (pc_session s)) = Some u" "um_auth_version u = 2"
    and "pe_sc penv = ae_sc env" "pe_group penv = ae_group env" "pe_worker_error penv = None" "pe_get_fault penv = None"
    and "platform_ok (ae_sc env) (ae_group env) restrict" and "browser_works env user"
    and "pr_srp (last (pc_sent s1)) = Some (salt, verifier, ks)" "server_follows env (um_email u) verifier ks"
    and "gen_vaultKey (pe_source penv) = Inr vaultKey"
    and old: "getVaultKey (se_keys (pc_session s)) = Some oldKey" "material vaultKey \<noteq> material oldKey"
    and aead: "other_key_rejected (ae_sc env) material restrict" "aead_documented (ae_sc env)"
    and stored: "encryptText (ae_sc env) nonce text oldKey = Inr c" "length nonce = 12"
  shows "\<exists>s' newKey e. srpLogin env (um_email u) (pf_new (pc_form s)) None (pc_session s1) = (s', Inr ()) \<and>
    getVaultKey (se_keys s') = Some newKey \<and> decryptText (ae_sc env) c newKey = Inl e"
  using change_then_login [OF assms(1-14)] other_key_fails [OF aead stored(2,1) old(2)] by metis

subsection \<open>A browser and a server to change a password with\<close>

text \<open>Keys are single bytes; the tag of a ciphertext repeats the key.\<close>

definition byte_subtle :: "byte subtle" where
  "byte_subtle = \<lparr>sc_available = True, sc_digest = \<lambda>_. [3], sc_hkdf = \<lambda>_ _ _. Inr [4],
     sc_pbkdf2 = \<lambda>_ _ _. Inr [], sc_import_aes = \<lambda>_ _ _. Inr 1, sc_encrypt = \<lambda>k _ d. Inr (d @ replicate 16 k),
     sc_decrypt = \<lambda>k _ d. if 16 \<le> length d \<and> last d = k then Inr (take (length d - 16) d) else Inl ''OperationError'',
     sc_wrap = \<lambda>_ k _ _. Inr [k], sc_unwrap = \<lambda>_ b _ _ _ _. Inr (hd b), sc_export_spki = \<lambda>_. Inr []\<rparr>"

definition byte_source :: "byte reg_source" where
  "byte_source = \<lparr>rnd_secretKey = [], rnd_pbkdf2Salt = [1], rnd_hkdfSalt = [2], rnd_srpSalt = [5],
     gen_rsa = Inr (2, 3), rnd_privateKeyNonce = [8], gen_vaultKey = Inr 9, rnd_vaultKeyNonce = [10]\<rparr>"

definition byte_bundle :: key_bundle where
  "byte_bundle = \<lparr>encrypted_private_key = toBase64 [3], private_key_nonce = toBase64 [8],
     encrypted_vault_key = toBase64 [9], vault_key_nonce = toBase64 [10], public_key = toBase64 [],
     pbkdf2_salt = toBase64 [1], hkdf_salt = toBase64 [2]\<rparr>"

definition demo_user :: user_me where
  "demo_user = \<lparr>um_id = ''1'', um_email = ''a'', um_name = ''A'', um_role = ''operator'', um_tenant_id = None,
     um_auth_version = 2\<rparr>"

definition byte_env :: "byte auth_env" where
  "byte_env = \<lparr>ae_sc = byte_subtle, ae_group = demo_group, ae_worker_error = None, ae_get_fault = None,
     ae_put_fault = None, ae_rnd = [6], ae_login = \<lambda>_ _. Inr False, ae_me = Inr demo_user,
     ae_srpInit = \<lambda>_. Inr \<lparr>si_salt = ''05'', si_server_public = ''f'', si_session_id = ''s'',
       si_pbkdf2_salt = toBase64 [1], si_hkdf_salt = toBase64 [2]\<rparr>,
     ae_srpVerify = \<lambda>_. Inr \<lparr>sr_server_proof = ''03'', sr_encrypted_key_set = Some byte_bundle\<rparr>,
     ae_logout = Inr ()\<rparr>"

definition byte_pw_env :: "byte pw_env" where
  "byte_pw_env = \<lparr>pe_zxcvbn = \<lambda>_. 4, pe_sc = byte_subtle, pe_group = demo_group, pe_worker_error = None,
     pe_source = byte_source, pe_get_fault = None, pe_changePassword = \<lambda>_. Inr (), pe_auth = byte_env\<rparr>"

definition byte_screen :: "byte pw_screen" where
  "byte_screen = \<lparr>pc_form = \<lparr>pf_current = ''old'', pf_new = ''new password'', pf_confirm = ''new password'',
       pf_submitting = False, pf_error = None\<rparr>,
     pc_session = \<lparr>se_auth = auth_init\<lparr>au_user := Some demo_user, isAuthenticated := True\<rparr>,
       se_keys = db_store ''a'' [7] (setVaultKey 5 (setAUK 1 key_store_init))\<rparr>,
     pc_sent = [], pc_toasts = [], pc_location = ''/settings''\<rparr>"

lemma byte_derive: "deriveKeysInWorker byte_subtle None p = Inr (1, [4])"
  by (simp add: deriveKeysInWorker_def worker_onmessage_def worker_request_def deriveKeysRaw_def
      deriveRawBytes_def main_onmessage_def byte_subtle_def array_from_def uint8_of_def Let_def)

lemma byte_change: "srp_change byte_pw_env [7] ''a'' (pc_form byte_screen) =
    Inr \<lparr>pr_current = ''old'', pr_new = ''new password'', pr_srp = Some (''05'', ''10'', byte_bundle)\<rparr>"
proof -
  have "computeVerifier demo_group (reg_toHex [4]) = Inr ''10''" "reg_toHex [5] = ''05''" by code_simp+
  then show ?thesis
    by (simp add: byte_derive srp_change_def byte_pw_env_def byte_source_def byte_bundle_def byte_screen_def Let_def)
      (simp add: byte_subtle_def)
qed

lemma byte_submit:
  assumes "change_handleSubmit byte_pw_env byte_screen = (s1, r)"
  shows "pc_location s1 = ''/login''" "pr_srp (last (pc_sent s1)) = Some (''05'', ''10'', byte_bundle)"
proof -
  have "pw_check (pe_zxcvbn byte_pw_env) (pc_form byte_screen) = None" by code_simp
  moreover have "getSecretKey None ''a'' (se_keys (pc_session byte_screen)) = Inr (Some [7])"
    by (simp add: byte_screen_def db_ops db_get_def db_store_def)
  moreover have "au_user (se_auth (pc_session byte_screen)) = Some demo_user" by (simp add: byte_screen_def)
  ultimately show "pc_location s1 = ''/login''" "pr_srp (last (pc_sent s1)) = Some (''05'', ''10'', byte_bundle)"
    using assms byte_change
    by (auto simp: change_handleSubmit_def change_try_def password_call_def set_form_def sign_out_def logout_run
        demo_user_def byte_pw_env_def act_defs Let_def)
qed

lemma byte_server: "server_follows byte_env ''a'' ''10'' byte_bundle"
proof -
  have 1: "BigInt_hex ''10'' = Inr 16" "BigInt_hex ''f'' = Inr 15" "srp_k (\<lambda>_. [3]) demo_group = Inr 3"
    "srp_u (\<lambda>_. [3]) demo_group (cl_A demo_client) 15 = Inr 3" "15 = server_B demo_group 3 16 7" "bytesToHex [3] = ''03''"
    by code_simp+
  show ?thesis
    unfolding server_follows_def Let_def
    by (rule exI [of _ "\<lparr>si_salt = ''05'', si_server_public = ''f'', si_session_id = ''s'',
         si_pbkdf2_salt = toBase64 [1], si_hkdf_salt = toBase64 [2]\<rparr>"],
        rule exI [of _ 16], rule exI [of _ 3], rule exI [of _ 7], rule exI [of _ 15], rule exI [of _ demo_client],
        rule exI [of _ 3], rule exI [of _ "[3]"])
      (use 1 demo_srp(1) in \<open>simp add: byte_env_def byte_subtle_def byte_bundle_def\<close>)
qed

lemma byte_platform: "platform_ok (ae_sc byte_env) (ae_group byte_env) (\<lambda>_ _ k. k)"
  by (simp add: platform_ok_def byte_env_def byte_subtle_def demo_group_def wrap_documented_def)

lemma byte_setup:
  "pc_location byte_screen \<noteq> ''/login''" "au_user (se_auth (pc_session byte_screen)) = Some demo_user"
  "um_auth_version demo_user = 2" "pe_sc byte_pw_env = ae_sc byte_env" "pe_group byte_pw_env = ae_group byte_env"
  "pe_worker_error byte_pw_env = None" "pe_get_fault byte_pw_env = None" "browser_works byte_env demo_user"
  "gen_vaultKey (pe_source byte_pw_env) = Inr 9" "um_email demo_user = ''a''"
  by (simp_all add: byte_screen_def byte_pw_env_def byte_env_def byte_source_def demo_user_def browser_works_def
      byte_subtle_def)


theorem password_change_loses_vault_witness:
  "\<exists>s1 r s' newKey e. change_handleSubmit byte_pw_env byte_screen = (s1, r) \<and>
     srpLogin byte_env ''a'' ''new password'' None (pc_session s1) = (s', Inr ()) \<and>
     getVaultKey (se_keys s') = Some newKey \<and>
     decryptText byte_subtle (uint8ToBase64 (replicate 12 0 @ utf8_encode ''x'' @ replicate 16 5)) newKey = Inl e"
proof -
  obtain s1 r where run: "change_handleSubmit byte_pw_env byte_screen = (s1, r)" by fastforce
  note b = byte_submit [OF run]
  have old: "getVaultKey (se_keys (pc_session byte_screen)) = Some 5" "id (9 :: byte) \<noteq> id 5"
    by (simp_all add: byte_screen_def db_store_def key_store_defs)
  have aead: "other_key_rejected (ae_sc byte_env) id (\<lambda>_ _ k. k)" "aead_documented (ae_sc byte_env)"
    by (auto simp: other_key_rejected_def aead_documented_def byte_env_def byte_subtle_def)
  have c: "encryptText (ae_sc byte_env) (replicate 12 0) ''x'' 5 =
      Inr (uint8ToBase64 (replicate 12 0 @ utf8_encode ''x'' @ replicate 16 5))"
    by (simp add: encryptText_def encryptForStorage_def packEncrypted_def byte_env_def byte_subtle_def)
  have n: "length (replicate 12 (0 :: byte)) = 12" by simp
  have e: "um_email demo_user = ''a''" "pf_new (pc_form byte_screen) = ''new password''" "ae_sc byte_env = byte_subtle"
    by (simp_all add: demo_user_def byte_screen_def byte_env_def)
  show ?thesis
    using password_change_loses_vault [OF run byte_setup(1) b(1) byte_setup(2-7) byte_platform byte_setup(8) b(2)
        byte_server [folded byte_setup(10)] byte_setup(9) old aead c n] run
    unfolding e by blast
qed

section \<open>The upgrade dialog\<close>

lemma handleUpgrade_run:
  "handleUpgrade env email pw s =
    (let fail = \<lambda>err s. (s\<lparr>us_dialog := (us_dialog s)\<lparr>ud_error := Some (getErrorMessage err ''Security upgrade failed. Please try again.''),
          ud_step := Explain, ud_toasts := ud_toasts (us_dialog s) @ [getErrorMessage err ''Security upgrade failed. Please try again.'']\<rparr>\<rparr>, Inr ())
     in case performRegistration (ue_sc env) (ue_group env) (ue_worker_error env) (ue_source env) email pw of
          Inl m \<Rightarrow> fail (JsError m) s
        | Inr reg \<Rightarrow> (case ue_registerSRP env (us_accepted s) reg of
              Inl e \<Rightarrow> fail e s
            | Inr _ \<Rightarrow> (let s = s\<lparr>us_accepted := us_accepted s @ [reg]\<rparr> in
                case ue_put_fault env of
                  Some m \<Rightarrow> fail (JsError m) s
                | None \<Rightarrow> (s\<lparr>us_session := (us_session s)\<lparr>se_keys := db_store email (rg_secretKeyRaw reg) (se_keys (us_session s))\<rparr>,
                    us_dialog := (us_dialog s)\<lparr>ud_error := None, ud_secretKey := rg_secretKey reg, ud_step := Emergency_kit\<rparr>\<rparr>, Inr ()))))"
  by (cases "us_dialog s")
    (auto simp: handleUpgrade_def set_dialog_def register_call_def store_call_def storeSecretKey_def db_store_def act_defs Let_def
      split: sum.splits option.splits)

text \<open>C14: The upgrade dialog never throws, and it shows an Emergency Kit exactly when the server has accepted the
  registration and the device has stored the Secret Key; the key shown is then the one of the accepted
  registration, and typing it in on another device gives the stored key.\<close>
theorem upgrade_kit_shown:
  assumes "length (rnd_secretKey (ue_source env)) = 16" and "handleUpgrade env email pw s = (s', r)"
  shows "r = Inr () \<and> ud_step (us_dialog s') \<noteq> Generating \<and>
    (ud_step (us_dialog s') = Emergency_kit \<longleftrightarrow> (\<exists>reg.
       performRegistration (ue_sc env) (ue_group env) (ue_worker_error env) (ue_source env) email pw = Inr reg \<and>
       ue_registerSRP env (us_accepted s) reg = Inr () \<and> ue_put_fault env = None \<and> us_accepted s' = us_accepted s @ [reg] \<and>
       ud_secretKey (us_dialog s') = rg_secretKey reg \<and> parseSecretKey (rg_secretKey reg) = Some (rg_secretKeyRaw reg) \<and>
       getSecretKey None email (se_keys (us_session s')) = Inr (Some (rg_secretKeyRaw reg))))"
proof (cases "performRegistration (ue_sc env) (ue_group env) (ue_worker_error env) (ue_source env) email pw")
  case (Inl m)
  then show ?thesis using assms(2) by (auto simp: handleUpgrade_run)
next
  case (Inr reg)
  have "parseSecretKey (rg_secretKey reg) = Some (rg_secretKeyRaw reg)"
    using secret_key.dec_enc [OF assms(1)] Inr by (elim performRegistration_Inr) simp
  then show ?thesis
    using assms(2) Inr
    by (cases "ue_registerSRP env (us_accepted s) reg"; cases "ue_put_fault env")
      (auto simp: handleUpgrade_run Let_def db_ops db_get_def db_store_def)
qed

text \<open>An upgrade can lock the user out. The server refuses a second registration; when it has accepted the
  first one and storing the Secret Key then fails, every further attempt fails too: the account expects a
  Secret Key that is neither stored on the device nor ever shown.\<close>
theorem upgrade_lockout:
  assumes reg: "performRegistration (ue_sc env) (ue_group env) (ue_worker_error env) (ue_source env) email pw = Inr reg"
    and first: "ue_registerSRP env [] reg = Inr ()" "ue_put_fault env = Some m" "us_accepted s = []"
    and once: "\<And>e acc r. e \<in> set envs \<Longrightarrow> acc \<noteq> [] \<Longrightarrow> isl (ue_registerSRP e acc r)"
    and s': "s' = fold (\<lambda>e s. fst (handleUpgrade e email pw s)) envs (fst (handleUpgrade env email pw s))"
  shows "us_accepted s' = [reg] \<and> ud_step (us_dialog s') = Explain \<and> ud_secretKey (us_dialog s') = ud_secretKey (us_dialog s) \<and>
    se_keys (us_session s') = se_keys (us_session s)"
proof -
  let ?I = "\<lambda>t. us_accepted t = [reg] \<and> ud_step (us_dialog t) = Explain \<and>
      ud_secretKey (us_dialog t) = ud_secretKey (us_dialog s) \<and> se_keys (us_session t) = se_keys (us_session s)"
  have step: "?I (fst (handleUpgrade e email pw t))" if t: "?I t" and e: "e \<in> set envs" for e t
  proof (cases "performRegistration (ue_sc e) (ue_group e) (ue_worker_error e) (ue_source e) email pw")
    case (Inr q)
    obtain x where "ue_registerSRP e [reg] q = Inl x" using once [OF e, of "[reg]" q] by (auto simp: isl_def)
    then show ?thesis using t Inr by (simp add: handleUpgrade_run)
  qed (use t in \<open>simp add: handleUpgrade_run\<close>)
  have "?I (fst (handleUpgrade env email pw s))"
    using reg first by (simp add: handleUpgrade_run Let_def)
  moreover have "?I t \<Longrightarrow> set es \<subseteq> set envs \<Longrightarrow> ?I (fold (\<lambda>e s. fst (handleUpgrade e email pw s)) es t)" for es t
  proof (induction es arbitrary: t)
    case (Cons e es)
    then show ?case using step [of t e] by simp
  qed simp
  ultimately show ?thesis unfolding s' by simp
qed

definition upgrade_demo_env :: "byte upgrade_env" where
  "upgrade_demo_env = \<lparr>ue_sc = byte_subtle, ue_group = demo_group, ue_worker_error = None,
     ue_source = byte_source\<lparr>rnd_secretKey := replicate 16 7\<rparr>,
     ue_registerSRP = \<lambda>acc _. if acc = [] then Inr ()
       else Inl (AxiosError (Some \<lparr>rs_status = 409, rs_detail = Some (JStr ''SRP already registered'')\<rparr>) []),
     ue_put_fault = None\<rparr>"

definition upgrade_demo :: "byte upgrade_screen" where
  "upgrade_demo = \<lparr>us_dialog = upgrade_init, us_session = session_init, us_accepted = [], us_location = ''/login''\<rparr>"

lemma upgrade_demo_reg:
  "\<exists>reg. performRegistration byte_subtle demo_group None (byte_source\<lparr>rnd_secretKey := replicate 16 7\<rparr>) ''a'' ''pw'' = Inr reg
    \<and> rg_secretKey reg = formatSecretKey (replicate 16 7)"
proof -
  have "computeVerifier demo_group (reg_toHex [4]) = Inr ''10''" by code_simp
  then show ?thesis
    by (simp add: performRegistration_def byte_source_def generateSecretKey_def assertWebCryptoAvailable_def byte_derive)
      (simp add: byte_subtle_def)
qed

theorem upgrade_kit_shown_witness:
  "\<exists>s'. handleUpgrade upgrade_demo_env ''a'' ''pw'' upgrade_demo = (s', Inr ()) \<and>
     ud_step (us_dialog s') = Emergency_kit \<and> ud_secretKey (us_dialog s') = formatSecretKey (replicate 16 7)"
proof -
  obtain reg where r: "performRegistration byte_subtle demo_group None (byte_source\<lparr>rnd_secretKey := replicate 16 7\<rparr>) ''a'' ''pw'' = Inr reg"
    "rg_secretKey reg = formatSecretKey (replicate 16 7)" using upgrade_demo_reg by blast
  obtain s' x where run: "handleUpgrade upgrade_demo_env ''a'' ''pw'' upgrade_demo = (s', x)" by fastforce
  have "ud_step (us_dialog s') = Emergency_kit"
    using run r(1) by (auto simp: handleUpgrade_run upgrade_demo_env_def upgrade_demo_def Let_def)
  moreover have "length (rnd_secretKey (ue_source upgrade_demo_env)) = 16" by (simp add: upgrade_demo_env_def)
  ultimately show ?thesis
    using upgrade_kit_shown [OF _ run] run r by (auto simp: upgrade_demo_env_def)
qed

theorem upgrade_lockout_witness:
  "let s' = fst (handleUpgrade upgrade_demo_env ''a'' ''pw''
       (fst (handleUpgrade (upgrade_demo_env\<lparr>ue_put_fault := Some ''QuotaExceededError''\<rparr>) ''a'' ''pw'' upgrade_demo))) in
   us_accepted s' \<noteq> [] \<and> ud_step (us_dialog s') = Explain \<and> ud_secretKey (us_dialog s') = []"
proof -
  let ?e = "upgrade_demo_env\<lparr>ue_put_fault := Some ''QuotaExceededError''\<rparr>"
  obtain reg where r: "performRegistration (ue_sc ?e) (ue_group ?e) (ue_worker_error ?e) (ue_source ?e) ''a'' ''pw'' = Inr reg"
    using upgrade_demo_reg by (auto simp: upgrade_demo_env_def)
  show ?thesis
    using upgrade_lockout [OF r, of "''QuotaExceededError''" upgrade_demo "[upgrade_demo_env]", OF _ _ _ _ refl]
    by (auto simp: upgrade_demo_env_def upgrade_demo_def upgrade_init_def)
qed

section \<open>The text of the Emergency Kit\<close>

lemma replace_all_simps [simp]:
  "replace_all c t [] = []" "replace_all c t (x # xs) = (if x = c then t else [x]) @ replace_all c t xs"
  "replace_all c t (xs @ ys) = replace_all c t xs @ replace_all c t ys"
  by (simp_all add: replace_all_def)

definition esc_char :: "char \<Rightarrow> string" where
  "esc_char c = (if c = CHR ''&'' then ''&amp;'' else if c = CHR ''<'' then ''&lt;''
     else if c = CHR ''>'' then ''&gt;'' else if c = CHR 0x22 then ''&quot;'' else [c])"

lemma esc_Cons: "esc (c # s) = esc_char c @ esc s"
  by (simp add: esc_def esc_char_def)

text \<open>What a browser shows for escaped text.\<close>

fun unesc :: "string \<Rightarrow> string option" where
  "unesc [] = Some []"
| "unesc (c # s) =
     (if c = CHR ''&'' then
        (if startsWith s ''amp;'' then map_option ((#) (CHR ''&'')) (unesc (drop 4 s))
         else if startsWith s ''lt;'' then map_option ((#) (CHR ''<'')) (unesc (drop 3 s))
         else if startsWith s ''gt;'' then map_option ((#) (CHR ''>'')) (unesc (drop 3 s))
         else if startsWith s ''quot;'' then map_option ((#) (CHR 0x22)) (unesc (drop 5 s))
         else None)
      else if c \<in> set [CHR ''<'', CHR ''>'', CHR 0x22] then None
      else map_option ((#) c) (unesc s))"

interpretation html: codec esc unesc "\<lambda>_. True"
proof
  fix s show "unesc (esc s) = Some s"
    by (induction s) (simp_all add: esc_Cons esc_char_def startsWith_def, simp add: esc_def)
qed

lemma esc_no_markup: "c \<in> set (esc s) \<Longrightarrow> c \<notin> set [CHR ''<'', CHR ''>'', CHR 0x22]"
proof (induction s)
  case (Cons x s)
  then show ?case by (auto simp: esc_Cons esc_char_def split: if_splits)
qed (simp add: esc_def)

end
