(* ===== verification/ConfigPanel.thy ===== *)
theory ConfigPanel
  imports Actions Errors
begin

text \<open>
  The configuration panels' shared change model (\<^verbatim>\<open>lib/configPanelTypes.ts\<close>), the hook that collects
  and applies changes (\<^verbatim>\<open>hooks/useConfigPanel.ts\<close>) and the calls it makes
  (\<^verbatim>\<open>lib/configEditorApi.ts\<close>). Property objects are association lists in enumeration order.
\<close>

section \<open>Changes and their script\<close>

datatype apply_mode = Quick | Safe

datatype operation = Add_entry | Set_entry | Remove_entry

record config_change =
  cc_operation :: operation
  cc_path :: string
  cc_entryId :: "string option"
  cc_properties :: "string obj"
  cc_description :: string

definition DEFAULT_APPLY_MODES :: "apply_mode obj" where
  "DEFAULT_APPLY_MODES =
    [(''interfaces'', Safe), (''firewall'', Safe), (''dns'', Quick), (''dhcp'', Quick),
     (''dhcp-client'', Safe), (''wifi'', Quick), (''queues'', Quick), (''routes'', Safe),
     (''addresses'', Safe), (''arp'', Quick), (''pools'', Quick), (''system'', Safe),
     (''users'', Safe), (''services'', Safe), (''scripts'', Quick), (''mangle'', Safe),
     (''address-lists'', Quick), (''conntrack'', Safe), (''ppp'', Safe), (''ipsec'', Safe),
     (''bridge-ports'', Safe), (''bridge-vlans'', Safe), (''snmp'', Quick),
     (''simple-internet'', Safe), (''simple-lan'', Safe), (''simple-wifi'', Quick),
     (''simple-port-forwarding'', Safe), (''simple-firewall'', Safe), (''simple-dns'', Quick),
     (''simple-system'', Safe)]"

text \<open>The class \<open>[\s"\\]\<close>, and the two global replacements.\<close>

definition needs_quote :: "char \<Rightarrow> bool" where
  "needs_quote c \<longleftrightarrow> is_space c \<or> c = CHR 0x22 \<or> c = CHR 0x5C"

definition replace_char :: "char \<Rightarrow> string \<Rightarrow> string \<Rightarrow> string" where
  "replace_char c r s = concat (map (\<lambda>x. if x = c then r else [x]) s)"

definition quoteIfNeeded :: "string \<Rightarrow> string" where
  "quoteIfNeeded value =
     (if list_ex needs_quote value
      then [CHR 0x22] @ replace_char (CHR 0x22) [CHR 0x5C, CHR 0x22]
             (replace_char (CHR 0x5C) [CHR 0x5C, CHR 0x5C] value) @ [CHR 0x22]
      else value)"

definition rsc_props :: "string obj \<Rightarrow> string" where
  "rsc_props ps = join '' '' (map (\<lambda>(k, v). k @ ''='' @ quoteIfNeeded v) ps)"

definition rsc_selector :: "string option \<Rightarrow> string" where
  "rsc_selector e = (case e of
      None \<Rightarrow> []
    | Some i \<Rightarrow> if i = [] then [] else ''[find where .id='' @ [CHR 0x22] @ i @ [CHR 0x22] @ '']'')"

definition rsc_line :: "config_change \<Rightarrow> string" where
  "rsc_line change = (let props = rsc_props (cc_properties change) in
     case cc_operation change of
       Add_entry \<Rightarrow> js_trim (cc_path change @ '' add '' @ props)
     | Set_entry \<Rightarrow> js_trim (cc_path change @ '' set '' @ rsc_selector (cc_entryId change) @ '' '' @ props)
     | Remove_entry \<Rightarrow> js_trim (cc_path change @ '' remove '' @ rsc_selector (cc_entryId change)))"

definition generateRscScript :: "config_change list \<Rightarrow> string" where
  "generateRscScript changes = join [CHR 0x0A] (map rsc_line changes)"

definition describeChanges :: "config_change list \<Rightarrow> string list" where
  "describeChanges changes =
     map (\<lambda>(index, change). string_of_nat (index + 1) @ ''. '' @ cc_description change)
       (enumerate 0 changes)"

section \<open>Reading a line back\<close>

text \<open>How RouterOS splits a command line, as far as the printed lines use it: words are separated by
  single spaces, a quoted part may contain spaces, and a backslash inside quotes protects the next
  character.\<close>

fun rsc_words :: "bool \<Rightarrow> string \<Rightarrow> string \<Rightarrow> string list" where
  "rsc_words q acc [] = [rev acc]"
| "rsc_words False acc (c # cs) =
     (if c = CHR '' '' then rev acc # rsc_words False [] cs
      else if c = CHR 0x22 then rsc_words True acc cs
      else rsc_words False (c # acc) cs)"
| "rsc_words True acc [c] = [if c = CHR 0x22 then rev acc else rev (c # acc)]"
| "rsc_words True acc (c # d # cs) =
     (if c = CHR 0x5C then rsc_words True (d # acc) cs
      else if c = CHR 0x22 then rsc_words False acc (d # cs)
      else rsc_words True (c # acc) (d # cs))"

definition plain :: "string \<Rightarrow> bool" where
  "plain s \<longleftrightarrow> s \<noteq> [] \<and> \<not> list_ex needs_quote s"

lemma blank_is_space [simp]: "is_space (CHR '' '')"
  by code_simp

lemma not_needs_quote: "\<not> needs_quote c \<Longrightarrow> c \<noteq> CHR '' '' \<and> c \<noteq> CHR 0x22 \<and> \<not> is_space c"
  unfolding needs_quote_def using blank_is_space by metis

lemma plain_chars: "plain s \<Longrightarrow> c \<in> set s \<Longrightarrow> c \<noteq> CHR '' '' \<and> c \<noteq> CHR 0x22 \<and> \<not> is_space c"
  unfolding plain_def list_ex_iff by (metis not_needs_quote)

lemma rsc_words_plain:
  "\<forall>c \<in> set s. c \<noteq> CHR '' '' \<and> c \<noteq> CHR 0x22 \<Longrightarrow>
   rsc_words False acc (s @ t) = rsc_words False (rev s @ acc) t"
  by (induction s arbitrary: acc) auto

lemma rsc_words_escaped:
  "rsc_words True acc (replace_char (CHR 0x22) [CHR 0x5C, CHR 0x22]
      (replace_char (CHR 0x5C) [CHR 0x5C, CHR 0x5C] v) @ CHR 0x22 # t)
   = rsc_words False (rev v @ acc) t"
proof (induction v arbitrary: acc)
  case Nil
  then show ?case by (cases t) (simp_all add: replace_char_def)
next
  case (Cons c v)
  let ?e = "\<lambda>v. replace_char (CHR 0x22) [CHR 0x5C, CHR 0x22] (replace_char (CHR 0x5C) [CHR 0x5C, CHR 0x5C] v)"
  have ne: "?e v @ CHR 0x22 # t \<noteq> []" by simp
  then obtain d ds where d: "?e v @ CHR 0x22 # t = d # ds" by (cases "?e v @ CHR 0x22 # t") auto
  show ?case
    using Cons.IH [of "c # acc"] unfolding d
    by (auto simp: replace_char_def d [unfolded replace_char_def])
qed

lemma rsc_words_quoted:
  "rsc_words False acc (quoteIfNeeded v @ t) = rsc_words False (rev v @ acc) t"
proof (cases "list_ex needs_quote v")
  case True
  then show ?thesis using rsc_words_escaped [of acc v t] by (simp add: quoteIfNeeded_def)
next
  case False
  then have "\<forall>c \<in> set v. c \<noteq> CHR '' '' \<and> c \<noteq> CHR 0x22"
    unfolding list_ex_iff by (metis not_needs_quote)
  with False show ?thesis by (simp add: quoteIfNeeded_def rsc_words_plain)
qed

text \<open>The properties of a line are read back as they were.\<close>

lemma rsc_words_props:
  "ps \<noteq> [] \<Longrightarrow> \<forall>(k, v) \<in> set ps. plain k \<Longrightarrow>
   rsc_words False [] (rsc_props ps) = map (\<lambda>(k, v). k @ ''='' @ v) ps"
proof (induction ps)
  case (Cons p ps)
  obtain k v where p: "p = (k, v)" by (cases p)
  have k: "\<forall>c \<in> set k. c \<noteq> CHR '' '' \<and> c \<noteq> CHR 0x22" using Cons.prems p plain_chars by auto
  have one: "rsc_words False [] (k @ ''='' @ quoteIfNeeded v @ t) = rsc_words False (rev (k @ ''='' @ v)) t" for t
    using rsc_words_plain [OF k, of "[]" "''='' @ quoteIfNeeded v @ t"] by (simp add: rsc_words_quoted)
  show ?case
  proof (cases "ps = []")
    case True
    then show ?thesis using one [of "[]"] by (simp add: rsc_props_def p)
  next
    case False
    then have "rsc_props (p # ps) = k @ ''='' @ quoteIfNeeded v @ '' '' @ rsc_props ps"
      by (simp add: rsc_props_def p join_Cons)
    with Cons False show ?thesis using one [of "'' '' @ rsc_props ps"] by (simp add: p)
  qed
qed simp

text \<open>Printed lines start with the path and end with a visible character, so \<open>trim\<close> leaves them
  alone.\<close>

lemma quote_visible [simp]: "\<not> is_space (CHR 0x22)" "\<not> is_space (CHR ''='')" "\<not> is_space (CHR '']'')"
  by code_simp+

lemma last_prop: "\<not> is_space (last (k @ ''='' @ quoteIfNeeded v))"
proof (cases "list_ex needs_quote v")
  case False
  then have "\<forall>c \<in> set v. \<not> is_space c" unfolding list_ex_iff by (metis not_needs_quote)
  with False show ?thesis by (cases "v = []") (simp_all add: quoteIfNeeded_def)
qed (simp add: quoteIfNeeded_def)

lemma rsc_props_last: "ps \<noteq> [] \<Longrightarrow> rsc_props ps \<noteq> [] \<and> \<not> is_space (last (rsc_props ps))"
proof (induction ps)
  case (Cons p ps)
  obtain k v where p: "p = (k, v)" by (cases p)
  show ?case
  proof (cases "ps = []")
    case True
    then show ?thesis using last_prop [of k v] by (simp add: rsc_props_def p)
  next
    case False
    then have "rsc_props (p # ps) = (k @ ''='' @ quoteIfNeeded v @ '' '') @ rsc_props ps"
      by (simp add: rsc_props_def p join_Cons)
    with Cons False show ?thesis by simp
  qed
qed simp

lemma trim_line:
  assumes "plain p" and "t \<noteq> []" and "\<not> is_space (last t)"
  shows "js_trim (p @ t) = p @ t"
proof (rule js_trim_id)
  have "hd (p @ t) \<in> set p" using assms(1) by (cases p) (simp_all add: plain_def)
  then show "\<not> is_space (hd (p @ t))" using plain_chars [OF assms(1)] by blast
qed (use assms in auto)

text \<open>The words a reader of the line should see.\<close>

definition selector_words :: "string option \<Rightarrow> string list" where
  "selector_words e = (case e of
      None \<Rightarrow> [] | Some i \<Rightarrow> [''[find'', ''where'', ''.id='' @ i @ '']''])"

definition line_words :: "config_change \<Rightarrow> string list" where
  "line_words c = cc_path c #
     (case cc_operation c of
        Add_entry \<Rightarrow> [''add''] @ map (\<lambda>(k, v). k @ ''='' @ v) (cc_properties c)
      | Set_entry \<Rightarrow> [''set''] @ selector_words (cc_entryId c) @ map (\<lambda>(k, v). k @ ''='' @ v) (cc_properties c)
      | Remove_entry \<Rightarrow> [''remove''] @ selector_words (cc_entryId c))"

lemma rsc_words_prefix:
  "\<forall>c \<in> set w. c \<noteq> CHR '' '' \<and> c \<noteq> CHR 0x22 \<Longrightarrow>
   rsc_words False [] (w @ '' '' @ t) = w # rsc_words False [] t"
  using rsc_words_plain [of w "[]" "'' '' @ t"] by simp

lemma rsc_words_selector:
  assumes "plain i"
  shows "rsc_words False [] (rsc_selector (Some i)) = selector_words (Some i)"
    and "rsc_words False [] (rsc_selector (Some i) @ '' '' @ t) = selector_words (Some i) @ rsc_words False [] t"
proof -
  have i: "i \<noteq> []" "\<forall>c \<in> set i. c \<noteq> CHR '' '' \<and> c \<noteq> CHR 0x22"
    using plain_chars [OF assms] assms by (auto simp: plain_def)
  have "replace_char (CHR 0x22) [CHR 0x5C, CHR 0x22] (replace_char (CHR 0x5C) [CHR 0x5C, CHR 0x5C] i) = i"
  proof -
    have "\<forall>c \<in> set i. c \<noteq> CHR 0x5C" using assms by (auto simp: plain_def list_ex_iff needs_quote_def)
    then have "replace_char (CHR 0x5C) [CHR 0x5C, CHR 0x5C] i = i" "replace_char (CHR 0x22) [CHR 0x5C, CHR 0x22] i = i"
      using i(2) by (induction i) (auto simp: replace_char_def)
    then show ?thesis by simp
  qed
  then have q: "rsc_words True acc (i @ CHR 0x22 # u) = rsc_words False (rev i @ acc) u" for acc u
    using rsc_words_escaped [of acc i u] by simp
  show "rsc_words False [] (rsc_selector (Some i)) = selector_words (Some i)"
    and "rsc_words False [] (rsc_selector (Some i) @ '' '' @ t) = selector_words (Some i) @ rsc_words False [] t"
    using i(1) by (simp_all add: rsc_selector_def selector_words_def q)
qed

definition printable :: "config_change \<Rightarrow> bool" where
  "printable c \<longleftrightarrow> plain (cc_path c) \<and> (\<forall>(k, v) \<in> set (cc_properties c). plain k)
     \<and> (cc_operation c \<noteq> Remove_entry \<longrightarrow> cc_properties c \<noteq> [])
     \<and> (cc_operation c \<noteq> Add_entry \<longrightarrow> (\<exists>i. cc_entryId c = Some i \<and> plain i))"

lemma rsc_line_words:
  assumes "printable c"
  shows "rsc_words False [] (rsc_line c) = line_words c"
proof -
  let ?p = "cc_path c" and ?ps = "cc_properties c"
  have p: "plain ?p" "\<forall>x \<in> set ?p. x \<noteq> CHR '' '' \<and> x \<noteq> CHR 0x22"
    using assms plain_chars by (auto simp: printable_def)
  have ps: "\<forall>(k, v) \<in> set ?ps. plain k" using assms by (simp add: printable_def)
  note [simp] = rsc_words_prefix [OF p(2), simplified]
  show ?thesis
  proof (cases "cc_operation c")
    case Add_entry
    with assms have ne: "?ps \<noteq> []" by (simp add: printable_def)
    have "js_trim (?p @ '' add '' @ rsc_props ?ps) = ?p @ '' add '' @ rsc_props ?ps"
      using rsc_props_last [OF ne] by (intro trim_line p) auto
    then show ?thesis
      using Add_entry rsc_words_props [OF ne ps] by (simp add: rsc_line_def line_words_def)
  next
    case Set_entry
    with assms obtain i where ne: "?ps \<noteq> []" and i: "cc_entryId c = Some i" "plain i"
      by (auto simp: printable_def)
    have "js_trim (?p @ '' set '' @ rsc_selector (Some i) @ '' '' @ rsc_props ?ps)
        = ?p @ '' set '' @ rsc_selector (Some i) @ '' '' @ rsc_props ?ps"
      using rsc_props_last [OF ne] by (intro trim_line p) auto
    then show ?thesis
      using Set_entry rsc_words_props [OF ne ps] rsc_words_selector(2) [OF i(2), of "rsc_props ?ps"]
      by (simp add: rsc_line_def line_words_def i)
  next
    case Remove_entry
    with assms obtain i where i: "cc_entryId c = Some i" "plain i" by (auto simp: printable_def)
    have "js_trim (?p @ '' remove '' @ rsc_selector (Some i)) = ?p @ '' remove '' @ rsc_selector (Some i)"
      using i(2) by (intro trim_line p) (auto simp: rsc_selector_def plain_def)
    then show ?thesis
      using Remove_entry rsc_words_selector(1) [OF i(2)] by (simp add: rsc_line_def line_words_def i)
  qed
qed

section \<open>Calls to the config editor\<close>

datatype editor_call =
    Browse string
  | AddEntry string "string obj"
  | SetEntry string "string option" "string obj"
  | RemoveEntry string string
  | Execute string

record command_response =
  cr_success :: bool
  cr_data :: "string obj list"
  cr_error :: "string option"

definition editor_base :: "string \<Rightarrow> string \<Rightarrow> string" where
  "editor_base tenantId deviceId = ''/api/tenants/'' @ tenantId @ ''/devices/'' @ deviceId @ ''/config-editor/''"

fun editor_url :: "string \<Rightarrow> string \<Rightarrow> editor_call \<Rightarrow> string" where
  "editor_url t d (Browse p) = editor_base t d @ ''browse''"
| "editor_url t d (AddEntry p ps) = editor_base t d @ ''add''"
| "editor_url t d (SetEntry p e ps) = editor_base t d @ ''set''"
| "editor_url t d (RemoveEntry p e) = editor_base t d @ ''remove''"
| "editor_url t d (Execute c) = editor_base t d @ ''execute''"

definition props_json :: "string obj \<Rightarrow> json" where
  "props_json ps = JObj (map (\<lambda>(k, v). (k, JStr v)) ps)"

text \<open>The body of the request; \<open>browse\<close> is a \<open>GET\<close> with a query parameter.\<close>

fun editor_body :: "editor_call \<Rightarrow> json option" where
  "editor_body (Browse p) = None"
| "editor_body (AddEntry p ps) = Some (JObj [(''path'', JStr p), (''properties'', props_json ps)])"
| "editor_body (SetEntry p e ps) = Some (JObj [(''path'', JStr p),
     (''entry_id'', case e of None \<Rightarrow> JNull | Some i \<Rightarrow> JStr i), (''properties'', props_json ps)])"
| "editor_body (RemoveEntry p i) = Some (JObj [(''path'', JStr p), (''entry_id'', JStr i)])"
| "editor_body (Execute c) = Some (JObj [(''command'', JStr c)])"

section \<open>Applying changes\<close>

definition change_call :: "config_change \<Rightarrow> thrown + editor_call" where
  "change_call c = (case cc_operation c of
      Add_entry \<Rightarrow> Inr (AddEntry (cc_path c) (cc_properties c))
    | Set_entry \<Rightarrow> Inr (SetEntry (cc_path c) (cc_entryId c) (cc_properties c))
    | Remove_entry \<Rightarrow>
        (case cc_entryId c of
           None \<Rightarrow> Inl (JsError (''Remove operation requires entryId: '' @ cc_description c))
         | Some i \<Rightarrow>
             if i = [] then Inl (JsError (''Remove operation requires entryId: '' @ cc_description c))
             else Inr (RemoveEntry (cc_path c) i)))"

text \<open>The mutation: one call after the other against the device \<open>dev\<close>, up to the first failure.\<close>

type_synonym 'd device = "editor_call \<Rightarrow> 'd \<Rightarrow> 'd \<times> (thrown + command_response)"

definition apply_change :: "'d device \<Rightarrow> config_change \<Rightarrow> ('d, thrown, unit) action" where
  "apply_change dev c =
     act_bind (act_call (change_call c)) (\<lambda>call.
     act_bind (dev call) (\<lambda>result.
       if \<not> cr_success result
       then act_throw (JsError (case cr_error result of Some e \<Rightarrow> e | None \<Rightarrow> ''Failed: '' @ cc_description c))
       else act_return ()))"

fun mutationFn :: "'d device \<Rightarrow> config_change list \<Rightarrow> ('d, thrown, unit) action" where
  "mutationFn dev [] = act_return ()"
| "mutationFn dev (c # cs) = act_bind (apply_change dev c) (\<lambda>_. mutationFn dev cs)"

section \<open>The hook\<close>

datatype mutation_status = Running | Succeeded | Failed

record panel =
  pendingChanges :: "config_change list"
  applyMode :: apply_mode
  mutations :: "(config_change list \<times> mutation_status) list"
  toasts :: "string list"

definition panel_init :: "string \<Rightarrow> panel" where
  "panel_init panelType = \<lparr>pendingChanges = [],
     applyMode = (case obj_get DEFAULT_APPLY_MODES panelType of Some m \<Rightarrow> m | None \<Rightarrow> Quick),
     mutations = [], toasts = []\<rparr>"

definition addChange :: "config_change \<Rightarrow> panel \<Rightarrow> panel" where
  "addChange c p = p\<lparr>pendingChanges := pendingChanges p @ [c]\<rparr>"

definition removeChange :: "nat \<Rightarrow> panel \<Rightarrow> panel" where
  "removeChange index p = p\<lparr>pendingChanges :=
     map snd (filter (\<lambda>(i, c). i \<noteq> index) (enumerate 0 (pendingChanges p)))\<rparr>"

definition clearChanges :: "panel \<Rightarrow> panel" where
  "clearChanges p = p\<lparr>pendingChanges := []\<rparr>"

definition applyChanges :: "panel \<Rightarrow> panel" where
  "applyChanges p =
     (if pendingChanges p = [] then p
      else p\<lparr>mutations := mutations p @ [(pendingChanges p, Running)]\<rparr>)"

definition isApplying :: "panel \<Rightarrow> bool" where
  "isApplying p \<longleftrightarrow> mutations p \<noteq> [] \<and> snd (last (mutations p)) = Running"

text \<open>\<open>onSuccess\<close> runs with the changes pending at that moment, not those it was started with.\<close>

definition onSuccess :: "panel \<Rightarrow> panel" where
  "onSuccess p = (let count = length (pendingChanges p) in
     p\<lparr>pendingChanges := [], toasts := toasts p @
        [string_of_nat count @ '' change'' @ (if count \<noteq> 1 then ''s'' else []) @ '' applied successfully'']\<rparr>)"

definition onError :: "panel \<Rightarrow> panel" where
  "onError p = p\<lparr>toasts := toasts p @ [''Configuration failed'']\<rparr>"

datatype panel_event =
    AddChange config_change
  | RemoveChange nat
  | ClearChanges
  | SetApplyMode apply_mode
  | ApplyChanges
  | Settle nat bool

fun panel_step :: "panel_event \<Rightarrow> panel \<Rightarrow> panel" where
  "panel_step (AddChange c) p = addChange c p"
| "panel_step (RemoveChange i) p = removeChange i p"
| "panel_step ClearChanges p = clearChanges p"
| "panel_step (SetApplyMode m) p = p\<lparr>applyMode := m\<rparr>"
| "panel_step ApplyChanges p = applyChanges p"
| "panel_step (Settle i ok) p =
     (if i < length (mutations p) \<and> snd (mutations p ! i) = Running
      then (let p' = p\<lparr>mutations := (mutations p)[i := (fst (mutations p ! i), if ok then Succeeded else Failed)]\<rparr>
            in if ok then onSuccess p' else onError p')
      else p)"

section \<open>What an application sends\<close>

text \<open>The change went through: a call exists, the device answered it with success.\<close>

definition went_through :: "'d device \<Rightarrow> config_change \<Rightarrow> 'd \<Rightarrow> bool" where
  "went_through dev c d \<longleftrightarrow> (\<exists>call r. change_call c = Inr call \<and> snd (dev call d) = Inr r \<and> cr_success r)"

definition after_change :: "'d device \<Rightarrow> config_change \<Rightarrow> 'd \<Rightarrow> 'd" where
  "after_change dev c d = (case change_call c of Inl e \<Rightarrow> d | Inr call \<Rightarrow> fst (dev call d))"

fun all_through :: "'d device \<Rightarrow> config_change list \<Rightarrow> 'd \<Rightarrow> bool" where
  "all_through dev [] d = True"
| "all_through dev (c # cs) d \<longleftrightarrow> went_through dev c d \<and> all_through dev cs (after_change dev c d)"

lemma apply_change_spec:
  "fst (apply_change dev c d) = after_change dev c d"
  "(\<exists>u. snd (apply_change dev c d) = Inr u) \<longleftrightarrow> went_through dev c d"
proof -
  show "fst (apply_change dev c d) = after_change dev c d"
    by (auto simp: apply_change_def after_change_def act_defs split: sum.splits prod.splits)
  show "(\<exists>u. snd (apply_change dev c d) = Inr u) \<longleftrightarrow> went_through dev c d"
    by (auto simp: apply_change_def went_through_def act_defs split: sum.splits prod.splits)
qed

lemma mutationFn_Cons:
  "mutationFn dev (c # cs) d =
     (if went_through dev c d then mutationFn dev cs (after_change dev c d) else apply_change dev c d)"
proof (cases "apply_change dev c d")
  case (Pair d' r)
  with apply_change_spec [of dev c d] show ?thesis
    by (cases r) (auto simp: act_bind_def)
qed

lemma mutationFn_spec:
  "mutationFn dev cs d = (d', r) \<Longrightarrow>
   (case r of
      Inr u \<Rightarrow> all_through dev cs d \<and> d' = fold (after_change dev) cs d
    | Inl e \<Rightarrow> \<exists>pre c post. cs = pre @ c # post \<and> all_through dev pre d
        \<and> (let dp = fold (after_change dev) pre d in
           \<not> went_through dev c dp \<and> d' = after_change dev c dp))"
proof (induction cs arbitrary: d)
  case Nil
  then show ?case by (auto split: sum.split)
next
  case (Cons c cs)
  show ?case
  proof (cases "went_through dev c d")
    case True
    with Cons.prems have "mutationFn dev cs (after_change dev c d) = (d', r)"
      by (simp only: mutationFn_Cons if_True)
    note IH = Cons.IH [OF this]
    show ?thesis
    proof (cases r)
      case (Inl e)
      with IH obtain pre x post where "cs = pre @ x # post" "all_through dev pre (after_change dev c d)"
        "let dp = fold (after_change dev) pre (after_change dev c d) in
           \<not> went_through dev x dp \<and> d' = after_change dev x dp" by auto
      then have "c # cs = (c # pre) @ x # post \<and> all_through dev (c # pre) d
          \<and> (let dp = fold (after_change dev) (c # pre) d in
             \<not> went_through dev x dp \<and> d' = after_change dev x dp)"
        using True by simp
      then show ?thesis unfolding Inl sum.case by blast
    qed (use IH True in simp)
  next
    case False
    with Cons.prems have a: "apply_change dev c d = (d', r)"
      by (simp only: mutationFn_Cons if_False)
    with False apply_change_spec [of dev c d] obtain e where r: "r = Inl e" and d': "d' = after_change dev c d"
      by (cases r) auto
    then show ?thesis using False
      by (auto simp: Let_def intro!: exI [of _ "[]"])
  qed
qed

lemma adds_pending:
  "fold panel_step (map AddChange cs) p = p\<lparr>pendingChanges := pendingChanges p @ cs\<rparr>"
  by (induction cs arbitrary: p) (simp_all add: addChange_def)

section \<open>Properties\<close>



text \<open>C31: Applying changes is sequential and stops at the first failure, without rollback. If it
  returns, every change went through in order; if it throws, the changes before some position
  went through, the change there did not, and nothing after it was sent: the device is exactly as
  these calls left it.\<close>
theorem apply_sequential:
  assumes "mutationFn dev cs d = (d', r)"
  shows "case r of
      Inr u \<Rightarrow> all_through dev cs d \<and> d' = fold (after_change dev) cs d
    | Inl e \<Rightarrow> \<exists>pre c post. cs = pre @ c # post \<and> all_through dev pre d
        \<and> (let dp = fold (after_change dev) pre d in
           \<not> went_through dev c dp \<and> d' = after_change dev c dp)"
  using assms by (rule mutationFn_spec)

theorem apply_sequential_witness:
  "\<exists>pre c post. [\<lparr>cc_operation = Add_entry, cc_path = ''/ip/pool'', cc_entryId = None, cc_properties = [],
        cc_description = []\<rparr>,
      \<lparr>cc_operation = Remove_entry, cc_path = ''/ip/pool'', cc_entryId = None, cc_properties = [],
        cc_description = []\<rparr>] = pre @ c # post
    \<and> all_through (\<lambda>call n. (Suc n, Inr \<lparr>cr_success = True, cr_data = [], cr_error = None\<rparr>)) pre (0 :: nat)"
proof -
  let ?dev = "\<lambda>call n :: nat. (Suc n, Inr \<lparr>cr_success = True, cr_data = [], cr_error = None\<rparr>)"
  let ?cs = "[\<lparr>cc_operation = Add_entry, cc_path = ''/ip/pool'', cc_entryId = None, cc_properties = [], cc_description = []\<rparr>,
      \<lparr>cc_operation = Remove_entry, cc_path = ''/ip/pool'', cc_entryId = None, cc_properties = [], cc_description = []\<rparr>]"
  have "mutationFn ?dev ?cs 0 = (1, Inl (JsError ''Remove operation requires entryId: ''))"
    by (simp add: apply_change_def change_call_def act_defs)
  from apply_sequential [OF this] show ?thesis by (auto simp: Let_def)
qed

text \<open>A successful application clears whatever is pending when it finishes. Changes added while
  an application is running are therefore dropped without being sent, although the message
  counts them as applied.\<close>
theorem added_during_apply_lost:
  assumes "pendingChanges p = cs" and "cs \<noteq> []"
  shows "let p' = fold panel_step ([ApplyChanges] @ map AddChange new @ [Settle (length (mutations p)) True]) p in
    pendingChanges p' = []
    \<and> mutations p' = mutations p @ [(cs, Succeeded)]
    \<and> last (toasts p') = string_of_nat (length cs + length new) @ '' change''
        @ (if length cs + length new \<noteq> 1 then ''s'' else []) @ '' applied successfully''"
  using assms by (simp add: adds_pending applyChanges_def onSuccess_def Let_def)

theorem added_during_apply_lost_witness:
  "let c = \<lparr>cc_operation = Add_entry, cc_path = ''/ip/pool'', cc_entryId = None, cc_properties = [], cc_description = []\<rparr>;
       p' = fold panel_step [ApplyChanges, AddChange c, Settle 0 True] ((panel_init ''pools'')\<lparr>pendingChanges := [c]\<rparr>)
   in pendingChanges p' = [] \<and> mutations p' = [([c], Succeeded)]"
  using added_during_apply_lost [of "(panel_init ''pools'')\<lparr>pendingChanges := [c]\<rparr>" "[c]" "[c]" for c]
  by (simp add: Let_def panel_init_def)

end
