(* ===== verification/EventStream.thy ===== *)
theory EventStream
  imports Prelude
begin

text \<open>
  The live event stream of \<^verbatim>\<open>hooks/useEventStream.ts\<close>. The hook's refs and timers are the state; token
  exchanges, open streams and timers that are under way are listed with the tenant of the closure
  that started them. The environment decides which of them acts next, so the hook is a step
  relation.
\<close>

section \<open>State\<close>

datatype connection_state = Connecting | Connected | Reconnecting | Disconnected

definition EVENT_TYPES :: "string list" where
  "EVENT_TYPES = [''device_status'', ''alert_fired'', ''alert_resolved'', ''config_push'',
     ''firmware_progress'', ''metric_update'']"

definition INITIAL_RETRY_DELAY_MS :: nat where
  "INITIAL_RETRY_DELAY_MS = 1000"

definition MAX_RETRY_DELAY_MS :: nat where
  "MAX_RETRY_DELAY_MS = 30000"

definition RETRY_MULTIPLIER :: nat where
  "RETRY_MULTIPLIER = 2"

definition MAX_RETRIES :: nat where
  "MAX_RETRIES = 5"

lemmas retry_defs = INITIAL_RETRY_DELAY_MS_def MAX_RETRY_DELAY_MS_def RETRY_MULTIPLIER_def MAX_RETRIES_def

record stream =
  es_tenant :: string
  es_active :: bool
  connectionState :: connection_state
  eventSource :: "nat option"
  retryCount :: nat
  reconnectTimer :: "nat option"
  isUnmounted :: bool
  exchanges :: "(nat \<times> string) list"
  sources :: "(nat \<times> string) list"
  timers :: "(nat \<times> string \<times> nat) list"
  delivered :: "(string \<times> string) list"
  next_id :: nat

text \<open>Before the first effect. A missing tenant is the empty string, which the hook treats alike.\<close>

definition stream_init :: stream where
  "stream_init = \<lparr>es_tenant = [], es_active = False, connectionState = Disconnected, eventSource = None,
     retryCount = 0, reconnectTimer = None, isUnmounted = False, exchanges = [], sources = [],
     timers = [], delivered = [], next_id = 0\<rparr>"

section \<open>Handlers\<close>

definition close_source :: "stream \<Rightarrow> stream" where
  "close_source s = (case eventSource s of
      None \<Rightarrow> s
    | Some i \<Rightarrow> s\<lparr>sources := filter (\<lambda>p. fst p \<noteq> i) (sources s), eventSource := None\<rparr>)"

definition cleanup :: "stream \<Rightarrow> stream" where
  "cleanup s = (let s' = close_source s in
     case reconnectTimer s' of
       None \<Rightarrow> s'
     | Some i \<Rightarrow> s'\<lparr>timers := filter (\<lambda>p. fst p \<noteq> i) (timers s'), reconnectTimer := None\<rparr>)"

text \<open>The synchronous part of \<open>connect\<close>, up to the token exchange.\<close>

definition connect :: "string \<Rightarrow> stream \<Rightarrow> stream" where
  "connect tenantId s =
     (if tenantId = [] \<or> isUnmounted s then s
      else (let s' = close_source s;
                s'' = (if retryCount s' < MAX_RETRIES then s'\<lparr>connectionState := Connecting\<rparr> else s')
            in s''\<lparr>exchanges := exchanges s'' @ [(next_id s'', tenantId)], next_id := next_id s'' + 1\<rparr>))"

definition retry_delay :: "nat \<Rightarrow> nat" where
  "retry_delay n = min (INITIAL_RETRY_DELAY_MS * RETRY_MULTIPLIER ^ n) MAX_RETRY_DELAY_MS"

definition handleReconnect :: "string \<Rightarrow> stream \<Rightarrow> stream" where
  "handleReconnect tenantId s =
     (if isUnmounted s then s
      else s\<lparr>connectionState := (if retryCount s \<ge> MAX_RETRIES then Disconnected else Reconnecting),
             retryCount := min (retryCount s + 1) MAX_RETRIES,
             timers := timers s @ [(next_id s, tenantId, retry_delay (retryCount s))],
             reconnectTimer := Some (next_id s), next_id := next_id s + 1\<rparr>)"

text \<open>The exchange \<open>i\<close> of a closure for \<open>tenantId\<close> fails, or yields a token and opens a stream.\<close>

definition exchange_failed :: "nat \<Rightarrow> string \<Rightarrow> stream \<Rightarrow> stream" where
  "exchange_failed i tenantId s = (let s' = s\<lparr>exchanges := remove1 (i, tenantId) (exchanges s)\<rparr> in
     if isUnmounted s' then s' else handleReconnect tenantId s')"

definition exchange_done :: "nat \<Rightarrow> string \<Rightarrow> stream \<Rightarrow> stream" where
  "exchange_done i tenantId s = (let s' = s\<lparr>exchanges := remove1 (i, tenantId) (exchanges s)\<rparr> in
     if isUnmounted s' then s'
     else s'\<lparr>sources := sources s' @ [(next_id s', tenantId)], eventSource := Some (next_id s'),
             next_id := next_id s' + 1\<rparr>)"

definition onopen :: "stream \<Rightarrow> stream" where
  "onopen s = (if isUnmounted s then s else s\<lparr>connectionState := Connected, retryCount := 0\<rparr>)"

text \<open>A message of a type the hook listens to, with a payload that parses.\<close>

definition onmessage :: "string \<Rightarrow> string \<Rightarrow> stream \<Rightarrow> stream" where
  "onmessage tenantId ty s =
     (if isUnmounted s \<or> ty \<notin> set EVENT_TYPES then s
      else s\<lparr>delivered := delivered s @ [(tenantId, ty)]\<rparr>)"

definition onerror :: "nat \<Rightarrow> string \<Rightarrow> stream \<Rightarrow> stream" where
  "onerror i tenantId s =
     (if isUnmounted s then s
      else handleReconnect tenantId
             (s\<lparr>sources := filter (\<lambda>p. fst p \<noteq> i) (sources s), eventSource := None\<rparr>))"

definition timer_fires :: "nat \<Rightarrow> string \<Rightarrow> stream \<Rightarrow> stream" where
  "timer_fires i tenantId s =
     connect tenantId (s\<lparr>timers := filter (\<lambda>p. fst p \<noteq> i) (timers s), reconnectTimer := None\<rparr>)"

definition reconnect :: "string \<Rightarrow> stream \<Rightarrow> stream" where
  "reconnect tenantId s = connect tenantId (cleanup (s\<lparr>retryCount := 0\<rparr>))"

text \<open>The effect and its cleanup, run on mount, on a change of tenant and on unmount.\<close>

definition run_effect :: "string \<Rightarrow> stream \<Rightarrow> stream" where
  "run_effect tenantId s = (let s' = s\<lparr>es_tenant := tenantId, es_active := True, isUnmounted := False\<rparr> in
     if tenantId \<noteq> [] then connect tenantId s'
     else (cleanup s')\<lparr>connectionState := Disconnected\<rparr>)"

definition end_effect :: "stream \<Rightarrow> stream" where
  "end_effect s = cleanup (s\<lparr>es_active := False, isUnmounted := True\<rparr>)"

section \<open>Steps\<close>

inductive stream_step :: "stream \<Rightarrow> stream \<Rightarrow> bool" where
  effect: "\<not> es_active s \<Longrightarrow> stream_step s (run_effect t s)"
| unmount: "es_active s \<Longrightarrow> stream_step s (end_effect s)"
| token_ok: "(i, t) \<in> set (exchanges s) \<Longrightarrow> stream_step s (exchange_done i t s)"
| token_fails: "(i, t) \<in> set (exchanges s) \<Longrightarrow> stream_step s (exchange_failed i t s)"
| opened: "(i, t) \<in> set (sources s) \<Longrightarrow> stream_step s (onopen s)"
| message: "(i, t) \<in> set (sources s) \<Longrightarrow> stream_step s (onmessage t ty s)"
| error: "(i, t) \<in> set (sources s) \<Longrightarrow> stream_step s (onerror i t s)"
| timer: "(i, t, d) \<in> set (timers s) \<Longrightarrow> stream_step s (timer_fires i t s)"
| manual: "es_active s \<Longrightarrow> stream_step s (reconnect (es_tenant s) s)"

inductive_cases stream_stepE: "stream_step s s'"

lemmas handler_simps = close_source_def cleanup_def connect_def handleReconnect_def exchange_failed_def
  exchange_done_def onopen_def onmessage_def onerror_def timer_fires_def reconnect_def run_effect_def
  end_effect_def Let_def

section \<open>Invariant\<close>

text \<open>Something is always under way for an active effect with a tenant, the retry counter stays in
  its budget, and every timer was set with a delay of the back-off sequence.\<close>

definition busy :: "stream \<Rightarrow> bool" where
  "busy s \<longleftrightarrow> exchanges s \<noteq> [] \<or> sources s \<noteq> [] \<or> timers s \<noteq> []"

definition stream_inv :: "stream \<Rightarrow> bool" where
  "stream_inv s \<longleftrightarrow> retryCount s \<le> MAX_RETRIES
     \<and> (es_active s \<longrightarrow> \<not> isUnmounted s)
     \<and> (es_active s \<and> es_tenant s \<noteq> [] \<longrightarrow> busy s)
     \<and> (\<forall>(i, t) \<in> set (exchanges s). t \<noteq> []) \<and> (\<forall>(i, t) \<in> set (sources s). t \<noteq> [])
     \<and> (\<forall>(i, t, d) \<in> set (timers s). t \<noteq> [] \<and> (\<exists>n \<le> MAX_RETRIES. d = retry_delay n))"

lemma stream_inv_init: "stream_inv stream_init"
  by (simp add: stream_inv_def stream_init_def)

text \<open>What does not depend on who is busy: the part of the invariant every handler keeps.\<close>

definition stream_wf :: "stream \<Rightarrow> bool" where
  "stream_wf s \<longleftrightarrow> retryCount s \<le> MAX_RETRIES
     \<and> (\<forall>(i, t) \<in> set (exchanges s). t \<noteq> []) \<and> (\<forall>(i, t) \<in> set (sources s). t \<noteq> [])
     \<and> (\<forall>(i, t, d) \<in> set (timers s). t \<noteq> [] \<and> (\<exists>n \<le> MAX_RETRIES. d = retry_delay n))"

lemma stream_inv_alt: "stream_inv s \<longleftrightarrow> stream_wf s \<and> (es_active s \<longrightarrow> \<not> isUnmounted s)
    \<and> (es_active s \<and> es_tenant s \<noteq> [] \<longrightarrow> busy s)"
  by (auto simp: stream_inv_def stream_wf_def)

lemma close_source_frame [simp]:
  "es_tenant (close_source s) = es_tenant s" "es_active (close_source s) = es_active s"
  "isUnmounted (close_source s) = isUnmounted s" "retryCount (close_source s) = retryCount s"
  "exchanges (close_source s) = exchanges s" "timers (close_source s) = timers s"
  "delivered (close_source s) = delivered s" "set (sources (close_source s)) \<subseteq> set (sources s)"
  by (auto simp: close_source_def split: option.splits)

lemma cleanup_frame [simp]:
  "es_tenant (cleanup s) = es_tenant s" "es_active (cleanup s) = es_active s"
  "isUnmounted (cleanup s) = isUnmounted s" "retryCount (cleanup s) = retryCount s"
  "exchanges (cleanup s) = exchanges s" "delivered (cleanup s) = delivered s"
  "set (timers (cleanup s)) \<subseteq> set (timers s)" "set (sources (cleanup s)) \<subseteq> set (sources s)"
  using close_source_frame(8) [of s] by (auto simp: cleanup_def Let_def split: option.splits)

lemma wf_shrink:
  assumes "stream_wf s" and "retryCount s' \<le> retryCount s" and "set (exchanges s') \<subseteq> set (exchanges s)"
    and "set (sources s') \<subseteq> set (sources s)" and "set (timers s') \<subseteq> set (timers s)"
  shows "stream_wf s'"
  using assms unfolding stream_wf_def by (meson order_trans subsetD)

lemma wf_cleanup: "stream_wf s \<Longrightarrow> stream_wf (cleanup s)"
  by (erule wf_shrink) simp_all

lemma wf_connect: "stream_wf s \<Longrightarrow> stream_wf (connect t s)"
proof -
  assume wf: "stream_wf s"
  then have "stream_wf (close_source s)" by (rule wf_shrink) simp_all
  then show ?thesis using wf by (simp add: connect_def Let_def stream_wf_def)
qed

lemma wf_reconnect: "stream_wf s \<Longrightarrow> t \<noteq> [] \<Longrightarrow> stream_wf (handleReconnect t s)"
  by (auto simp: handleReconnect_def stream_wf_def)

lemma connect_busy: "t \<noteq> [] \<Longrightarrow> \<not> isUnmounted s \<Longrightarrow> busy (connect t s)"
  by (simp add: connect_def busy_def Let_def)

lemma connect_frame [simp]:
  "es_tenant (connect t s) = es_tenant s" "es_active (connect t s) = es_active s"
  "isUnmounted (connect t s) = isUnmounted s" "delivered (connect t s) = delivered s"
  by (simp_all add: connect_def Let_def)

lemma handleReconnect_frame [simp]:
  "es_tenant (handleReconnect t s) = es_tenant s" "es_active (handleReconnect t s) = es_active s"
  "isUnmounted (handleReconnect t s) = isUnmounted s" "delivered (handleReconnect t s) = delivered s"
  "busy (handleReconnect t s) \<longleftrightarrow> \<not> isUnmounted s \<or> busy s"
  by (auto simp: handleReconnect_def busy_def)

lemma step_inv:
  assumes "stream_inv s" and "stream_step s s'"
  shows "stream_inv s'"
  using assms(2)
proof cases
  case (effect t)
  have wf: "stream_wf (s\<lparr>es_tenant := t, es_active := True, isUnmounted := False\<rparr>)"
    using assms(1) by (simp add: stream_inv_alt stream_wf_def)
  then have "stream_wf (cleanup (s\<lparr>es_tenant := t, es_active := True, isUnmounted := False\<rparr>))"
    by (rule wf_cleanup)
  then have "stream_wf ((cleanup (s\<lparr>es_tenant := t, es_active := True, isUnmounted := False\<rparr>))\<lparr>connectionState := Disconnected\<rparr>)"
    by (simp add: stream_wf_def)
  then show ?thesis
    unfolding effect(1) run_effect_def Let_def
    using wf by (auto simp: stream_inv_alt intro: wf_connect connect_busy)
next
  case unmount
  have "stream_wf (s\<lparr>es_active := False, isUnmounted := True\<rparr>)"
    using assms(1) by (simp add: stream_inv_alt stream_wf_def)
  then have "stream_wf (end_effect s)" unfolding end_effect_def by (rule wf_cleanup)
  then show ?thesis unfolding unmount(1) by (simp add: stream_inv_alt end_effect_def)
next
  case (token_ok i t)
  then have t: "t \<noteq> []" using assms(1) by (auto simp: stream_inv_def)
  have "set (remove1 (i, t) (exchanges s)) \<subseteq> set (exchanges s)" by (rule set_remove1_subset)
  then show ?thesis
    using assms(1) t unfolding token_ok(1) exchange_done_def Let_def
    by (auto simp: stream_inv_def busy_def)
next
  case (token_fails i t)
  then have t: "t \<noteq> []" using assms(1) by (auto simp: stream_inv_def)
  let ?s = "s\<lparr>exchanges := remove1 (i, t) (exchanges s)\<rparr>"
  have "stream_wf ?s"
    by (rule wf_shrink [of s]) (use assms(1) in \<open>simp_all add: stream_inv_alt set_remove1_subset\<close>)
  then show ?thesis
    using assms(1) t unfolding token_fails(1) exchange_failed_def Let_def
    by (auto simp: stream_inv_alt intro: wf_reconnect)
next
  case (opened i t)
  then show ?thesis using assms(1) by (auto simp: onopen_def stream_inv_def busy_def retry_defs)
next
  case (message i t ty)
  then show ?thesis using assms(1) by (auto simp: onmessage_def stream_inv_def busy_def)
next
  case (error i t)
  then have t: "t \<noteq> []" using assms(1) by (auto simp: stream_inv_def)
  let ?s = "s\<lparr>sources := filter (\<lambda>p. fst p \<noteq> i) (sources s), eventSource := None\<rparr>"
  have "stream_wf ?s" by (rule wf_shrink [of s]) (use assms(1) in \<open>auto simp: stream_inv_alt\<close>)
  then show ?thesis
    using assms(1) t unfolding error(1) onerror_def
    by (auto simp: stream_inv_alt intro: wf_reconnect)
next
  case (timer i t d)
  then have t: "t \<noteq> []" using assms(1) by (auto simp: stream_inv_def)
  let ?s = "s\<lparr>timers := filter (\<lambda>p. fst p \<noteq> i) (timers s), reconnectTimer := None\<rparr>"
  have "stream_wf ?s" by (rule wf_shrink [of s]) (use assms(1) in \<open>auto simp: stream_inv_alt\<close>)
  then show ?thesis
    using assms(1) t unfolding timer(1) timer_fires_def
    by (auto simp: stream_inv_alt intro: wf_connect connect_busy)
next
  case manual
  have "stream_wf (s\<lparr>retryCount := 0\<rparr>)" using assms(1) by (simp add: stream_inv_alt stream_wf_def)
  then have "stream_wf (cleanup (s\<lparr>retryCount := 0\<rparr>))" by (rule wf_cleanup)
  then show ?thesis
    using assms(1) unfolding manual(1) reconnect_def
    by (auto simp: stream_inv_alt intro: wf_connect connect_busy)
qed

interpretation stream: transition_system stream_init stream_step stream_inv
  by unfold_locales (auto intro: stream_inv_init step_inv)

section \<open>Properties\<close>

text \<open>C32: The hook never gives up and never floods: in every reachable state with an active effect
  and a tenant there is a token exchange, an open stream or a timer under way; the retry counter
  stays within its budget of five, and every timer waits between one and thirty seconds,
  doubling.\<close>
theorem stream_never_gives_up:
  assumes "stream_step\<^sup>*\<^sup>* stream_init s"
  shows "retryCount s \<le> 5
    \<and> (es_active s \<and> es_tenant s \<noteq> [] \<longrightarrow> exchanges s \<noteq> [] \<or> sources s \<noteq> [] \<or> timers s \<noteq> [])
    \<and> (\<forall>(i, t, d) \<in> set (timers s). 1000 \<le> d \<and> d \<le> 30000 \<and> (\<exists>n \<le> 5. d = min (1000 * 2 ^ n) 30000))"
proof -
  have "1000 \<le> retry_delay n" and "retry_delay n \<le> 30000" for n
    by (simp_all add: retry_delay_def retry_defs)
  then show ?thesis
    using stream.reachable_inv [OF assms]
    by (fastforce simp: stream_inv_def busy_def retry_delay_def retry_defs)
qed

theorem stream_never_gives_up_witness:
  "let s = exchange_failed 0 ''t'' (run_effect ''t'' stream_init) in
     stream_step\<^sup>*\<^sup>* stream_init s \<and> timers s = [(1, ''t'', 1000)] \<and> timers s \<noteq> []"
proof -
  let ?s = "exchange_failed 0 ''t'' (run_effect ''t'' stream_init)"
  have "stream_step stream_init (run_effect ''t'' stream_init)" by (rule effect) (simp add: stream_init_def)
  moreover have "stream_step (run_effect ''t'' stream_init) ?s"
    by (rule token_fails) (simp add: handler_simps stream_init_def)
  ultimately have r: "stream_step\<^sup>*\<^sup>* stream_init ?s" by simp
  have "timers ?s = [(1, ''t'', 1000)]"
    by (simp add: handler_simps stream_init_def retry_delay_def retry_defs)
  then show ?thesis using stream_never_gives_up [OF r] r by (simp add: Let_def)
qed

text \<open>Once unmounted, and until an effect runs again, the hook is silent: no callback is invoked,
  no stream or token exchange is started and no timer is set.\<close>
theorem silent_after_unmount:
  assumes "isUnmounted s" and "stream_step s s'" and "isUnmounted s'"
  shows "delivered s' = delivered s \<and> set (exchanges s') \<subseteq> set (exchanges s)
    \<and> set (sources s') \<subseteq> set (sources s) \<and> set (timers s') \<subseteq> set (timers s)"
  using assms(2)
proof cases
  case (effect t)
  then show ?thesis using assms(3) by (auto simp: run_effect_def Let_def split: if_splits)
next
  case unmount
  then show ?thesis
    using cleanup_frame(7,8) [of "s\<lparr>es_active := False, isUnmounted := True\<rparr>"] by (simp add: end_effect_def)
next
  case manual
  then show ?thesis
    using assms(1) cleanup_frame(7,8) [of "s\<lparr>retryCount := 0\<rparr>"] by (simp add: reconnect_def connect_def)
qed (use assms(1) in \<open>auto simp: handler_simps dest: set_remove1_subset [THEN subsetD]\<close>)

theorem silent_after_unmount_witness:
  "let s = end_effect (run_effect ''t'' stream_init) in
     isUnmounted s \<and> sources (exchange_done 0 ''t'' s) = []"
proof -
  let ?s = "end_effect (run_effect ''t'' stream_init)"
  have u: "isUnmounted ?s" "isUnmounted (exchange_done 0 ''t'' ?s)" and n: "sources ?s = []"
    by (simp_all add: handler_simps stream_init_def)
  have "stream_step ?s (exchange_done 0 ''t'' ?s)"
    by (rule token_ok) (simp add: handler_simps stream_init_def)
  from silent_after_unmount [OF u(1) this u(2)] u n show ?thesis by (simp add: Let_def)
qed

text \<open>A change of tenant during a token exchange is not noticed by the exchange: a state is
  reachable in which the hook shows tenant \<open>b\<close>, two streams are open at once, one of them for
  tenant \<open>a\<close>, and an event of tenant \<open>a\<close> has been delivered to the callback of \<open>b\<close>.\<close>
theorem stale_tenant_stream:
  "\<exists>s. stream_step\<^sup>*\<^sup>* stream_init s \<and> es_active s \<and> es_tenant s = ''b''
     \<and> map snd (sources s) = [''b'', ''a''] \<and> delivered s = [(''a'', ''device_status'')]"
proof -
  let ?s1 = "run_effect ''a'' stream_init" let ?s2 = "end_effect ?s1" let ?s3 = "run_effect ''b'' ?s2"
  let ?s4 = "exchange_done 1 ''b'' ?s3" let ?s5 = "exchange_done 0 ''a'' ?s4"
  let ?s6 = "onmessage ''a'' ''device_status'' ?s5"
  note eval = handler_simps stream_init_def retry_defs EVENT_TYPES_def
  have "stream_step stream_init ?s1" by (rule effect) (simp add: eval)
  moreover have "stream_step ?s1 ?s2" by (rule unmount) (simp add: eval)
  moreover have "stream_step ?s2 ?s3" by (rule effect) (simp add: eval)
  moreover have "stream_step ?s3 ?s4" by (rule token_ok) (simp add: eval)
  moreover have "stream_step ?s4 ?s5" by (rule token_ok) (simp add: eval)
  moreover have "stream_step ?s5 ?s6" by (rule message [of 3]) (simp add: eval)
  ultimately have "stream_step\<^sup>*\<^sup>* stream_init ?s6"
    by (meson converse_rtranclp_into_rtranclp rtranclp.rtrancl_refl)
  then show ?thesis by (intro exI [of _ ?s6]) (simp add: eval)
qed

end
