(* ===== verification/AdoptionVerify.thy ===== *)
theory AdoptionVerify
  imports Errors
begin

text \<open>
  Connectivity verification at the end of the adoption wizard
  (\<^verbatim>\<open>components/fleet/adoptionVerify.ts\<close>). The injected \<open>probe\<close>, \<open>fetchStatuses\<close> and the
  cancellation signal are arguments; the results object is a map from device ids. Sleeping has no
  effect on the results and is left out.
\<close>

datatype verify_status = Pending | Waiting | Online | Unreachable | Timeout | Uncheckable

record verify_result =
  vr_status :: verify_status
  vr_message :: "string option"
  vr_detail :: "string option"
  vr_reason :: "string option"
  vr_suggestedTlsMode :: "string option"
  vr_identity :: "string option"
  vr_version :: "string option"

definition mapDeviceStatus :: "string option \<Rightarrow> verify_status" where
  "mapDeviceStatus status =
     (if status = Some ''online'' then Online
      else if status = Some ''offline'' then Unreachable
      else Waiting)"

definition VERIFY_POLL_INTERVAL_MS :: nat where
  "VERIFY_POLL_INTERVAL_MS = 5000"

definition VERIFY_TIMEOUT_MS :: nat where
  "VERIFY_TIMEOUT_MS = 90000"

section \<open>Probing\<close>

record probe_response =
  pr_probe_available :: bool
  pr_ok :: bool
  pr_reason :: string
  pr_message :: string
  pr_detail :: "string option"
  pr_suggested_tls_mode :: "string option"
  pr_identity :: "string option"
  pr_version :: "string option"

definition status_only :: "verify_status \<Rightarrow> verify_result" where
  "status_only st = \<lparr>vr_status = st, vr_message = None, vr_detail = None, vr_reason = None,
     vr_suggestedTlsMode = None, vr_identity = None, vr_version = None\<rparr>"

definition resultFromProbe :: "probe_response \<Rightarrow> verify_result" where
  "resultFromProbe probe =
     (if \<not> pr_probe_available probe
      then (status_only Uncheckable)\<lparr>vr_message := Some (pr_message probe), vr_detail := pr_detail probe,
             vr_reason := Some (pr_reason probe)\<rparr>
      else \<lparr>vr_status = (if pr_ok probe then Online else Unreachable),
            vr_message = Some (pr_message probe), vr_detail = pr_detail probe,
            vr_reason = Some (pr_reason probe), vr_suggestedTlsMode = pr_suggested_tls_mode probe,
            vr_identity = pr_identity probe, vr_version = pr_version probe\<rparr>)"

record probe_outcome =
  po_results :: "string \<rightharpoonup> verify_result"
  po_unsupported :: bool
  po_unresolved :: "string list"

definition probe_failed :: "thrown \<Rightarrow> verify_result" where
  "probe_failed err = (status_only Uncheckable)
     \<lparr>vr_message := Some ''The connection check could not be run for this device.'',
      vr_detail := (case status_of err of
          None \<Rightarrow> None
        | Some st \<Rightarrow> if st = 0 then None else Some (''HTTP '' @ string_of_int st))\<rparr>"

fun set_all :: "string list \<Rightarrow> 'v \<Rightarrow> (string \<rightharpoonup> 'v) \<Rightarrow> (string \<rightharpoonup> 'v)" where
  "set_all [] v m = m"
| "set_all (i # is) v m = set_all is v (m(i \<mapsto> v))"

text \<open>The loop from the device at the head of \<open>rest\<close>; \<open>cancelled\<close> is the signal seen before the
  device is probed. The left summand is an early return with what is unresolved.\<close>

fun probe_loop ::
  "(string \<Rightarrow> thrown + probe_response) \<Rightarrow> (string \<Rightarrow> bool) \<Rightarrow> string list
     \<Rightarrow> (string \<rightharpoonup> verify_result) \<Rightarrow> (string \<rightharpoonup> verify_result) \<times> (bool \<times> string list) option" where
  "probe_loop probe cancelled [] results = (results, None)"
| "probe_loop probe cancelled (i # rest) results =
     (if cancelled i then (results, None)
      else case probe i of
        Inr p \<Rightarrow> probe_loop probe cancelled rest (results(i \<mapsto> resultFromProbe p))
      | Inl err \<Rightarrow>
          if status_of err = Some 404 then (results, Some (True, i # rest))
          else if status_of err = Some 429 then (results, Some (False, i # rest))
          else probe_loop probe cancelled rest (results(i \<mapsto> probe_failed err)))"

definition probeVerifyStatuses ::
  "(string \<Rightarrow> thrown + probe_response) \<Rightarrow> (string \<Rightarrow> bool) \<Rightarrow> string list \<Rightarrow> probe_outcome" where
  "probeVerifyStatuses probe cancelled deviceIds =
     (case probe_loop probe cancelled deviceIds (set_all deviceIds (status_only Waiting) Map.empty) of
        (results, Some (unsupported, unresolved)) \<Rightarrow>
          \<lparr>po_results = results, po_unsupported = unsupported, po_unresolved = unresolved\<rparr>
      | (results, None) \<Rightarrow>
          \<lparr>po_results = results, po_unsupported = False,
           po_unresolved = filter (\<lambda>i. map_option vr_status (results i) = Some Waiting) deviceIds\<rparr>)"

section \<open>Polling\<close>

definition isSettled :: "verify_status \<Rightarrow> bool" where
  "isSettled s \<longleftrightarrow> s = Online \<or> s = Unreachable"

text \<open>One round: unsettled devices take the status the poller reported.\<close>

fun merge_statuses ::
  "string list \<Rightarrow> (string \<rightharpoonup> string) \<Rightarrow> (string \<rightharpoonup> verify_status) \<Rightarrow> (string \<rightharpoonup> verify_status)" where
  "merge_statuses [] byId statuses = statuses"
| "merge_statuses (i # is) byId statuses =
     (if isSettled (the (statuses i)) then merge_statuses is byId statuses
      else merge_statuses is byId (statuses(i \<mapsto> mapDeviceStatus (byId i))))"

fun time_out :: "string list \<Rightarrow> (string \<rightharpoonup> verify_status) \<Rightarrow> (string \<rightharpoonup> verify_status)" where
  "time_out [] statuses = statuses"
| "time_out (i # is) statuses =
     (if isSettled (the (statuses i)) then time_out is statuses
      else time_out is (statuses(i \<mapsto> Timeout)))"

text \<open>The loop over the answers of \<open>fetchStatuses\<close>, one per attempt; \<open>cancelled\<close> is read before and
  after the fetch of each attempt.\<close>

fun poll_loop ::
  "string list \<Rightarrow> (nat \<Rightarrow> bool) \<Rightarrow> (thrown + (string \<rightharpoonup> string)) list \<Rightarrow> nat
     \<Rightarrow> (string \<rightharpoonup> verify_status) \<Rightarrow> (string \<rightharpoonup> verify_status)" where
  "poll_loop ids cancelled [] n statuses = time_out ids statuses"
| "poll_loop ids cancelled (r # rs) n statuses =
     (if cancelled (2 * n) then statuses
      else case r of
        Inl e \<Rightarrow> poll_loop ids cancelled rs (n + 1) statuses
      | Inr byId \<Rightarrow>
          if cancelled (2 * n + 1) then statuses
          else let statuses' = merge_statuses ids byId statuses in
               if list_all (\<lambda>i. isSettled (the (statuses' i))) ids then statuses'
               else poll_loop ids cancelled rs (n + 1) statuses')"

text \<open>The attempts: \<open>Math.max(1, Math.ceil(timeoutMs / intervalMs))\<close>.\<close>

definition maxAttempts :: "nat \<Rightarrow> nat \<Rightarrow> nat" where
  "maxAttempts timeoutMs intervalMs = max 1 ((timeoutMs + intervalMs - 1) div intervalMs)"

definition pollVerifyStatuses ::
  "(nat \<Rightarrow> thrown + (string \<rightharpoonup> string)) \<Rightarrow> (nat \<Rightarrow> bool) \<Rightarrow> nat \<Rightarrow> nat \<Rightarrow> string list
     \<Rightarrow> (string \<rightharpoonup> verify_status)" where
  "pollVerifyStatuses fetchStatuses cancelled timeoutMs intervalMs deviceIds =
     (let statuses = set_all deviceIds Waiting Map.empty in
      if deviceIds = [] then statuses
      else poll_loop deviceIds cancelled (map fetchStatuses [0..<maxAttempts timeoutMs intervalMs]) 0 statuses)"

definition tlsDowngradeCost :: "string \<Rightarrow> string option" where
  "tlsDowngradeCost mode =
     (if mode = ''plain'' then Some (''Plain turns TLS off for this device: the API password and all config traffic travel unencrypted, and '' @ [CHR 0x22] @ ''auto'' @ [CHR 0x22] @ '' refuses plaintext deliberately.'')
      else if mode = ''insecure'' then Some (''Insecure keeps TLS but stops verifying the device'' @ [CHR 0x27] @ ''s certificate, so the connection is no longer protected against interception.'')
      else None)"

section \<open>Lemmas\<close>

lemma set_all_apply: "set_all is v m j = (if j \<in> set is then Some v else m j)"
  by (induction "is" arbitrary: m) auto

lemma merge_apply:
  "merge_statuses is byId statuses j =
     (if j \<in> set is \<and> \<not> isSettled (the (statuses j)) then Some (mapDeviceStatus (byId j)) else statuses j)"
  by (induction "is" arbitrary: statuses) auto

lemma time_out_apply:
  "time_out is statuses j = (if j \<in> set is \<and> \<not> isSettled (the (statuses j)) then Some Timeout else statuses j)"
  by (induction "is" arbitrary: statuses) (auto simp: isSettled_def)

text \<open>The specification: the first settled status among those the poller reported.\<close>

fun verdict :: "string \<Rightarrow> (thrown + (string \<rightharpoonup> string)) list \<Rightarrow> verify_status \<Rightarrow> verify_status" where
  "verdict i [] st = (if isSettled st then st else Timeout)"
| "verdict i (Inl e # rs) st = verdict i rs st"
| "verdict i (Inr byId # rs) st = verdict i rs (if isSettled st then st else mapDeviceStatus (byId i))"

lemma verdict_settled [simp]: "isSettled st \<Longrightarrow> verdict i rs st = st"
proof (induction rs)
  case (Cons r rs)
  then show ?case by (cases r) auto
qed simp

lemma poll_loop_verdict:
  assumes "\<And>n. \<not> cancelled n" and "\<forall>i \<in> set ids. \<exists>st. statuses i = Some st" and "i \<in> set ids"
  shows "poll_loop ids cancelled rs n statuses i = Some (verdict i rs (the (statuses i)))"
  using assms(2,3)
proof (induction rs arbitrary: n statuses)
  case Nil
  then show ?case by (auto simp: time_out_apply)
next
  case (Cons r rs)
  show ?case
  proof (cases r)
    case (Inl e)
    with Cons show ?thesis by (simp add: assms(1))
  next
    case (Inr byId)
    let ?m = "merge_statuses ids byId statuses"
    have m: "\<forall>i \<in> set ids. \<exists>st. ?m i = Some st" using Cons.prems by (simp add: merge_apply)
    have mi: "the (?m i) = (if isSettled (the (statuses i)) then the (statuses i) else mapDeviceStatus (byId i))"
      using Cons.prems by (simp add: merge_apply)
    show ?thesis
    proof (cases "list_all (\<lambda>i. isSettled (the (?m i))) ids")
      case True
      then have s: "isSettled (the (?m i))" using Cons.prems by (simp add: list_all_iff)
      have "poll_loop ids cancelled (r # rs) n statuses i = ?m i" using True by (simp add: Inr assms(1))
      also have "\<dots> = Some (the (?m i))" using m Cons.prems by fastforce
      finally show ?thesis using s by (simp add: Inr mi [symmetric])
    next
      case False
      then show ?thesis
        using Cons.IH [OF m Cons.prems(2), of "n + 1"] by (simp add: Inr assms(1) mi [symmetric])
    qed
  qed
qed

lemma verdict_unreachable:
  "verdict i rs st = Unreachable \<Longrightarrow> st \<noteq> Unreachable \<Longrightarrow> \<exists>byId. Inr byId \<in> set rs \<and> byId i = Some ''offline''"
proof (induction i rs st rule: verdict.induct)
  case (3 i byId rs st)
  then show ?case
    by (cases "isSettled st") (auto simp: isSettled_def mapDeviceStatus_def split: if_splits)
qed (auto split: if_splits)

lemma verdict_unreported:
  "\<not> isSettled st \<Longrightarrow> \<forall>byId. Inr byId \<in> set rs \<longrightarrow> \<not> isSettled (mapDeviceStatus (byId i)) \<Longrightarrow>
   verdict i rs st = Timeout"
  by (induction i rs st rule: verdict.induct) auto

text \<open>A verdict of the probe loop on one device.\<close>

definition probed :: "(string \<Rightarrow> thrown + probe_response) \<Rightarrow> string \<Rightarrow> verify_result \<Rightarrow> bool" where
  "probed probe i r \<longleftrightarrow> (case probe i of
      Inr p \<Rightarrow> r = resultFromProbe p
    | Inl e \<Rightarrow> status_of e \<noteq> Some 404 \<and> status_of e \<noteq> Some 429 \<and> r = probe_failed e)"

lemma probed_not_waiting: "probed probe i r \<Longrightarrow> vr_status r \<noteq> Waiting"
  by (auto simp: probed_def resultFromProbe_def probe_failed_def status_only_def split: sum.splits)

lemma probe_loop_spec:
  assumes "probe_loop probe cancelled rest results = (results', out)" and "distinct rest"
    and "\<forall>i \<in> set rest. results i = Some (status_only Waiting)"
  shows "(\<forall>j. j \<notin> set rest \<longrightarrow> results' j = results j)
    \<and> (\<forall>j \<in> set rest. results' j = Some (status_only Waiting) \<or> (\<exists>r. results' j = Some r \<and> probed probe j r))
    \<and> (\<forall>u un. out = Some (u, un) \<longrightarrow> un = filter (\<lambda>i. map_option vr_status (results' i) = Some Waiting) rest)"
  using assms
proof (induction rest arbitrary: results)
  case (Cons i rest)
  have w: "vr_status (status_only Waiting) = Waiting" by (simp add: status_only_def)
  show ?case
  proof (cases "probe_loop probe cancelled (i # rest) results = (results, None)")
    case True
    with Cons.prems show ?thesis by auto
  next
    case False
    have go: ?thesis if "probe_loop probe cancelled rest (results(i \<mapsto> r)) = (results', out)" "probed probe i r" for r
    proof -
      have "\<forall>j \<in> set rest. (results(i \<mapsto> r)) j = Some (status_only Waiting)" using Cons.prems by auto
      note IH = Cons.IH [OF that(1) _ this]
      moreover have "i \<notin> set rest" using Cons.prems by simp
      ultimately have "results' i = Some r" using Cons.prems by simp
      then show ?thesis
        using IH Cons.prems that(2) probed_not_waiting [OF that(2)] by (auto split: if_splits)
    qed
    have stop: ?thesis if "results' = results" "out = Some (u, i # rest)" for u
      using Cons.prems that w by (auto simp: filter_id_conv)
    have c: "\<not> cancelled i" using False by auto
    show ?thesis
    proof (cases "probe i")
      case (Inr p)
      then show ?thesis using Cons.prems(1) c by (intro go [of "resultFromProbe p"]) (simp_all add: probed_def)
    next
      case (Inl e)
      consider (early) u where "results' = results" "out = Some (u, i # rest)"
        | (on) "probe_loop probe cancelled rest (results(i \<mapsto> probe_failed e)) = (results', out)"
            "status_of e \<noteq> Some 404" "status_of e \<noteq> Some 429"
        using Cons.prems(1) c Inl by (auto split: if_splits)
      then show ?thesis
      proof cases
        case early
        then show ?thesis by (rule stop)
      next
        case on
        then show ?thesis using Inl by (intro go [of "probe_failed e"]) (simp_all add: probed_def)
      qed
    qed
  qed
qed auto

lemma poll_final:
  assumes "\<And>n. \<not> cancelled n" and "i \<in> set ids"
  shows "pollVerifyStatuses fetch cancelled timeoutMs intervalMs ids i =
    Some (verdict i (map fetch [0..<maxAttempts timeoutMs intervalMs]) Waiting)"
proof -
  have "set_all ids Waiting Map.empty i = Some Waiting" using assms(2) by (simp add: set_all_apply)
  then show ?thesis
    using poll_loop_verdict [where cancelled = cancelled and ids = ids and i = i and n = 0
        and rs = "map fetch [0..<maxAttempts timeoutMs intervalMs]"
        and statuses = "set_all ids Waiting Map.empty"] assms
    by (auto simp: pollVerifyStatuses_def set_all_apply Let_def)
qed

lemma verdict_final: "verdict i rs Waiting \<in> {Online, Unreachable, Timeout}"
proof -
  have "verdict i rs st \<in> {Online, Unreachable, Timeout}" for st
    by (induction i rs st rule: verdict.induct) (auto simp: isSettled_def)
  then show ?thesis .
qed

lemma probe_final:
  assumes "distinct ids" and "i \<in> set ids" and "out = probeVerifyStatuses probe cancelled ids"
  shows "po_unresolved out = filter (\<lambda>i. map_option vr_status (po_results out i) = Some Waiting) ids"
    and "\<exists>r. po_results out i = Some r \<and> (r = status_only Waiting \<or> probed probe i r)"
proof -
  obtain res o' where loop: "probe_loop probe cancelled ids (set_all ids (status_only Waiting) Map.empty) = (res, o')"
    by fastforce
  note spec = probe_loop_spec [OF loop assms(1)]
  have out: "po_results out = res"
      "po_unresolved out = filter (\<lambda>i. map_option vr_status (res i) = Some Waiting) ids"
    using spec unfolding assms(3) probeVerifyStatuses_def loop
    by (auto simp: set_all_apply split: option.splits)
  then show "po_unresolved out = filter (\<lambda>i. map_option vr_status (po_results out i) = Some Waiting) ids" by simp
  show "\<exists>r. po_results out i = Some r \<and> (r = status_only Waiting \<or> probed probe i r)"
    using spec assms(2) out by (auto simp: set_all_apply)
qed

section \<open>Properties\<close>

text \<open>What polling reports. A run that is not cancelled gives every device a final verdict: the
  first online or offline the poller reported, and otherwise a time-out. In particular a device
  is called unreachable only when the poller said offline in some round, and one nobody reported
  on, or whose rounds all failed, is a time-out, never unreachable.\<close>
theorem poll_verdicts:
  assumes "\<And>n. \<not> cancelled n" and "i \<in> set ids"
    and rs_def: "rs = map fetch [0..<maxAttempts timeoutMs intervalMs]"
  shows "pollVerifyStatuses fetch cancelled timeoutMs intervalMs ids i = Some (verdict i rs Waiting)
    \<and> (verdict i rs Waiting = Unreachable \<longrightarrow> (\<exists>byId. Inr byId \<in> set rs \<and> byId i = Some ''offline''))
    \<and> ((\<forall>byId. Inr byId \<in> set rs \<longrightarrow> byId i \<notin> {Some ''online'', Some ''offline''})
         \<longrightarrow> verdict i rs Waiting = Timeout)"
proof (intro conjI impI)
  show "pollVerifyStatuses fetch cancelled timeoutMs intervalMs ids i = Some (verdict i rs Waiting)"
    unfolding rs_def using assms(1,2) by (rule poll_final)
  show "\<exists>byId. Inr byId \<in> set rs \<and> byId i = Some ''offline''" if "verdict i rs Waiting = Unreachable"
    using verdict_unreachable [OF that] by simp
  show "verdict i rs Waiting = Timeout"
    if "\<forall>byId. Inr byId \<in> set rs \<longrightarrow> byId i \<notin> {Some ''online'', Some ''offline''}"
    using that by (intro verdict_unreported) (auto simp: isSettled_def mapDeviceStatus_def)
qed

theorem poll_verdicts_witness:
  "pollVerifyStatuses (\<lambda>n. if n = 1 then Inr [''a'' \<mapsto> ''offline''] else Inl OtherThrown) (\<lambda>_. False) 15 5 [''a'', ''b''] ''a''
     = Some Unreachable
   \<and> pollVerifyStatuses (\<lambda>n. if n = 1 then Inr [''a'' \<mapsto> ''offline''] else Inl OtherThrown) (\<lambda>_. False) 15 5 [''a'', ''b''] ''b''
     = Some Timeout"
proof -
  have n: "[0..<maxAttempts 15 5] = [0, 1, 2]" by code_simp
  show ?thesis
    using poll_verdicts [of "\<lambda>_. False" "''a''" "[''a'', ''b'']" _ "\<lambda>n. if n = 1 then Inr [''a'' \<mapsto> ''offline''] else Inl OtherThrown" 15 5, OF _ _ refl]
      poll_verdicts [of "\<lambda>_. False" "''b''" "[''a'', ''b'']" _ "\<lambda>n. if n = 1 then Inr [''a'' \<mapsto> ''offline''] else Inl OtherThrown" 15 5, OF _ _ refl]
    unfolding n by (simp add: isSettled_def mapDeviceStatus_def)
qed

text \<open>What probing reports, for distinct devices: the unresolved ones are exactly those still
  waiting, whether the run ended, was cancelled, or stopped at a 404 or 429; every other result
  is the answer of that device's own probe, and unreachable means the probe ran and failed.\<close>
theorem probe_verdicts:
  assumes "distinct ids" and "probeVerifyStatuses probe cancelled ids = out" and "i \<in> set ids"
  shows "po_unresolved out = filter (\<lambda>i. map_option vr_status (po_results out i) = Some Waiting) ids
    \<and> (\<exists>r. po_results out i = Some r \<and> (r = status_only Waiting \<or> probed probe i r)
        \<and> (vr_status r = Unreachable \<longrightarrow> (\<exists>p. probe i = Inr p \<and> pr_probe_available p \<and> \<not> pr_ok p)))"
proof -
  have "\<exists>p. probe i = Inr p \<and> pr_probe_available p \<and> \<not> pr_ok p"
    if "r = status_only Waiting \<or> probed probe i r" "vr_status r = Unreachable" for r
    using that by (auto simp: probed_def resultFromProbe_def probe_failed_def status_only_def
        split: sum.splits if_splits)
  then show ?thesis using probe_final [OF assms(1,3) assms(2) [symmetric]] by blast
qed

theorem probe_verdicts_witness:
  "po_unresolved (probeVerifyStatuses
      (\<lambda>i. Inl (AxiosError (Some \<lparr>rs_status = (if i = ''a'' then 500 else 429), rs_detail = None\<rparr>) []))
      (\<lambda>_. False) [''a'', ''b'', ''c'']) = [''b'', ''c'']"
proof -
  let ?p = "\<lambda>i. Inl (AxiosError (Some \<lparr>rs_status = (if i = ''a'' then 500 else 429), rs_detail = None\<rparr>) [])"
  have "po_results (probeVerifyStatuses ?p (\<lambda>_. False) [''a'', ''b'', ''c'']) =
      [''a'' \<mapsto> probe_failed (AxiosError (Some \<lparr>rs_status = 500, rs_detail = None\<rparr>) []),
       ''b'' \<mapsto> status_only Waiting, ''c'' \<mapsto> status_only Waiting]"
    by (auto simp: probeVerifyStatuses_def status_of_def response_of_def fun_eq_iff)
  then show ?thesis
    using probe_verdicts [of "[''a'', ''b'', ''c'']" ?p "\<lambda>_. False" _ "''a''", OF _ refl]
    by (simp add: probe_failed_def status_only_def)
qed

end
