(* ===== verification/AdoptionWizard.thy ===== *)
theory AdoptionWizard
  imports AdoptionVerify
begin

text \<open>
  The device adoption wizard (\<^verbatim>\<open>components/fleet/AdoptionWizard.tsx\<close>): the five steps, the import and
  the verification that runs behind it. The import is one asynchronous handler during which no other
  control is enabled; verification runs in the background and interleaves with the retries the user
  starts, so it is a machine over events.
\<close>

section \<open>The steps\<close>

record scan_result =
  sr_ip_address :: string
  sr_hostname :: "string option"
  sr_api_port_open :: bool
  sr_api_ssl_port_open :: bool

datatype credential_mode = Shared | PerDevice

record per_device_creds =
  pd_username :: string
  pd_password :: string

definition PLAIN_API_PORT :: nat where
  "PLAIN_API_PORT = 8728"

definition TLS_API_PORT :: nat where
  "TLS_API_PORT = 8729"

definition ASSIGNMENT_SPACING_MS :: nat where
  "ASSIGNMENT_SPACING_MS = 3000"

record wizard =
  step :: nat
  scanResults :: "scan_result list option"
  selectedIps :: "string set"
  credMode :: credential_mode
  sharedUsername :: string
  sharedPassword :: string
  api_port :: nat
  perDeviceCreds :: "per_device_creds obj"
  selectedGroupIds :: "string list"
  selectedTagIds :: "string list"
  newGroupName :: string

definition wizard_init :: wizard where
  "wizard_init = \<lparr>step = 1, scanResults = None, selectedIps = {}, credMode = Shared, sharedUsername = ''admin'',
     sharedPassword = [], api_port = TLS_API_PORT, perDeviceCreds = [], selectedGroupIds = [], selectedTagIds = [],
     newGroupName = []\<rparr>"

text \<open>What is imported: discovered, selected, and not among the known devices.\<close>

definition selectedResults :: "string set \<Rightarrow> wizard \<Rightarrow> scan_result list" where
  "selectedResults existingIps w = (case scanResults w of
      None \<Rightarrow> []
    | Some ds \<Rightarrow> filter (\<lambda>d. sr_ip_address d \<in> selectedIps w \<and> sr_ip_address d \<notin> existingIps) ds)"

subsection \<open>Step 1: the subnet\<close>

text \<open>\<open>None\<close>: the scan is started; \<open>Some\<close>: the message shown instead.\<close>

definition subnet_handleSubmit :: "string \<Rightarrow> string option" where
  "subnet_handleSubmit cidr =
     (if js_trim cidr = [] then Some ''CIDR is required (e.g. 192.168.1.0/24)''
      else case split_on CHR ''/'' cidr of
        [_, p] \<Rightarrow>
          (case parseInt 10 p of
             Some prefix \<Rightarrow> if prefix < 20 then Some ''Maximum subnet size is /20 (4096 addresses)'' else None
           | None \<Rightarrow> None)
      | _ \<Rightarrow> None)"

definition scan_error :: "thrown \<Rightarrow> json" where
  "scan_error err =
     (if status_of err = Some 429
      then JStr ''Too many scans. This endpoint allows 5 per minute -- wait a moment and try again.''
      else case detail_of err of
        None \<Rightarrow> JStr ''Scan failed. Check the CIDR format.''
      | Some JNull \<Rightarrow> JStr ''Scan failed. Check the CIDR format.''
      | Some d \<Rightarrow> d)"

text \<open>Two seconds per fifty hosts, at least five; \<open>Math.ceil((hosts / 50) * 2)\<close> is exact for the hosts of a
  prefix from 20 to 32.\<close>

definition estimatedSeconds :: "string \<Rightarrow> nat option" where
  "estimatedSeconds cidr =
     (case split_on CHR ''/'' cidr of
        _ # p # _ \<Rightarrow>
          (case parseInt 10 p of
             None \<Rightarrow> None
           | Some prefix \<Rightarrow>
               if prefix < 20 \<or> 32 < prefix then None
               else let hosts = max 1 (2 ^ (32 - nat prefix) - 2) in Some (max 5 ((2 * hosts + 49) div 50)))
      | _ \<Rightarrow> None)"

definition onResults :: "scan_result list \<Rightarrow> wizard \<Rightarrow> wizard" where
  "onResults ds w = w\<lparr>scanResults := Some ds, step := 2\<rparr>"

subsection \<open>Step 2: the selection\<close>

definition newDevices :: "string set \<Rightarrow> scan_result list \<Rightarrow> scan_result list" where
  "newDevices existingIps ds = filter (\<lambda>d. sr_ip_address d \<notin> existingIps) ds"

definition toggleIp :: "string \<Rightarrow> wizard \<Rightarrow> wizard" where
  "toggleIp ip w = w\<lparr>selectedIps := (if ip \<in> selectedIps w then selectedIps w - {ip} else insert ip (selectedIps w))\<rparr>"

text \<open>The row and its checkbox of a known device do nothing.\<close>

definition row_click :: "string set \<Rightarrow> string \<Rightarrow> wizard \<Rightarrow> wizard" where
  "row_click existingIps ip w = (if ip \<in> existingIps then w else toggleIp ip w)"

definition selectAll :: "string set \<Rightarrow> scan_result list \<Rightarrow> wizard \<Rightarrow> wizard" where
  "selectAll existingIps ds w = w\<lparr>selectedIps := sr_ip_address ` set (newDevices existingIps ds)\<rparr>"

definition deselectAll :: "wizard \<Rightarrow> wizard" where
  "deselectAll w = w\<lparr>selectedIps := {}\<rparr>"

definition allNewSelected :: "string set \<Rightarrow> scan_result list \<Rightarrow> wizard \<Rightarrow> bool" where
  "allNewSelected existingIps ds w \<longleftrightarrow> newDevices existingIps ds \<noteq> [] \<and>
     list_all (\<lambda>d. sr_ip_address d \<in> selectedIps w) (newDevices existingIps ds)"

definition respondedCount :: "scan_result list \<Rightarrow> nat" where
  "respondedCount ds = length (filter (\<lambda>d. sr_api_port_open d \<or> sr_api_ssl_port_open d) ds)"

subsection \<open>Steps 3 and 4: credentials, groups and tags\<close>

definition shown_username :: "wizard \<Rightarrow> string \<Rightarrow> string" where
  "shown_username w ip = (case obj_get (perDeviceCreds w) ip of None \<Rightarrow> ''admin'' | Some c \<Rightarrow> pd_username c)"

definition shown_password :: "wizard \<Rightarrow> string \<Rightarrow> string" where
  "shown_password w ip = (case obj_get (perDeviceCreds w) ip of None \<Rightarrow> [] | Some c \<Rightarrow> pd_password c)"

definition edit_username :: "string \<Rightarrow> string \<Rightarrow> wizard \<Rightarrow> wizard" where
  "edit_username ip v w = w\<lparr>perDeviceCreds :=
     obj_set ip \<lparr>pd_username = v, pd_password = shown_password w ip\<rparr> (perDeviceCreds w)\<rparr>"

definition edit_password :: "string \<Rightarrow> string \<Rightarrow> wizard \<Rightarrow> wizard" where
  "edit_password ip v w = w\<lparr>perDeviceCreds :=
     obj_set ip \<lparr>pd_username = shown_username w ip, pd_password = v\<rparr> (perDeviceCreds w)\<rparr>"

definition check_id :: "bool \<Rightarrow> string \<Rightarrow> string list \<Rightarrow> string list" where
  "check_id checked i ids = (if checked then ids @ [i] else filter (\<lambda>j. j \<noteq> i) ids)"

definition check_group :: "bool \<Rightarrow> string \<Rightarrow> wizard \<Rightarrow> wizard" where
  "check_group checked i w = w\<lparr>selectedGroupIds := check_id checked i (selectedGroupIds w)\<rparr>"

definition check_tag :: "bool \<Rightarrow> string \<Rightarrow> wizard \<Rightarrow> wizard" where
  "check_tag checked i w = w\<lparr>selectedTagIds := check_id checked i (selectedTagIds w)\<rparr>"

definition group_created :: "string \<Rightarrow> wizard \<Rightarrow> wizard" where
  "group_created i w = w\<lparr>selectedGroupIds := selectedGroupIds w @ [i], newGroupName := []\<rparr>"

subsection \<open>Navigation\<close>

definition next_enabled :: "wizard \<Rightarrow> bool" where
  "next_enabled w \<longleftrightarrow>
     (if step w = 2 then selectedIps w \<noteq> {}
      else if step w = 3 then \<not> (credMode w = Shared \<and> (sharedUsername w = [] \<or> sharedPassword w = []))
      else step w = 4)"

definition wizard_next :: "wizard \<Rightarrow> wizard" where
  "wizard_next w = (if next_enabled w then w\<lparr>step := step w + 1\<rparr> else w)"

text \<open>In step 5 the way back is only there before the import; \<open>busy\<close>: importing or imported.\<close>

definition wizard_back :: "bool \<Rightarrow> wizard \<Rightarrow> wizard" where
  "wizard_back busy w = (if step w \<in> {2, 3, 4} \<or> step w = 5 \<and> \<not> busy then w\<lparr>step := step w - 1\<rparr> else w)"

section \<open>The import\<close>

record bulk_device =
  bd_ip_address :: string
  bd_api_port :: nat
  bd_api_ssl_port :: nat
  bd_username :: "string option"
  bd_password :: "string option"

record bulk_request =
  br_devices :: "bulk_device list"
  br_shared_username :: "string option"
  br_shared_password :: "string option"
  br_tls_mode :: string

definition bulk_device_of :: "wizard \<Rightarrow> scan_result \<Rightarrow> bulk_device" where
  "bulk_device_of w d =
     (let perDev = obj_get (perDeviceCreds w) (sr_ip_address d) in
      \<lparr>bd_ip_address = sr_ip_address d, bd_api_port = PLAIN_API_PORT, bd_api_ssl_port = TLS_API_PORT,
       bd_username = (if credMode w = PerDevice then map_option pd_username perDev else None),
       bd_password = (if credMode w = PerDevice then map_option pd_password perDev else None)\<rparr>)"

definition bulk_request_of :: "string set \<Rightarrow> wizard \<Rightarrow> bulk_request" where
  "bulk_request_of existingIps w =
     \<lparr>br_devices = map (bulk_device_of w) (selectedResults existingIps w),
      br_shared_username = (if credMode w = Shared then Some (sharedUsername w) else None),
      br_shared_password = (if credMode w = Shared then Some (sharedPassword w) else None),
      br_tls_mode = (if api_port w = PLAIN_API_PORT then ''plain'' else ''auto'')\<rparr>"

datatype assignment = AddToGroup string string | AddTag string string

definition assignments :: "string list \<Rightarrow> string list \<Rightarrow> string list \<Rightarrow> assignment list" where
  "assignments deviceIds groupIds tagIds =
     concat (map (\<lambda>d. map (AddToGroup d) groupIds @ map (AddTag d) tagIds) deviceIds)"

text \<open>The assignment loop: the calls made, each with the time it is sent, and the failures counted. \<open>took i\<close>
  is how long call \<open>i\<close> takes and \<open>fails i\<close> whether it is rejected.\<close>

fun assign_loop :: "(nat \<Rightarrow> nat) \<Rightarrow> (nat \<Rightarrow> bool) \<Rightarrow> assignment list \<Rightarrow> nat \<Rightarrow> nat \<Rightarrow> (nat \<times> assignment) list \<times> nat" where
  "assign_loop took fails [] i now = ([], 0)"
| "assign_loop took fails (a # rest) i now =
     (let wait = (if rest = [] then 0 else ASSIGNMENT_SPACING_MS);
          (calls, n) = assign_loop took fails rest (i + 1) (now + took i + wait)
      in ((now, a) # calls, n + (if fails i then 1 else 0)))"

datatype import_phase = Idle | Importing | Assigning | Verifying

record import_state =
  isImporting :: bool
  isImported :: bool
  importPhase :: import_phase
  assignmentFailures :: nat
  importedDevices :: "string list"
  failedImports :: "(string \<times> string) list"
  verifying :: "string list option"
  im_toast :: "string option"

definition import_init :: import_state where
  "import_init = \<lparr>isImporting = False, isImported = False, importPhase = Idle, assignmentFailures = 0,
     importedDevices = [], failedImports = [], verifying = None, im_toast = None\<rparr>"

definition plural :: "nat \<Rightarrow> string" where
  "plural n = (if n \<noteq> 1 then ''s'' else [])"

definition import_message :: "nat \<Rightarrow> nat \<Rightarrow> string" where
  "import_message added failed = string_of_nat added @ '' device'' @ plural added @ '' imported''
     @ (if failed > 0 then '', '' @ string_of_nat failed @ '' failed'' else [])"

text \<open>Nothing is left to fail once the devices are added: rejected assignments are counted.\<close>

definition runImport ::
  "(bulk_request \<Rightarrow> thrown + string list \<times> (string \<times> string) list) \<Rightarrow> (nat \<Rightarrow> nat) \<Rightarrow> (nat \<Rightarrow> bool)
     \<Rightarrow> string set \<Rightarrow> wizard \<Rightarrow> import_state \<Rightarrow> (nat \<times> assignment) list \<times> import_state" where
  "runImport bulkAdd took fails existingIps w st =
     (case bulkAdd (bulk_request_of existingIps w) of
        Inl e \<Rightarrow> ([], st\<lparr>isImporting := False, importPhase := Idle, im_toast := Some ''Import failed''\<rparr>)
      | Inr (added, failed) \<Rightarrow>
          let as = assignments added (selectedGroupIds w) (selectedTagIds w);
              (calls, n) = assign_loop took fails as 0 0
          in (calls, st\<lparr>isImporting := False, isImported := True, importPhase := Verifying,
                assignmentFailures := (if as = [] then assignmentFailures st else n),
                importedDevices := added, failedImports := failed, verifying := Some added,
                im_toast := Some (import_message (length added) (length failed))\<rparr>))"

section \<open>Verification and retries\<close>

text \<open>The background run is asleep before a probe or a poll, or waits for an answer; \<open>vf_current\<close> is the ref
  \<open>verifyResults\<close>, \<open>vf_shown\<close> the state \<open>verifyStatuses\<close> of the wizard.\<close>

datatype verify_phase =
    ProbeSleep "string list" "string \<rightharpoonup> verify_result"
  | ProbeSent "string list" "string \<rightharpoonup> verify_result"
  | PollSleep "string list" nat "string \<rightharpoonup> verify_status"
  | PollSent "string list" nat "string \<rightharpoonup> verify_status"
  | Finished

record verification =
  vf_ids :: "string list"
  vf_phase :: verify_phase
  vf_current :: "string \<rightharpoonup> verify_result"
  vf_shown :: "string \<rightharpoonup> verify_result"
  vf_cancelled :: bool

definition pollAttempts :: nat where
  "pollAttempts = maxAttempts VERIFY_TIMEOUT_MS VERIFY_POLL_INTERVAL_MS"

text \<open>\<open>merge\<close>: what is shown is the ref overridden by the news.\<close>

definition merge_results :: "(string \<rightharpoonup> verify_result) \<Rightarrow> verification \<Rightarrow> verification" where
  "merge_results next v = v\<lparr>vf_shown := vf_current v ++ next\<rparr>"

definition poll_update :: "(string \<rightharpoonup> verify_status) \<Rightarrow> verification \<Rightarrow> verification" where
  "poll_update statuses v =
     (let asResults = (\<lambda>i. map_option status_only (statuses i))
      in merge_results asResults (v\<lparr>vf_current := vf_current v ++ asResults\<rparr>))"

text \<open>After the probes: finish, or hand what is unresolved to the poll.\<close>

definition end_probing :: "(string \<rightharpoonup> verify_result) \<Rightarrow> string list \<Rightarrow> verification \<Rightarrow> verification" where
  "end_probing results unresolved v =
     (let v = v\<lparr>vf_current := vf_current v ++ results\<rparr> in
      if unresolved = [] \<or> vf_cancelled v then v\<lparr>vf_phase := Finished\<rparr>
      else let statuses = set_all unresolved Waiting Map.empty
           in (poll_update statuses v)\<lparr>vf_phase := PollSleep unresolved 0 statuses\<rparr>)"

definition still_waiting :: "verification \<Rightarrow> (string \<rightharpoonup> verify_result) \<Rightarrow> string list" where
  "still_waiting v results = filter (\<lambda>i. map_option vr_status (results i) = Some Waiting) (vf_ids v)"

text \<open>The head of the probe loop: the signal is read, then the next probe is sent.\<close>

definition probe_iteration :: "string list \<Rightarrow> (string \<rightharpoonup> verify_result) \<Rightarrow> verification \<Rightarrow> verification" where
  "probe_iteration rest results v =
     (if rest = [] \<or> vf_cancelled v then end_probing results (still_waiting v results) v
      else v\<lparr>vf_phase := ProbeSent rest results\<rparr>)"

text \<open>The tail: sleep before every probe but the first, and not after the last.\<close>

definition probe_next :: "string list \<Rightarrow> (string \<rightharpoonup> verify_result) \<Rightarrow> verification \<Rightarrow> verification" where
  "probe_next rest results v =
     (if rest = [] then end_probing results (still_waiting v results) v
      else v\<lparr>vf_phase := ProbeSleep rest results\<rparr>)"

definition runVerification :: "string list \<Rightarrow> verification \<Rightarrow> verification" where
  "runVerification ids v =
     (let results = set_all ids (status_only Waiting) Map.empty
      in probe_iteration ids results (merge_results results (v\<lparr>vf_ids := ids\<rparr>)))"

definition poll_next :: "string list \<Rightarrow> nat \<Rightarrow> (string \<rightharpoonup> verify_status) \<Rightarrow> verification \<Rightarrow> verification" where
  "poll_next ids n statuses v =
     (if n + 1 < pollAttempts then v\<lparr>vf_phase := PollSleep ids (n + 1) statuses\<rparr>
      else (poll_update (time_out ids statuses) v)\<lparr>vf_phase := Finished\<rparr>)"

datatype verify_event =
    Timer
  | ProbeAnswer "thrown + probe_response"
  | PollAnswer "thrown + (string \<rightharpoonup> string)"
  | RetryDone string string "thrown + probe_response"
  | Leave

definition probe_answer :: "string \<Rightarrow> string list \<Rightarrow> (string \<rightharpoonup> verify_result) \<Rightarrow> thrown + probe_response \<Rightarrow> verification \<Rightarrow> verification" where
  "probe_answer i rest results a v =
     (case a of
        Inr p \<Rightarrow> let results = results(i \<mapsto> resultFromProbe p) in probe_next rest results (merge_results results v)
      | Inl err \<Rightarrow>
          if status_of err = Some 404 \<or> status_of err = Some 429 then end_probing results (i # rest) v
          else let results = results(i \<mapsto> probe_failed err) in probe_next rest results (merge_results results v))"

definition poll_answer :: "string list \<Rightarrow> nat \<Rightarrow> (string \<rightharpoonup> verify_status) \<Rightarrow> thrown + (string \<rightharpoonup> string) \<Rightarrow> verification \<Rightarrow> verification" where
  "poll_answer ids n statuses a v =
     (case a of
        Inl err \<Rightarrow> poll_next ids n statuses v
      | Inr byId \<Rightarrow>
          if vf_cancelled v then v\<lparr>vf_phase := Finished\<rparr>
          else let statuses = merge_statuses ids byId statuses; v = poll_update statuses v
               in if list_all (\<lambda>i. isSettled (the (statuses i))) ids then v\<lparr>vf_phase := Finished\<rparr>
                  else poll_next ids n statuses v)"

text \<open>\<open>retryWithSuggestedMode\<close> when both calls have answered, or one has failed.\<close>

definition retryWithSuggestedMode :: "string \<Rightarrow> string \<Rightarrow> thrown + probe_response \<Rightarrow> verification \<Rightarrow> verification" where
  "retryWithSuggestedMode deviceId mode answer v =
     (let next = (case answer of
            Inr probe \<Rightarrow> (resultFromProbe probe)\<lparr>vr_suggestedTlsMode := None\<rparr>
          | Inl err \<Rightarrow>
              (case vf_current v deviceId of None \<Rightarrow> status_only Uncheckable | Some prev \<Rightarrow> prev)
                \<lparr>vr_message := Some (''Could not switch this device to '' @ mode
                   @ ''. It is still adopted; change the TLS mode on the device page.''),
                 vr_suggestedTlsMode := None\<rparr>);
          current = (vf_current v)(deviceId \<mapsto> next)
      in v\<lparr>vf_current := current, vf_shown := current\<rparr>)"

fun verify_step :: "verify_event \<Rightarrow> verification \<Rightarrow> verification" where
  "verify_step Timer v = (case vf_phase v of
      ProbeSleep rest results \<Rightarrow> probe_iteration rest results v
    | PollSleep ids n statuses \<Rightarrow>
        if vf_cancelled v then v\<lparr>vf_phase := Finished\<rparr> else v\<lparr>vf_phase := PollSent ids n statuses\<rparr>
    | _ \<Rightarrow> v)"
| "verify_step (ProbeAnswer a) v = (case vf_phase v of
      ProbeSent (i # rest) results \<Rightarrow> probe_answer i rest results a v
    | _ \<Rightarrow> v)"
| "verify_step (PollAnswer a) v = (case vf_phase v of
      PollSent ids n statuses \<Rightarrow> poll_answer ids n statuses a v
    | _ \<Rightarrow> v)"
| "verify_step (RetryDone i mode a) v = retryWithSuggestedMode i mode a v"
| "verify_step Leave v = v\<lparr>vf_cancelled := True\<rparr>"

section \<open>A run without retries\<close>

text \<open>The machine driven by the answers of \<open>probe\<close> and \<open>fetch\<close>, for as many events as the fuel allows.\<close>

definition drive_event :: "(string \<Rightarrow> thrown + probe_response) \<Rightarrow> (nat \<Rightarrow> thrown + (string \<rightharpoonup> string)) \<Rightarrow> verification \<Rightarrow> verification" where
  "drive_event probe fetch v = (case vf_phase v of
      ProbeSent (i # rest) results \<Rightarrow> verify_step (ProbeAnswer (probe i)) v
    | PollSent ids n statuses \<Rightarrow> verify_step (PollAnswer (fetch n)) v
    | _ \<Rightarrow> verify_step Timer v)"

fun drive :: "nat \<Rightarrow> (string \<Rightarrow> thrown + probe_response) \<Rightarrow> (nat \<Rightarrow> thrown + (string \<rightharpoonup> string)) \<Rightarrow> verification \<Rightarrow> verification" where
  "drive 0 probe fetch v = v"
| "drive (Suc k) probe fetch v = drive k probe fetch (drive_event probe fetch v)"

lemma drive_add: "drive (j + k) probe fetch v = drive k probe fetch (drive j probe fetch v)"
  by (induction j arbitrary: v) auto

lemma drive_Finished: "vf_phase v = Finished \<Longrightarrow> drive k probe fetch v = v"
  by (induction k) (simp_all add: drive_event_def)

lemma drive_more:
  assumes "drive j probe fetch v = w" and "vf_phase w = Finished" and "j \<le> k"
  shows "drive k probe fetch v = w"
  using drive_add [of j "k - j" probe fetch v] assms drive_Finished by simp

lemma end_probing_phase [simp]:
  "end_probing r u (v\<lparr>vf_phase := x\<rparr>) = end_probing r u v"
  "end_probing r u (v\<lparr>vf_phase := x, vf_shown := s\<rparr>) = end_probing r u (v\<lparr>vf_shown := s\<rparr>)"
  by (simp_all add: end_probing_def poll_update_def merge_results_def Let_def)

lemma end_probing_update [simp]:
  "still_waiting (v\<lparr>vf_shown := s\<rparr>) = still_waiting v" "still_waiting (v\<lparr>vf_phase := x\<rparr>) = still_waiting v"
  by (simp_all add: still_waiting_def fun_eq_iff)

definition unresolved_of :: "verification \<Rightarrow> (string \<rightharpoonup> verify_result) \<Rightarrow> (bool \<times> string list) option \<Rightarrow> string list" where
  "unresolved_of v results out = (case out of None \<Rightarrow> still_waiting v results | Some (u, un) \<Rightarrow> un)"

lemma unresolved_of_shown [simp]: "unresolved_of (v\<lparr>vf_shown := s\<rparr>) = unresolved_of v"
  by (simp add: unresolved_of_def fun_eq_iff split: option.split)

lemma probe_phase_run:
  assumes "\<not> vf_cancelled v" and "rest \<noteq> []"
    and "probe_loop probe (\<lambda>_. False) rest results = (results', out)"
  shows "\<exists>k s. k < 2 * length rest \<and>
     drive k probe fetch (v\<lparr>vf_phase := ProbeSent rest results\<rparr>) =
       end_probing results' (unresolved_of v results' out) (v\<lparr>vf_shown := s\<rparr>) \<and>
     (out = None \<longrightarrow> s = vf_current v ++ results')"
  using assms
proof (induction rest arbitrary: results v)
  case (Cons i rest)
  have go: ?case
    if a: "probe_answer i rest results (probe i) v' = probe_next rest r (merge_results r v')"
      and l: "probe_loop probe (\<lambda>_. False) rest r = (results', out)" and v': "v' = v\<lparr>vf_phase := ProbeSent (i # rest) results\<rparr>"
    for r v'
  proof (cases "rest = []")
    case True
    then have "drive 1 probe fetch v' = end_probing results' (unresolved_of v results' out) (v\<lparr>vf_shown := vf_current v ++ results'\<rparr>)"
      using a l v' by (auto simp: drive_event_def probe_next_def merge_results_def unresolved_of_def)
    then show ?thesis using v' by (intro exI [of _ 1] exI [of _ "vf_current v ++ results'"]) simp
  next
    case False
    let ?w = "v\<lparr>vf_shown := vf_current v ++ r\<rparr>"
    have "drive 2 probe fetch v' = ?w\<lparr>vf_phase := ProbeSent rest r\<rparr>"
      using a v' False Cons.prems(1)
      by (simp add: numeral_2_eq_2 drive_event_def probe_next_def merge_results_def probe_iteration_def)
    moreover obtain k s where "k < 2 * length rest"
        "drive k probe fetch (?w\<lparr>vf_phase := ProbeSent rest r\<rparr>) =
           end_probing results' (unresolved_of ?w results' out) (?w\<lparr>vf_shown := s\<rparr>)"
        "out = None \<longrightarrow> s = vf_current ?w ++ results'"
      using Cons.IH [of ?w r] Cons.prems(1) False l by auto
    ultimately show ?thesis
      using v' drive_add [of 2 k probe fetch v']
      by (intro exI [of _ "2 + k"] exI [of _ s]) simp
  qed
  show ?case
  proof (cases "probe i")
    case (Inr p)
    then show ?thesis using Cons.prems(3) by (intro go [of _ "results(i \<mapsto> resultFromProbe p)"]) (auto simp: probe_answer_def Let_def)
  next
    case (Inl e)
    show ?thesis
    proof (cases "status_of e = Some 404 \<or> status_of e = Some 429")
      case True
      then have o: "results' = results" "\<exists>u. out = Some (u, i # rest)" using Cons.prems(3) Inl by auto
      then show ?thesis
        using Inl True by (intro exI [of _ 1] exI [of _ "vf_shown v"])
          (auto simp: drive_event_def probe_answer_def unresolved_of_def)
    next
      case False
      then show ?thesis using Cons.prems(3) Inl
        by (intro go [of _ "results(i \<mapsto> probe_failed e)"]) (auto simp: probe_answer_def Let_def)
    qed
  qed
qed simp

lemma dom_merge: "dom s = set ids \<Longrightarrow> dom (merge_statuses ids byId s) = set ids"
  by (auto simp: merge_apply dom_def split: if_splits)

lemma map_add_absorb: "dom a = dom b \<Longrightarrow> m ++ a ++ b = m ++ b"
  by (rule ext) (metis domIff map_add_dom_app_simps(1) map_add_dom_app_simps(3))

lemma map_add_status:
  "dom (a :: string \<rightharpoonup> verify_status) = dom b \<Longrightarrow>
   m ++ (\<lambda>i. map_option f (a i)) ++ (\<lambda>i. map_option f (b i)) = m ++ (\<lambda>i. map_option f (b i))"
  by (rule map_add_absorb) (auto simp: dom_def)

lemma poll_loop_dom:
  "dom statuses = set ids \<Longrightarrow> dom (poll_loop ids c rs n statuses) = set ids"
proof (induction rs arbitrary: n statuses)
  case Nil
  then show ?case by (auto simp: time_out_apply dom_def split: if_splits)
next
  case (Cons r rs)
  then show ?case by (cases r) (auto simp: Let_def dom_merge)
qed

definition ended_with :: "verification \<Rightarrow> (string \<rightharpoonup> verify_result) \<Rightarrow> bool" where
  "ended_with w m \<longleftrightarrow> vf_phase w = Finished \<and> vf_current w = m \<and> vf_shown w = m"

lemma dom_waiting: "dom (set_all ids Waiting Map.empty) = set ids"
  by (auto simp: set_all_apply dom_def split: if_splits)

lemma poll_dom: "dom (pollVerifyStatuses fetch c timeoutMs intervalMs ids) = set ids"
  using poll_loop_dom [OF dom_waiting, of ids] dom_waiting [of ids] by (simp add: pollVerifyStatuses_def Let_def)

lemma poll_phase_run:
  assumes "\<not> vf_cancelled v" and "n < pollAttempts" and "dom statuses = set ids"
  shows "\<exists>k \<le> 2 * (pollAttempts - n). ended_with
     (drive k probe fetch (v\<lparr>vf_phase := PollSleep ids n statuses\<rparr>))
     (vf_current v ++ (\<lambda>i. map_option status_only (poll_loop ids (\<lambda>_. False) (map fetch [n..<pollAttempts]) m statuses i)))"
  using assms
proof (induction "pollAttempts - n" arbitrary: n m statuses v)
  case (Suc x)
  let ?u = "\<lambda>st v. poll_update st v" and ?v0 = "v\<lparr>vf_phase := PollSleep ids n statuses\<rparr>"
  have list: "map fetch [n..<pollAttempts] = fetch n # map fetch [Suc n..<pollAttempts]"
    using Suc.prems(2) by (simp add: upt_conv_Cons)
  have d2: "drive 2 probe fetch ?v0 = poll_answer ids n statuses (fetch n) (v\<lparr>vf_phase := PollSent ids n statuses\<rparr>)"
    using Suc.prems(1) by (simp add: numeral_2_eq_2 drive_event_def)
  have shown: "vf_shown (?u st w) = vf_current (?u st w)" for st w
    by (simp add: poll_update_def merge_results_def Let_def map_add_absorb)
  have next_round: ?case
    if ans: "drive 2 probe fetch ?v0 = poll_next ids n st w"
      and pl: "poll_loop ids (\<lambda>_. False) (map fetch [n..<pollAttempts]) m statuses =
         poll_loop ids (\<lambda>_. False) (map fetch [Suc n..<pollAttempts]) (m + 1) st"
      and st: "dom st = set ids" and w: "\<not> vf_cancelled w" and cur:
        "\<And>t. dom t = set ids \<Longrightarrow> vf_current w ++ (\<lambda>i. map_option status_only (t i)) =
                 vf_current v ++ (\<lambda>i. map_option status_only (t i))"
    for st w
  proof (cases "n + 1 < pollAttempts")
    case True
    have x: "x = pollAttempts - Suc n" using Suc.hyps(2) by simp
    obtain k where k: "k \<le> 2 * (pollAttempts - Suc n)"
        "ended_with (drive k probe fetch (w\<lparr>vf_phase := PollSleep ids (Suc n) st\<rparr>))
           (vf_current w ++ (\<lambda>i. map_option status_only
             (poll_loop ids (\<lambda>_. False) (map fetch [Suc n..<pollAttempts]) (m + 1) st i)))"
      using Suc.hyps(1) [where n = "Suc n" and v = w and statuses = st and m = "m + 1"] x w st True by auto
    have "drive (2 + k) probe fetch ?v0 = drive k probe fetch (w\<lparr>vf_phase := PollSleep ids (Suc n) st\<rparr>)"
      unfolding drive_add ans using True by (simp add: poll_next_def)
    then show ?thesis using k Suc.prems(2) cur [OF poll_loop_dom [OF st]] pl by (intro exI [of _ "2 + k"]) auto
  next
    case False
    then have e: "[Suc n..<pollAttempts] = []" by simp
    let ?w = "(?u (time_out ids st) w)\<lparr>vf_phase := Finished\<rparr>"
    have "drive 2 probe fetch ?v0 = ?w" using ans False by (simp add: poll_next_def)
    moreover have "dom (time_out ids st) = set ids" using st by (auto simp: time_out_apply dom_def split: if_splits)
    ultimately show ?thesis
      using pl e cur shown [of "time_out ids st" w] Suc.prems(2)
      by (intro exI [of _ 2]) (auto simp: ended_with_def poll_update_def merge_results_def Let_def)
  qed
  show ?case
  proof (cases "fetch n")
    case (Inl e)
    then show ?thesis
      using d2 Suc.prems list
      by (intro next_round [of statuses "v\<lparr>vf_phase := PollSent ids n statuses\<rparr>"]) (auto simp: poll_answer_def)
  next
    case (Inr byId)
    let ?st = "merge_statuses ids byId statuses" and ?v1 = "v\<lparr>vf_phase := PollSent ids n statuses\<rparr>"
    have dm: "dom ?st = set ids" using Suc.prems(3) by (rule dom_merge)
    show ?thesis
    proof (cases "list_all (\<lambda>i. isSettled (the (?st i))) ids")
      case True
      have "drive 2 probe fetch ?v0 = (?u ?st ?v1)\<lparr>vf_phase := Finished\<rparr>"
        using d2 Inr True Suc.prems(1) by (simp add: poll_answer_def poll_update_def merge_results_def Let_def)
      then show ?thesis
        using list Inr True shown [of ?st ?v1] Suc.prems(2)
        by (intro exI [of _ 2]) (auto simp: ended_with_def poll_update_def merge_results_def Let_def)
    next
      case False
      show ?thesis
        using d2 Inr False Suc.prems(1) list dm
        by (intro next_round [of ?st "?u ?st ?v1"])
          (auto simp: poll_answer_def poll_update_def merge_results_def Let_def map_add_status)
    qed
  qed
qed simp

lemma probe_loop_unresolved: "probe_loop probe c rest results = (r, Some (u, un)) \<Longrightarrow> un \<noteq> []"
proof (induction rest arbitrary: results)
  case (Cons i rest)
  then show ?case by (cases "probe i") (auto split: if_splits)
qed simp

lemma pollAttempts_pos: "0 < pollAttempts"
  by (simp add: pollAttempts_def maxAttempts_def)

text \<open>What the two routines of \<^verbatim>\<open>adoptionVerify.ts\<close> give one after the other.\<close>

definition verify_spec ::
  "(string \<Rightarrow> thrown + probe_response) \<Rightarrow> (nat \<Rightarrow> thrown + (string \<rightharpoonup> string)) \<Rightarrow> string list \<Rightarrow> string \<rightharpoonup> verify_result" where
  "verify_spec probe fetch ids =
     (let out = probeVerifyStatuses probe (\<lambda>_. False) ids in
      po_results out ++ (\<lambda>i. map_option status_only
        (pollVerifyStatuses fetch (\<lambda>_. False) VERIFY_TIMEOUT_MS VERIFY_POLL_INTERVAL_MS (po_unresolved out) i)))"

lemma map_option_empty [simp]: "(\<lambda>i. map_option f (Map.empty i)) = Map.empty"
  by simp

lemma end_probing_run:
  assumes "\<not> vf_cancelled v" and "un = [] \<longrightarrow> vf_shown v = vf_current v ++ results"
  shows "\<exists>k \<le> 2 * pollAttempts. ended_with (drive k probe fetch (end_probing results un v))
     (vf_current v ++ (results ++ (\<lambda>i. map_option status_only
        (pollVerifyStatuses fetch (\<lambda>_. False) VERIFY_TIMEOUT_MS VERIFY_POLL_INTERVAL_MS un i))))"
proof (cases "un = []")
  case True
  then show ?thesis
    using assms by (intro exI [of _ 0]) (simp add: ended_with_def end_probing_def pollVerifyStatuses_def)
next
  case False
  let ?s0 = "set_all un Waiting Map.empty"
  let ?w = "poll_update ?s0 (v\<lparr>vf_current := vf_current v ++ results\<rparr>)"
  note d = dom_waiting [of un]
  have e: "end_probing results un v = ?w\<lparr>vf_phase := PollSleep un 0 ?s0\<rparr>"
    using assms False by (simp add: end_probing_def Let_def)
  have c: "\<not> vf_cancelled ?w" using assms by (simp add: poll_update_def merge_results_def Let_def)
  have cur: "vf_current ?w ++ (\<lambda>i. map_option status_only (t i)) =
      vf_current v ++ (results ++ (\<lambda>i. map_option status_only (t i)))" if "dom t = set un" for t
    using that d map_add_status [of ?s0 t "vf_current v ++ results" status_only]
    by (simp add: poll_update_def merge_results_def Let_def)
  show ?thesis
    using poll_phase_run [OF c pollAttempts_pos d, of probe fetch 0] False e
      cur [OF poll_loop_dom [OF d], of "\<lambda>_. False" "map fetch [0..<pollAttempts]" 0]
    by (simp add: pollVerifyStatuses_def pollAttempts_def [symmetric] Let_def)
qed

lemma probe_outcome:
  assumes "probe_loop probe c ids (set_all ids (status_only Waiting) Map.empty) = (res, out)" "vf_ids v = ids"
  shows "po_results (probeVerifyStatuses probe c ids) = res"
    "po_unresolved (probeVerifyStatuses probe c ids) = unresolved_of v res out"
  using assms by (auto simp: probeVerifyStatuses_def unresolved_of_def still_waiting_def split: option.splits)

lemma verification_run:
  assumes "\<not> vf_cancelled v"
  shows "\<exists>k \<le> 2 * length ids + 2 * pollAttempts. ended_with
     (drive k probe fetch (runVerification ids v)) (vf_current v ++ verify_spec probe fetch ids)"
proof -
  let ?r0 = "set_all ids (status_only Waiting) Map.empty"
  let ?v = "merge_results ?r0 (v\<lparr>vf_ids := ids\<rparr>)"
  obtain res out where l: "probe_loop probe (\<lambda>_. False) ids ?r0 = (res, out)" by force
  have v: "\<not> vf_cancelled ?v" "vf_ids ?v = ids" "vf_current ?v = vf_current v"
    using assms by (simp_all add: merge_results_def)
  obtain j s where j: "j \<le> 2 * length ids"
      "drive j probe fetch (runVerification ids v) = end_probing res (unresolved_of ?v res out) (?v\<lparr>vf_shown := s\<rparr>)"
      "out = None \<longrightarrow> s = vf_current v ++ res"
  proof (cases "ids = []")
    case True
    then show ?thesis
      using that [of 0 "vf_current v"] l
      by (auto simp: runVerification_def probe_iteration_def merge_results_def unresolved_of_def)
  next
    case False
    then have "runVerification ids v = ?v\<lparr>vf_phase := ProbeSent ids ?r0\<rparr>"
      using v by (simp add: runVerification_def probe_iteration_def Let_def)
    moreover obtain k s where "k < 2 * length ids"
        "drive k probe fetch (?v\<lparr>vf_phase := ProbeSent ids ?r0\<rparr>) = end_probing res (unresolved_of ?v res out) (?v\<lparr>vf_shown := s\<rparr>)"
        "out = None \<longrightarrow> s = vf_current v ++ res"
      using probe_phase_run [OF v(1) False l, of fetch] v(3) by metis
    ultimately show ?thesis using that [of k s] by simp
  qed
  have sh: "unresolved_of ?v res out = [] \<longrightarrow> vf_shown (?v\<lparr>vf_shown := s\<rparr>) = vf_current (?v\<lparr>vf_shown := s\<rparr>) ++ res"
  proof -
    have "out \<noteq> None \<longrightarrow> unresolved_of ?v res out \<noteq> []"
      using l by (auto simp: unresolved_of_def dest: probe_loop_unresolved)
    then show ?thesis using j(3) v(3) by auto
  qed
  obtain k where k: "k \<le> 2 * pollAttempts" "ended_with (drive k probe fetch (drive j probe fetch (runVerification ids v)))
      (vf_current v ++ verify_spec probe fetch ids)"
    using end_probing_run [OF _ sh, of probe fetch] v(1,3) j(2) probe_outcome [OF l v(2)]
    by (auto simp: verify_spec_def Let_def)
  then show ?thesis using j(1) drive_add [of j k probe fetch] by (intro exI [of _ "j + k"]) auto
qed

lemma probed_final: "probed probe i r \<Longrightarrow> vr_status r \<in> {Online, Unreachable, Uncheckable}"
  by (auto simp: probed_def resultFromProbe_def probe_failed_def status_only_def split: sum.splits if_splits)

lemma verify_spec_final:
  assumes "distinct ids" and "i \<in> set ids"
  shows "\<exists>r. verify_spec probe fetch ids i = Some r \<and> vr_status r \<in> {Online, Unreachable, Timeout, Uncheckable}"
proof -
  let ?out = "probeVerifyStatuses probe (\<lambda>_. False) ids"
  let ?poll = "pollVerifyStatuses fetch (\<lambda>_. False) VERIFY_TIMEOUT_MS VERIFY_POLL_INTERVAL_MS (po_unresolved ?out)"
  note out = probe_final [OF assms refl, of probe "\<lambda>_. False"]
  show ?thesis
  proof (cases "i \<in> set (po_unresolved ?out)")
    case True
    have "?poll i = Some (verdict i (map fetch [0..<maxAttempts VERIFY_TIMEOUT_MS VERIFY_POLL_INTERVAL_MS]) Waiting)"
      using True by (intro poll_final) auto
    then show ?thesis
      using verdict_final [of i] by (auto simp: verify_spec_def Let_def map_add_def status_only_def)
  next
    case False
    then obtain r where r: "po_results ?out i = Some r" "probed probe i r"
      using out assms(2) by (auto simp: status_only_def)
    have "?poll i = None" using False poll_dom by (metis domIff)
    then show ?thesis using r probed_final by (auto simp: verify_spec_def Let_def map_add_def)
  qed
qed

section \<open>Retries\<close>

text \<open>Once the probes are over, no result that lacks a suggestion can get one again, whatever arrives.\<close>

definition probing :: "verification \<Rightarrow> bool" where
  "probing v \<longleftrightarrow> (case vf_phase v of ProbeSleep _ _ \<Rightarrow> True | ProbeSent _ _ \<Rightarrow> True | _ \<Rightarrow> False)"

definition no_suggestion :: "string \<Rightarrow> (string \<rightharpoonup> verify_result) \<Rightarrow> bool" where
  "no_suggestion d m \<longleftrightarrow> (case m d of None \<Rightarrow> True | Some r \<Rightarrow> vr_suggestedTlsMode r = None)"

lemma no_suggestion_add:
  "no_suggestion d m \<Longrightarrow> no_suggestion d (m ++ (\<lambda>i. map_option status_only (st i)))"
  by (auto simp: no_suggestion_def map_add_def status_only_def split: option.splits)

lemma settled_step:
  assumes "\<not> probing v" and "no_suggestion d (vf_current v)" and "no_suggestion d (vf_shown v)"
  shows "\<not> probing (verify_step e v) \<and> no_suggestion d (vf_current (verify_step e v)) \<and> no_suggestion d (vf_shown (verify_step e v))"
proof (cases e)
  case (PollAnswer a)
  then show ?thesis
    using assms by (auto simp: probing_def poll_answer_def poll_next_def poll_update_def merge_results_def Let_def
        no_suggestion_add split: verify_phase.splits sum.splits list.splits)
next
  case (RetryDone i mode a)
  then show ?thesis
    using assms by (auto simp: probing_def retryWithSuggestedMode_def no_suggestion_def Let_def
        split: verify_phase.splits sum.splits option.splits)
qed (use assms in \<open>auto simp: probing_def split: verify_phase.splits list.splits\<close>)

lemma settled_steps:
  assumes "\<not> probing v" and "no_suggestion d (vf_current v)" and "no_suggestion d (vf_shown v)"
  shows "no_suggestion d (vf_shown (fold verify_step es v))"
proof -
  have "\<not> probing (fold verify_step es v) \<and> no_suggestion d (vf_current (fold verify_step es v))
      \<and> no_suggestion d (vf_shown (fold verify_step es v))"
    using assms by (induction es arbitrary: v) (auto dest: settled_step)
  then show ?thesis by simp
qed

section \<open>The rate of the assignments\<close>

text \<open>Times at least \<open>gap\<close> apart.\<close>

fun spaced :: "nat \<Rightarrow> nat list \<Rightarrow> bool" where
  "spaced gap (t # u # ts) \<longleftrightarrow> t + gap \<le> u \<and> spaced gap (u # ts)"
| "spaced gap _ \<longleftrightarrow> True"

lemma assign_loop_spec:
  "map snd (fst (assign_loop took fails as i now)) = as"
  "snd (assign_loop took fails as i now) = length (filter fails [i..<i + length as])"
  "spaced ASSIGNMENT_SPACING_MS (map fst (fst (assign_loop took fails as i now)))"
  "as \<noteq> [] \<Longrightarrow> fst (hd (fst (assign_loop took fails as i now))) = now"
proof (induction as arbitrary: i now)
  case (Cons a as)
  { case 1 show ?case using Cons(1) by (simp add: case_prod_beta Let_def) next
    case 2
    have "[i..<i + length (a # as)] = i # [i + 1..<i + 1 + length as]" by (simp add: upt_conv_Cons del: upt_Suc)
    then show ?case using Cons(2) [of "i + 1"] by (simp add: case_prod_beta Let_def del: upt_Suc) next
    case 3
    show ?case
    proof (cases as)
      case (Cons b bs)
      let ?now = "now + took i + ASSIGNMENT_SPACING_MS"
      obtain c cs where c: "fst (assign_loop took fails as (i + 1) ?now) = c # cs"
        using Cons by (cases "fst (assign_loop took fails as (i + 1) ?now)") (auto simp: case_prod_beta Let_def)
      have "fst c = ?now" "spaced ASSIGNMENT_SPACING_MS (map fst (c # cs))"
        using Cons.IH(3,4) [of "i + 1" ?now] Cons c by simp_all
      then show ?thesis using Cons c by (simp add: case_prod_beta Let_def)
    qed (simp add: case_prod_beta) next
    case 4 show ?case by (simp add: case_prod_beta Let_def) }
qed auto

lemma spaced_tail: "spaced gap (t # ts) \<Longrightarrow> spaced gap ts"
  by (cases ts) auto

lemma spaced_lower: "spaced gap (t # ts) \<Longrightarrow> u \<in> set ts \<Longrightarrow> t + gap \<le> u"
  by (induction ts arbitrary: t) (auto dest: spaced_tail; fastforce)+

lemma spaced_window:
  assumes "spaced gap ts" and "0 < gap"
  shows "length (filter (\<lambda>t. start \<le> t \<and> t < start + n * gap) ts) \<le> n"
  using assms(1)
proof (induction ts arbitrary: n start)
  case (Cons t ts)
  note tl = Cons.IH [OF spaced_tail [OF Cons.prems]]
  show ?case
  proof (cases "start \<le> t \<and> t < start + n * gap")
    case False
    then show ?thesis using tl by auto
  next
    case True
    then obtain k where n: "n = Suc k" by (cases n) auto
    have "filter (\<lambda>t. start \<le> t \<and> t < start + n * gap) ts = filter (\<lambda>t. start + gap \<le> t \<and> t < (start + gap) + k * gap) ts"
      using spaced_lower [OF Cons.prems] True n by (intro filter_cong) (auto, fastforce)
    then show ?thesis using tl [of "start + gap" k] True n by simp
  qed
qed simp

section \<open>Properties\<close>

text \<open>C20: Every adopted device gets a verdict. A verification that is neither left nor interrupted by a retry
  ends after at most two events per device and two per polling attempt, whatever the probes and the
  device list answer; what it shows then is what probing and polling return one after the other, and
  every device is shown as online, unreachable, not polled in time, or not checkable, never as waiting.\<close>
theorem adoption_verified:
  assumes "distinct ids" and "\<not> vf_cancelled v" and "2 * length ids + 2 * pollAttempts \<le> k"
  shows "ended_with (drive k probe fetch (runVerification ids v)) (vf_current v ++ verify_spec probe fetch ids) \<and>
    (\<forall>i \<in> set ids. \<exists>r. vf_shown (drive k probe fetch (runVerification ids v)) i = Some r \<and>
       vr_status r \<in> {Online, Unreachable, Timeout, Uncheckable})"
proof -
  obtain j where j: "j \<le> 2 * length ids + 2 * pollAttempts"
      "ended_with (drive j probe fetch (runVerification ids v)) (vf_current v ++ verify_spec probe fetch ids)"
    using verification_run [OF assms(2), of ids probe fetch] by blast
  have "drive k probe fetch (runVerification ids v) = drive j probe fetch (runVerification ids v)"
    using j assms(3) by (intro drive_more [OF refl]) (auto simp: ended_with_def)
  then have e: "ended_with (drive k probe fetch (runVerification ids v)) (vf_current v ++ verify_spec probe fetch ids)"
    using j(2) by simp
  moreover have "\<exists>r. vf_shown (drive k probe fetch (runVerification ids v)) i = Some r \<and>
      vr_status r \<in> {Online, Unreachable, Timeout, Uncheckable}" if "i \<in> set ids" for i
    using e verify_spec_final [OF assms(1) that, of probe fetch] by (auto simp: ended_with_def map_add_def)
  ultimately show ?thesis by blast
qed

definition idle_verification :: verification where
  "idle_verification = \<lparr>vf_ids = [], vf_phase = Finished, vf_current = Map.empty, vf_shown = Map.empty, vf_cancelled = False\<rparr>"

theorem adoption_verified_witness:
  "\<exists>r. vf_shown (drive 40 (\<lambda>_. Inl (JsError [])) (\<lambda>_. Inl (JsError [])) (runVerification [''a'', ''b''] idle_verification)) ''b'' = Some r \<and>
     vr_status r \<in> {Online, Unreachable, Timeout, Uncheckable}"
proof -
  have h: "distinct [''a'', ''b'']" "\<not> vf_cancelled idle_verification" by (simp_all add: idle_verification_def)
  have k: "2 * length [''a'', ''b''] + 2 * pollAttempts \<le> 40"
    by (simp add: pollAttempts_def maxAttempts_def VERIFY_TIMEOUT_MS_def VERIFY_POLL_INTERVAL_MS_def)
  show ?thesis by (rule adoption_verified [OF h k, THEN conjunct2, THEN bspec]) simp
qed

text \<open>A retry cannot repeat once the probes are over: after a device was re-tested with the suggested mode,
  successfully or not, no suggestion is shown for it again, whatever poll answers, retries of other
  devices or departures follow.\<close>
theorem retry_not_offered_again:
  assumes "\<not> probing v"
  shows "no_suggestion d (vf_shown (fold verify_step es (verify_step (RetryDone d mode a) v)))"
proof (rule settled_steps)
  let ?v = "verify_step (RetryDone d mode a) v"
  show "\<not> probing ?v" using assms by (simp add: probing_def retryWithSuggestedMode_def Let_def)
  show "no_suggestion d (vf_current ?v)" "no_suggestion d (vf_shown ?v)"
    by (auto simp: retryWithSuggestedMode_def no_suggestion_def Let_def split: sum.splits)
qed

theorem retry_not_offered_again_witness:
  "no_suggestion ''a'' (vf_shown (fold verify_step [Timer, Leave]
     (verify_step (RetryDone ''a'' ''plain'' (Inl (JsError []))) idle_verification)))"
  using retry_not_offered_again [of idle_verification "''a''" "[Timer, Leave]" "''plain''" "Inl (JsError [])"]
  by (simp add: probing_def idle_verification_def)

text \<open>While other devices are still being probed a retry is lost. The run keeps its own results and
  writes them over the shared ones: the answer of the retry is shown only until the next probe
  answers, then the former result is back with its suggestion; and when the retry finishes, what was
  shown of the other devices is replaced by what the shared results held before the run.\<close>
theorem retry_lost_while_probing:
  assumes "vf_phase v = ProbeSent (i # rest) results" and "d \<noteq> i" and "results d = Some r" and "vr_status r \<noteq> Waiting"
  shows "vf_shown (verify_step (ProbeAnswer (Inr p)) (verify_step (RetryDone d mode a) v)) d = Some r \<and>
    (\<forall>j. j \<noteq> d \<longrightarrow> vf_shown (verify_step (RetryDone d mode a) v) j = vf_current v j)"
proof -
  let ?w = "verify_step (RetryDone d mode a) v"
  have w: "vf_phase ?w = ProbeSent (i # rest) results" using assms(1) by (simp add: retryWithSuggestedMode_def Let_def)
  have s: "vf_shown (verify_step (ProbeAnswer (Inr p)) ?w) d = Some r"
  proof (cases "rest = []")
    case False
    then show ?thesis
      using w assms(2,3) by (simp add: probe_answer_def probe_next_def merge_results_def Let_def map_add_def del: verify_step.simps(4))
  next
    case True
    let ?rs = "results(i \<mapsto> resultFromProbe p)"
    have "(set_all (still_waiting u ?rs) Waiting Map.empty) d = None" for u
      using assms(2-4) by (simp add: set_all_apply still_waiting_def)
    then show ?thesis
      using w True assms(2,3)
      by (simp add: probe_answer_def probe_next_def end_probing_def poll_update_def merge_results_def Let_def map_add_def
          del: verify_step.simps(4))
  qed
  then show ?thesis by (auto simp: retryWithSuggestedMode_def Let_def)
qed

theorem retry_lost_while_probing_witness:
  "vr_suggestedTlsMode (the (vf_shown (fold verify_step
       [ProbeAnswer (Inr \<lparr>pr_probe_available = True, pr_ok = False, pr_reason = ''tls_error'', pr_message = [], pr_detail = None,
          pr_suggested_tls_mode = Some ''plain'', pr_identity = None, pr_version = None\<rparr>), Timer,
        RetryDone ''a'' ''plain'' (Inl (JsError [])),
        ProbeAnswer (Inr \<lparr>pr_probe_available = True, pr_ok = True, pr_reason = ''ok'', pr_message = [], pr_detail = None,
          pr_suggested_tls_mode = None, pr_identity = None, pr_version = None\<rparr>)]
       (runVerification [''a'', ''b''] idle_verification)) ''a'')) = Some ''plain''"
proof -
  let ?p = "\<lparr>pr_probe_available = True, pr_ok = False, pr_reason = ''tls_error'', pr_message = [], pr_detail = None,
          pr_suggested_tls_mode = Some ''plain'', pr_identity = None, pr_version = None\<rparr>"
  let ?q = "\<lparr>pr_probe_available = True, pr_ok = True, pr_reason = ''ok'', pr_message = [], pr_detail = None,
          pr_suggested_tls_mode = None, pr_identity = None, pr_version = None\<rparr>"
  let ?v = "verify_step Timer (verify_step (ProbeAnswer (Inr ?p)) (runVerification [''a'', ''b''] idle_verification))"
  have r: "resultFromProbe ?p = \<lparr>vr_status = Unreachable, vr_message = Some [], vr_detail = None, vr_reason = Some ''tls_error'',
      vr_suggestedTlsMode = Some ''plain'', vr_identity = None, vr_version = None\<rparr>"
    by (simp add: resultFromProbe_def)
  have v: "vf_phase ?v = ProbeSent (''b'' # []) ((set_all [''a'', ''b''] (status_only Waiting) Map.empty)(''a'' \<mapsto> resultFromProbe ?p))"
    by (simp add: runVerification_def probe_iteration_def probe_answer_def probe_next_def merge_results_def Let_def idle_verification_def)
  show ?thesis
    using retry_lost_while_probing [OF v, of "''a''" "resultFromProbe ?p" ?q "''plain''" "Inl (JsError [])"]
    by (simp add: r del: verify_step.simps)
qed

text \<open>The import sends exactly the devices that were discovered, are selected and are not known yet, always
  with both ports; plain text is used only when its port was chosen. In per-device mode a device whose
  fields nobody edited is sent without credentials, although the form shows \<open>admin\<close> for it.\<close>
theorem import_request_spec:
  "map bd_ip_address (br_devices (bulk_request_of known w)) =
     (case scanResults w of None \<Rightarrow> [] | Some ds \<Rightarrow>
        filter (\<lambda>ip. ip \<in> selectedIps w \<and> ip \<notin> known) (map sr_ip_address ds)) \<and>
   list_all (\<lambda>d. bd_api_port d = PLAIN_API_PORT \<and> bd_api_ssl_port d = TLS_API_PORT) (br_devices (bulk_request_of known w)) \<and>
   (br_tls_mode (bulk_request_of known w) = ''plain'' \<longleftrightarrow> api_port w = PLAIN_API_PORT) \<and>
   list_all (\<lambda>d. credMode w = PerDevice \<and> obj_get (perDeviceCreds w) (bd_ip_address d) = None \<longrightarrow>
       bd_username d = None \<and> bd_password d = None \<and> shown_username w (bd_ip_address d) = ''admin'')
     (br_devices (bulk_request_of known w))"
  by (auto simp: bulk_request_of_def bulk_device_of_def selectedResults_def shown_username_def Let_def list_all_iff
      filter_map comp_def split: option.splits)

theorem import_request_spec_witness:
  "br_devices (bulk_request_of {} (wizard_init\<lparr>credMode := PerDevice, selectedIps := {''10.0.0.1''}, scanResults :=
       Some [\<lparr>sr_ip_address = ''10.0.0.1'', sr_hostname = None, sr_api_port_open = True, sr_api_ssl_port_open = True\<rparr>]\<rparr>)) =
     [\<lparr>bd_ip_address = ''10.0.0.1'', bd_api_port = 8728, bd_api_ssl_port = 8729, bd_username = None, bd_password = None\<rparr>]"
proof -
  let ?w = "wizard_init\<lparr>credMode := PerDevice, selectedIps := {''10.0.0.1''}, scanResults :=
       Some [\<lparr>sr_ip_address = ''10.0.0.1'', sr_hostname = None, sr_api_port_open = True, sr_api_ssl_port_open = True\<rparr>]\<rparr>"
  obtain d where d: "br_devices (bulk_request_of {} ?w) = [d]"
    by (simp add: bulk_request_of_def selectedResults_def)
  have "obj_get (perDeviceCreds ?w) x = None" for x by (simp add: wizard_init_def)
  then have "bd_ip_address d = ''10.0.0.1''" "bd_api_port d = 8728" "bd_api_ssl_port d = 8729" "bd_username d = None" "bd_password d = None"
    using import_request_spec [of "{}" ?w] d by (simp_all add: PLAIN_API_PORT_def TLS_API_PORT_def)
  then show ?thesis using d by simp
qed



end
