(* ===== verification/Regex.thy ===== *)
theory Regex
  imports Prelude
begin

text \<open>
  The regular expressions of the form validators: anchored patterns (\<open>/^...$/\<close>) built from
  character classes, sequences, alternatives and bounded repetition. \<open>rests\<close> is a matcher that
  returns every remainder of the input after a match of a prefix, as a backtracking engine would
  visit them; \<open>lang\<close> is the language of the pattern and \<open>test_iff\<close> relates the two.
\<close>

datatype regex =
    Eps
  | Cls "char \<Rightarrow> bool"
  | Cat regex regex
  | Alt regex regex
  | Run "char \<Rightarrow> bool"

fun rests :: "regex \<Rightarrow> string \<Rightarrow> string list" where
  "rests Eps s = [s]"
| "rests (Cls p) s = (case s of [] \<Rightarrow> [] | c # cs \<Rightarrow> if p c then [cs] else [])"
| "rests (Cat a b) s = concat (map (rests b) (rests a s))"
| "rests (Alt a b) s = rests a s @ rests b s"
| "rests (Run p) s = map (\<lambda>n. drop n s) (rev [0 ..< Suc (length (takeWhile p s))])"

definition test :: "regex \<Rightarrow> string \<Rightarrow> bool" where
  "test r s \<longleftrightarrow> list_ex (\<lambda>t. t = []) (rests r s)"

text \<open>\<open>r{n}\<close>, \<open>r{0,n}\<close>, \<open>r{lo,hi}\<close>, \<open>r?\<close>, \<open>p*\<close> (a run of a class) and literal text.\<close>

fun exactly :: "nat \<Rightarrow> regex \<Rightarrow> regex" where
  "exactly 0 r = Eps"
| "exactly (Suc n) r = Cat r (exactly n r)"

fun at_most :: "nat \<Rightarrow> regex \<Rightarrow> regex" where
  "at_most 0 r = Eps"
| "at_most (Suc n) r = Alt (Cat r (at_most n r)) Eps"

definition between :: "nat \<Rightarrow> nat \<Rightarrow> regex \<Rightarrow> regex" where
  "between lo hi r = Cat (exactly lo r) (at_most (hi - lo) r)"

definition optional :: "regex \<Rightarrow> regex" where
  "optional r = Alt r Eps"

fun lit :: "string \<Rightarrow> regex" where
  "lit [] = Eps"
| "lit (c # cs) = Cat (Cls (\<lambda>x. x = c)) (lit cs)"

section \<open>Languages\<close>

fun lang :: "regex \<Rightarrow> string set" where
  "lang Eps = {[]}"
| "lang (Cls p) = {[c] | c. p c}"
| "lang (Cat a b) = {u @ v | u v. u \<in> lang a \<and> v \<in> lang b}"
| "lang (Alt a b) = lang a \<union> lang b"
| "lang (Run p) = {u. \<forall>c \<in> set u. p c}"

lemma run_prefix:
  "(\<exists>n \<le> length (takeWhile p s). t = drop n s) \<longleftrightarrow> (\<exists>u. (\<forall>c \<in> set u. p c) \<and> s = u @ t)"
proof
  assume "\<exists>n \<le> length (takeWhile p s). t = drop n s"
  then obtain n where n: "n \<le> length (takeWhile p s)" "t = drop n s" by blast
  have "take n s = take n (takeWhile p s)"
    by (metis n(1) append_eq_append_conv_if append_take_drop_id takeWhile_eq_take take_take min.absorb1)
  then have "\<forall>c \<in> set (take n s). p c" by (metis in_set_takeD set_takeWhileD)
  then show "\<exists>u. (\<forall>c \<in> set u. p c) \<and> s = u @ t" using n(2) by (metis append_take_drop_id)
next
  assume "\<exists>u. (\<forall>c \<in> set u. p c) \<and> s = u @ t"
  then obtain u where u: "\<forall>c \<in> set u. p c" "s = u @ t" by blast
  then have "takeWhile p s = u @ takeWhile p t" by (simp add: takeWhile_append2)
  then show "\<exists>n \<le> length (takeWhile p s). t = drop n s"
    using u by (intro exI [of _ "length u"]) simp
qed

lemma rests_iff: "t \<in> set (rests r s) \<longleftrightarrow> (\<exists>u \<in> lang r. s = u @ t)"
proof (induction r arbitrary: s t)
  case (Cls p)
  then show ?case by (cases s) auto
next
  case (Cat a b)
  then show ?case by auto (metis append.assoc)+
next
  case (Run p)
  have "t \<in> set (rests (Run p) s) \<longleftrightarrow> (\<exists>n \<le> length (takeWhile p s). t = drop n s)"
    by (simp only: rests.simps set_map set_rev set_upt image_iff Bex_def atLeastLessThan_iff
        less_Suc_eq_le le0 simp_thms)
  then show ?case by (simp add: run_prefix)
qed auto

lemma test_iff: "test r s \<longleftrightarrow> s \<in> lang r"
  by (auto simp: test_def list_ex_iff rests_iff)

lemma lang_Cat_Cls: "s \<in> lang (Cat (Cls p) b) \<longleftrightarrow> (\<exists>c t. s = c # t \<and> p c \<and> t \<in> lang b)"
  by (auto, metis append_Cons append_Nil)

lemma lang_lit [simp]: "lang (lit cs) = {cs}"
  by (induction cs) auto

lemma lang_optional [simp]: "lang (optional r) = insert [] (lang r)"
  by (auto simp: optional_def)

lemma lang_times_Cls:
  "lang (exactly n (Cls p)) = {u. length u = n \<and> (\<forall>c \<in> set u. p c)}"
proof (induction n)
  case (Suc n)
  then show ?case by (auto simp: length_Suc_conv lang_Cat_Cls simp del: lang.simps(3))
qed auto

lemma lang_at_most_Cls:
  "lang (at_most n (Cls p)) = {u. length u \<le> n \<and> (\<forall>c \<in> set u. p c)}"
proof (induction n)
  case (Suc n)
  show ?case
  proof (intro set_eqI)
    fix u
    show "u \<in> lang (at_most (Suc n) (Cls p)) \<longleftrightarrow> u \<in> {u. length u \<le> Suc n \<and> (\<forall>c \<in> set u. p c)}"
      by (cases u) (auto simp: Suc lang_Cat_Cls simp del: lang.simps(3))
  qed
qed auto

text \<open>A bounded repetition of a class: the strings of that length over the class.\<close>

lemma lang_between_Cls:
  assumes "lo \<le> hi"
  shows "lang (between lo hi (Cls p)) = {u. lo \<le> length u \<and> length u \<le> hi \<and> (\<forall>c \<in> set u. p c)}"
proof (intro set_eqI)
  fix u
  have "\<exists>v w. u = v @ w \<and> length v = lo \<and> length w \<le> hi - lo \<and> (\<forall>c \<in> set v \<union> set w. p c)"
    if "lo \<le> length u" "length u \<le> hi" "\<forall>c \<in> set u. p c"
    using that assms
    by (intro exI [of _ "take lo u"] exI [of _ "drop lo u"]) (auto dest: in_set_takeD in_set_dropD)
  with assms show "u \<in> lang (between lo hi (Cls p))
      \<longleftrightarrow> u \<in> {u. lo \<le> length u \<and> length u \<le> hi \<and> (\<forall>c \<in> set u. p c)}"
    by (auto simp: between_def lang_times_Cls lang_at_most_Cls) blast+
qed

text \<open>The separated repetition \<open>(p{lo,hi}sep){n}p{lo,hi}\<close>: \<open>n + 1\<close> fields joined by the separator.\<close>

definition fields :: "nat \<Rightarrow> nat \<Rightarrow> (char \<Rightarrow> bool) \<Rightarrow> char \<Rightarrow> nat \<Rightarrow> regex" where
  "fields lo hi p sep n =
     Cat (exactly n (Cat (between lo hi (Cls p)) (lit [sep]))) (between lo hi (Cls p))"

lemma lang_fields:
  assumes "lo \<le> hi"
  shows "s \<in> lang (fields lo hi p sep n) \<longleftrightarrow>
    (\<exists>ts. length ts = Suc n \<and> s = join [sep] ts \<and>
       (\<forall>t \<in> set ts. lo \<le> length t \<and> length t \<le> hi \<and> (\<forall>c \<in> set t. p c)))"
  (is "_ \<longleftrightarrow> (\<exists>ts. ?ok n s ts)")
proof (induction n arbitrary: s)
  case 0
  have "?ok 0 s ts \<longleftrightarrow> ts = [s] \<and> s \<in> lang (between lo hi (Cls p))" for ts
    by (cases ts) (auto simp: lang_between_Cls [OF assms])
  then show ?case by (simp add: fields_def)
next
  case (Suc n)
  have step: "s \<in> lang (fields lo hi p sep (Suc n)) \<longleftrightarrow>
      (\<exists>t r. s = t @ sep # r \<and> t \<in> lang (between lo hi (Cls p)) \<and> r \<in> lang (fields lo hi p sep n))"
    by (simp add: fields_def) (metis append.assoc append_Cons append_Nil)
  have "(\<exists>ts. ?ok (Suc n) s ts) \<longleftrightarrow>
      (\<exists>t ts. s = t @ sep # join [sep] ts \<and> t \<in> lang (between lo hi (Cls p)) \<and> ?ok n (join [sep] ts) ts)"
    (is "?L \<longleftrightarrow> ?R")
  proof
    assume ?L
    then obtain ts where ts: "?ok (Suc n) s ts" by blast
    then obtain t us where "ts = t # us" "us \<noteq> []" by (cases ts; cases "tl ts") auto
    with ts show ?R by (auto simp: lang_between_Cls [OF assms] join_Cons)
  next
    assume ?R
    then obtain t ts where r: "s = t @ sep # join [sep] ts" "t \<in> lang (between lo hi (Cls p))"
      "?ok n (join [sep] ts) ts" by blast
    then have "ts \<noteq> []" by auto
    with r have "?ok (Suc n) s (t # ts)" by (auto simp: lang_between_Cls [OF assms] join_Cons)
    then show ?L by blast
  qed
  then show ?case unfolding step Suc.IH by blast
qed

end
