(* ===== verification/NetAddress.thy ===== *)
theory NetAddress
  imports Regex
begin

text \<open>
  The address, port and prefix checks of the forms: the validators of
  \<^verbatim>\<open>lib/simpleConfigSchema.ts\<close>, those local to \<^verbatim>\<open>FirewallPanel.tsx\<close>,
  \<^verbatim>\<open>AddressPanel.tsx\<close>, \<^verbatim>\<open>ArpPanel.tsx\<close> and \<^verbatim>\<open>DhcpPanel.tsx\<close>, and the network
  calculation of \<^verbatim>\<open>AddressPanel.tsx\<close> on 32-bit integers. The reference is the set of texts a
  pattern describes, read as numbers.
\<close>

section \<open>Patterns\<close>

definition IPV4_REGEX :: regex where
  "IPV4_REGEX = fields 1 3 (is_digit 10) CHR ''.'' 3"

definition IPV6_REGEX :: regex where
  "IPV6_REGEX = Cat (between 2 7 (Cat (between 0 4 (Cls (is_digit 16))) (lit '':'')))
     (between 0 4 (Cls (is_digit 16)))"

definition IP_REGEX :: regex where
  "IP_REGEX = fields 1 3 (is_digit 10) CHR ''.'' 3"

definition CIDR_REGEX :: regex where
  "CIDR_REGEX = Cat (fields 1 3 (is_digit 10) CHR ''.'' 3)
     (Cat (lit ''/'') (between 1 2 (Cls (is_digit 10))))"

definition IP_CIDR_REGEX :: regex where
  "IP_CIDR_REGEX = Cat (fields 1 3 (is_digit 10) CHR ''.'' 3)
     (optional (Cat (lit ''/'') (between 1 2 (Cls (is_digit 10)))))"

definition PORT_RANGE_REGEX :: regex where
  "PORT_RANGE_REGEX = Cat (between 1 5 (Cls (is_digit 10)))
     (optional (Cat (lit ''-'') (between 1 5 (Cls (is_digit 10)))))"

definition MAC_REGEX :: regex where
  "MAC_REGEX = fields 2 2 (is_digit 16) CHR '':'' 5"

definition mac_either_regex :: regex where
  "mac_either_regex =
     Cat (exactly 5 (Cat (exactly 2 (Cls (is_digit 16))) (Cls (\<lambda>c. c = CHR '':'' \<or> c = CHR ''-''))))
       (exactly 2 (Cls (is_digit 16)))"

section \<open>Validators\<close>

text \<open>Comparisons with \<open>NaN\<close> are false.\<close>

definition num_le :: "int \<Rightarrow> int option \<Rightarrow> bool" where
  "num_le lo n = (case n of None \<Rightarrow> False | Some k \<Rightarrow> lo \<le> k)"

definition num_gt :: "int option \<Rightarrow> int \<Rightarrow> bool" where
  "num_gt n hi = (case n of None \<Rightarrow> False | Some k \<Rightarrow> hi < k)"

definition num_lt :: "int option \<Rightarrow> int \<Rightarrow> bool" where
  "num_lt n lo = (case n of None \<Rightarrow> False | Some k \<Rightarrow> k < lo)"

definition in_range :: "int \<Rightarrow> int \<Rightarrow> int option \<Rightarrow> bool" where
  "in_range lo hi n = (case n of None \<Rightarrow> False | Some k \<Rightarrow> lo \<le> k \<and> k \<le> hi)"

definition isValidIp :: "string \<Rightarrow> bool" where
  "isValidIp value =
     (if value = [] then False
      else if test IPV4_REGEX value
      then list_all (\<lambda>octet. in_range 0 255 (parseInt 10 octet)) (split_on CHR ''.'' value)
      else test IPV6_REGEX value)"

definition isValidCidr :: "string \<Rightarrow> bool" where
  "isValidCidr value =
     (if value = [] then False
      else case split_on CHR ''/'' value of
        [ip, prefix] \<Rightarrow>
          if \<not> isValidIp ip then False
          else in_range 0 (if CHR '':'' \<in> set ip then 128 else 32) (parseInt 10 prefix)
      | _ \<Rightarrow> False)"

definition isValidPort :: "string \<Rightarrow> bool" where
  "isValidPort value = in_range 1 65535 (parseInt 10 value)"

text \<open>\<open>FirewallPanel.tsx\<close>: an error message, or \<open>null\<close>.\<close>

definition validateIpCidr :: "string \<Rightarrow> string option" where
  "validateIpCidr value =
     (if value = [] then None
      else if \<not> test IP_CIDR_REGEX value
      then Some ''Invalid IP address or CIDR notation (e.g., 192.168.1.0/24)''
      else
        let parts = split_on CHR ''.'' (hd (split_on CHR ''/'' value)) in
        if list_ex (\<lambda>p. num_gt (parseInt 10 p) 255) parts then Some ''IP octets must be 0-255''
        else
          case tl (split_on CHR ''/'' value) of
            [] \<Rightarrow> None
          | cidr # _ \<Rightarrow>
              if cidr \<noteq> [] \<and> (num_lt (parseInt 10 cidr) 0 \<or> num_gt (parseInt 10 cidr) 32)
              then Some ''CIDR prefix must be 0-32'' else None)"

definition validatePort :: "string \<Rightarrow> string option" where
  "validatePort value =
     (if value = [] then None
      else if \<not> test PORT_RANGE_REGEX value
      then Some ''Invalid port (number or range e.g., 80 or 1024-65535)''
      else
        let parts = map (parseInt 10) (split_on CHR ''-'' value) in
        if list_ex (\<lambda>p. num_lt p 0 \<or> num_gt p 65535) parts then Some ''Port must be 0-65535''
        else
          case parts of
            [Some a, Some b] \<Rightarrow>
              if b < a then Some ''Start port must be less than end port'' else None
          | _ \<Rightarrow> None)"

text \<open>The DHCP panel's own three checks are patterns only.\<close>

definition dhcp_isValidIp :: "string \<Rightarrow> bool" where
  "dhcp_isValidIp value = test IP_REGEX value"

definition dhcp_isValidCidr :: "string \<Rightarrow> bool" where
  "dhcp_isValidCidr value = test CIDR_REGEX value"

definition isValidMac :: "string \<Rightarrow> bool" where
  "isValidMac value = test mac_either_regex value"

section \<open>The network of an address\<close>

text \<open>JavaScript's shifts on 32-bit integers take the count modulo 32.\<close>

definition shl32 :: "32 word \<Rightarrow> nat \<Rightarrow> 32 word" where
  "shl32 x n = push_bit (n mod 32) x"

definition shr32 :: "32 word \<Rightarrow> nat \<Rightarrow> 32 word" where
  "shr32 x n = drop_bit (n mod 32) x"

text \<open>\<open>Number\<close> on a non-empty run of decimal digits, all the pattern lets through; \<open>None\<close> otherwise.\<close>

definition number_of_digits :: "string \<Rightarrow> nat option" where
  "number_of_digits s = (if s \<noteq> [] \<and> list_all (is_digit 10) s then Some (radix_val 10 s) else None)"

definition network_word :: "nat \<Rightarrow> nat \<Rightarrow> nat \<Rightarrow> nat \<Rightarrow> nat \<Rightarrow> 32 word" where
  "network_word a b c d prefix =
     (let ip = shl32 (of_nat a) 24 OR shl32 (of_nat b) 16 OR shl32 (of_nat c) 8 OR of_nat d;
          maskBits = (if prefix = 0 then 0 else shl32 (NOT 0) (32 - prefix))
      in ip AND maskBits)"

definition network_text :: "32 word \<Rightarrow> nat \<Rightarrow> string" where
  "network_text network prefix =
     join ''.'' (map (\<lambda>w. string_of_nat (unat w))
       [shr32 network 24 AND 0xff, shr32 network 16 AND 0xff, shr32 network 8 AND 0xff,
        network AND 0xff]) @ ''/'' @ string_of_nat prefix"

definition calculateNetwork :: "string \<Rightarrow> string option" where
  "calculateNetwork cidr =
     (if \<not> test CIDR_REGEX cidr then None
      else case split_on CHR ''/'' cidr of
        ipStr # maskStr # _ \<Rightarrow>
          (case parseInt 10 maskStr of
             None \<Rightarrow> None
           | Some prefix \<Rightarrow>
               if prefix < 0 \<or> 32 < prefix then None
               else (case map number_of_digits (split_on CHR ''.'' ipStr) of
                   [Some a, Some b, Some c, Some d] \<Rightarrow>
                     if list_ex (\<lambda>octet. 255 < octet) [a, b, c, d] then None
                     else Some (network_text (network_word a b c d (nat prefix)) (nat prefix))
                 | _ \<Rightarrow> None))
      | _ \<Rightarrow> None)"

section \<open>Texts and numbers\<close>

text \<open>The texts the patterns describe: \<open>digits lo hi\<close> is a run of \<open>lo\<close> to \<open>hi\<close> decimal digits,
  \<open>quad\<close> four such runs of one to three digits.\<close>

definition digits :: "nat \<Rightarrow> nat \<Rightarrow> string \<Rightarrow> bool" where
  "digits lo hi t \<longleftrightarrow> lo \<le> length t \<and> length t \<le> hi \<and> (\<forall>c \<in> set t. is_digit 10 c)"

definition quad :: "string list \<Rightarrow> bool" where
  "quad ts \<longleftrightarrow> length ts = 4 \<and> (\<forall>t \<in> set ts. digits 1 3 t)"

definition octets_ok :: "string list \<Rightarrow> bool" where
  "octets_ok ts \<longleftrightarrow> quad ts \<and> (\<forall>t \<in> set ts. radix_val 10 t \<le> 255)"

lemma digit_not_special:
  "is_digit 10 c \<Longrightarrow> \<not> is_space c \<and> c \<notin> {CHR ''-'', CHR ''+'', CHR ''.'', CHR ''/'', CHR '':'', CHR '',''}"
  by (auto simp: is_digit_def digit_of_def is_space_def Let_def split: if_splits)

lemma digits_sep:
  assumes "digits lo hi t"
  shows "CHR ''.'' \<notin> set t" "CHR ''/'' \<notin> set t" "CHR ''-'' \<notin> set t" "CHR '','' \<notin> set t" "CHR '':'' \<notin> set t"
  using assms digit_not_special by (auto simp: digits_def)

lemma parseInt_digits:
  assumes "digits (Suc lo) hi t"
  shows "parseInt 10 t = Some (int (radix_val 10 t))"
proof (cases t)
  case Nil
  then show ?thesis using assms by (simp add: digits_def)
next
  case (Cons c cs)
  then have d: "\<forall>x \<in> set (c # cs). is_digit 10 x" using assms by (auto simp: digits_def)
  then have "js_trim_start t = c # cs" using Cons digit_not_special by (simp add: js_trim_start_def)
  moreover have "parse_digits 10 (c # cs) = Some (radix_val 10 t)"
    using d Cons by (simp add: parse_digits_def strip_0x_def takeWhile_eq_all_conv [THEN iffD2] Let_def)
  ultimately show ?thesis using d digit_not_special [of c] by (auto simp: parseInt_def)
qed

lemma number_digits: "digits (Suc lo) hi t \<Longrightarrow> number_of_digits t = Some (radix_val 10 t)"
  by (auto simp: number_of_digits_def digits_def list_all_iff)

lemma lang_digits: "lo \<le> hi \<Longrightarrow> lang (between lo hi (Cls (is_digit 10))) = {t. digits lo hi t}"
  by (simp add: lang_between_Cls digits_def)

lemma lang_quad: "s \<in> lang (fields 1 3 (is_digit 10) CHR ''.'' 3) \<longleftrightarrow> (\<exists>ts. quad ts \<and> s = join ''.'' ts)"
  by (subst lang_fields) (auto simp: quad_def digits_def)

lemma quad_split:
  assumes "quad ts"
  shows "split_on CHR ''.'' (join ''.'' ts) = ts" "CHR ''/'' \<notin> set (join ''.'' ts)"
    "CHR '':'' \<notin> set (join ''.'' ts)" "join ''.'' ts \<noteq> []"
proof -
  have ts: "ts \<noteq> []" "\<forall>t \<in> set ts. digits 1 3 t" using assms by (auto simp: quad_def)
  then show "split_on CHR ''.'' (join ''.'' ts) = ts" by (intro split_join) (auto dest: digits_sep)
  obtain a b c d where q: "ts = [a, b, c, d]" using assms by (auto simp: quad_def length_Suc_conv eval_nat_numeral)
  show "CHR ''/'' \<notin> set (join ''.'' ts)" "CHR '':'' \<notin> set (join ''.'' ts)" "join ''.'' ts \<noteq> []"
    using ts q by (auto dest: digits_sep)
qed

text \<open>The tests, as statements about numbers.\<close>

lemma test_ip: "test IPV4_REGEX s \<longleftrightarrow> (\<exists>ts. quad ts \<and> s = join ''.'' ts)"
  "test IP_REGEX s \<longleftrightarrow> (\<exists>ts. quad ts \<and> s = join ''.'' ts)"
  by (simp_all only: IPV4_REGEX_def IP_REGEX_def test_iff lang_quad)

lemma test_cidr:
  "test CIDR_REGEX s \<longleftrightarrow> (\<exists>ts ms. quad ts \<and> digits 1 2 ms \<and> s = join ''.'' ts @ ''/'' @ ms)"
  unfolding CIDR_REGEX_def test_iff lang.simps(3) [of "fields _ _ _ _ _"] mem_Collect_eq lang_quad
  by (auto simp: lang_digits)

lemma test_ip_cidr:
  "test IP_CIDR_REGEX s \<longleftrightarrow> (\<exists>ts. quad ts \<and>
     (s = join ''.'' ts \<or> (\<exists>ms. digits 1 2 ms \<and> s = join ''.'' ts @ ''/'' @ ms)))"
  unfolding IP_CIDR_REGEX_def test_iff lang.simps(3) [of "fields _ _ _ _ _"] mem_Collect_eq lang_quad
  by (auto simp: lang_digits)

lemma test_port:
  "test PORT_RANGE_REGEX s \<longleftrightarrow> digits 1 5 s \<or> (\<exists>a b. digits 1 5 a \<and> digits 1 5 b \<and> s = a @ ''-'' @ b)"
  unfolding PORT_RANGE_REGEX_def test_iff
  by (auto simp: lang_digits)

lemma split_cidr:
  assumes "quad ts" "digits lo hi ms"
  shows "split_on CHR ''/'' (join ''.'' ts @ ''/'' @ ms) = [join ''.'' ts, ms]"
  using quad_split(2) [OF assms(1)] digits_sep(2) [OF assms(2)]
  by (simp add: split_on_append split_on_none)

section \<open>Validators against the reference\<close>

lemma octets_quad: "octets_ok ts \<Longrightarrow> quad ts"
  by (simp add: octets_ok_def)

lemma quad_parse: "quad ts \<Longrightarrow> t \<in> set ts \<Longrightarrow> parseInt 10 t = Some (int (radix_val 10 t))"
  using parseInt_digits [of 0 3 t] by (simp add: quad_def)

lemma join_quad_inj: "quad ts \<Longrightarrow> quad us \<Longrightarrow> join ''.'' ts = join ''.'' us \<longleftrightarrow> ts = us"
  by (metis quad_split(1))

lemma octets_range:
  "quad ts \<Longrightarrow> list_ex (\<lambda>p. num_gt (parseInt 10 p) 255) ts \<longleftrightarrow> \<not> octets_ok ts"
  "quad ts \<Longrightarrow> list_all (\<lambda>p. in_range 0 255 (parseInt 10 p)) ts \<longleftrightarrow> octets_ok ts"
  by (auto simp: octets_ok_def list_ex_iff list_all_iff num_gt_def in_range_def quad_parse not_le)

lemma validateIpCidr_plain:
  assumes "quad ts"
  shows "validateIpCidr (join ''.'' ts) = None \<longleftrightarrow> octets_ok ts"
proof -
  have "split_on CHR ''/'' (join ''.'' ts) = [join ''.'' ts]"
    by (intro split_on_none quad_split assms)
  then show ?thesis
    using assms by (auto simp: validateIpCidr_def test_ip_cidr quad_split octets_range Let_def)
qed

lemma validateIpCidr_prefix:
  assumes "quad ts" "digits 1 2 ms"
  shows "validateIpCidr (join ''.'' ts @ ''/'' @ ms) = None \<longleftrightarrow> octets_ok ts \<and> radix_val 10 ms \<le> 32"
proof -
  have "ms \<noteq> []" "parseInt 10 ms = Some (int (radix_val 10 ms))"
    using assms(2) parseInt_digits [of 0 2 ms] by (auto simp: digits_def)
  moreover have "test IP_CIDR_REGEX (join ''.'' ts @ ''/'' @ ms)"
    using assms test_ip_cidr by blast
  ultimately show ?thesis
    using split_cidr [OF assms] quad_split [OF assms(1)] octets_range [OF assms(1)]
    by (simp add: validateIpCidr_def num_gt_def num_lt_def Let_def)
qed

lemma validatePort_one: "digits 1 5 s \<Longrightarrow> validatePort s = None \<longleftrightarrow> radix_val 10 s \<le> 65535"
  using parseInt_digits [of 0 5 s] split_on_none [OF digits_sep(3), of 1 5 s]
  by (auto simp: validatePort_def test_port num_gt_def num_lt_def Let_def digits_def)

lemma validatePort_range:
  assumes "digits 1 5 a" "digits 1 5 b"
  shows "validatePort (a @ ''-'' @ b) = None \<longleftrightarrow> radix_val 10 a \<le> radix_val 10 b \<and> radix_val 10 b \<le> 65535"
proof -
  have "split_on CHR ''-'' (a @ ''-'' @ b) = [a, b]"
    using digits_sep(3) [OF assms(1)] digits_sep(3) [OF assms(2)] by (simp add: split_on_append split_on_none)
  moreover have "test PORT_RANGE_REGEX (a @ ''-'' @ b)" using assms test_port by blast
  ultimately show ?thesis
    using parseInt_digits [of 0 5 a] parseInt_digits [of 0 5 b] assms
    by (auto simp: validatePort_def num_gt_def num_lt_def Let_def)
qed

lemma ipv6_has_colon: "test IPV6_REGEX s \<Longrightarrow> CHR '':'' \<in> set s"
proof -
  have body: "CHR '':'' \<in> set u" if "u \<in> lang (between (Suc 1) 7 (Cat r (lit '':'')))" for u r
    using that by (auto simp: between_def)
  assume "test IPV6_REGEX s"
  then obtain u v where "s = u @ v" "u \<in> lang (between 2 7 (Cat (between 0 4 (Cls (is_digit 16))) (lit '':'')))"
    by (simp only: test_iff IPV6_REGEX_def lang.simps(3) [of "between _ _ (Cat _ _)"]) blast
  then show ?thesis using body by (simp add: numeral_2_eq_2)
qed

lemma validateIpCidr_shape: "validateIpCidr s = None \<Longrightarrow> s = [] \<or> test IP_CIDR_REGEX s"
  by (auto simp: validateIpCidr_def split: if_splits)

lemma validatePort_shape: "validatePort s = None \<Longrightarrow> s = [] \<or> test PORT_RANGE_REGEX s"
  by (auto simp: validatePort_def split: if_splits)

text \<open>C27: The firewall form accepts an address field exactly when it is empty, a dotted quad of octets
  0 to 255, or such a quad with a prefix length 0 to 32, and a port field exactly when it is empty, a
  number up to 65535 or an ordered range of two such numbers.\<close>
theorem firewall_validators_spec:
  "(validateIpCidr s = None \<longleftrightarrow>
     s = [] \<or> (\<exists>ts. octets_ok ts \<and> (s = join ''.'' ts \<or>
       (\<exists>ms. digits 1 2 ms \<and> radix_val 10 ms \<le> 32 \<and> s = join ''.'' ts @ ''/'' @ ms))))
   \<and> (validatePort p = None \<longleftrightarrow>
     p = [] \<or> (digits 1 5 p \<and> radix_val 10 p \<le> 65535) \<or>
       (\<exists>a b. digits 1 5 a \<and> digits 1 5 b \<and> p = a @ ''-'' @ b \<and>
          radix_val 10 a \<le> radix_val 10 b \<and> radix_val 10 b \<le> 65535))"
proof (intro conjI)
  show "validateIpCidr s = None \<longleftrightarrow>
     s = [] \<or> (\<exists>ts. octets_ok ts \<and> (s = join ''.'' ts \<or>
       (\<exists>ms. digits 1 2 ms \<and> radix_val 10 ms \<le> 32 \<and> s = join ''.'' ts @ ''/'' @ ms)))"
    (is "?L \<longleftrightarrow> ?R")
  proof
    assume ?L
    then consider "s = []" | ts where "quad ts" "s = join ''.'' ts"
      | ts ms where "quad ts" "digits 1 2 ms" "s = join ''.'' ts @ ''/'' @ ms"
      using validateIpCidr_shape test_ip_cidr by blast
    then show ?R
      using \<open>?L\<close> validateIpCidr_plain validateIpCidr_prefix by cases blast+
  next
    assume ?R
    then show ?L
      using validateIpCidr_plain validateIpCidr_prefix octets_quad by (auto simp: validateIpCidr_def [of "[]"])
  qed
  show "validatePort p = None \<longleftrightarrow>
     p = [] \<or> (digits 1 5 p \<and> radix_val 10 p \<le> 65535) \<or>
       (\<exists>a b. digits 1 5 a \<and> digits 1 5 b \<and> p = a @ ''-'' @ b \<and>
          radix_val 10 a \<le> radix_val 10 b \<and> radix_val 10 b \<le> 65535)" (is "?L \<longleftrightarrow> ?R")
  proof
    assume ?L
    then consider "p = []" | "digits 1 5 p" | a b where "digits 1 5 a" "digits 1 5 b" "p = a @ ''-'' @ b"
      using validatePort_shape test_port by blast
    then show ?R using \<open>?L\<close> validatePort_one validatePort_range by cases blast+
  next
    assume ?R
    then show ?L using validatePort_one validatePort_range by (auto simp: validatePort_def [of "[]"])
  qed
qed

lemma isValidIp_iff:
  "isValidIp s \<longleftrightarrow> (\<exists>ts. octets_ok ts \<and> s = join ''.'' ts) \<or> test IPV6_REGEX s"
proof (cases "test IPV4_REGEX s")
  case True
  then obtain ts where ts: "quad ts" "s = join ''.'' ts" using test_ip by blast
  moreover have "\<not> test IPV6_REGEX s" using ipv6_has_colon quad_split(3) [OF ts(1)] ts(2) by blast
  ultimately show ?thesis
    using True octets_quad join_quad_inj
    by (auto simp: isValidIp_def quad_split octets_range)
next
  case False
  moreover have "s = [] \<Longrightarrow> \<not> test IPV6_REGEX s" using ipv6_has_colon by fastforce
  ultimately show ?thesis using octets_quad by (auto simp: isValidIp_def test_ip)
qed

lemma parseInt_prefix:
  assumes "digits (Suc lo) hi t" and "u = [] \<or> \<not> is_digit 10 (hd u)"
  shows "parseInt 10 (t @ u) = parseInt 10 t"
proof (cases t)
  case Nil
  then show ?thesis using assms by (simp add: digits_def)
next
  case (Cons c cs)
  then have d: "\<forall>x \<in> set (c # cs). is_digit 10 x" using assms by (auto simp: digits_def)
  then have "takeWhile (is_digit 10) ((c # cs) @ u) = (c # cs) @ takeWhile (is_digit 10) u"
    by (intro takeWhile_append2) auto
  moreover have "takeWhile (is_digit 10) u = []" using assms(2) by (cases u) auto
  ultimately have "parse_digits 10 ((c # cs) @ u) = parse_digits 10 (c # cs)"
    using d by (simp add: parse_digits_def strip_0x_def takeWhile_eq_all_conv [THEN iffD2] Let_def)
  then show ?thesis
    using Cons d digit_not_special [of c] by (auto simp: parseInt_def js_trim_start_def)
qed

text \<open>The simple-mode validators. An address is accepted exactly when it is a dotted quad of octets up
  to 255 or matches the IPv6 pattern; but a prefix length and a port are read with \<open>parseInt\<close>, so any
  text after the digits is accepted too (``24abc'', ``80; drop'').\<close>
theorem simple_validators_lenient:
  "(isValidIp s \<longleftrightarrow> (\<exists>ts. octets_ok ts \<and> s = join ''.'' ts) \<or> test IPV6_REGEX s)
   \<and> (octets_ok ts \<and> digits 1 2 ms \<and> (junk = [] \<or> \<not> is_digit 10 (hd junk)) \<and> CHR ''/'' \<notin> set junk \<longrightarrow>
       (isValidCidr (join ''.'' ts @ ''/'' @ ms @ junk) \<longleftrightarrow> radix_val 10 ms \<le> 32))
   \<and> (digits 1 5 p \<and> (junk = [] \<or> \<not> is_digit 10 (hd junk)) \<longrightarrow>
       (isValidPort (p @ junk) \<longleftrightarrow> 1 \<le> radix_val 10 p \<and> radix_val 10 p \<le> 65535))"
proof (intro conjI impI)
  show "isValidIp s \<longleftrightarrow> (\<exists>ts. octets_ok ts \<and> s = join ''.'' ts) \<or> test IPV6_REGEX s"
    by (rule isValidIp_iff)
next
  assume a: "octets_ok ts \<and> digits 1 2 ms \<and> (junk = [] \<or> \<not> is_digit 10 (hd junk)) \<and> CHR ''/'' \<notin> set junk"
  then have q: "quad ts" "digits 1 2 ms" by (simp_all add: octets_quad)
  have "split_on CHR ''/'' (join ''.'' ts @ ''/'' @ ms @ junk) = [join ''.'' ts, ms @ junk]"
    using quad_split(2) [OF q(1)] digits_sep(2) [OF q(2)] a by (simp add: split_on_append split_on_none)
  moreover have "isValidIp (join ''.'' ts)" using a isValidIp_iff by blast
  moreover have "parseInt 10 (ms @ junk) = Some (int (radix_val 10 ms))"
    using parseInt_prefix [of 0 2 ms junk] parseInt_digits [of 0 2 ms] a by simp
  ultimately show "isValidCidr (join ''.'' ts @ ''/'' @ ms @ junk) \<longleftrightarrow> radix_val 10 ms \<le> 32"
    using quad_split(3) [OF q(1)] by (simp add: isValidCidr_def in_range_def)
next
  assume a: "digits 1 5 p \<and> (junk = [] \<or> \<not> is_digit 10 (hd junk))"
  then have "parseInt 10 (p @ junk) = Some (int (radix_val 10 p))"
    using parseInt_prefix [of 0 5 p junk] parseInt_digits [of 0 5 p] by simp
  then show "isValidPort (p @ junk) \<longleftrightarrow> 1 \<le> radix_val 10 p \<and> radix_val 10 p \<le> 65535"
    by (auto simp: isValidPort_def in_range_def)
qed

theorem simple_validators_lenient_witness:
  "isValidIp ''192.168.88.1'' \<and> isValidCidr ''192.168.88.1/24abc'' \<and> isValidPort ''80; drop''"
proof -
  let ?ts = "[''192'', ''168'', ''88'', ''1'']"
  have o: "octets_ok ?ts" by code_simp
  have d: "digits 1 2 ''24''" "digits 1 5 ''80''" by code_simp+
  have v: "radix_val 10 ''24'' = 24" "radix_val 10 ''80'' = 80" by code_simp+
  have j: "\<not> is_digit 10 (CHR ''a'')" "\<not> is_digit 10 (CHR '';'')" by code_simp+
  have "isValidIp ''192.168.88.1''"
    using simple_validators_lenient [of "''192.168.88.1''"] o by (auto intro!: exI [of _ ?ts])
  moreover have "isValidCidr ''192.168.88.1/24abc''"
    using simple_validators_lenient [of _ ?ts "''24''" "''abc''"] o d j by (simp add: v)
  moreover have "isValidPort ''80; drop''"
    using simple_validators_lenient [of _ _ _ "''; drop''" "''80''"] d j by (simp add: v)
  ultimately show ?thesis by blast
qed

section \<open>The network calculation\<close>

definition address_value :: "nat \<Rightarrow> nat \<Rightarrow> nat \<Rightarrow> nat \<Rightarrow> nat" where
  "address_value a b c d = a * 2 ^ 24 + b * 2 ^ 16 + c * 2 ^ 8 + d"

definition dotted :: "nat \<Rightarrow> string" where
  "dotted n = join ''.'' (map string_of_nat
     [n div 2 ^ 24 mod 2 ^ 8, n div 2 ^ 16 mod 2 ^ 8, n div 2 ^ 8 mod 2 ^ 8, n mod 2 ^ 8])"

definition clear_low :: "nat \<Rightarrow> nat \<Rightarrow> nat" where
  "clear_low k n = n div 2 ^ k * 2 ^ k"

lemma unat_small: "n < 2 ^ 32 \<Longrightarrow> unat (of_nat n :: 32 word) = n"
  by (simp add: unat_of_nat take_bit_nat_eq_self)

lemma or_add:
  assumes "y < 2 ^ k" and "x * 2 ^ k + y < 2 ^ 32"
  shows "push_bit k (of_nat x) OR (of_nat y :: 32 word) = of_nat (x * 2 ^ k + y)"
proof -
  have "\<not> bit (push_bit k (of_nat x)) n \<or> \<not> bit (of_nat y :: 32 word) n" for n
  proof (cases "n < k")
    case False
    then have "y < 2 ^ n" using assms(1) by (meson leI less_le_trans one_le_numeral power_increasing)
    then have "\<not> bit y n" by (simp add: bit_iff_odd)
    then show ?thesis by (simp add: bit_simps)
  qed (simp add: bit_simps)
  then have "push_bit k (of_nat x) OR (of_nat y :: 32 word) = push_bit k (of_nat x) + of_nat y"
    by (intro disjunctive_add_eq_or [symmetric] bit_eqI) (auto simp: bit_and_iff)
  then show ?thesis by (simp add: push_bit_eq_mult)
qed

lemma address_word:
  assumes "a < 256" "b < 256" "c < 256" "d < 256"
  shows "shl32 (of_nat a) 24 OR shl32 (of_nat b) 16 OR shl32 (of_nat c) 8 OR of_nat d
    = (of_nat (address_value a b c d) :: 32 word)"
proof -
  have 1: "push_bit 8 (of_nat c) OR (of_nat d :: 32 word) = of_nat (c * 2 ^ 8 + d)"
    using assms by (intro or_add) auto
  have 2: "push_bit 16 (of_nat b) OR (of_nat (c * 2 ^ 8 + d) :: 32 word) = of_nat (b * 2 ^ 16 + (c * 2 ^ 8 + d))"
    using assms by (intro or_add) auto
  have 3: "push_bit 24 (of_nat a) OR (of_nat (b * 2 ^ 16 + (c * 2 ^ 8 + d)) :: 32 word)
      = of_nat (a * 2 ^ 24 + (b * 2 ^ 16 + (c * 2 ^ 8 + d)))"
    using assms by (intro or_add) auto
  show ?thesis
    unfolding shl32_def address_value_def using 1 2 3 by (simp add: add.assoc)
qed

lemma address_value_bound:
  "a < 256 \<Longrightarrow> b < 256 \<Longrightarrow> c < 256 \<Longrightarrow> d < 256 \<Longrightarrow> address_value a b c d < 2 ^ 32"
  by (simp add: address_value_def)

lemma and_high_mask:
  assumes "k \<le> 32"
  shows "unat ((w :: 32 word) AND (if k = 32 then 0 else shl32 (NOT 0) k)) = clear_low k (unat w)"
proof (cases "k = 32")
  case True
  have "unat w < 2 ^ 32" using unsigned_less [of w] by simp
  with True show ?thesis by (simp add: clear_low_def)
next
  case False
  with assms have k: "k < 32" by simp
  then have "w AND shl32 (NOT 0) k = push_bit k (drop_bit k w)"
    by (intro bit_eqI) (auto simp: shl32_def bit_simps)
  moreover have "unat (push_bit k (drop_bit k w)) = unat w div 2 ^ k * 2 ^ k"
  proof -
    have "unat w div 2 ^ k * 2 ^ k \<le> unat w" by simp
    also have "\<dots> < 2 ^ 32" using unsigned_less [of w] by simp
    finally have "unat w div 2 ^ k * 2 ^ k < 2 ^ 32" .
    moreover have "take_bit 32 (unat w) = unat w"
      using unsigned_less [of w] by (intro take_bit_nat_eq_self) simp
    ultimately show ?thesis
      by (simp add: unsigned_push_bit_eq unsigned_drop_bit_eq push_bit_eq_mult [where 'a = nat]
          drop_bit_eq_div [where 'a = nat] take_bit_nat_eq_self)
  qed
  ultimately show ?thesis using k by (simp add: clear_low_def)
qed

lemma unat_byte: "unat ((w :: 32 word) AND 0xff) = unat w mod 2 ^ 8"
proof -
  have "(0xff :: 32 word) = mask 8" by (simp add: mask_eq_decr_exp)
  then have "unat (w AND 0xff) = take_bit 8 (unat w)"
    by (simp only: unsigned_take_bit_eq flip: take_bit_eq_mask)
  then show ?thesis by (simp only: take_bit_eq_mod)
qed

lemma unat_shr32: "unat (shr32 w k) = unat w div 2 ^ (k mod 32)"
proof -
  have "take_bit LENGTH(32) (unat w) = unat w"
    using unsigned_less [of w] by (intro take_bit_nat_eq_self) simp
  then show ?thesis
    by (simp only: shr32_def unsigned_drop_bit_eq drop_bit_eq_div [where 'a = nat])
qed

lemma network_text_eq: "network_text w p = dotted (unat w) @ ''/'' @ string_of_nat p"
proof -
  have "(24 :: nat) mod 32 = 24" "(16 :: nat) mod 32 = 16" "(8 :: nat) mod 32 = 8" by simp_all
  then show ?thesis by (simp only: network_text_def dotted_def unat_byte unat_shr32 list.map append.assoc)
qed

lemma network_word_eq:
  assumes "a < 256" "b < 256" "c < 256" "d < 256" "p \<le> 32"
  shows "unat (network_word a b c d p) = clear_low (32 - p) (address_value a b c d)"
proof -
  have m: "(if p = 0 then 0 else shl32 (NOT 0) (32 - p)) = (if 32 - p = 32 then 0 else shl32 (NOT 0) (32 - p))"
    using assms(5) by auto
  show ?thesis
    unfolding network_word_def Let_def address_word [OF assms(1-4)] m
    by (subst and_high_mask) (simp_all only: unat_small [OF address_value_bound [OF assms(1-4)]] diff_le_self)
qed

text \<open>A text the calculation accepts: its four octets, its prefix length.\<close>

definition cidr_of :: "string \<Rightarrow> string list \<Rightarrow> string \<Rightarrow> bool" where
  "cidr_of s ts ms \<longleftrightarrow> octets_ok ts \<and> digits 1 2 ms \<and> radix_val 10 ms \<le> 32 \<and> s = join ''.'' ts @ ''/'' @ ms"

definition network_of :: "string list \<Rightarrow> string \<Rightarrow> nat" where
  "network_of ts ms = clear_low (32 - radix_val 10 ms)
     (address_value (radix_val 10 (ts ! 0)) (radix_val 10 (ts ! 1)) (radix_val 10 (ts ! 2)) (radix_val 10 (ts ! 3)))"

lemma calculateNetwork_eq:
  assumes "quad ts" "digits 1 2 ms"
  shows "calculateNetwork (join ''.'' ts @ ''/'' @ ms) =
    (if octets_ok ts \<and> radix_val 10 ms \<le> 32
     then Some (dotted (network_of ts ms) @ ''/'' @ string_of_nat (radix_val 10 ms)) else None)"
proof -
  obtain a b c d where q: "ts = [a, b, c, d]"
    using assms(1) by (auto simp: quad_def length_Suc_conv eval_nat_numeral)
  have t: "test CIDR_REGEX (join ''.'' ts @ ''/'' @ ms)" using assms test_cidr by blast
  have m: "parseInt 10 ms = Some (int (radix_val 10 ms))" using assms(2) parseInt_digits [of 0 2 ms] by simp
  have n: "map number_of_digits ts = map (\<lambda>t. Some (radix_val 10 t)) ts"
    using assms(1) number_digits [of 0 3] by (auto simp: quad_def)
  have o: "octets_ok ts \<longleftrightarrow> \<not> list_ex (\<lambda>octet. 255 < octet) (map (radix_val 10) ts)"
    using assms(1) by (auto simp: octets_ok_def list_ex_iff not_less)
  show ?thesis
    unfolding calculateNetwork_def split_cidr [OF assms] quad_split(1) [OF assms(1)]
    using t m n o q
    by (auto simp: network_text_eq network_word_eq network_of_def quad_split(1) [OF assms(1), unfolded q]
        simp del: join.simps)
qed

text \<open>C26: The network calculation is exact on 32-bit integers: it answers precisely the texts that are a
  dotted quad with octets up to 255 and a prefix length up to 32, with the address whose host bits are
  cleared, prefix lengths 0 and 32 included, whatever leading zeros the text has.\<close>
theorem calculateNetwork_spec:
  "calculateNetwork s = Some r \<longleftrightarrow>
     (\<exists>ts ms. cidr_of s ts ms \<and> r = dotted (network_of ts ms) @ ''/'' @ string_of_nat (radix_val 10 ms))"
proof (cases "test CIDR_REGEX s")
  case True
  then obtain ts ms where s: "quad ts" "digits 1 2 ms" "s = join ''.'' ts @ ''/'' @ ms"
    using test_cidr by blast
  have "ts' = ts \<and> ms' = ms" if "cidr_of s ts' ms'" for ts' ms'
  proof -
    have "quad ts'" "digits 1 2 ms'" "s = join ''.'' ts' @ ''/'' @ ms'"
      using that octets_quad by (auto simp: cidr_of_def)
    then show ?thesis using s split_cidr join_quad_inj by (metis list.inject)
  qed
  then show ?thesis using calculateNetwork_eq [OF s(1,2)] s by (auto simp: cidr_of_def)
next
  case False
  then have "\<not> cidr_of s ts ms" for ts ms using test_cidr octets_quad by (auto simp: cidr_of_def)
  then show ?thesis using False by (simp add: calculateNetwork_def)
qed

text \<open>The checks that are a pattern only (pools, addresses, ARP, routes, DHCP) accept four numbers of up
  to three digits and a prefix of up to two whatever their values, such as 999.999.999.999/99, for which
  the network calculation of the same form has no answer.\<close>
theorem pattern_checks_lenient:
  "(dhcp_isValidIp s \<longleftrightarrow> (\<exists>ts. quad ts \<and> s = join ''.'' ts))
   \<and> (dhcp_isValidCidr s \<longleftrightarrow> (\<exists>ts ms. quad ts \<and> digits 1 2 ms \<and> s = join ''.'' ts @ ''/'' @ ms))
   \<and> dhcp_isValidCidr ''999.999.999.999/99''
   \<and> calculateNetwork ''999.999.999.999/99'' = None"
proof (intro conjI)
  have q: "quad [''999'', ''999'', ''999'', ''999'']" "digits 1 2 ''99''" "\<not> radix_val 10 ''99'' \<le> 32"
    by code_simp+
  show "dhcp_isValidCidr ''999.999.999.999/99''" by code_simp
  show "calculateNetwork ''999.999.999.999/99'' = None"
    using calculateNetwork_eq [OF q(1,2)] q(3) by simp
qed (simp_all only: dhcp_isValidIp_def dhcp_isValidCidr_def test_ip test_cidr)

end
