(* ===== verification/Staging.thy ===== *)
theory Staging
  imports ConfigPanel NetAddress
begin

text \<open>
  What the configuration tables share. A table shows entries (objects read from the device), keeps a
  dialog with a form, the entry being edited and validation errors, and stages changes in the panel of
  its tab (\<^verbatim>\<open>hooks/useConfigPanel.ts\<close>). The locale \<open>staging_table\<close> is the contract between a
  table and that panel: its buttons and row actions only ever append well-formed changes.
\<close>

section \<open>Entries\<close>

type_synonym entry = "string obj"

text \<open>\<open>entry.k || ''\<close>, \<open>entry.k || d\<close>, \<open>entry.k === v\<close> and \<open>entry.k\<close> inside a template string.\<close>

definition field :: "entry \<Rightarrow> string \<Rightarrow> string" where
  "field e k = (case obj_get e k of None \<Rightarrow> [] | Some v \<Rightarrow> v)"

definition field_or :: "entry \<Rightarrow> string \<Rightarrow> string \<Rightarrow> string" where
  "field_or e k d = str_or (field e k) d"

definition field_is :: "entry \<Rightarrow> string \<Rightarrow> string \<Rightarrow> bool" where
  "field_is e k v \<longleftrightarrow> obj_get e k = Some v"

definition shown :: "entry \<Rightarrow> string \<Rightarrow> string" where
  "shown e k = (case obj_get e k of None \<Rightarrow> ''undefined'' | Some v \<Rightarrow> v)"

definition entry_id :: "entry \<Rightarrow> string option" where
  "entry_id e = obj_get e ''.id''"

definition quoted :: "string \<Rightarrow> string" where
  "quoted s = [CHR 0x22] @ s @ [CHR 0x22]"

text \<open>\<open>if (b) props[k] = v\<close>.\<close>

definition put_if :: "bool \<Rightarrow> string \<Rightarrow> string \<Rightarrow> string obj \<Rightarrow> string obj" where
  "put_if b k v ps = (if b then obj_set k v ps else ps)"

text \<open>\<open>if (v) props[k] = v\<close>.\<close>

abbreviation put :: "string \<Rightarrow> string \<Rightarrow> string obj \<Rightarrow> string obj" where
  "put k v \<equiv> put_if (v \<noteq> []) k v"

section \<open>Tables\<close>

record 'f table =
  dialogOpen :: bool
  editing :: "entry option"
  form :: 'f
  errors :: "string obj"
  t_panel :: panel

definition table_init :: "'f \<Rightarrow> string \<Rightarrow> 'f table" where
  "table_init f panelType = \<lparr>dialogOpen = False, editing = None, form = f, errors = [], t_panel = panel_init panelType\<rparr>"

definition queue :: "config_change \<Rightarrow> 'f table \<Rightarrow> 'f table" where
  "queue c t = t\<lparr>t_panel := addChange c (t_panel t)\<rparr>"

definition open_dialog :: "entry option \<Rightarrow> 'f \<Rightarrow> 'f table \<Rightarrow> 'f table" where
  "open_dialog e f t = t\<lparr>editing := e, form := f, errors := [], dialogOpen := True\<rparr>"

definition close_dialog :: "'f table \<Rightarrow> 'f table" where
  "close_dialog t = t\<lparr>dialogOpen := False\<rparr>"

definition remove_change :: "string \<Rightarrow> entry \<Rightarrow> string \<Rightarrow> config_change" where
  "remove_change path e d = \<lparr>cc_operation = Remove_entry, cc_path = path, cc_entryId = entry_id e,
     cc_properties = [], cc_description = d\<rparr>"

definition set_change :: "string \<Rightarrow> string option \<Rightarrow> string obj \<Rightarrow> string \<Rightarrow> config_change" where
  "set_change path i ps d = \<lparr>cc_operation = Set_entry, cc_path = path, cc_entryId = i,
     cc_properties = ps, cc_description = d\<rparr>"

definition add_change :: "string \<Rightarrow> string obj \<Rightarrow> string \<Rightarrow> config_change" where
  "add_change path ps d = \<lparr>cc_operation = Add_entry, cc_path = path, cc_entryId = None,
     cc_properties = ps, cc_description = d\<rparr>"

text \<open>The end of a submit handler: a \<open>set\<close> of the entry being edited or an \<open>add\<close>, then the dialog
  closes.\<close>

definition save_entry :: "string \<Rightarrow> string obj \<Rightarrow> string \<Rightarrow> string \<Rightarrow> 'f table \<Rightarrow> 'f table" where
  "save_entry path ps editDesc addDesc t = close_dialog
     (case editing t of
        Some e \<Rightarrow> queue (set_change path (entry_id e) ps editDesc) t
      | None \<Rightarrow> queue (add_change path ps addDesc) t)"

section \<open>Well-formed changes\<close>

definition props_ok :: "string obj \<Rightarrow> bool" where
  "props_ok ps \<longleftrightarrow> obj_wf ps \<and> (\<forall>(k, v) \<in> set ps. plain k)"

definition staged :: "config_change \<Rightarrow> bool" where
  "staged c \<longleftrightarrow> plain (cc_path c) \<and> props_ok (cc_properties c)
     \<and> (cc_operation c \<noteq> Remove_entry \<longrightarrow> cc_properties c \<noteq> [])
     \<and> (cc_operation c = Remove_entry \<longrightarrow> cc_entryId c \<noteq> None)
     \<and> (\<forall>i. cc_entryId c = Some i \<longrightarrow> plain i)"

definition has_id :: "entry \<Rightarrow> bool" where
  "has_id e \<longleftrightarrow> (case entry_id e of None \<Rightarrow> False | Some i \<Rightarrow> plain i)"

definition table_ok :: "'f table \<Rightarrow> bool" where
  "table_ok t \<longleftrightarrow> (case editing t of None \<Rightarrow> True | Some e \<Rightarrow> has_id e)"

text \<open>All a table may do to its panel: append well-formed changes.\<close>

definition stages :: "'f table \<Rightarrow> 'f table \<Rightarrow> bool" where
  "stages t t' \<longleftrightarrow> table_ok t' \<and> (\<exists>cs. list_all staged cs \<and> t_panel t' = fold addChange cs (t_panel t))"

lemma props_ok_Nil [simp]: "props_ok []"
  by (simp add: props_ok_def)

lemma set_obj_set: "set (obj_set k v ps) \<subseteq> insert (k, v) (set ps)"
  by (induction ps) (auto split: if_splits)

lemma props_ok_set [simp, intro]: "plain k \<Longrightarrow> props_ok ps \<Longrightarrow> props_ok (obj_set k v ps)"
  using set_obj_set [of k v ps] by (auto simp: props_ok_def)

lemma props_ok_put [simp, intro]: "plain k \<Longrightarrow> props_ok ps \<Longrightarrow> props_ok (put_if b k v ps)"
  by (simp add: put_if_def)

lemma obj_set_nonempty [simp]: "obj_set k v ps \<noteq> []"
  by (cases ps) (auto split: if_splits)

lemma put_if_nonempty [simp, intro]: "ps \<noteq> [] \<Longrightarrow> put_if b k v ps \<noteq> []"
  by (simp add: put_if_def)

lemma put_if_get: "obj_get (put_if b k v ps) k' = (if b \<and> k' = k then Some v else obj_get ps k')"
  by (simp add: put_if_def)

lemma props_ok_Cons [simp]:
  "props_ok ((k, v) # ps) \<longleftrightarrow> plain k \<and> k \<notin> fst ` set ps \<and> props_ok ps"
  by (auto simp: props_ok_def obj_wf_def obj_keys_def)

lemma props_ok_filter: "props_ok ps \<Longrightarrow> props_ok (filter P ps)"
  by (auto simp: props_ok_def obj_wf_def obj_keys_def distinct_map_filter)

lemma staged_simps [simp]:
  "staged (remove_change path e d) \<longleftrightarrow> plain path \<and> has_id e"
  "staged (set_change path i ps d) \<longleftrightarrow> plain path \<and> props_ok ps \<and> ps \<noteq> [] \<and> (\<forall>j. i = Some j \<longrightarrow> plain j)"
  "staged (add_change path ps d) \<longleftrightarrow> plain path \<and> props_ok ps \<and> ps \<noteq> []"
  by (auto simp: staged_def remove_change_def set_change_def add_change_def has_id_def split: option.splits)

lemma has_id_plain: "has_id e \<Longrightarrow> entry_id e = Some i \<Longrightarrow> plain i"
  by (simp add: has_id_def)

lemma stages_refl: "table_ok t \<Longrightarrow> stages t t"
  unfolding stages_def by (auto intro: exI [of _ "[]"])

lemma stages_trans: "stages t u \<Longrightarrow> stages u v \<Longrightarrow> stages t v"
  unfolding stages_def by (metis fold_append comp_apply list_all_append)

lemma stages_open [simp, intro]: "(\<And>e. en = Some e \<Longrightarrow> has_id e) \<Longrightarrow> stages t (open_dialog en f t)"
  by (auto simp: stages_def open_dialog_def table_ok_def split: option.splits intro!: exI [of _ "[]"])

lemma stages_errors [simp, intro]: "table_ok t \<Longrightarrow> stages t (t\<lparr>errors := es\<rparr>)"
  by (auto simp: stages_def table_ok_def intro!: exI [of _ "[]"])

lemma stages_queue [simp, intro]: "table_ok t \<Longrightarrow> staged c \<Longrightarrow> stages t (queue c t)"
  by (auto simp: stages_def table_ok_def queue_def intro!: exI [of _ "[c]"])

lemma stages_close: "stages t u \<Longrightarrow> stages t (close_dialog u)"
  by (auto simp: stages_def table_ok_def close_dialog_def)

lemma stages_save [simp, intro]:
  "table_ok t \<Longrightarrow> plain path \<Longrightarrow> props_ok ps \<Longrightarrow> ps \<noteq> [] \<Longrightarrow> stages t (save_entry path ps d d' t)"
  unfolding save_entry_def
  by (intro stages_close) (auto simp: table_ok_def has_id_plain split: option.splits)

lemma stages_if: "(b \<Longrightarrow> stages t x) \<Longrightarrow> (\<not> b \<Longrightarrow> stages t y) \<Longrightarrow> stages t (if b then x else y)"
  by simp

section \<open>The contract\<close>

datatype 'f table_event =
    Button nat
  | Row nat entry
  | SetForm 'f
  | SetDialogOpen bool

fun table_step :: "('f table \<Rightarrow> 'f table) list \<Rightarrow> (entry \<Rightarrow> 'f table \<Rightarrow> 'f table) list \<Rightarrow>
    'f table_event \<Rightarrow> 'f table \<Rightarrow> 'f table" where
  "table_step bs rs (Button i) t = (if i < length bs then (bs ! i) t else t)"
| "table_step bs rs (Row i e) t = (if i < length rs then (rs ! i) e t else t)"
| "table_step bs rs (SetForm f) t = t\<lparr>form := f\<rparr>"
| "table_step bs rs (SetDialogOpen b) t = t\<lparr>dialogOpen := b\<rparr>"

text \<open>The entries on which row actions are invoked come from the device and carry an id.\<close>

fun event_ok :: "'f table_event \<Rightarrow> bool" where
  "event_ok (Row i e) = has_id e"
| "event_ok _ = True"

locale staging_table =
  fixes buttons :: "('f table \<Rightarrow> 'f table) list"
    and rows :: "(entry \<Rightarrow> 'f table \<Rightarrow> 'f table) list"
  assumes button_stages: "b \<in> set buttons \<Longrightarrow> table_ok t \<Longrightarrow> stages t (b t)"
    and row_stages: "r \<in> set rows \<Longrightarrow> has_id e \<Longrightarrow> table_ok t \<Longrightarrow> stages t (r e t)"
begin

lemma step_stages: "table_ok t \<Longrightarrow> event_ok ev \<Longrightarrow> stages t (table_step buttons rows ev t)"
proof (cases ev)
  case (SetForm f)
  assume "table_ok t"
  then show ?thesis using SetForm stages_refl [of t] by (auto simp: stages_def table_ok_def)
next
  case (SetDialogOpen b)
  assume "table_ok t"
  then show ?thesis using SetDialogOpen stages_refl [of t] by (auto simp: stages_def table_ok_def)
qed (auto simp: button_stages row_stages stages_refl)

lemma run_stages:
  "table_ok t \<Longrightarrow> list_all event_ok evs \<Longrightarrow> stages t (fold (table_step buttons rows) evs t)"
proof (induction evs arbitrary: t)
  case Nil
  then show ?case by (simp add: stages_refl)
next
  case (Cons ev evs)
  then have s: "stages t (table_step buttons rows ev t)" by (simp add: step_stages)
  then have "table_ok (table_step buttons rows ev t)" by (simp add: stages_def)
  with Cons have "stages (table_step buttons rows ev t) (fold (table_step buttons rows) evs (table_step buttons rows ev t))"
    by simp
  with s show ?case by (auto intro: stages_trans)
qed

end

text \<open>What the contract gives a client that starts with an empty panel: whatever sequence of clicks and
  edits, everything pending is well formed.\<close>

definition always_staged ::
    "('f table \<Rightarrow> 'f table) list \<Rightarrow> (entry \<Rightarrow> 'f table \<Rightarrow> 'f table) list \<Rightarrow> 'f \<Rightarrow> string \<Rightarrow> bool" where
  "always_staged bs rs f panelType \<longleftrightarrow> (\<forall>evs. list_all event_ok evs \<longrightarrow>
     list_all staged (pendingChanges (t_panel (fold (table_step bs rs) evs (table_init f panelType)))))"

lemma pending_fold_add: "pendingChanges (fold addChange cs p) = pendingChanges p @ cs"
  by (induction cs arbitrary: p) (simp_all add: addChange_def)

context staging_table
begin

lemma always: "always_staged buttons rows f panelType"
  unfolding always_staged_def
proof (intro allI impI)
  fix evs :: "'f table_event list"
  assume "list_all event_ok evs"
  then have "stages (table_init f panelType) (fold (table_step buttons rows) evs (table_init f panelType))"
    by (intro run_stages) (simp add: table_ok_def table_init_def)
  then show "list_all staged (pendingChanges (t_panel (fold (table_step buttons rows) evs (table_init f panelType))))"
    by (auto simp: stages_def pending_fold_add table_init_def panel_init_def)
qed

end

section \<open>What well-formed changes guarantee\<close>

text \<open>They reach the device: the mutation has a call for each.\<close>

lemma staged_call: "staged c \<Longrightarrow> \<exists>call. change_call c = Inr call"
  by (cases "cc_operation c") (auto simp: staged_def change_call_def plain_def)

text \<open>A \<open>set\<close> of a singleton has no selector and prints two spaces; a reader skips the empty word.\<close>

lemma staged_words:
  assumes "staged c"
  shows "filter (\<lambda>w. w \<noteq> []) (rsc_words False [] (rsc_line c)) =
    (if cc_operation c = Add_entry then line_words (c\<lparr>cc_entryId := None\<rparr>) else line_words c)"
proof (cases "cc_operation c = Set_entry \<and> cc_entryId c = None")
  case False
  with assms have "printable c"
    by (cases "cc_operation c") (auto simp: staged_def printable_def props_ok_def)
  moreover have "filter (\<lambda>w. w \<noteq> []) (line_words c) = line_words c"
    using assms by (auto simp: line_words_def staged_def selector_words_def plain_def filter_id_conv
        split: operation.splits option.splits)
  ultimately show ?thesis by (auto simp: rsc_line_words line_words_def)
next
  case True
  let ?p = "cc_path c" and ?ps = "cc_properties c"
  have p: "plain ?p" "\<forall>x \<in> set ?p. x \<noteq> CHR '' '' \<and> x \<noteq> CHR 0x22" and ne: "?ps \<noteq> []"
    and ps: "\<forall>(k, v) \<in> set ?ps. plain k"
    using assms True plain_chars by (auto simp: staged_def props_ok_def)
  have "js_trim (?p @ '' set  '' @ rsc_props ?ps) = ?p @ '' set  '' @ rsc_props ?ps"
    using rsc_props_last [OF ne] by (intro trim_line p) auto
  moreover have "rsc_words False [] (?p @ '' set  '' @ rsc_props ?ps)
      = ?p # ''set'' # [] # map (\<lambda>(k, v). k @ ''='' @ v) ?ps"
    using rsc_words_prefix [OF p(2), of "''set  '' @ rsc_props ?ps"] rsc_words_props [OF ne ps] by simp
  moreover have "filter (\<lambda>w. w \<noteq> []) (map (\<lambda>(k, v). k @ ''='' @ v) ?ps) = map (\<lambda>(k, v). k @ ''='' @ v) ?ps"
    by (auto simp: filter_id_conv)
  ultimately show ?thesis
    using True p(1) by (simp add: rsc_line_def rsc_selector_def line_words_def selector_words_def plain_def)
qed

end
