(* ===== verification/AddressPanels.thy ===== *)
theory AddressPanels
  imports Staging
begin

text \<open>
  The tables of \<^verbatim>\<open>PoolPanel.tsx\<close>, \<^verbatim>\<open>AddressPanel.tsx\<close>, \<^verbatim>\<open>ArpPanel.tsx\<close> and
  \<^verbatim>\<open>RoutesPanel.tsx\<close>: their forms, validators and handlers, each table an interpretation of
  \<open>staging_table\<close>.
\<close>

section \<open>IP pools\<close>

record pool_form =
  pf_name :: string
  pf_ranges :: string
  pf_next_pool :: string

definition pool_EMPTY_FORM :: pool_form where
  "pool_EMPTY_FORM = \<lparr>pf_name = [], pf_ranges = [], pf_next_pool = []\<rparr>"

definition validateRange :: "string \<Rightarrow> bool" where
  "validateRange r =
     (let trimmed = js_trim r in
      if trimmed = [] then False
      else case split_on CHR ''-'' trimmed of
        [a, b] \<Rightarrow> test IP_REGEX (js_trim a) \<and> test IP_REGEX (js_trim b)
      | _ \<Rightarrow> False)"

definition validatePoolForm :: "pool_form \<Rightarrow> string obj" where
  "validatePoolForm f =
     (let es = put_if (pf_name f = []) ''name'' ''Pool name is required'' [] in
      if pf_ranges f = [] then obj_set ''ranges'' ''At least one range is required'' es
      else
        let ranges = split_on CHR '','' (pf_ranges f);
            invalid = filter (\<lambda>r. \<not> validateRange r) ranges
        in put_if (0 < length invalid) ''ranges'' ''Each range must be in format x.x.x.x-x.x.x.x'' es)"

text \<open>Pool name to the DHCP servers that use it.\<close>

definition add_user :: "entry \<Rightarrow> string list obj \<Rightarrow> string list obj" where
  "add_user server m =
     (let pool = field server ''address-pool'' in
      if pool = [] then m
      else
        let used = (case obj_get m pool of None \<Rightarrow> [] | Some us \<Rightarrow> us);
            name = (if field server ''name'' = [] then field server ''.id'' else field server ''name'')
        in obj_set pool (used @ [name]) m)"

definition poolUsedBy :: "entry list \<Rightarrow> string list obj" where
  "poolUsedBy dhcpServers = fold add_user dhcpServers []"

definition pool_handleAdd :: "pool_form table \<Rightarrow> pool_form table" where
  "pool_handleAdd t = open_dialog None pool_EMPTY_FORM t"

definition pool_handleEdit :: "entry \<Rightarrow> pool_form table \<Rightarrow> pool_form table" where
  "pool_handleEdit e t = open_dialog (Some e)
     \<lparr>pf_name = field e ''name'', pf_ranges = field e ''ranges'', pf_next_pool = field e ''next-pool''\<rparr> t"

definition pool_handleDelete :: "entry \<Rightarrow> pool_form table \<Rightarrow> pool_form table" where
  "pool_handleDelete e t = queue (remove_change ''/ip/pool'' e (''Remove pool '' @ quoted (shown e ''name''))) t"

definition pool_handleSave :: "pool_form table \<Rightarrow> pool_form table" where
  "pool_handleSave t =
     (let f = form t; validationErrors = validatePoolForm f in
      if validationErrors \<noteq> [] then t\<lparr>errors := validationErrors\<rparr>
      else
        let props = put ''next-pool'' (pf_next_pool f) [(''name'', pf_name f), (''ranges'', pf_ranges f)]
        in save_entry ''/ip/pool'' props
             (''Edit pool '' @ quoted (pf_name f) @ '' ranges '' @ pf_ranges f)
             (''Add pool '' @ quoted (pf_name f) @ '' with ranges '' @ pf_ranges f) t)"

section \<open>IP addresses\<close>

record address_form =
  af_address :: string
  af_interface :: string

definition address_EMPTY_FORM :: address_form where
  "address_EMPTY_FORM = \<lparr>af_address = [], af_interface = []\<rparr>"

definition validateAddressForm :: "address_form \<Rightarrow> string obj" where
  "validateAddressForm f =
     (let es = (if af_address f = [] then [(''address'', ''Address is required'')]
                else put_if (\<not> test CIDR_REGEX (af_address f)) ''address''
                       ''Must be valid CIDR (e.g. 192.168.1.1/24)'' [])
      in put_if (af_interface f = []) ''interface'' ''Interface is required'' es)"

text \<open>The interface names offered by the form: those of both columns, without repetition and sorted.\<close>

definition add_name :: "string \<Rightarrow> string list \<Rightarrow> string list" where
  "add_name n names = (if n = [] \<or> n \<in> set names then names else names @ [n])"

fun string_le :: "string \<Rightarrow> string \<Rightarrow> bool" where
  "string_le [] b = True"
| "string_le (c # cs) [] = False"
| "string_le (c # cs) (d # ds) =
     ((of_char c :: nat) < of_char d \<or> (c = d \<and> string_le cs ds))"

fun insert_by :: "('a \<Rightarrow> 'a \<Rightarrow> bool) \<Rightarrow> 'a \<Rightarrow> 'a list \<Rightarrow> 'a list" where
  "insert_by le x [] = [x]"
| "insert_by le x (y # ys) = (if le x y then x # y # ys else y # insert_by le x ys)"

definition sort_by :: "('a \<Rightarrow> 'a \<Rightarrow> bool) \<Rightarrow> 'a list \<Rightarrow> 'a list" where
  "sort_by le xs = foldr (insert_by le) xs []"

definition interfaceNames :: "entry list \<Rightarrow> string list" where
  "interfaceNames es = sort_by string_le
     (fold (\<lambda>e names. add_name (field e ''actual-interface'') (add_name (field e ''interface'') names)) es [])"

definition address_handleAdd :: "address_form table \<Rightarrow> address_form table" where
  "address_handleAdd t = open_dialog None address_EMPTY_FORM t"

definition address_handleEdit :: "entry \<Rightarrow> address_form table \<Rightarrow> address_form table" where
  "address_handleEdit e t = open_dialog (Some e)
     \<lparr>af_address = field e ''address'', af_interface = field e ''interface''\<rparr> t"

definition address_handleDelete :: "entry \<Rightarrow> address_form table \<Rightarrow> address_form table" where
  "address_handleDelete e t = queue (remove_change ''/ip/address'' e
     (''Remove address '' @ shown e ''address'' @ '' from '' @ field_or e ''interface'' ''unknown'')) t"

definition address_handleSave :: "address_form table \<Rightarrow> address_form table" where
  "address_handleSave t =
     (let f = form t; validationErrors = validateAddressForm f in
      if validationErrors \<noteq> [] then t\<lparr>errors := validationErrors\<rparr>
      else save_entry ''/ip/address'' [(''address'', af_address f), (''interface'', af_interface f)]
             (''Edit address '' @ af_address f @ '' on '' @ af_interface f)
             (''Add address '' @ af_address f @ '' to '' @ af_interface f) t)"

section \<open>ARP\<close>

datatype arp_filter = Arp_all | Arp_dynamic | Arp_static

record arp_form =
  arp_address :: string
  arp_mac_address :: string
  arp_interface :: string

definition arp_EMPTY_FORM :: arp_form where
  "arp_EMPTY_FORM = \<lparr>arp_address = [], arp_mac_address = [], arp_interface = []\<rparr>"

definition validateArpForm :: "arp_form \<Rightarrow> string obj" where
  "validateArpForm f =
     (let e1 = (if arp_address f = [] then [(''address'', ''IP address is required'')]
                else put_if (\<not> test IP_REGEX (arp_address f)) ''address'' ''Must be valid IP (e.g. 192.168.1.1)'' []);
          e2 = (if arp_mac_address f = [] then obj_set ''mac-address'' ''MAC address is required'' e1
                else put_if (\<not> test MAC_REGEX (arp_mac_address f)) ''mac-address''
                       ''Must be valid MAC (e.g. AA:BB:CC:DD:EE:FF)'' e1)
      in put_if (arp_interface f = []) ''interface'' ''Interface is required'' e2)"

fun arp_filteredEntries :: "arp_filter \<Rightarrow> entry list \<Rightarrow> entry list" where
  "arp_filteredEntries Arp_dynamic es = filter (\<lambda>e. field_is e ''dynamic'' ''true'') es"
| "arp_filteredEntries Arp_static es = filter (\<lambda>e. \<not> field_is e ''dynamic'' ''true'') es"
| "arp_filteredEntries Arp_all es = es"

definition arp_handleAdd :: "arp_form table \<Rightarrow> arp_form table" where
  "arp_handleAdd t = t\<lparr>form := arp_EMPTY_FORM, errors := [], dialogOpen := True\<rparr>"

definition arp_handleDelete :: "entry \<Rightarrow> arp_form table \<Rightarrow> arp_form table" where
  "arp_handleDelete e t = queue (remove_change ''/ip/arp'' e
     (''Remove ARP entry '' @ shown e ''address'' @ '' ('' @ shown e ''mac-address'' @ '')'')) t"

text \<open>The arrow of the description, outside the modelled code units, is written \<open>->\<close>.\<close>

definition arp_handleSave :: "arp_form table \<Rightarrow> arp_form table" where
  "arp_handleSave t =
     (let f = form t; validationErrors = validateArpForm f in
      if validationErrors \<noteq> [] then t\<lparr>errors := validationErrors\<rparr>
      else close_dialog (queue (add_change ''/ip/arp''
          [(''address'', arp_address f), (''mac-address'', arp_mac_address f), (''interface'', arp_interface f)]
          (''Add static ARP '' @ arp_address f @ '' -> '' @ arp_mac_address f @ '' on '' @ arp_interface f)) t))"

text \<open>Flushing the cache executes one command, if the user confirms.\<close>

definition arp_handleFlush :: "bool \<Rightarrow> editor_call list" where
  "arp_handleFlush confirmed = (if confirmed then [Execute ''/ip arp remove [find dynamic=yes]''] else [])"

section \<open>Routes\<close>

datatype route_filter = Route_all | Route_static | Route_connected | Route_dynamic

record route_form =
  rf_dst_address :: string
  rf_gateway :: string
  rf_distance :: string
  rf_routing_mark :: string

definition route_EMPTY_FORM :: route_form where
  "route_EMPTY_FORM = \<lparr>rf_dst_address = [], rf_gateway = [], rf_distance = ''1'', rf_routing_mark = []\<rparr>"

definition validateRouteForm :: "route_form \<Rightarrow> string obj" where
  "validateRouteForm f =
     (let es = (if rf_dst_address f = [] then [(''dst-address'', ''Destination address is required'')]
                else put_if (\<not> test CIDR_REGEX (rf_dst_address f)) ''dst-address''
                       ''Must be valid CIDR (e.g. 10.0.0.0/24)'' [])
      in put_if (rf_gateway f = []) ''gateway'' ''Gateway is required'' es)"

fun route_filteredEntries :: "route_filter \<Rightarrow> entry list \<Rightarrow> entry list" where
  "route_filteredEntries Route_static es =
     filter (\<lambda>e. field_is e ''static'' ''true'' \<and> \<not> field_is e ''dynamic'' ''true'') es"
| "route_filteredEntries Route_connected es = filter (\<lambda>e. field_is e ''connect'' ''true'') es"
| "route_filteredEntries Route_dynamic es = filter (\<lambda>e. field_is e ''dynamic'' ''true'') es"
| "route_filteredEntries Route_all es = es"

definition route_handleAdd :: "route_form table \<Rightarrow> route_form table" where
  "route_handleAdd t = open_dialog None route_EMPTY_FORM t"

definition route_form_of :: "entry \<Rightarrow> route_form" where
  "route_form_of e = \<lparr>rf_dst_address = field e ''dst-address'', rf_gateway = field e ''gateway'',
     rf_distance = field_or e ''distance'' ''1'', rf_routing_mark = field e ''routing-mark''\<rparr>"

definition route_handleEdit :: "entry \<Rightarrow> route_form table \<Rightarrow> route_form table" where
  "route_handleEdit e t = open_dialog (Some e) (route_form_of e) t"

definition route_handleDelete :: "entry \<Rightarrow> route_form table \<Rightarrow> route_form table" where
  "route_handleDelete e t = queue (remove_change ''/ip/route'' e
     (''Remove route '' @ shown e ''dst-address'' @ '' via '' @ field_or e ''gateway'' ''connected'')) t"

definition route_props :: "route_form \<Rightarrow> string obj" where
  "route_props f =
     put ''routing-mark'' (rf_routing_mark f)
     (put_if (rf_distance f \<noteq> [] \<and> rf_distance f \<noteq> ''1'') ''distance'' (rf_distance f)
       [(''dst-address'', rf_dst_address f), (''gateway'', rf_gateway f)])"

definition route_handleSave :: "route_form table \<Rightarrow> route_form table" where
  "route_handleSave t =
     (let f = form t; validationErrors = validateRouteForm f in
      if validationErrors \<noteq> [] then t\<lparr>errors := validationErrors\<rparr>
      else save_entry ''/ip/route'' (route_props f)
             (''Edit route '' @ rf_dst_address f @ '' via '' @ rf_gateway f)
             (''Add route '' @ rf_dst_address f @ '' via '' @ rf_gateway f) t)"

section \<open>The contract\<close>

lemma plain_words_address [simp]:
  "plain ''/ip/pool''" "plain ''/ip/address''" "plain ''/ip/arp''" "plain ''/ip/route''"
  "plain ''name''" "plain ''ranges''" "plain ''next-pool''" "plain ''address''" "plain ''interface''"
  "plain ''mac-address''" "plain ''dst-address''" "plain ''gateway''" "plain ''distance''" "plain ''routing-mark''"
  by code_simp+

lemmas table_defs = Let_def stages_close stages_if

interpretation pool: staging_table "[pool_handleAdd, pool_handleSave]" "[pool_handleEdit, pool_handleDelete]"
  by unfold_locales
    (auto simp: pool_handleAdd_def pool_handleEdit_def pool_handleDelete_def pool_handleSave_def table_defs)

interpretation address: staging_table "[address_handleAdd, address_handleSave]"
    "[address_handleEdit, address_handleDelete]"
  by unfold_locales
    (auto simp: address_handleAdd_def address_handleEdit_def address_handleDelete_def address_handleSave_def table_defs)

lemma arp_add_stages: "table_ok t \<Longrightarrow> stages t (arp_handleAdd t)"
  by (auto simp: arp_handleAdd_def stages_def table_ok_def intro!: exI [of _ "[]"])

interpretation arp: staging_table "[arp_handleAdd, arp_handleSave]" "[arp_handleDelete]"
  by unfold_locales (auto simp: arp_add_stages arp_handleDelete_def arp_handleSave_def table_defs)

interpretation route: staging_table "[route_handleAdd, route_handleSave]" "[route_handleEdit, route_handleDelete]"
  by unfold_locales
    (auto simp: route_handleAdd_def route_handleEdit_def route_handleDelete_def route_handleSave_def
      route_props_def table_defs)

end
