(* ===== verification/DhcpPanels.thy ===== *)
theory DhcpPanels
  imports AddressPanels
begin

text \<open>
  The tables of \<^verbatim>\<open>DhcpPanel.tsx\<close> (servers, pools, leases, networks),
  \<^verbatim>\<open>DhcpClientPanel.tsx\<close> and \<^verbatim>\<open>DnsPanel.tsx\<close>, with the resolver settings of the latter.
\<close>

text \<open>\<open>if (!v.trim()) errs[k] = m\<close>, and the same followed by \<open>else if (!check(v)) errs[k] = m'\<close>.\<close>

definition require :: "string \<Rightarrow> string \<Rightarrow> string \<Rightarrow> string obj \<Rightarrow> string obj" where
  "require k v m es = put_if (js_trim v = []) k m es"

definition require_valid ::
    "string \<Rightarrow> string \<Rightarrow> string \<Rightarrow> (string \<Rightarrow> bool) \<Rightarrow> string \<Rightarrow> string obj \<Rightarrow> string obj" where
  "require_valid k v m check m' es =
     (if js_trim v = [] then obj_set k m es else put_if (\<not> check (js_trim v)) k m' es)"

section \<open>DHCP servers\<close>

record server_form =
  sf_name :: string
  sf_interface :: string
  sf_address_pool :: string
  sf_lease_time :: string
  sf_disabled :: bool

definition EMPTY_SERVER :: server_form where
  "EMPTY_SERVER = \<lparr>sf_name = [], sf_interface = [], sf_address_pool = [], sf_lease_time = ''1d'', sf_disabled = False\<rparr>"

definition server_handleAdd :: "server_form table \<Rightarrow> server_form table" where
  "server_handleAdd t = open_dialog None EMPTY_SERVER t"

definition server_handleEdit :: "entry \<Rightarrow> server_form table \<Rightarrow> server_form table" where
  "server_handleEdit e t = open_dialog (Some e)
     \<lparr>sf_name = field e ''name'', sf_interface = field e ''interface'', sf_address_pool = field e ''address-pool'',
      sf_lease_time = field_or e ''lease-time'' ''1d'', sf_disabled = field_is e ''disabled'' ''true''\<rparr> t"

definition server_handleToggleDisable :: "entry \<Rightarrow> server_form table \<Rightarrow> server_form table" where
  "server_handleToggleDisable e t =
     (let newState = (if field_is e ''disabled'' ''true'' then ''false'' else ''true'') in
      queue (set_change ''/ip/dhcp-server'' (entry_id e) [(''disabled'', newState)]
        ((if newState = ''true'' then ''Disable'' else ''Enable'') @ '' DHCP server '' @ quoted (shown e ''name''))) t)"

definition server_handleDelete :: "entry \<Rightarrow> server_form table \<Rightarrow> server_form table" where
  "server_handleDelete e t = queue (remove_change ''/ip/dhcp-server'' e
     (''Delete DHCP server '' @ quoted (shown e ''name''))) t"

definition server_errors :: "server_form \<Rightarrow> string obj" where
  "server_errors f =
     require ''address-pool'' (sf_address_pool f) ''Address pool is required''
     (require ''interface'' (sf_interface f) ''Interface is required''
     (require ''name'' (sf_name f) ''Name is required'' []))"

definition server_handleSubmit :: "server_form table \<Rightarrow> server_form table" where
  "server_handleSubmit t =
     (let f = form t; errs = server_errors f in
      if errs \<noteq> [] then t\<lparr>errors := errs\<rparr>
      else
        let props = put_if (sf_disabled f) ''disabled'' ''true''
              [(''name'', js_trim (sf_name f)), (''interface'', js_trim (sf_interface f)),
               (''address-pool'', js_trim (sf_address_pool f)),
               (''lease-time'', str_or (js_trim (sf_lease_time f)) ''1d'')]
        in save_entry ''/ip/dhcp-server'' props
             (''Edit DHCP server '' @ quoted (sf_name f) @ '' on '' @ sf_interface f)
             (''Add DHCP server '' @ quoted (sf_name f) @ '' on '' @ sf_interface f
                @ '' (pool: '' @ sf_address_pool f @ '')'') t)"

section \<open>DHCP address pools\<close>

record dpool_form =
  dp_name :: string
  dp_ranges :: string

definition EMPTY_POOL :: dpool_form where
  "EMPTY_POOL = \<lparr>dp_name = [], dp_ranges = []\<rparr>"

definition dpool_handleAdd :: "dpool_form table \<Rightarrow> dpool_form table" where
  "dpool_handleAdd t = open_dialog None EMPTY_POOL t"

definition dpool_handleEdit :: "entry \<Rightarrow> dpool_form table \<Rightarrow> dpool_form table" where
  "dpool_handleEdit e t = open_dialog (Some e) \<lparr>dp_name = field e ''name'', dp_ranges = field e ''ranges''\<rparr> t"

definition dpool_handleDelete :: "entry \<Rightarrow> dpool_form table \<Rightarrow> dpool_form table" where
  "dpool_handleDelete e t = queue (remove_change ''/ip/pool'' e
     (''Delete address pool '' @ quoted (shown e ''name''))) t"

definition dpool_handleSubmit :: "dpool_form table \<Rightarrow> dpool_form table" where
  "dpool_handleSubmit t =
     (let f = form t;
          errs = require ''ranges'' (dp_ranges f) ''Range is required''
                   (require ''name'' (dp_name f) ''Name is required'' []) in
      if errs \<noteq> [] then t\<lparr>errors := errs\<rparr>
      else save_entry ''/ip/pool'' [(''name'', js_trim (dp_name f)), (''ranges'', js_trim (dp_ranges f))]
             (''Edit pool '' @ quoted (dp_name f) @ '' ranges: '' @ dp_ranges f)
             (''Add pool '' @ quoted (dp_name f) @ '' with ranges '' @ dp_ranges f) t)"

section \<open>DHCP leases\<close>

record lease_form =
  lf_address :: string
  lf_mac_address :: string
  lf_server :: string
  lf_comment :: string

definition EMPTY_LEASE :: lease_form where
  "EMPTY_LEASE = \<lparr>lf_address = [], lf_mac_address = [], lf_server = [], lf_comment = []\<rparr>"

definition lease_handleAddStatic :: "lease_form table \<Rightarrow> lease_form table" where
  "lease_handleAddStatic t = t\<lparr>form := EMPTY_LEASE, errors := [], dialogOpen := True\<rparr>"

definition lease_handleMakeStatic :: "entry \<Rightarrow> lease_form table \<Rightarrow> lease_form table" where
  "lease_handleMakeStatic e t = queue (set_change ''/ip/dhcp-server/lease'' (entry_id e) [(''make-static'', [])]
     (''Make static reservation: '' @ shown e ''address'' @ '' ('' @ shown e ''mac-address'' @ '')'')) t"

definition lease_handleDelete :: "entry \<Rightarrow> lease_form table \<Rightarrow> lease_form table" where
  "lease_handleDelete e t = queue (remove_change ''/ip/dhcp-server/lease'' e
     (''Delete lease: '' @ shown e ''address'' @ '' ('' @ shown e ''mac-address'' @ '')'')) t"

definition lease_errors :: "lease_form \<Rightarrow> string obj" where
  "lease_errors f =
     require_valid ''mac-address'' (lf_mac_address f) ''MAC address is required'' isValidMac
       ''Invalid MAC address (e.g. AA:BB:CC:DD:EE:FF)''
     (require_valid ''address'' (lf_address f) ''Address is required'' dhcp_isValidIp ''Invalid IP address'' [])"

definition lease_handleSubmit :: "lease_form table \<Rightarrow> lease_form table" where
  "lease_handleSubmit t =
     (let f = form t; errs = lease_errors f in
      if errs \<noteq> [] then t\<lparr>errors := errs\<rparr>
      else
        let props = put ''comment'' (js_trim (lf_comment f)) (put ''server'' (js_trim (lf_server f))
              [(''address'', js_trim (lf_address f)), (''mac-address'', js_trim (lf_mac_address f))])
        in close_dialog (queue (add_change ''/ip/dhcp-server/lease'' props
             (''Add static reservation: '' @ lf_address f @ '' -> '' @ lf_mac_address f)) t))"

section \<open>DHCP networks\<close>

record network_form =
  nf_address :: string
  nf_gateway :: string
  nf_dns_server :: string
  nf_domain :: string

definition EMPTY_NETWORK :: network_form where
  "EMPTY_NETWORK = \<lparr>nf_address = [], nf_gateway = [], nf_dns_server = [], nf_domain = []\<rparr>"

definition network_handleAdd :: "network_form table \<Rightarrow> network_form table" where
  "network_handleAdd t = open_dialog None EMPTY_NETWORK t"

definition network_handleEdit :: "entry \<Rightarrow> network_form table \<Rightarrow> network_form table" where
  "network_handleEdit e t = open_dialog (Some e)
     \<lparr>nf_address = field e ''address'', nf_gateway = field e ''gateway'', nf_dns_server = field e ''dns-server'',
      nf_domain = field e ''domain''\<rparr> t"

definition network_handleDelete :: "entry \<Rightarrow> network_form table \<Rightarrow> network_form table" where
  "network_handleDelete e t = queue (remove_change ''/ip/dhcp-server/network'' e
     (''Delete DHCP network '' @ shown e ''address'')) t"

definition network_errors :: "network_form \<Rightarrow> string obj" where
  "network_errors f =
     require_valid ''gateway'' (nf_gateway f) ''Gateway is required'' dhcp_isValidIp ''Invalid IP address''
     (require_valid ''address'' (nf_address f) ''Address is required'' dhcp_isValidCidr
       ''Must be CIDR format (e.g. 192.168.1.0/24)'' [])"

definition network_handleSubmit :: "network_form table \<Rightarrow> network_form table" where
  "network_handleSubmit t =
     (let f = form t; errs = network_errors f in
      if errs \<noteq> [] then t\<lparr>errors := errs\<rparr>
      else
        let props = put ''domain'' (js_trim (nf_domain f)) (put ''dns-server'' (js_trim (nf_dns_server f))
              [(''address'', js_trim (nf_address f)), (''gateway'', js_trim (nf_gateway f))])
        in save_entry ''/ip/dhcp-server/network'' props
             (''Edit DHCP network '' @ nf_address f @ '' (gw: '' @ nf_gateway f @ '')'')
             (''Add DHCP network '' @ nf_address f @ '' (gw: '' @ nf_gateway f @ '')'') t)"

section \<open>DHCP clients\<close>

record client_form =
  cf_interface :: string
  cf_use_peer_dns :: bool
  cf_use_peer_ntp :: bool
  cf_add_default_route :: bool
  cf_comment :: string

definition client_EMPTY_FORM :: client_form where
  "client_EMPTY_FORM = \<lparr>cf_interface = [], cf_use_peer_dns = True, cf_use_peer_ntp = True,
     cf_add_default_route = True, cf_comment = []\<rparr>"

definition client_handleAdd :: "client_form table \<Rightarrow> client_form table" where
  "client_handleAdd t = open_dialog None client_EMPTY_FORM t"

definition client_handleEdit :: "entry \<Rightarrow> client_form table \<Rightarrow> client_form table" where
  "client_handleEdit e t = open_dialog (if field e ''.id'' = [] then None else Some e)
     \<lparr>cf_interface = field e ''interface'', cf_use_peer_dns = (\<not> field_is e ''use-peer-dns'' ''false''),
      cf_use_peer_ntp = (\<not> field_is e ''use-peer-ntp'' ''false''),
      cf_add_default_route = (\<not> field_is e ''add-default-route'' ''no''), cf_comment = field e ''comment''\<rparr> t"

definition client_handleDelete :: "entry \<Rightarrow> client_form table \<Rightarrow> client_form table" where
  "client_handleDelete e t = queue (remove_change ''/ip/dhcp-client'' e
     (''Remove DHCP client on '' @ shown e ''interface'')) t"

definition client_handleToggle :: "entry \<Rightarrow> client_form table \<Rightarrow> client_form table" where
  "client_handleToggle e t =
     (let newDisabled = (if field_is e ''disabled'' ''true'' then ''false'' else ''true'') in
      queue (set_change ''/ip/dhcp-client'' (entry_id e) [(''disabled'', newDisabled)]
        ((if newDisabled = ''true'' then ''Disable'' else ''Enable'') @ '' DHCP client on '' @ shown e ''interface'')) t)"

definition yes_no :: "bool \<Rightarrow> string" where
  "yes_no b = (if b then ''yes'' else ''no'')"

text \<open>The dialog keeps only the id of the edited entry; without one it adds.\<close>

definition client_handleSave :: "client_form table \<Rightarrow> client_form table" where
  "client_handleSave t =
     (let f = form t; errs = require ''interface'' (cf_interface f) ''Interface is required'' [] in
      if errs \<noteq> [] then t\<lparr>errors := errs\<rparr>
      else
        let properties = put ''comment'' (js_trim (cf_comment f))
              [(''interface'', js_trim (cf_interface f)), (''use-peer-dns'', yes_no (cf_use_peer_dns f)),
               (''use-peer-ntp'', yes_no (cf_use_peer_ntp f)), (''add-default-route'', yes_no (cf_add_default_route f))]
        in save_entry ''/ip/dhcp-client'' properties
             (''Update DHCP client on '' @ cf_interface f) (''Add DHCP client on '' @ cf_interface f) t)"

section \<open>Static DNS entries\<close>

record static_form =
  st_name :: string
  st_address :: string
  st_type :: string
  st_ttl :: string
  st_disabled :: bool

definition dns_EMPTY_FORM :: static_form where
  "dns_EMPTY_FORM = \<lparr>st_name = [], st_address = [], st_type = ''A'', st_ttl = [], st_disabled = False\<rparr>"

definition dns_isValidIp :: "string \<Rightarrow> bool" where
  "dns_isValidIp value \<longleftrightarrow> test IP_REGEX value
     \<or> (let hexcolon = (\<lambda>c. is_digit 16 c \<or> c = CHR '':'') in test (Cat (Cls hexcolon) (Run hexcolon)) value)"

definition dns_validateForm :: "static_form \<Rightarrow> string obj" where
  "dns_validateForm f =
     (let es = require ''name'' (st_name f) ''Name is required'' [] in
      if js_trim (st_address f) = [] then obj_set ''address'' ''Address is required'' es
      else put_if ((st_type f = ''A'' \<or> st_type f = ''AAAA'') \<and> \<not> dns_isValidIp (st_address f))
             ''address'' ''Invalid IP address'' es)"

definition dns_handleAdd :: "static_form table \<Rightarrow> static_form table" where
  "dns_handleAdd t = open_dialog None dns_EMPTY_FORM t"

definition dns_handleEdit :: "entry \<Rightarrow> static_form table \<Rightarrow> static_form table" where
  "dns_handleEdit e t = open_dialog (Some e)
     \<lparr>st_name = field e ''name'', st_address = field e ''address'', st_type = field_or e ''type'' ''A'',
      st_ttl = field e ''ttl'', st_disabled = field_is e ''disabled'' ''true''\<rparr> t"

definition dns_handleDelete :: "entry \<Rightarrow> static_form table \<Rightarrow> static_form table" where
  "dns_handleDelete e t = queue (remove_change ''/ip/dns/static'' e
     (''Delete static DNS: '' @ shown e ''name'' @ '' -> '' @ shown e ''address'')) t"

definition dns_handleSubmitEntry :: "static_form table \<Rightarrow> static_form table" where
  "dns_handleSubmitEntry t =
     (let f = form t; errs = dns_validateForm f in
      if errs \<noteq> [] then t\<lparr>errors := errs\<rparr>
      else
        let props = put_if (st_disabled f) ''disabled'' ''true'' (put ''ttl'' (js_trim (st_ttl f))
              [(''name'', js_trim (st_name f)), (''address'', js_trim (st_address f)), (''type'', st_type f)])
        in save_entry ''/ip/dns/static'' props
             (''Edit static DNS: '' @ st_name f @ '' -> '' @ st_address f)
             (''Add static DNS: '' @ st_name f @ '' -> '' @ st_address f @ '' ('' @ st_type f @ '')'') t)"

text \<open>The resolver settings: an edit buffer per field, \<open>null\<close> when untouched.\<close>

record dns_settings =
  editedServers :: "string option"
  editedAllowRemote :: "string option"
  editedMaxUdp :: "string option"
  editedCacheSize :: "string option"

definition dns_untouched :: dns_settings where
  "dns_untouched = \<lparr>editedServers = None, editedAllowRemote = None, editedMaxUdp = None, editedCacheSize = None\<rparr>"

definition put_edited :: "string \<Rightarrow> string option \<Rightarrow> string obj \<Rightarrow> string obj" where
  "put_edited k v ps = (case v of None \<Rightarrow> ps | Some x \<Rightarrow> obj_set k x ps)"

definition settings_props :: "dns_settings \<Rightarrow> string obj" where
  "settings_props s =
     put_edited ''cache-size'' (editedCacheSize s) (put_edited ''max-udp-packet-size'' (editedMaxUdp s)
     (put_edited ''allow-remote-requests'' (editedAllowRemote s) (put_edited ''servers'' (editedServers s) [])))"

definition handleSaveSettings :: "entry option \<Rightarrow> dns_settings \<Rightarrow> panel \<Rightarrow> dns_settings \<times> panel" where
  "handleSaveSettings settings s p =
     (let props = settings_props s in
      if props = [] then (s, p)
      else
        let descParts = concat (map (\<lambda>k. case obj_get props k of None \<Rightarrow> [] | Some v \<Rightarrow> [k @ ''='' @ v])
              [''servers'', ''allow-remote-requests'', ''max-udp-packet-size'', ''cache-size''])
        in (dns_untouched,
            addChange (set_change ''/ip/dns'' (Option.bind settings entry_id) props
              (''Update DNS resolver: '' @ join '', '' descParts)) p))"

section \<open>The contract\<close>

lemma plain_words_dhcp [simp]:
  "plain ''/ip/dhcp-server''" "plain ''/ip/dhcp-server/lease''" "plain ''/ip/dhcp-server/network''"
  "plain ''/ip/dhcp-client''" "plain ''/ip/dns/static''" "plain ''/ip/dns''"
  "plain ''disabled''" "plain ''address-pool''" "plain ''lease-time''" "plain ''make-static''" "plain ''server''"
  "plain ''comment''" "plain ''dns-server''" "plain ''domain''" "plain ''use-peer-dns''" "plain ''use-peer-ntp''"
  "plain ''add-default-route''" "plain ''type''" "plain ''ttl''"
  "plain ''servers''" "plain ''allow-remote-requests''" "plain ''max-udp-packet-size''" "plain ''cache-size''"
  by code_simp+

interpretation server: staging_table "[server_handleAdd, server_handleSubmit]"
    "[server_handleEdit, server_handleToggleDisable, server_handleDelete]"
  by unfold_locales
    (auto simp: server_handleAdd_def server_handleEdit_def server_handleToggleDisable_def server_handleDelete_def
      server_handleSubmit_def has_id_plain table_defs)

interpretation dpool: staging_table "[dpool_handleAdd, dpool_handleSubmit]" "[dpool_handleEdit, dpool_handleDelete]"
  by unfold_locales
    (auto simp: dpool_handleAdd_def dpool_handleEdit_def dpool_handleDelete_def dpool_handleSubmit_def table_defs)

lemma lease_add_stages: "table_ok t \<Longrightarrow> stages t (lease_handleAddStatic t)"
  by (auto simp: lease_handleAddStatic_def stages_def table_ok_def intro!: exI [of _ "[]"])

interpretation lease: staging_table "[lease_handleAddStatic, lease_handleSubmit]"
    "[lease_handleMakeStatic, lease_handleDelete]"
  by unfold_locales
    (auto simp: lease_add_stages lease_handleMakeStatic_def lease_handleDelete_def lease_handleSubmit_def
      has_id_plain table_defs)

interpretation network: staging_table "[network_handleAdd, network_handleSubmit]"
    "[network_handleEdit, network_handleDelete]"
  by unfold_locales
    (auto simp: network_handleAdd_def network_handleEdit_def network_handleDelete_def network_handleSubmit_def table_defs)

interpretation client: staging_table "[client_handleAdd, client_handleSave]"
    "[client_handleEdit, client_handleDelete, client_handleToggle]"
  by unfold_locales
    (auto simp: client_handleAdd_def client_handleEdit_def client_handleDelete_def client_handleToggle_def
      client_handleSave_def has_id_plain table_defs)

interpretation dns: staging_table "[dns_handleAdd, dns_handleSubmitEntry]" "[dns_handleEdit, dns_handleDelete]"
  by unfold_locales
    (auto simp: dns_handleAdd_def dns_handleEdit_def dns_handleDelete_def dns_handleSubmitEntry_def table_defs)

lemma props_ok_edited [simp]: "plain k \<Longrightarrow> props_ok ps \<Longrightarrow> props_ok (put_edited k v ps)"
  by (simp add: put_edited_def split: option.split)

lemma save_settings_staged:
  assumes "\<And>e. settings = Some e \<Longrightarrow> has_id e" and "list_all staged (pendingChanges p)"
  shows "list_all staged (pendingChanges (snd (handleSaveSettings settings s p)))"
  using assms
  by (auto simp: handleSaveSettings_def addChange_def Let_def settings_props_def has_id_plain bind_eq_Some_conv)

end
