(* ===== verification/FirewallPanels.thy ===== *)
theory FirewallPanels
  imports DhcpPanels
begin

text \<open>
  \<^verbatim>\<open>FirewallPanel.tsx\<close> (filter and NAT rules, rule actions, moves), \<^verbatim>\<open>ManglePanel.tsx\<close> and
  \<^verbatim>\<open>AddressListPanel.tsx\<close>. The firewall forms report a validation error as a message instead of per
  field; the component \<open>errors\<close> of the table then holds its title and text.
\<close>

section \<open>Firewall rules\<close>

definition FILTER_PATH :: string where
  "FILTER_PATH = ''/ip/firewall/filter''"

definition NAT_PATH :: string where
  "NAT_PATH = ''/ip/firewall/nat''"

record filter_form =
  ff_chain :: string
  ff_action :: string
  ff_protocol :: string
  ff_src_address :: string
  ff_dst_address :: string
  ff_src_port :: string
  ff_dst_port :: string
  ff_in_interface :: string
  ff_out_interface :: string
  ff_comment :: string
  ff_disabled :: bool

definition DEFAULT_FILTER_FORM :: filter_form where
  "DEFAULT_FILTER_FORM = \<lparr>ff_chain = ''input'', ff_action = ''accept'', ff_protocol = [], ff_src_address = [],
     ff_dst_address = [], ff_src_port = [], ff_dst_port = [], ff_in_interface = [], ff_out_interface = [],
     ff_comment = [], ff_disabled = False\<rparr>"

record nat_form =
  nat_chain :: string
  nat_action :: string
  nat_protocol :: string
  nat_src_address :: string
  nat_dst_address :: string
  nat_src_port :: string
  nat_dst_port :: string
  nat_to_addresses :: string
  nat_to_ports :: string
  nat_comment :: string
  nat_disabled :: bool

definition DEFAULT_NAT_FORM :: nat_form where
  "DEFAULT_NAT_FORM = \<lparr>nat_chain = ''srcnat'', nat_action = ''masquerade'', nat_protocol = [], nat_src_address = [],
     nat_dst_address = [], nat_src_port = [], nat_dst_port = [], nat_to_addresses = [], nat_to_ports = [],
     nat_comment = [], nat_disabled = False\<rparr>"

definition somes :: "'a option list \<Rightarrow> 'a list" where
  "somes xs = concat (map (\<lambda>x. case x of None \<Rightarrow> [] | Some y \<Rightarrow> [y]) xs)"

text \<open>\<open>entry['.id'] || null\<close>.\<close>

definition edit_id :: "entry \<Rightarrow> string option" where
  "edit_id e = (if field e ''.id'' = [] then None else Some (field e ''.id''))"

definition save_rule ::
    "string \<Rightarrow> string obj \<Rightarrow> (string \<Rightarrow> string) \<Rightarrow> string \<Rightarrow> 'f table \<Rightarrow> 'f table" where
  "save_rule path props editDesc addDesc t = close_dialog
     (case editing t of
        None \<Rightarrow> queue (add_change path props addDesc) t
      | Some e \<Rightarrow> queue (set_change path (edit_id e) props
            (editDesc (case edit_id e of None \<Rightarrow> [] | Some i \<Rightarrow> i))) t)"

definition openAddFilter :: "filter_form table \<Rightarrow> filter_form table" where
  "openAddFilter t = open_dialog None DEFAULT_FILTER_FORM t"

definition filter_form_of :: "entry \<Rightarrow> filter_form" where
  "filter_form_of e = \<lparr>ff_chain = field_or e ''chain'' ''input'', ff_action = field_or e ''action'' ''accept'',
     ff_protocol = field e ''protocol'', ff_src_address = field e ''src-address'',
     ff_dst_address = field e ''dst-address'', ff_src_port = field e ''src-port'', ff_dst_port = field e ''dst-port'',
     ff_in_interface = field e ''in-interface'', ff_out_interface = field e ''out-interface'',
     ff_comment = field e ''comment'', ff_disabled = field_is e ''disabled'' ''true''\<rparr>"

definition openEditFilter :: "entry \<Rightarrow> filter_form table \<Rightarrow> filter_form table" where
  "openEditFilter e t = open_dialog (Some e) (filter_form_of e) t"

definition filter_props :: "filter_form \<Rightarrow> string obj" where
  "filter_props f =
     put_if (ff_disabled f) ''disabled'' ''true'' (put ''comment'' (ff_comment f)
     (put ''out-interface'' (ff_out_interface f) (put ''in-interface'' (ff_in_interface f)
     (put ''dst-port'' (ff_dst_port f) (put ''src-port'' (ff_src_port f)
     (put ''dst-address'' (ff_dst_address f) (put ''src-address'' (ff_src_address f)
     (put ''protocol'' (ff_protocol f) [(''chain'', ff_chain f), (''action'', ff_action f)]))))))))"

definition submitFilterForm :: "filter_form table \<Rightarrow> filter_form table" where
  "submitFilterForm t =
     (let f = form t;
          errs = somes [validateIpCidr (ff_src_address f), validateIpCidr (ff_dst_address f),
                        validatePort (ff_src_port f), validatePort (ff_dst_port f)] in
      if errs \<noteq> [] then t\<lparr>errors := [(''Validation error'', hd errs)]\<rparr>
      else save_rule FILTER_PATH (filter_props f) (\<lambda>i. ''Edit filter rule '' @ i)
             (''Add '' @ ff_action f @ '' rule on '' @ ff_chain f @ '' chain'') t)"

definition openAddNat :: "nat_form table \<Rightarrow> nat_form table" where
  "openAddNat t = open_dialog None DEFAULT_NAT_FORM t"

definition nat_form_of :: "entry \<Rightarrow> nat_form" where
  "nat_form_of e = \<lparr>nat_chain = field_or e ''chain'' ''srcnat'', nat_action = field_or e ''action'' ''masquerade'',
     nat_protocol = field e ''protocol'', nat_src_address = field e ''src-address'',
     nat_dst_address = field e ''dst-address'', nat_src_port = field e ''src-port'', nat_dst_port = field e ''dst-port'',
     nat_to_addresses = field e ''to-addresses'', nat_to_ports = field e ''to-ports'',
     nat_comment = field e ''comment'', nat_disabled = field_is e ''disabled'' ''true''\<rparr>"

definition openEditNat :: "entry \<Rightarrow> nat_form table \<Rightarrow> nat_form table" where
  "openEditNat e t = open_dialog (Some e) (nat_form_of e) t"

definition nat_props :: "nat_form \<Rightarrow> string obj" where
  "nat_props f =
     put_if (nat_disabled f) ''disabled'' ''true'' (put ''comment'' (nat_comment f)
     (put ''to-ports'' (nat_to_ports f) (put ''to-addresses'' (nat_to_addresses f)
     (put ''dst-port'' (nat_dst_port f) (put ''src-port'' (nat_src_port f)
     (put ''dst-address'' (nat_dst_address f) (put ''src-address'' (nat_src_address f)
     (put ''protocol'' (nat_protocol f) [(''chain'', nat_chain f), (''action'', nat_action f)]))))))))"

definition submitNatForm :: "nat_form table \<Rightarrow> nat_form table" where
  "submitNatForm t =
     (let f = form t;
          errs = somes [validateIpCidr (nat_src_address f), validateIpCidr (nat_dst_address f),
                        validatePort (nat_src_port f), validatePort (nat_dst_port f)] in
      if errs \<noteq> [] then t\<lparr>errors := [(''Validation error'', hd errs)]\<rparr>
      else save_rule NAT_PATH (nat_props f) (\<lambda>i. ''Edit NAT rule '' @ i)
             (''Add '' @ nat_action f @ '' NAT rule on '' @ nat_chain f @ '' chain'') t)"

text \<open>The actions both tables share.\<close>

definition rule_handleToggleDisable :: "string \<Rightarrow> entry \<Rightarrow> 'f table \<Rightarrow> 'f table" where
  "rule_handleToggleDisable path e t =
     (let isDisabled = field_is e ''disabled'' ''true'' in
      queue (set_change path (entry_id e) [(''disabled'', if isDisabled then ''false'' else ''true'')]
        ((if isDisabled then ''Enable'' else ''Disable'') @ '' rule '' @ field e ''.id'')) t)"

definition handleDeleteRule :: "string \<Rightarrow> entry \<Rightarrow> 'f table \<Rightarrow> 'f table" where
  "handleDeleteRule path e t = queue (remove_change path e
     (''Delete rule '' @ field e ''.id'' @ '' ('' @ field_or e ''action'' ''unknown''
        @ '' on '' @ field_or e ''chain'' ''unknown'' @ '')'')) t"

text \<open>Moving a filter rule is not staged: it executes at once. The outcome is the message shown.\<close>

datatype direction = Up | Down

definition move_destination :: "nat \<Rightarrow> direction \<Rightarrow> int" where
  "move_destination index d = (case d of Up \<Rightarrow> int index - 1 | Down \<Rightarrow> int index + 1)"

definition move_command :: "entry \<Rightarrow> nat \<Rightarrow> direction \<Rightarrow> editor_call option" where
  "move_command e index d =
     (if field e ''.id'' = [] \<or> move_destination index d < 0 then None
      else Some (Execute (FILTER_PATH @ ''/move .id='' @ field e ''.id''
             @ '' destination='' @ string_of_int (move_destination index d))))"

definition handleMoveRule ::
    "'d device \<Rightarrow> entry \<Rightarrow> nat \<Rightarrow> direction \<Rightarrow> 'd \<Rightarrow> 'd \<times> string option" where
  "handleMoveRule dev e index d s =
     (case move_command e index d of
        None \<Rightarrow> (s, None)
      | Some call \<Rightarrow>
          (case dev call s of
             (s', Inl err) \<Rightarrow> (s', Some ''Failed to move rule'')
           | (s', Inr r) \<Rightarrow> (s', Some (if cr_success r
                then ''Rule moved '' @ (case d of Up \<Rightarrow> ''up'' | Down \<Rightarrow> ''down'')
                else ''Failed to move rule''))))"

section \<open>Mangle rules\<close>

record mangle_form =
  mf_chain :: string
  mf_action :: string
  mf_src_address :: string
  mf_dst_address :: string
  mf_protocol :: string
  mf_dst_port :: string
  mf_new_connection_mark :: string
  mf_new_packet_mark :: string
  mf_new_routing_mark :: string
  mf_comment :: string

definition mangle_EMPTY_FORM :: mangle_form where
  "mangle_EMPTY_FORM = \<lparr>mf_chain = ''prerouting'', mf_action = ''mark-connection'', mf_src_address = [],
     mf_dst_address = [], mf_protocol = [], mf_dst_port = [], mf_new_connection_mark = [], mf_new_packet_mark = [],
     mf_new_routing_mark = [], mf_comment = []\<rparr>"

definition mangle_filtered :: "string \<Rightarrow> entry list \<Rightarrow> entry list" where
  "mangle_filtered chainFilter es =
     (if chainFilter = ''all'' then es else filter (\<lambda>e. field_is e ''chain'' chainFilter) es)"

definition mangle_handleAdd :: "mangle_form table \<Rightarrow> mangle_form table" where
  "mangle_handleAdd t = t\<lparr>editing := None, form := mangle_EMPTY_FORM, dialogOpen := True\<rparr>"

definition mangle_handleEdit :: "entry \<Rightarrow> mangle_form table \<Rightarrow> mangle_form table" where
  "mangle_handleEdit e t = t\<lparr>editing := Some e, form :=
     \<lparr>mf_chain = field_or e ''chain'' ''prerouting'', mf_action = field_or e ''action'' ''mark-connection'',
      mf_src_address = field e ''src-address'', mf_dst_address = field e ''dst-address'',
      mf_protocol = field e ''protocol'', mf_dst_port = field e ''dst-port'',
      mf_new_connection_mark = field e ''new-connection-mark'', mf_new_packet_mark = field e ''new-packet-mark'',
      mf_new_routing_mark = field e ''new-routing-mark'', mf_comment = field e ''comment''\<rparr>, dialogOpen := True\<rparr>"

definition mangle_handleDelete :: "entry \<Rightarrow> mangle_form table \<Rightarrow> mangle_form table" where
  "mangle_handleDelete e t = queue (remove_change ''/ip/firewall/mangle'' e
     (js_trim (''Remove mangle rule '' @ shown e ''chain'' @ ''/'' @ shown e ''action'' @ '' '' @ field e ''comment''))) t"

definition mangle_props :: "mangle_form \<Rightarrow> string obj" where
  "mangle_props f =
     put ''comment'' (mf_comment f) (put ''new-routing-mark'' (mf_new_routing_mark f)
     (put ''new-packet-mark'' (mf_new_packet_mark f) (put ''new-connection-mark'' (mf_new_connection_mark f)
     (put ''dst-port'' (mf_dst_port f) (put ''protocol'' (mf_protocol f)
     (put ''dst-address'' (mf_dst_address f) (put ''src-address'' (mf_src_address f)
       [(''chain'', mf_chain f), (''action'', mf_action f)])))))))"

definition mangle_handleSave :: "mangle_form table \<Rightarrow> mangle_form table" where
  "mangle_handleSave t =
     (let f = form t in
      if mf_chain f = [] \<or> mf_action f = [] then t
      else save_entry ''/ip/firewall/mangle'' (mangle_props f)
             (''Edit mangle '' @ mf_chain f @ ''/'' @ mf_action f)
             (js_trim (''Add mangle '' @ mf_chain f @ ''/'' @ mf_action f @ '' '' @ mf_comment f)) t)"

section \<open>Address lists\<close>

text \<open>The form also holds the two fields of the bulk import and whether that dialog is open.\<close>

record addrlist_form =
  al_list :: string
  al_address :: string
  al_comment :: string
  al_bulkOpen :: bool
  al_bulkList :: string
  al_bulkAddresses :: string

definition addrlist_EMPTY_FORM :: addrlist_form where
  "addrlist_EMPTY_FORM = \<lparr>al_list = [], al_address = [], al_comment = [], al_bulkOpen = False,
     al_bulkList = [], al_bulkAddresses = []\<rparr>"

definition group_entry :: "entry \<Rightarrow> entry list obj \<Rightarrow> entry list obj" where
  "group_entry e m = (let l = field_or e ''list'' ''unknown'' in
     obj_set l ((case obj_get m l of None \<Rightarrow> [] | Some es \<Rightarrow> es) @ [e]) m)"

text \<open>The groups, sorted by name with the locale's comparison \<open>le\<close>.\<close>

definition grouped :: "(string \<Rightarrow> string \<Rightarrow> bool) \<Rightarrow> entry list \<Rightarrow> entry list obj" where
  "grouped le es = sort_by (\<lambda>p q. le (fst p) (fst q)) (fold group_entry es [])"

definition toggleCollapse :: "string \<Rightarrow> string list \<Rightarrow> string list" where
  "toggleCollapse n collapsed = (if n \<in> set collapsed then filter (\<lambda>x. x \<noteq> n) collapsed else collapsed @ [n])"

definition addrlist_handleAdd :: "addrlist_form table \<Rightarrow> addrlist_form table" where
  "addrlist_handleAdd t = t\<lparr>form := (form t)\<lparr>al_list := [], al_address := [], al_comment := []\<rparr>, dialogOpen := True\<rparr>"

definition addrlist_handleDelete :: "entry \<Rightarrow> addrlist_form table \<Rightarrow> addrlist_form table" where
  "addrlist_handleDelete e t = queue (remove_change ''/ip/firewall/address-list'' e
     (''Remove '' @ shown e ''address'' @ '' from list '' @ quoted (shown e ''list''))) t"

definition addrlist_handleSave :: "addrlist_form table \<Rightarrow> addrlist_form table" where
  "addrlist_handleSave t =
     (let f = form t in
      if al_list f = [] \<or> al_address f = [] then t
      else close_dialog (queue (add_change ''/ip/firewall/address-list''
          (put ''comment'' (al_comment f) [(''list'', al_list f), (''address'', al_address f)])
          (''Add '' @ al_address f @ '' to list '' @ quoted (al_list f))) t))"

definition bulk_lines :: "string \<Rightarrow> string list" where
  "bulk_lines text = filter (\<lambda>a. a \<noteq> []) (map js_trim (split_on (CHR 0x0A) text))"

definition bulk_change :: "string \<Rightarrow> string \<Rightarrow> config_change" where
  "bulk_change bulkList addr = add_change ''/ip/firewall/address-list''
     [(''list'', bulkList), (''address'', addr)] (''Add '' @ addr @ '' to list '' @ quoted bulkList)"

definition handleBulkImport :: "addrlist_form table \<Rightarrow> addrlist_form table" where
  "handleBulkImport t =
     (let f = form t in
      if al_bulkList f = [] \<or> js_trim (al_bulkAddresses f) = [] then t
      else (fold queue (map (bulk_change (al_bulkList f)) (bulk_lines (al_bulkAddresses f))) t)
             \<lparr>form := f\<lparr>al_bulkOpen := False, al_bulkAddresses := []\<rparr>\<rparr>)"

section \<open>The contract\<close>

lemma plain_words_firewall [simp]:
  "plain FILTER_PATH" "plain NAT_PATH" "plain ''/ip/firewall/mangle''" "plain ''/ip/firewall/address-list''"
  "plain ''chain''" "plain ''action''" "plain ''protocol''" "plain ''src-address''" "plain ''src-port''"
  "plain ''dst-port''" "plain ''in-interface''" "plain ''out-interface''" "plain ''to-addresses''" "plain ''to-ports''"
  "plain ''new-connection-mark''" "plain ''new-packet-mark''" "plain ''new-routing-mark''" "plain ''list''"
  by code_simp+

lemma edit_id_plain: "has_id e \<Longrightarrow> edit_id e = Some i \<Longrightarrow> plain i"
  by (auto simp: has_id_def edit_id_def field_def entry_id_def split: option.splits if_splits)

lemma stages_save_rule [simp, intro]:
  "table_ok t \<Longrightarrow> plain path \<Longrightarrow> props_ok ps \<Longrightarrow> ps \<noteq> [] \<Longrightarrow> stages t (save_rule path ps d d' t)"
  unfolding save_rule_def
  by (intro stages_close) (auto simp: table_ok_def edit_id_plain split: option.splits)

lemma stages_toggle [simp, intro]:
  "table_ok t \<Longrightarrow> plain path \<Longrightarrow> has_id e \<Longrightarrow> stages t (rule_handleToggleDisable path e t)"
  by (auto simp: rule_handleToggleDisable_def has_id_plain Let_def)

lemma stages_delete_rule [simp, intro]:
  "table_ok t \<Longrightarrow> plain path \<Longrightarrow> has_id e \<Longrightarrow> stages t (handleDeleteRule path e t)"
  by (simp add: handleDeleteRule_def)

interpretation filter_rules: staging_table "[openAddFilter, submitFilterForm]"
    "[openEditFilter, rule_handleToggleDisable FILTER_PATH, handleDeleteRule FILTER_PATH]"
  by unfold_locales
    (auto simp: openAddFilter_def openEditFilter_def submitFilterForm_def filter_props_def table_defs)

interpretation nat_rules: staging_table "[openAddNat, submitNatForm]"
    "[openEditNat, rule_handleToggleDisable NAT_PATH, handleDeleteRule NAT_PATH]"
  by unfold_locales
    (auto simp: openAddNat_def openEditNat_def submitNatForm_def nat_props_def table_defs)

lemma stages_same_panel: "table_ok t' \<Longrightarrow> t_panel t' = t_panel t \<Longrightarrow> stages t t'"
  by (auto simp: stages_def intro!: exI [of _ "[]"])

lemma mangle_open_stages:
  "stages t (mangle_handleAdd t)" "has_id e \<Longrightarrow> stages t (mangle_handleEdit e t)"
  by (simp_all add: stages_same_panel table_ok_def mangle_handleAdd_def mangle_handleEdit_def)

interpretation mangle: staging_table "[mangle_handleAdd, mangle_handleSave]"
    "[mangle_handleEdit, mangle_handleDelete]"
  by unfold_locales
    (auto simp: mangle_open_stages mangle_handleDelete_def mangle_handleSave_def mangle_props_def
      stages_refl table_defs)

lemma stages_fold_queue: "table_ok t \<Longrightarrow> \<forall>c \<in> set cs. staged c \<Longrightarrow> stages t (fold queue cs t)"
proof (induction cs arbitrary: t)
  case (Cons c cs)
  then have s: "stages t (queue c t)" by simp
  then have "table_ok (queue c t)" by (simp add: stages_def)
  with Cons s show ?case by (auto intro: stages_trans)
qed (simp add: stages_refl)

lemma bulk_staged: "staged (bulk_change l a)"
  by (simp add: bulk_change_def)

lemma bulk_stages: "table_ok t \<Longrightarrow> stages t (handleBulkImport t)"
proof -
  assume t: "table_ok t"
  let ?u = "fold queue (map (bulk_change (al_bulkList (form t))) (bulk_lines (al_bulkAddresses (form t)))) t"
  have "stages t ?u" using t by (intro stages_fold_queue) (auto simp: bulk_staged)
  then have "stages t (?u\<lparr>form := f\<rparr>)" for f by (simp add: stages_def table_ok_def)
  then show ?thesis using t by (simp add: handleBulkImport_def stages_refl Let_def)
qed

lemma addrlist_add_stages: "table_ok t \<Longrightarrow> stages t (addrlist_handleAdd t)"
  by (simp add: stages_same_panel table_ok_def addrlist_handleAdd_def)

interpretation addrlist: staging_table "[addrlist_handleAdd, addrlist_handleSave, handleBulkImport]"
    "[addrlist_handleDelete]"
  by unfold_locales
    (auto simp: addrlist_add_stages bulk_stages addrlist_handleDelete_def addrlist_handleSave_def
      stages_refl table_defs)

end
