(* ===== verification/KeyedPanels.thy ===== *)
theory KeyedPanels
  imports FirewallPanels
begin

text \<open>
  The panels whose form is a \<open>Record<string, string>\<close> over a fixed list of keys and whose edit stages only
  the fields that differ from the entry: \<^verbatim>\<open>BridgePortPanel.tsx\<close>, \<^verbatim>\<open>BridgeVlanPanel.tsx\<close>,
  \<^verbatim>\<open>ConnTrackPanel.tsx\<close> and \<^verbatim>\<open>SnmpPanel.tsx\<close>. Such a form is a function from keys, its object
  \<open>keyed ks f\<close> lists the keys in the order the code creates them.
\<close>

type_synonym keyed_form = "string \<Rightarrow> string"

definition keyed :: "string list \<Rightarrow> keyed_form \<Rightarrow> string obj" where
  "keyed ks f = map (\<lambda>k. (k, f k)) ks"

text \<open>A form written as a literal object.\<close>

definition form_lit :: "string obj \<Rightarrow> keyed_form" where
  "form_lit ps k = (case obj_get ps k of None \<Rightarrow> [] | Some v \<Rightarrow> v)"

text \<open>\<open>if (value && value !== entry[key])\<close>, and the variant that also stages empty values.\<close>

definition diff_nonempty :: "entry \<Rightarrow> string obj \<Rightarrow> string obj" where
  "diff_nonempty e ps = filter (\<lambda>(k, v). v \<noteq> [] \<and> obj_get e k \<noteq> Some v) ps"

definition diff_any :: "entry \<Rightarrow> string obj \<Rightarrow> string obj" where
  "diff_any e ps = filter (\<lambda>(k, v). obj_get e k \<noteq> Some v) ps"

definition open_keyed :: "entry option \<Rightarrow> keyed_form \<Rightarrow> keyed_form table \<Rightarrow> keyed_form table" where
  "open_keyed en f t = t\<lparr>editing := en, form := f, dialogOpen := True\<rparr>"

text \<open>The common save: an edit stages the difference, if any; an addition the whole form.\<close>

definition save_keyed ::
    "string \<Rightarrow> (entry \<Rightarrow> string obj \<Rightarrow> string obj) \<Rightarrow> string list \<Rightarrow> string \<Rightarrow> string \<Rightarrow>
     keyed_form table \<Rightarrow> keyed_form table" where
  "save_keyed path diff ks editDesc addDesc t = close_dialog
     (case editing t of
        Some e \<Rightarrow>
          let props = diff e (keyed ks (form t)) in
          if props = [] then t else queue (set_change path (entry_id e) props editDesc) t
      | None \<Rightarrow> queue (add_change path (keyed ks (form t)) addDesc) t)"

section \<open>Bridge ports\<close>

definition port_keys :: "string list" where
  "port_keys = [''interface'', ''bridge'', ''pvid'', ''frame-types'', ''ingress-filtering'', ''path-cost'',
     ''priority'', ''edge'', ''hw'']"

definition bridgeNames :: "entry list \<Rightarrow> string list" where
  "bridgeNames bridges = filter (\<lambda>n. n \<noteq> []) (map (\<lambda>b. field b ''name'') bridges)"

definition first_or :: "string list \<Rightarrow> string \<Rightarrow> string" where
  "first_or ns d = (case ns of [] \<Rightarrow> d | n # _ \<Rightarrow> str_or n d)"

definition port_handleAdd :: "string list \<Rightarrow> keyed_form table \<Rightarrow> keyed_form table" where
  "port_handleAdd names t = open_keyed None (form_lit
     [(''interface'', []), (''bridge'', first_or names ''bridge1''), (''pvid'', ''1''), (''frame-types'', ''admit-all''),
      (''ingress-filtering'', ''no''), (''path-cost'', ''10''), (''priority'', ''0x80''), (''edge'', ''auto''),
      (''hw'', ''yes'')]) t"

definition port_handleEdit :: "entry \<Rightarrow> keyed_form table \<Rightarrow> keyed_form table" where
  "port_handleEdit e t = open_keyed (Some e) (form_lit
     [(''interface'', field e ''interface''), (''bridge'', field e ''bridge''), (''pvid'', field_or e ''pvid'' ''1''),
      (''frame-types'', field_or e ''frame-types'' ''admit-all''),
      (''ingress-filtering'', field_or e ''ingress-filtering'' ''no''), (''path-cost'', field_or e ''path-cost'' ''10''),
      (''priority'', field_or e ''priority'' ''0x80''), (''edge'', field_or e ''edge'' ''auto''),
      (''hw'', field_or e ''hw'' ''yes'')]) t"

definition port_handleSave :: "keyed_form table \<Rightarrow> keyed_form table" where
  "port_handleSave t =
     (let f = form t in
      if f ''interface'' = [] \<or> f ''bridge'' = [] then t
      else save_keyed ''/interface/bridge/port'' diff_nonempty port_keys
             (''Update bridge port '' @ f ''interface'' @ '' on '' @ f ''bridge'')
             (''Add '' @ f ''interface'' @ '' to bridge '' @ f ''bridge'') t)"

definition port_handleDelete :: "entry \<Rightarrow> keyed_form table \<Rightarrow> keyed_form table" where
  "port_handleDelete e t = queue (remove_change ''/interface/bridge/port'' e
     (''Remove '' @ shown e ''interface'' @ '' from bridge '' @ shown e ''bridge'')) t"

section \<open>Bridge VLANs\<close>

definition vlan_keys :: "string list" where
  "vlan_keys = [''bridge'', ''vlan-ids'', ''tagged'', ''untagged'']"

definition bvlan_handleAdd :: "string list \<Rightarrow> keyed_form table \<Rightarrow> keyed_form table" where
  "bvlan_handleAdd names t = open_keyed None (form_lit
     [(''bridge'', first_or names ''bridge1''), (''vlan-ids'', []), (''tagged'', []), (''untagged'', [])]) t"

definition bvlan_form_of :: "entry \<Rightarrow> keyed_form" where
  "bvlan_form_of e = form_lit [(''bridge'', field e ''bridge''), (''vlan-ids'', field e ''vlan-ids''),
     (''tagged'', field e ''tagged''), (''untagged'', field e ''untagged'')]"

definition bvlan_handleEdit :: "entry \<Rightarrow> keyed_form table \<Rightarrow> keyed_form table" where
  "bvlan_handleEdit e t = open_keyed (Some e) (bvlan_form_of e) t"

definition bvlan_handleSave :: "keyed_form table \<Rightarrow> keyed_form table" where
  "bvlan_handleSave t =
     (let f = form t in
      if f ''vlan-ids'' = [] \<or> f ''bridge'' = [] then t
      else save_keyed ''/interface/bridge/vlan'' diff_any vlan_keys
             (''Update VLAN '' @ f ''vlan-ids'' @ '' on '' @ f ''bridge'')
             (''Add VLAN '' @ f ''vlan-ids'' @ '' to '' @ f ''bridge'') t)"

definition bvlan_handleDelete :: "entry \<Rightarrow> keyed_form table \<Rightarrow> keyed_form table" where
  "bvlan_handleDelete e t = queue (remove_change ''/interface/bridge/vlan'' e
     (''Remove VLAN '' @ shown e ''vlan-ids'' @ '' from '' @ shown e ''bridge'')) t"

definition handleToggleVlanFiltering :: "entry \<Rightarrow> keyed_form table \<Rightarrow> keyed_form table" where
  "handleToggleVlanFiltering bridge t =
     (let current = field_is bridge ''vlan-filtering'' ''true'' \<or> field_is bridge ''vlan-filtering'' ''yes'' in
      queue (set_change ''/interface/bridge'' (entry_id bridge)
        [(''vlan-filtering'', if current then ''no'' else ''yes'')]
        ((if current then ''Disable'' else ''Enable'') @ '' VLAN filtering on '' @ shown bridge ''name'')) t)"

section \<open>Connection tracking\<close>

definition TIMEOUT_FIELDS :: "string list" where
  "TIMEOUT_FIELDS = [''tcp-established-timeout'', ''tcp-syn-sent-timeout'', ''tcp-syn-received-timeout'',
     ''tcp-close-wait-timeout'', ''tcp-fin-wait-timeout'', ''tcp-time-wait-timeout'', ''tcp-close-timeout'',
     ''udp-timeout'', ''udp-stream-timeout'', ''icmp-timeout'', ''generic-timeout'']"

definition conntrack_keys :: "string list" where
  "conntrack_keys = TIMEOUT_FIELDS @ [''max-entries'', ''enabled'']"

text \<open>The one entry \<open>tracking\<close> is the panel's data; its dialog has no add.\<close>

definition conntrack_handleEdit :: "entry \<Rightarrow> keyed_form table \<Rightarrow> keyed_form table" where
  "conntrack_handleEdit tracking t = t\<lparr>form := form_lit
     (map (\<lambda>k. (k, field tracking k)) TIMEOUT_FIELDS
        @ [(''max-entries'', field tracking ''max-entries''), (''enabled'', field_or tracking ''enabled'' ''auto'')]),
     dialogOpen := True\<rparr>"

definition conntrack_handleSave :: "entry \<Rightarrow> keyed_form table \<Rightarrow> keyed_form table" where
  "conntrack_handleSave tracking t =
     (let props = diff_nonempty tracking (keyed conntrack_keys (form t)) in
      close_dialog (if props = [] then t
        else queue (set_change ''/ip/firewall/connection/tracking'' None props
               (''Update connection tracking ('' @ join '', '' (obj_keys props) @ '')'')) t))"

section \<open>SNMP\<close>

definition snmp_settings_keys :: "string list" where
  "snmp_settings_keys = [''contact'', ''location'', ''engine-id'', ''trap-target'', ''trap-community'', ''trap-version'']"

definition snmp_enabled :: "entry \<Rightarrow> bool" where
  "snmp_enabled snmpData \<longleftrightarrow> field_is snmpData ''enabled'' ''true'' \<or> field_is snmpData ''enabled'' ''yes''"

definition handleToggleSnmp :: "entry \<Rightarrow> keyed_form table \<Rightarrow> keyed_form table" where
  "handleToggleSnmp snmpData t =
     queue (set_change ''/snmp'' None [(''enabled'', if snmp_enabled snmpData then ''no'' else ''yes'')]
       ((if snmp_enabled snmpData then ''Disable'' else ''Enable'') @ '' SNMP'')) t"

definition handleEditSettings :: "entry \<Rightarrow> keyed_form table \<Rightarrow> keyed_form table" where
  "handleEditSettings snmpData t = t\<lparr>form := form_lit
     [(''contact'', field snmpData ''contact''), (''location'', field snmpData ''location''),
      (''engine-id'', field snmpData ''engine-id''), (''trap-target'', field snmpData ''trap-target''),
      (''trap-community'', field snmpData ''trap-community''), (''trap-version'', field_or snmpData ''trap-version'' ''1'')],
     dialogOpen := True\<rparr>"

definition snmp_handleSaveSettings :: "entry \<Rightarrow> keyed_form table \<Rightarrow> keyed_form table" where
  "snmp_handleSaveSettings snmpData t =
     (let props = filter (\<lambda>(k, v). v \<noteq> field snmpData k) (keyed snmp_settings_keys (form t)) in
      close_dialog (if props = [] then t
        else queue (set_change ''/snmp'' None props
               (''Update SNMP settings ('' @ join '', '' (obj_keys props) @ '')'')) t))"

definition community_keys :: "string list" where
  "community_keys = [''name'', ''addresses'', ''read-access'', ''write-access'', ''security'',
     ''authentication-protocol'', ''encryption-protocol'']"

definition handleAddCommunity :: "keyed_form table \<Rightarrow> keyed_form table" where
  "handleAddCommunity t = open_keyed None (form_lit
     [(''name'', []), (''addresses'', ''0.0.0.0/0''), (''read-access'', ''yes''), (''write-access'', ''no''),
      (''security'', ''none''), (''authentication-protocol'', ''MD5''), (''encryption-protocol'', ''DES'')]) t"

definition community_form_of :: "entry \<Rightarrow> keyed_form" where
  "community_form_of e = form_lit
     [(''name'', field e ''name''), (''addresses'', field e ''addresses''),
      (''read-access'', field_or e ''read-access'' ''yes''), (''write-access'', field_or e ''write-access'' ''no''),
      (''security'', field_or e ''security'' ''none''),
      (''authentication-protocol'', field_or e ''authentication-protocol'' ''MD5''),
      (''encryption-protocol'', field_or e ''encryption-protocol'' ''DES'')]"

definition handleEditCommunity :: "entry \<Rightarrow> keyed_form table \<Rightarrow> keyed_form table" where
  "handleEditCommunity e t = open_keyed (Some e) (community_form_of e) t"

definition handleSaveCommunity :: "keyed_form table \<Rightarrow> keyed_form table" where
  "handleSaveCommunity t =
     (let f = form t in
      if f ''name'' = [] then t
      else save_keyed ''/snmp/community'' diff_any community_keys
             (''Update SNMP community '' @ quoted (f ''name'')) (''Add SNMP community '' @ quoted (f ''name'')) t)"

definition handleDeleteCommunity :: "entry \<Rightarrow> keyed_form table \<Rightarrow> keyed_form table" where
  "handleDeleteCommunity e t = queue (remove_change ''/snmp/community'' e
     (''Remove SNMP community '' @ quoted (shown e ''name''))) t"

section \<open>The contract\<close>

lemma plain_words_keyed [simp]:
  "plain ''/interface/bridge/port''" "plain ''/interface/bridge/vlan''" "plain ''/interface/bridge''"
  "plain ''/ip/firewall/connection/tracking''" "plain ''/snmp''" "plain ''/snmp/community''"
  "plain ''vlan-filtering''" "plain ''enabled''"
  by code_simp+

lemma keys_plain [simp]:
  "list_all plain port_keys" "list_all plain vlan_keys" "list_all plain conntrack_keys"
  "list_all plain snmp_settings_keys" "list_all plain community_keys"
  by code_simp+

lemma keys_distinct [simp]:
  "distinct port_keys" "distinct vlan_keys" "distinct conntrack_keys" "distinct snmp_settings_keys"
  "distinct community_keys"
  by code_simp+

lemma keys_nonempty [simp]: "port_keys \<noteq> []" "vlan_keys \<noteq> []" "community_keys \<noteq> []"
  by code_simp+

lemma props_ok_keyed [simp, intro]: "list_all plain ks \<Longrightarrow> distinct ks \<Longrightarrow> props_ok (keyed ks f)"
  by (auto simp: props_ok_def keyed_def obj_wf_def obj_keys_def list_all_iff comp_def)

lemma keyed_nonempty [simp]: "ks \<noteq> [] \<Longrightarrow> keyed ks f \<noteq> []"
  by (simp add: keyed_def)

lemma props_ok_diff [simp, intro]: "props_ok ps \<Longrightarrow> props_ok (diff_nonempty e ps)" "props_ok ps \<Longrightarrow> props_ok (diff_any e ps)"
  by (simp_all add: diff_nonempty_def diff_any_def props_ok_filter)

lemma stages_open_keyed [simp, intro]: "(\<And>e. en = Some e \<Longrightarrow> has_id e) \<Longrightarrow> stages t (open_keyed en f t)"
  by (auto simp: open_keyed_def table_ok_def intro!: stages_same_panel split: option.splits)

lemma stages_form [simp]: "table_ok t \<Longrightarrow> stages t (t\<lparr>form := f, dialogOpen := b\<rparr>)"
  by (simp add: stages_same_panel table_ok_def)

lemma stages_save_keyed [intro]:
  assumes "table_ok t" "plain path" "list_all plain ks" "distinct ks" "ks \<noteq> []"
    and "\<And>e ps. props_ok ps \<Longrightarrow> props_ok (diff e ps)"
  shows "stages t (save_keyed path diff ks d d' t)"
  unfolding save_keyed_def using assms
  by (intro stages_close) (auto simp: table_ok_def Let_def has_id_plain stages_refl split: option.splits)

interpretation port: staging_table "[port_handleAdd names, port_handleSave]" "[port_handleEdit, port_handleDelete]"
  by unfold_locales
    (auto simp: port_handleAdd_def port_handleEdit_def port_handleDelete_def port_handleSave_def Let_def stages_refl
      intro!: stages_save_keyed)

interpretation bvlan: staging_table "[bvlan_handleAdd names, bvlan_handleSave]"
    "[bvlan_handleEdit, bvlan_handleDelete, handleToggleVlanFiltering]"
  by unfold_locales
    (auto simp: bvlan_handleAdd_def bvlan_handleEdit_def bvlan_handleDelete_def bvlan_handleSave_def
      handleToggleVlanFiltering_def has_id_plain Let_def stages_refl intro!: stages_save_keyed)

interpretation conntrack: staging_table "[conntrack_handleEdit tracking, conntrack_handleSave tracking]" "[]"
  by unfold_locales
    (auto simp: conntrack_handleEdit_def conntrack_handleSave_def Let_def stages_refl intro!: stages_close)

lemma props_ok_filter_keyed [simp]: "list_all plain ks \<Longrightarrow> distinct ks \<Longrightarrow> props_ok (filter P (keyed ks f))"
  by (simp add: props_ok_filter)

text \<open>The settings and the communities have a dialog each; both stage in the same panel.\<close>

interpretation snmp_settings: staging_table "[handleToggleSnmp d, handleEditSettings d, snmp_handleSaveSettings d]" "[]"
  by unfold_locales
    (auto simp: handleToggleSnmp_def handleEditSettings_def snmp_handleSaveSettings_def Let_def stages_refl
      simp del: filter_empty_conv intro!: stages_close)

interpretation snmp_community: staging_table "[handleAddCommunity, handleSaveCommunity]"
    "[handleEditCommunity, handleDeleteCommunity]"
  by unfold_locales
    (auto simp: handleAddCommunity_def handleSaveCommunity_def handleEditCommunity_def handleDeleteCommunity_def
      Let_def stages_refl intro!: stages_save_keyed)

section \<open>What a differential save stages\<close>

lemma diff_any_iff: "(k, v) \<in> set (diff_any e (keyed ks f)) \<longleftrightarrow> k \<in> set ks \<and> v = f k \<and> obj_get e k \<noteq> Some v"
  by (auto simp: diff_any_def keyed_def)

lemma diff_nonempty_iff:
  "(k, v) \<in> set (diff_nonempty e (keyed ks f)) \<longleftrightarrow> k \<in> set ks \<and> v = f k \<and> v \<noteq> [] \<and> obj_get e k \<noteq> Some v"
  by (auto simp: diff_nonempty_def keyed_def)

lemma bvlan_form_field: "k \<in> set vlan_keys \<Longrightarrow> bvlan_form_of e k = field e k"
  by (auto simp: bvlan_form_of_def vlan_keys_def form_lit_def obj_get_def)

end
