(* ===== verification/SystemPanels.thy ===== *)
theory SystemPanels
  imports KeyedPanels
begin

text \<open>
  \<^verbatim>\<open>UsersPanel.tsx\<close>, \<^verbatim>\<open>ServicesPanel.tsx\<close>, \<^verbatim>\<open>ScriptsPanel.tsx\<close>,
  \<^verbatim>\<open>IpsecPanel.tsx\<close>, \<^verbatim>\<open>PppPanel.tsx\<close> and \<^verbatim>\<open>SystemPanel.tsx\<close>.
\<close>

section \<open>RouterOS users\<close>

record user_form =
  uf_name :: string
  uf_group :: string
  uf_password :: string
  uf_allowed_address :: string

definition user_EMPTY_FORM :: user_form where
  "user_EMPTY_FORM = \<lparr>uf_name = [], uf_group = ''read'', uf_password = [], uf_allowed_address = []\<rparr>"

definition validateUserForm :: "user_form \<Rightarrow> bool \<Rightarrow> string obj" where
  "validateUserForm f isEditing =
     put_if (\<not> isEditing \<and> uf_password f = []) ''password'' ''Password is required for new users''
     (put_if (uf_group f = []) ''group'' ''Group is required''
     (put_if (uf_name f = []) ''name'' ''Username is required'' []))"

definition user_handleAdd :: "user_form table \<Rightarrow> user_form table" where
  "user_handleAdd t = open_dialog None user_EMPTY_FORM t"

definition user_handleEdit :: "entry \<Rightarrow> user_form table \<Rightarrow> user_form table" where
  "user_handleEdit e t = open_dialog (Some e)
     \<lparr>uf_name = field e ''name'', uf_group = field_or e ''group'' ''read'', uf_password = [],
      uf_allowed_address = field e ''allowed-address''\<rparr> t"

definition user_handleDelete :: "entry \<Rightarrow> user_form table \<Rightarrow> user_form table" where
  "user_handleDelete e t = queue (remove_change ''/user'' e (''Remove user '' @ quoted (shown e ''name''))) t"

definition user_props :: "user_form \<Rightarrow> string obj" where
  "user_props f = put ''allowed-address'' (uf_allowed_address f) (put ''password'' (uf_password f)
     [(''name'', uf_name f), (''group'', uf_group f)])"

definition user_handleSave :: "user_form table \<Rightarrow> user_form table" where
  "user_handleSave t =
     (let f = form t; validationErrors = validateUserForm f (editing t \<noteq> None) in
      if validationErrors \<noteq> [] then t\<lparr>errors := validationErrors\<rparr>
      else save_entry ''/user'' (user_props f)
             (''Edit user '' @ quoted (uf_name f) @ '' (group: '' @ uf_group f @ '')'')
             (''Add user '' @ quoted (uf_name f) @ '' (group: '' @ uf_group f @ '')'') t)"

section \<open>IP services\<close>

record service_form =
  svc_port :: string
  svc_address :: string
  svc_disabled :: string

definition service_INIT_FORM :: service_form where
  "service_INIT_FORM = \<lparr>svc_port = [], svc_address = [], svc_disabled = ''false''\<rparr>"

definition DEFAULT_PORTS :: "int obj" where
  "DEFAULT_PORTS = [(''api'', 8728), (''api-ssl'', 8729), (''ftp'', 21), (''ssh'', 22), (''telnet'', 23),
     (''winbox'', 8291), (''www'', 80), (''www-ssl'', 443)]"

datatype security_level = Svc_disabled | Svc_default_port | Svc_enabled

definition SecurityIndicator :: "entry \<Rightarrow> security_level" where
  "SecurityIndicator e =
     (if field_is e ''disabled'' ''true'' then Svc_disabled
      else
        let port = parseInt 10 (field e ''port'');
            isDefaultPort = (case obj_get DEFAULT_PORTS (field e ''name'') of None \<Rightarrow> False | Some d \<Rightarrow> port = Some d);
            hasRestriction = field e ''address'' \<noteq> [] \<and> field e ''address'' \<noteq> ''0.0.0.0/0''
        in if isDefaultPort \<and> \<not> hasRestriction then Svc_default_port else Svc_enabled)"

definition service_handleEdit :: "entry \<Rightarrow> service_form table \<Rightarrow> service_form table" where
  "service_handleEdit e t = t\<lparr>editing := Some e, form :=
     \<lparr>svc_port = field e ''port'', svc_address = field e ''address'', svc_disabled = field_or e ''disabled'' ''false''\<rparr>,
     dialogOpen := True\<rparr>"

definition service_handleToggle :: "entry \<Rightarrow> service_form table \<Rightarrow> service_form table" where
  "service_handleToggle e t =
     (let newState = (if field_is e ''disabled'' ''true'' then ''false'' else ''true'') in
      queue (set_change ''/ip/service'' (entry_id e) [(''disabled'', newState)]
        ((if newState = ''true'' then ''Disable'' else ''Enable'') @ '' service '' @ quoted (shown e ''name''))) t)"

definition service_props :: "entry \<Rightarrow> service_form \<Rightarrow> string obj" where
  "service_props e f =
     put_if (obj_get e ''disabled'' \<noteq> Some (svc_disabled f)) ''disabled'' (svc_disabled f)
     (put_if (obj_get e ''address'' \<noteq> Some (svc_address f)) ''address'' (svc_address f)
     (put_if (svc_port f \<noteq> [] \<and> obj_get e ''port'' \<noteq> Some (svc_port f)) ''port'' (svc_port f) []))"

definition service_handleSave :: "service_form table \<Rightarrow> service_form table" where
  "service_handleSave t =
     (case editing t of
        None \<Rightarrow> t
      | Some e \<Rightarrow>
          let props = service_props e (form t) in
          if props = [] then close_dialog t
          else close_dialog (queue (set_change ''/ip/service'' (entry_id e) props
                 (''Edit service '' @ quoted (shown e ''name'') @ '' (''
                    @ join '', '' (map (\<lambda>(k, v). k @ ''='' @ v) props) @ '')'')) t))"

section \<open>Scripts and scheduler\<close>

record script_form =
  scr_name :: string
  scr_source :: string

definition EMPTY_SCRIPT :: script_form where
  "EMPTY_SCRIPT = \<lparr>scr_name = [], scr_source = []\<rparr>"

text \<open>Running a script is immediate; its name is not quoted.\<close>

definition run_command :: "string \<Rightarrow> editor_call" where
  "run_command scriptName = Execute (''/system script run '' @ scriptName)"

definition script_handleAdd :: "script_form table \<Rightarrow> script_form table" where
  "script_handleAdd t = open_dialog None EMPTY_SCRIPT t"

definition script_handleEdit :: "entry \<Rightarrow> script_form table \<Rightarrow> script_form table" where
  "script_handleEdit e t = open_dialog (Some e) \<lparr>scr_name = field e ''name'', scr_source = field e ''source''\<rparr> t"

definition script_handleDelete :: "entry \<Rightarrow> script_form table \<Rightarrow> script_form table" where
  "script_handleDelete e t = queue (remove_change ''/system/script'' e (''Remove script '' @ quoted (shown e ''name''))) t"

definition script_handleSave :: "script_form table \<Rightarrow> script_form table" where
  "script_handleSave t =
     (let f = form t;
          errs = put_if (scr_source f = []) ''source'' ''Script source is required''
                   (put_if (scr_name f = []) ''name'' ''Script name is required'' []) in
      if errs \<noteq> [] then t\<lparr>errors := errs\<rparr>
      else save_entry ''/system/script'' [(''name'', scr_name f), (''source'', scr_source f)]
             (''Edit script '' @ quoted (scr_name f)) (''Add script '' @ quoted (scr_name f)) t)"

record scheduler_form =
  sch_name :: string
  sch_start_time :: string
  sch_interval :: string
  sch_on_event :: string

definition EMPTY_SCHEDULER :: scheduler_form where
  "EMPTY_SCHEDULER = \<lparr>sch_name = [], sch_start_time = ''startup'', sch_interval = ''00:00:00'', sch_on_event = []\<rparr>"

definition scheduler_handleAdd :: "scheduler_form table \<Rightarrow> scheduler_form table" where
  "scheduler_handleAdd t = open_dialog None EMPTY_SCHEDULER t"

definition scheduler_handleEdit :: "entry \<Rightarrow> scheduler_form table \<Rightarrow> scheduler_form table" where
  "scheduler_handleEdit e t = open_dialog (Some e)
     \<lparr>sch_name = field e ''name'', sch_start_time = field_or e ''start-time'' ''startup'',
      sch_interval = field_or e ''interval'' ''00:00:00'', sch_on_event = field e ''on-event''\<rparr> t"

definition scheduler_handleDelete :: "entry \<Rightarrow> scheduler_form table \<Rightarrow> scheduler_form table" where
  "scheduler_handleDelete e t = queue (remove_change ''/system/scheduler'' e
     (''Remove scheduler '' @ quoted (shown e ''name''))) t"

definition scheduler_handleToggle :: "entry \<Rightarrow> scheduler_form table \<Rightarrow> scheduler_form table" where
  "scheduler_handleToggle e t =
     (let newState = (if field_is e ''disabled'' ''true'' then ''false'' else ''true'') in
      queue (set_change ''/system/scheduler'' (entry_id e) [(''disabled'', newState)]
        ((if newState = ''true'' then ''Disable'' else ''Enable'') @ '' scheduler '' @ quoted (shown e ''name''))) t)"

definition scheduler_handleSave :: "scheduler_form table \<Rightarrow> scheduler_form table" where
  "scheduler_handleSave t =
     (let f = form t;
          errs = put_if (sch_on_event f = []) ''on-event'' ''On-event script is required''
                   (put_if (sch_name f = []) ''name'' ''Name is required'' []) in
      if errs \<noteq> [] then t\<lparr>errors := errs\<rparr>
      else save_entry ''/system/scheduler''
             [(''name'', sch_name f), (''start-time'', sch_start_time f), (''interval'', sch_interval f),
              (''on-event'', sch_on_event f)]
             (''Edit scheduler '' @ quoted (sch_name f))
             (''Add scheduler '' @ quoted (sch_name f) @ '' (interval: '' @ sch_interval f @ '')'') t)"

section \<open>IPsec\<close>

record peer_form =
  pe_address :: string
  pe_auth_method :: string
  pe_secret :: string
  pe_exchange_mode :: string

definition peer_handleAdd :: "peer_form table \<Rightarrow> peer_form table" where
  "peer_handleAdd t = t\<lparr>editing := None, form :=
     \<lparr>pe_address = [], pe_auth_method = ''pre-shared-key'', pe_secret = [], pe_exchange_mode = ''main''\<rparr>,
     dialogOpen := True\<rparr>"

definition peer_handleEdit :: "entry \<Rightarrow> peer_form table \<Rightarrow> peer_form table" where
  "peer_handleEdit e t = t\<lparr>editing := Some e, form :=
     \<lparr>pe_address = field e ''address'', pe_auth_method = field_or e ''auth-method'' ''pre-shared-key'', pe_secret = [],
      pe_exchange_mode = field_or e ''exchange-mode'' ''main''\<rparr>, dialogOpen := True\<rparr>"

definition peer_handleDelete :: "entry \<Rightarrow> peer_form table \<Rightarrow> peer_form table" where
  "peer_handleDelete e t = queue (remove_change ''/ip/ipsec/peer'' e (''Remove IPsec peer '' @ shown e ''address'')) t"

definition peer_handleSave :: "peer_form table \<Rightarrow> peer_form table" where
  "peer_handleSave t =
     (let f = form t in
      if pe_address f = [] then t
      else save_entry ''/ip/ipsec/peer''
             (put ''secret'' (pe_secret f) [(''address'', pe_address f), (''auth-method'', pe_auth_method f),
                (''exchange-mode'', pe_exchange_mode f)])
             (''Edit IPsec peer '' @ pe_address f) (''Add IPsec peer '' @ pe_address f) t)"

record policy_form =
  po_src_address :: string
  po_dst_address :: string
  po_tunnel :: string
  po_action :: string
  po_level :: string
  po_proposal :: string

definition policy_handleAdd :: "policy_form table \<Rightarrow> policy_form table" where
  "policy_handleAdd t = t\<lparr>editing := None, form :=
     \<lparr>po_src_address = [], po_dst_address = [], po_tunnel = ''yes'', po_action = ''encrypt'', po_level = ''require'',
      po_proposal = ''default''\<rparr>, dialogOpen := True\<rparr>"

definition policy_handleEdit :: "entry \<Rightarrow> policy_form table \<Rightarrow> policy_form table" where
  "policy_handleEdit e t = t\<lparr>editing := Some e, form :=
     \<lparr>po_src_address = field e ''src-address'', po_dst_address = field e ''dst-address'',
      po_tunnel = field_or e ''tunnel'' ''yes'', po_action = field_or e ''action'' ''encrypt'',
      po_level = field_or e ''level'' ''require'', po_proposal = field_or e ''proposal'' ''default''\<rparr>, dialogOpen := True\<rparr>"

text \<open>The arrow of the descriptions is written \<open>->\<close>.\<close>

definition policy_handleDelete :: "entry \<Rightarrow> policy_form table \<Rightarrow> policy_form table" where
  "policy_handleDelete e t = queue (remove_change ''/ip/ipsec/policy'' e
     (''Remove IPsec policy '' @ shown e ''src-address'' @ '' -> '' @ shown e ''dst-address'')) t"

definition policy_handleSave :: "policy_form table \<Rightarrow> policy_form table" where
  "policy_handleSave t =
     (let f = form t in
      save_entry ''/ip/ipsec/policy''
        [(''src-address'', po_src_address f), (''dst-address'', po_dst_address f), (''tunnel'', po_tunnel f),
         (''action'', po_action f), (''level'', po_level f), (''proposal'', po_proposal f)]
        ''Edit IPsec policy'' (''Add IPsec policy '' @ po_src_address f @ '' -> '' @ po_dst_address f) t)"

record proposal_form =
  pr_name :: string
  pr_auth_algorithms :: string
  pr_enc_algorithms :: string
  pr_pfs_group :: string

definition proposal_handleAdd :: "proposal_form table \<Rightarrow> proposal_form table" where
  "proposal_handleAdd t = t\<lparr>editing := None, form :=
     \<lparr>pr_name = [], pr_auth_algorithms = ''sha256'', pr_enc_algorithms = ''aes-256-cbc'', pr_pfs_group = ''modp2048''\<rparr>,
     dialogOpen := True\<rparr>"

definition proposal_handleEdit :: "entry \<Rightarrow> proposal_form table \<Rightarrow> proposal_form table" where
  "proposal_handleEdit e t = t\<lparr>editing := Some e, form :=
     \<lparr>pr_name = field e ''name'', pr_auth_algorithms = field e ''auth-algorithms'',
      pr_enc_algorithms = field e ''enc-algorithms'', pr_pfs_group = field e ''pfs-group''\<rparr>, dialogOpen := True\<rparr>"

definition proposal_handleDelete :: "entry \<Rightarrow> proposal_form table \<Rightarrow> proposal_form table" where
  "proposal_handleDelete e t = queue (remove_change ''/ip/ipsec/proposal'' e
     (''Remove IPsec proposal '' @ quoted (shown e ''name''))) t"

definition proposal_handleSave :: "proposal_form table \<Rightarrow> proposal_form table" where
  "proposal_handleSave t =
     (let f = form t in
      if pr_name f = [] then t
      else save_entry ''/ip/ipsec/proposal''
             [(''name'', pr_name f), (''auth-algorithms'', pr_auth_algorithms f),
              (''enc-algorithms'', pr_enc_algorithms f), (''pfs-group'', pr_pfs_group f)]
             (''Edit IPsec proposal '' @ quoted (pr_name f)) (''Add IPsec proposal '' @ quoted (pr_name f)) t)"

section \<open>PPP\<close>

record profile_form =
  ppf_name :: string
  ppf_local_address :: string
  ppf_remote_address :: string
  ppf_dns_server :: string
  ppf_rate_limit :: string
  ppf_bridge :: string

definition EMPTY_PROFILE :: profile_form where
  "EMPTY_PROFILE = \<lparr>ppf_name = [], ppf_local_address = [], ppf_remote_address = [], ppf_dns_server = [],
     ppf_rate_limit = [], ppf_bridge = []\<rparr>"

definition profile_handleAdd :: "profile_form table \<Rightarrow> profile_form table" where
  "profile_handleAdd t = t\<lparr>editing := None, form := EMPTY_PROFILE, dialogOpen := True\<rparr>"

definition profile_handleEdit :: "entry \<Rightarrow> profile_form table \<Rightarrow> profile_form table" where
  "profile_handleEdit e t = t\<lparr>editing := Some e, form :=
     \<lparr>ppf_name = field e ''name'', ppf_local_address = field e ''local-address'',
      ppf_remote_address = field e ''remote-address'', ppf_dns_server = field e ''dns-server'',
      ppf_rate_limit = field e ''rate-limit'', ppf_bridge = field e ''bridge''\<rparr>, dialogOpen := True\<rparr>"

definition profile_handleDelete :: "entry \<Rightarrow> profile_form table \<Rightarrow> profile_form table" where
  "profile_handleDelete e t = queue (remove_change ''/ppp/profile'' e
     (''Remove PPP profile '' @ quoted (shown e ''name''))) t"

definition profile_handleSave :: "profile_form table \<Rightarrow> profile_form table" where
  "profile_handleSave t =
     (let f = form t in
      if ppf_name f = [] then t
      else save_entry ''/ppp/profile''
             (put ''bridge'' (ppf_bridge f) (put ''rate-limit'' (ppf_rate_limit f)
             (put ''dns-server'' (ppf_dns_server f) (put ''remote-address'' (ppf_remote_address f)
             (put ''local-address'' (ppf_local_address f) [(''name'', ppf_name f)])))))
             (''Edit PPP profile '' @ quoted (ppf_name f)) (''Add PPP profile '' @ quoted (ppf_name f)) t)"

record secret_form =
  se_name :: string
  se_password :: string
  se_service :: string
  se_profile :: string
  se_caller_id :: string
  se_remote_address :: string

definition EMPTY_SECRET :: secret_form where
  "EMPTY_SECRET = \<lparr>se_name = [], se_password = [], se_service = ''any'', se_profile = ''default'', se_caller_id = [],
     se_remote_address = []\<rparr>"

definition secret_handleAdd :: "secret_form table \<Rightarrow> secret_form table" where
  "secret_handleAdd t = t\<lparr>editing := None, form := EMPTY_SECRET, dialogOpen := True\<rparr>"

definition secret_handleEdit :: "entry \<Rightarrow> secret_form table \<Rightarrow> secret_form table" where
  "secret_handleEdit e t = t\<lparr>editing := Some e, form :=
     \<lparr>se_name = field e ''name'', se_password = [], se_service = field_or e ''service'' ''any'',
      se_profile = field_or e ''profile'' ''default'', se_caller_id = field e ''caller-id'',
      se_remote_address = field e ''remote-address''\<rparr>, dialogOpen := True\<rparr>"

definition secret_handleDelete :: "entry \<Rightarrow> secret_form table \<Rightarrow> secret_form table" where
  "secret_handleDelete e t = queue (remove_change ''/ppp/secret'' e
     (''Remove PPP secret '' @ quoted (shown e ''name''))) t"

definition secret_handleSave :: "secret_form table \<Rightarrow> secret_form table" where
  "secret_handleSave t =
     (let f = form t in
      if se_name f = [] then t
      else save_entry ''/ppp/secret''
             (put ''remote-address'' (se_remote_address f) (put ''caller-id'' (se_caller_id f)
             (put ''password'' (se_password f)
               [(''name'', se_name f), (''service'', se_service f), (''profile'', se_profile f)])))
             (''Edit PPP secret '' @ quoted (se_name f)) (''Add PPP secret '' @ quoted (se_name f)) t)"

text \<open>Disconnecting an active connection removes it at once.\<close>

definition disconnect_call :: "string \<Rightarrow> editor_call" where
  "disconnect_call entryId = RemoveEntry ''/ppp/active'' entryId"

section \<open>System identity, clock and NTP\<close>

text \<open>Three dialogs on singletons: the form is the text of the dialog, for NTP the server and the switch.\<close>

definition identity_handleEdit :: "entry \<Rightarrow> string table \<Rightarrow> string table" where
  "identity_handleEdit d t = t\<lparr>form := field d ''name'', dialogOpen := True\<rparr>"

definition identity_handleSave :: "string table \<Rightarrow> string table" where
  "identity_handleSave t =
     (let n = js_trim (form t) in
      if n = [] then t
      else close_dialog (queue (set_change ''/system/identity'' None [(''name'', n)]
             (''Set system identity to '' @ quoted n)) t))"

definition handleEditClock :: "entry \<Rightarrow> string table \<Rightarrow> string table" where
  "handleEditClock d t = t\<lparr>form := field d ''time-zone-name'', dialogOpen := True\<rparr>"

definition handleSaveClock :: "string table \<Rightarrow> string table" where
  "handleSaveClock t =
     (let z = js_trim (form t) in
      if z = [] then t
      else close_dialog (queue (set_change ''/system/clock'' None [(''time-zone-name'', z)]
             (''Set timezone to '' @ quoted z)) t))"

definition handleEditNtp :: "entry \<Rightarrow> (string \<times> string) table \<Rightarrow> (string \<times> string) table" where
  "handleEditNtp d t = t\<lparr>form := (str_or (field d ''primary-ntp'') (field d ''server''), field_or d ''enabled'' ''yes''),
     dialogOpen := True\<rparr>"

definition handleSaveNtp :: "(string \<times> string) table \<Rightarrow> (string \<times> string) table" where
  "handleSaveNtp t =
     (case form t of (ntpServer, ntpEnabled) \<Rightarrow>
        close_dialog (queue (set_change ''/system/ntp/client'' None
          (put ''primary-ntp'' (js_trim ntpServer) [(''enabled'', ntpEnabled)])
          (''Configure NTP client ('' @ (if ntpEnabled = ''yes'' then ''enabled'' else ''disabled'')
             @ (if ntpServer \<noteq> [] then '', server: '' @ ntpServer else []) @ '')'')) t))"

section \<open>The contract\<close>

lemma plain_words_system [simp]:
  "plain ''/user''" "plain ''/ip/service''" "plain ''/system/script''" "plain ''/system/scheduler''"
  "plain ''/ip/ipsec/peer''" "plain ''/ip/ipsec/policy''" "plain ''/ip/ipsec/proposal''" "plain ''/ppp/profile''"
  "plain ''/ppp/secret''" "plain ''/system/identity''" "plain ''/system/clock''" "plain ''/system/ntp/client''"
  "plain ''group''" "plain ''password''" "plain ''allowed-address''" "plain ''port''" "plain ''source''"
  "plain ''start-time''" "plain ''interval''" "plain ''on-event''" "plain ''secret''" "plain ''auth-method''"
  "plain ''exchange-mode''" "plain ''tunnel''" "plain ''level''" "plain ''proposal''" "plain ''auth-algorithms''"
  "plain ''enc-algorithms''" "plain ''pfs-group''" "plain ''bridge''" "plain ''rate-limit''" "plain ''remote-address''"
  "plain ''local-address''" "plain ''service''" "plain ''profile''" "plain ''caller-id''" "plain ''time-zone-name''"
  "plain ''primary-ntp''"
  by code_simp+

lemma stages_open_plain [simp]:
  "stages t (t\<lparr>editing := None, form := f, dialogOpen := b\<rparr>)"
  "has_id e \<Longrightarrow> stages t (t\<lparr>editing := Some e, form := f, dialogOpen := b\<rparr>)"
  by (simp_all add: stages_same_panel table_ok_def)

lemmas stage_simps = Let_def stages_refl stages_close has_id_plain

interpretation user: staging_table "[user_handleAdd, user_handleSave]" "[user_handleEdit, user_handleDelete]"
  by unfold_locales
    (auto simp: user_handleAdd_def user_handleEdit_def user_handleDelete_def user_handleSave_def user_props_def stage_simps)

lemma service_save_stages: "table_ok t \<Longrightarrow> stages t (service_handleSave t)"
  by (auto simp: service_handleSave_def service_props_def table_ok_def stage_simps split: option.splits
      intro!: stages_close)

interpretation service: staging_table "[service_handleSave]" "[service_handleEdit, service_handleToggle]"
  by unfold_locales (auto simp: service_save_stages service_handleEdit_def service_handleToggle_def stage_simps)

interpretation script: staging_table "[script_handleAdd, script_handleSave]" "[script_handleEdit, script_handleDelete]"
  by unfold_locales
    (auto simp: script_handleAdd_def script_handleEdit_def script_handleDelete_def script_handleSave_def stage_simps)

interpretation scheduler: staging_table "[scheduler_handleAdd, scheduler_handleSave]"
    "[scheduler_handleEdit, scheduler_handleDelete, scheduler_handleToggle]"
  by unfold_locales
    (auto simp: scheduler_handleAdd_def scheduler_handleEdit_def scheduler_handleDelete_def scheduler_handleToggle_def
      scheduler_handleSave_def stage_simps)

interpretation peer: staging_table "[peer_handleAdd, peer_handleSave]" "[peer_handleEdit, peer_handleDelete]"
  by unfold_locales
    (auto simp: peer_handleAdd_def peer_handleEdit_def peer_handleDelete_def peer_handleSave_def stage_simps)

interpretation policy: staging_table "[policy_handleAdd, policy_handleSave]" "[policy_handleEdit, policy_handleDelete]"
  by unfold_locales
    (auto simp: policy_handleAdd_def policy_handleEdit_def policy_handleDelete_def policy_handleSave_def stage_simps)

interpretation proposal: staging_table "[proposal_handleAdd, proposal_handleSave]"
    "[proposal_handleEdit, proposal_handleDelete]"
  by unfold_locales
    (auto simp: proposal_handleAdd_def proposal_handleEdit_def proposal_handleDelete_def proposal_handleSave_def stage_simps)

interpretation profile: staging_table "[profile_handleAdd, profile_handleSave]" "[profile_handleEdit, profile_handleDelete]"
  by unfold_locales
    (auto simp: profile_handleAdd_def profile_handleEdit_def profile_handleDelete_def profile_handleSave_def stage_simps)

interpretation secret: staging_table "[secret_handleAdd, secret_handleSave]" "[secret_handleEdit, secret_handleDelete]"
  by unfold_locales
    (auto simp: secret_handleAdd_def secret_handleEdit_def secret_handleDelete_def secret_handleSave_def stage_simps)

interpretation identity: staging_table "[identity_handleEdit d, identity_handleSave]" "[]"
  by unfold_locales (auto simp: identity_handleEdit_def identity_handleSave_def stage_simps)

interpretation clock: staging_table "[handleEditClock d, handleSaveClock]" "[]"
  by unfold_locales (auto simp: handleEditClock_def handleSaveClock_def stage_simps)

interpretation ntp: staging_table "[handleEditNtp d, handleSaveNtp]" "[]"
  by unfold_locales (auto simp: handleEditNtp_def handleSaveNtp_def stage_simps split: prod.split)

end
