(* ===== verification/QueueTree.thy ===== *)
theory QueueTree
  imports SystemPanels
begin

text \<open>
  \<^verbatim>\<open>QueuesPanel.tsx\<close>: the handlers of both queue tables and the tree builder. The builder links the
  nodes by name, sets the depth of every node by recursion from the roots and flattens the forest for
  display; both recursions follow the same child lists. \<open>preorder\<close> is that recursion with fuel: \<open>None\<close>
  means that the fuel did not suffice, and the code's recursion returns exactly when some fuel does.
\<close>

section \<open>Limits\<close>

definition parseMaxLimit :: "string \<Rightarrow> string \<times> string" where
  "parseMaxLimit maxLimit =
     (if maxLimit = [] then (''0'', ''0'')
      else
        let parts = split_on CHR ''/'' maxLimit;
            first = hd parts;
            second = (case tl parts of [] \<Rightarrow> [] | p # _ \<Rightarrow> p)
        in (str_or first ''0'', str_or (str_or second first) ''0''))"

datatype priority_band = Prio_error | Prio_warning | Prio_accent | Prio_muted

text \<open>\<open>parseInt(priority, 10) || 8\<close>: not a number and zero both count as 8.\<close>

definition priorityColor :: "string \<Rightarrow> priority_band" where
  "priorityColor priority =
     (let p = (case parseInt 10 priority of None \<Rightarrow> 8 | Some n \<Rightarrow> if n = 0 then 8 else n) in
      if p \<le> 2 then Prio_error else if p \<le> 4 then Prio_warning else if p \<le> 6 then Prio_accent else Prio_muted)"

section \<open>Simple queues and queue trees: handlers\<close>

text \<open>The dialogs own their form and hand it to the save handler.\<close>

record simple_queue_form =
  sq_name :: string
  sq_target :: string
  sq_max_up :: string
  sq_max_down :: string
  sq_burst_up :: string
  sq_burst_down :: string
  sq_threshold_up :: string
  sq_threshold_down :: string
  sq_burst_time :: string
  sq_priority :: string
  sq_disabled :: string

definition pair_limit :: "string \<Rightarrow> string \<Rightarrow> string" where
  "pair_limit up down = str_or up ''0'' @ ''/'' @ str_or down ''0''"

definition handleAddSimple :: "simple_queue_form table \<Rightarrow> simple_queue_form table" where
  "handleAddSimple t = t\<lparr>editing := None, dialogOpen := True\<rparr>"

definition handleEditSimple :: "entry \<Rightarrow> simple_queue_form table \<Rightarrow> simple_queue_form table" where
  "handleEditSimple e t = t\<lparr>editing := Some e, dialogOpen := True\<rparr>"

definition handleToggleSimple :: "entry \<Rightarrow> simple_queue_form table \<Rightarrow> simple_queue_form table" where
  "handleToggleSimple e t =
     (let isDisabled = field_is e ''disabled'' ''true'' \<or> field_is e ''disabled'' ''yes'' in
      queue (set_change ''/queue/simple'' (entry_id e) [(''disabled'', if isDisabled then ''no'' else ''yes'')]
        ((if isDisabled then ''Enable'' else ''Disable'') @ '' simple queue '' @ quoted (shown e ''name''))) t)"

definition handleDeleteSimple :: "entry \<Rightarrow> simple_queue_form table \<Rightarrow> simple_queue_form table" where
  "handleDeleteSimple e t = queue (remove_change ''/queue/simple'' e
     (''Remove simple queue '' @ quoted (shown e ''name''))) t"

definition simple_props :: "simple_queue_form \<Rightarrow> string obj" where
  "simple_props f =
     put ''burst-time'' (sq_burst_time f)
     (put_if (sq_threshold_up f \<noteq> [] \<or> sq_threshold_down f \<noteq> []) ''burst-threshold''
        (pair_limit (sq_threshold_up f) (sq_threshold_down f))
     (put_if (sq_burst_up f \<noteq> [] \<or> sq_burst_down f \<noteq> []) ''burst-limit'' (pair_limit (sq_burst_up f) (sq_burst_down f))
       [(''name'', sq_name f), (''target'', sq_target f), (''max-limit'', pair_limit (sq_max_up f) (sq_max_down f)),
        (''priority'', str_or (sq_priority f) ''8''), (''disabled'', sq_disabled f)]))"

definition handleSaveSimple :: "simple_queue_form table \<Rightarrow> simple_queue_form table" where
  "handleSaveSimple t =
     (let f = form t;
          d = '' simple queue '' @ quoted (sq_name f) @ '' (limit: '' @ pair_limit (sq_max_up f) (sq_max_down f) @ '')'' in
      (save_entry ''/queue/simple'' (simple_props f) (''Update'' @ d) (''Add'' @ d) t)\<lparr>editing := None\<rparr>)"

record tree_queue_form =
  tq_name :: string
  tq_parent :: string
  tq_packet_mark :: string
  tq_queue :: string
  tq_priority :: string
  tq_max_limit :: string

definition handleAddTree :: "tree_queue_form table \<Rightarrow> tree_queue_form table" where
  "handleAddTree t = t\<lparr>editing := None, dialogOpen := True\<rparr>"

definition handleEditTree :: "entry \<Rightarrow> tree_queue_form table \<Rightarrow> tree_queue_form table" where
  "handleEditTree e t = t\<lparr>editing := Some e, dialogOpen := True\<rparr>"

definition handleDeleteTree :: "entry \<Rightarrow> tree_queue_form table \<Rightarrow> tree_queue_form table" where
  "handleDeleteTree e t = queue (remove_change ''/queue/tree'' e
     (''Remove queue tree entry '' @ quoted (shown e ''name''))) t"

definition tree_props :: "tree_queue_form \<Rightarrow> string obj" where
  "tree_props f =
     put ''max-limit'' (tq_max_limit f) (put ''queue'' (tq_queue f) (put ''packet-mark'' (tq_packet_mark f)
       [(''name'', tq_name f), (''parent'', str_or (tq_parent f) ''global''), (''priority'', str_or (tq_priority f) ''8'')]))"

definition handleSaveTree :: "tree_queue_form table \<Rightarrow> tree_queue_form table" where
  "handleSaveTree t =
     (let f = form t in
      (save_entry ''/queue/tree'' (tree_props f) (''Update queue tree '' @ quoted (tq_name f))
         (''Add queue tree '' @ quoted (tq_name f) @ '' (parent: '' @ str_or (tq_parent f) ''global'' @ '')'') t)
        \<lparr>editing := None\<rparr>)"

lemma plain_words_queue [simp]:
  "plain ''/queue/simple''" "plain ''/queue/tree''" "plain ''target''" "plain ''max-limit''" "plain ''priority''"
  "plain ''burst-limit''" "plain ''burst-threshold''" "plain ''burst-time''" "plain ''parent''" "plain ''queue''"
  "plain ''packet-mark''"
  by code_simp+

lemma stages_dialog [simp]:
  "stages t (t\<lparr>editing := None, dialogOpen := b\<rparr>)"
  "has_id e \<Longrightarrow> stages t (t\<lparr>editing := Some e, dialogOpen := b\<rparr>)"
  by (simp_all add: stages_same_panel table_ok_def)

lemma stages_forget: "stages t u \<Longrightarrow> stages t (u\<lparr>editing := None\<rparr>)"
  by (simp add: stages_def table_ok_def)

interpretation simple_queue: staging_table "[handleAddSimple, handleSaveSimple]"
    "[handleEditSimple, handleToggleSimple, handleDeleteSimple]"
  by unfold_locales
    (auto simp: handleAddSimple_def handleSaveSimple_def handleEditSimple_def handleToggleSimple_def
      handleDeleteSimple_def simple_props_def stage_simps intro!: stages_forget)

interpretation tree_queue: staging_table "[handleAddTree, handleSaveTree]" "[handleEditTree, handleDeleteTree]"
  by unfold_locales
    (auto simp: handleAddTree_def handleSaveTree_def handleEditTree_def handleDeleteTree_def tree_props_def
      stage_simps intro!: stages_forget)

section \<open>The tree\<close>

text \<open>A node is known by its entry's name (\<open>None\<close> for \<open>undefined\<close>); the map keeps the last entry of a name.\<close>

type_synonym node = "string option"

definition q_name :: "entry \<Rightarrow> node" where
  "q_name e = obj_get e ''name''"

definition node_entry :: "entry list \<Rightarrow> node \<Rightarrow> entry" where
  "node_entry es n = last (filter (\<lambda>e. q_name e = n) es)"

text \<open>The node an entry is attached to; \<open>None\<close> makes it a root.\<close>

definition q_parent :: "entry list \<Rightarrow> entry \<Rightarrow> node option" where
  "q_parent es e = (case obj_get e ''parent'' of
      None \<Rightarrow> None
    | Some p \<Rightarrow> if p = [] \<or> p = ''global'' \<or> Some p \<notin> set (map q_name es) then None else Some (Some p))"

definition children :: "entry list \<Rightarrow> node \<Rightarrow> node list" where
  "children es n = map q_name (filter (\<lambda>e. q_parent es e = Some n) es)"

definition roots :: "entry list \<Rightarrow> node list" where
  "roots es = map q_name (filter (\<lambda>e. q_parent es e = None) es)"

fun preorder :: "entry list \<Rightarrow> nat \<Rightarrow> nat \<Rightarrow> node \<Rightarrow> (node \<times> nat) list option" where
  "preorder es 0 d n = None"
| "preorder es (Suc fuel) d n =
     map_option (\<lambda>ts. (n, d) # concat ts) (those (map (preorder es fuel (Suc d)) (children es n)))"

text \<open>\<open>setDepth\<close> from every root: the assignments in the order they are made.\<close>

definition set_depths :: "entry list \<Rightarrow> nat \<Rightarrow> (node \<times> nat) list option" where
  "set_depths es fuel = map_option concat (those (map (preorder es fuel 0) (roots es)))"

definition depth_map :: "(node \<times> nat) list \<Rightarrow> node \<Rightarrow> nat" where
  "depth_map assigns = fold (\<lambda>(n, d) m. m(n := d)) assigns (\<lambda>_. 0)"

text \<open>The rows of the table: the entry of each node with its depth.\<close>

definition flatNodes :: "entry list \<Rightarrow> nat \<Rightarrow> (entry \<times> nat) list option" where
  "flatNodes es fuel = map_option
     (\<lambda>assigns. map (\<lambda>(n, d). (node_entry es n, depth_map assigns n)) assigns) (set_depths es fuel)"

section \<open>Ancestors\<close>

text \<open>Following parents upwards, and the nodes from which that ends at a root.\<close>

definition up1 :: "entry list \<Rightarrow> node \<Rightarrow> node option" where
  "up1 es n = q_parent es (node_entry es n)"

fun up :: "entry list \<Rightarrow> nat \<Rightarrow> node \<Rightarrow> node option" where
  "up es 0 n = Some n"
| "up es (Suc j) n = Option.bind (up es j n) (up1 es)"

inductive rooted :: "entry list \<Rightarrow> nat \<Rightarrow> node \<Rightarrow> bool" for es :: "entry list" where
  root: "n \<in> set (map q_name es) \<Longrightarrow> up1 es n = None \<Longrightarrow> rooted es 0 n"
| child: "n \<in> set (map q_name es) \<Longrightarrow> up1 es n = Some p \<Longrightarrow> rooted es d p \<Longrightarrow> rooted es (Suc d) n"

lemma node_entry_eq:
  "distinct (map q_name es) \<Longrightarrow> e \<in> set es \<Longrightarrow> node_entry es (q_name e) = e"
proof -
  assume d: "distinct (map q_name es)" and e: "e \<in> set es"
  then have "last (filter (\<lambda>x. q_name x = q_name e) es) \<in> set (filter (\<lambda>x. q_name x = q_name e) es)"
    by (intro last_in_set) (auto simp: filter_empty_conv)
  then show ?thesis using d e by (auto simp: node_entry_def distinct_map inj_on_def)
qed

lemma children_iff:
  "distinct (map q_name es) \<Longrightarrow> c \<in> set (children es n) \<longleftrightarrow> c \<in> set (map q_name es) \<and> up1 es c = Some n"
  by (auto simp: children_def up1_def node_entry_eq)

lemma roots_iff:
  "distinct (map q_name es) \<Longrightarrow> r \<in> set (roots es) \<longleftrightarrow> r \<in> set (map q_name es) \<and> up1 es r = None"
  by (auto simp: roots_def up1_def node_entry_eq)

lemma children_distinct: "distinct (map q_name es) \<Longrightarrow> distinct (children es n)"
  "distinct (map q_name es) \<Longrightarrow> distinct (roots es)"
  by (simp_all add: children_def roots_def distinct_map_filter)

lemma rooted_unique: "rooted es d n \<Longrightarrow> rooted es d' n \<Longrightarrow> d = d'"
proof (induction arbitrary: d' rule: rooted.induct)
  case (root n)
  then show ?case by (auto elim: rooted.cases)
next
  case (child n p d)
  from child.prems child.hyps(2) obtain k where "d' = Suc k" "rooted es k p"
    by (auto elim: rooted.cases)
  with child.IH show ?case by simp
qed

lemma rooted_name: "rooted es d n \<Longrightarrow> n \<in> set (map q_name es)"
  by (induction rule: rooted.induct) auto

text \<open>A rooted node has as many proper ancestors as its depth, all different.\<close>

lemma rooted_chain:
  "rooted es d n \<Longrightarrow> \<exists>ns. length ns = Suc d \<and> distinct ns \<and> (\<forall>m \<in> set ns. \<exists>k \<le> d. rooted es k m)"
proof (induction rule: rooted.induct)
  case (root n)
  then show ?case by (auto intro!: exI [of _ "[n]"] rooted.root)
next
  case (child n p d)
  then obtain ns where ns: "length ns = Suc d" "distinct ns" "\<forall>m \<in> set ns. \<exists>k \<le> d. rooted es k m" by blast
  have r: "rooted es (Suc d) n" by (rule rooted.child [OF child.hyps])
  with ns(3) have "n \<notin> set ns" using rooted_unique by fastforce
  with ns r show ?case by (intro exI [of _ "n # ns"]) (auto intro: le_SucI)
qed

lemma rooted_depth:
  assumes "rooted es d n"
  shows "d < length es"
proof -
  obtain ns where ns: "length ns = Suc d" "distinct ns" "\<forall>m \<in> set ns. \<exists>k \<le> d. rooted es k m"
    using rooted_chain [OF assms] by blast
  then have "set ns \<subseteq> set (map q_name es)" using rooted_name by blast
  then have "card (set ns) \<le> card (set (map q_name es))" by (intro card_mono) auto
  also have "\<dots> \<le> length es" by (metis card_length length_map)
  finally show ?thesis using ns by (simp add: distinct_card)
qed

lemma up_Suc: "up es (Suc i) x = Option.bind (up1 es x) (up es i)"
  by (induction i) (auto split: Option.bind_splits)

lemma up_rooted: "up es j m = Some n \<Longrightarrow> rooted es d n \<Longrightarrow> m \<in> set (map q_name es) \<Longrightarrow> rooted es (d + j) m"
proof (induction j arbitrary: m)
  case (Suc j)
  from Suc.prems obtain p where p: "up1 es m = Some p" "up es j p = Some n"
    unfolding up_Suc by (auto split: Option.bind_splits)
  then have "p \<in> set (map q_name es)" by (auto simp: up1_def q_parent_def split: option.splits if_splits)
  with Suc p have "rooted es (d + j) p" by blast
  with p(1) Suc.prems(3) show ?case by (auto intro: rooted.child)
qed simp

lemma rooted_up: "rooted es d m \<Longrightarrow> \<exists>r. up es d m = Some r \<and> rooted es 0 r"
proof (induction rule: rooted.induct)
  case (child n p d)
  then show ?case unfolding up_Suc by auto
qed (auto intro: rooted.root)

section \<open>The recursion returns\<close>

lemma those_Some: "(\<forall>x \<in> set xs. \<exists>y. f x = Some y) \<Longrightarrow> those (map f xs) = Some (map (the \<circ> f) xs)"
  by (induction xs) auto

lemma distinct_concat_map:
  assumes "distinct xs" and "\<And>x. x \<in> set xs \<Longrightarrow> distinct (f x)"
    and "\<And>x y. x \<in> set xs \<Longrightarrow> y \<in> set xs \<Longrightarrow> x \<noteq> y \<Longrightarrow> set (f x) \<inter> set (f y) = {}"
  shows "distinct (concat (map f xs))"
  using assms
proof (induction xs)
  case (Cons x xs)
  then have "set (f x) \<inter> set (f y) = {}" if "y \<in> set xs" for y
    using that by (metis distinct.simps(2) list.set_intros)
  then have "set (f x) \<inter> set (concat (map f xs)) = {}" by auto
  with Cons show ?case by simp
qed simp

definition below :: "entry list \<Rightarrow> nat \<Rightarrow> node \<Rightarrow> (node \<times> nat) set" where
  "below es d n = {(m, d + j) | m j. m \<in> set (map q_name es) \<and> up es j m = Some n}"

lemma below_step:
  assumes "distinct (map q_name es)" and "n \<in> set (map q_name es)"
  shows "below es d n = insert (n, d) (\<Union>c \<in> set (children es n). below es (Suc d) c)"
proof -
  have "(m, k) \<in> below es d n \<longleftrightarrow> (m, k) \<in> insert (n, d) (\<Union>c \<in> set (children es n). below es (Suc d) c)" for m k
  proof
    assume "(m, k) \<in> below es d n"
    then obtain j where j: "k = d + j" "m \<in> set (map q_name es)" "up es j m = Some n" by (auto simp: below_def)
    show "(m, k) \<in> insert (n, d) (\<Union>c \<in> set (children es n). below es (Suc d) c)"
    proof (cases j)
      case (Suc i)
      with j obtain c where c: "up es i m = Some c" "up1 es c = Some n" by (auto split: Option.bind_splits)
      then have "c \<in> set (map q_name es)"
        using j(2) by (cases i) (auto simp: up1_def q_parent_def split: Option.bind_splits option.splits if_splits)
      with c have "c \<in> set (children es n)" by (simp add: children_iff [OF assms(1)])
      moreover have "(m, k) \<in> below es (Suc d) c" using j c Suc by (auto simp: below_def)
      ultimately show ?thesis by blast
    qed (use j in simp)
  next
    assume "(m, k) \<in> insert (n, d) (\<Union>c \<in> set (children es n). below es (Suc d) c)"
    then consider "m = n" "k = d" | c j where "up1 es c = Some n" "m \<in> set (map q_name es)" "k = Suc d + j" "up es j m = Some c"
      by (auto simp: children_iff [OF assms(1)] below_def)
    then show "(m, k) \<in> below es d n"
    proof cases
      case 1
      then show ?thesis using assms(2) by (auto simp: below_def intro!: exI [of _ 0])
    next
      case 2
      then show ?thesis unfolding below_def by (auto intro!: exI [of _ "Suc j"])
    qed
  qed
  then show ?thesis by auto
qed

text \<open>Different nodes of the same depth have disjoint subtrees.\<close>

lemma below_disjoint:
  assumes "rooted es d a" "rooted es d b" "(m, i) \<in> below es d a" "(m, j) \<in> below es d b"
  shows "a = b"
proof -
  obtain i' j' where u: "m \<in> set (map q_name es)" "up es i' m = Some a" "up es j' m = Some b"
    using assms(3,4) by (auto simp: below_def)
  then have "d + i' = d + j'"
    using up_rooted assms(1,2) rooted_unique by meson
  with u show ?thesis by simp
qed

lemma preorder_returns:
  assumes "distinct (map q_name es)" and "rooted es d n" and "length es \<le> d + fuel"
  shows "\<exists>t. preorder es fuel d n = Some t \<and> distinct (map fst t) \<and> set t = below es d n"
  using assms(2,3)
proof (induction fuel arbitrary: d n)
  case 0
  then show ?case using rooted_depth [of es d n] by simp
next
  case (Suc fuel)
  let ?f = "preorder es fuel (Suc d)" and ?cs = "children es n"
  have r: "rooted es (Suc d) c" if "c \<in> set ?cs" for c
    using that Suc.prems(1) by (auto simp: children_iff [OF assms(1)] intro: rooted.child)
  have IH: "\<exists>t. ?f c = Some t \<and> distinct (map fst t) \<and> set t = below es (Suc d) c" if "c \<in> set ?cs" for c
    using Suc.IH [OF r [OF that]] Suc.prems(2) by simp
  then have those: "those (map ?f ?cs) = Some (map (the \<circ> ?f) ?cs)" by (intro those_Some) blast
  have sub: "distinct (map fst (the (?f c)))" "set (the (?f c)) = below es (Suc d) c" if "c \<in> set ?cs" for c
  proof -
    obtain t where t: "?f c = Some t" "distinct (map fst t)" "set t = below es (Suc d) c"
      using IH [OF \<open>c \<in> set ?cs\<close>] by blast
    show "distinct (map fst (the (?f c)))" "set (the (?f c)) = below es (Suc d) c"
      using t(2,3) by (simp_all only: t(1) option.sel)
  qed
  have notin: "n \<notin> fst ` below es (Suc d) c" if "c \<in> set ?cs" for c
  proof
    assume "n \<in> fst ` below es (Suc d) c"
    then obtain j where "up es j n = Some c" by (auto simp: below_def)
    then have "rooted es (Suc d + j) n" using up_rooted [OF _ r [OF that]] rooted_name [OF Suc.prems(1)] by blast
    then show False using rooted_unique [OF Suc.prems(1)] by fastforce
  qed
  have dis: "distinct (concat (map (\<lambda>c. map fst (the (?f c))) ?cs))"
  proof (rule distinct_concat_map)
    fix a b
    assume ab: "a \<in> set ?cs" "b \<in> set ?cs" "a \<noteq> b"
    show "set (map fst (the (?f a))) \<inter> set (map fst (the (?f b))) = {}"
    proof (rule ccontr)
      assume "set (map fst (the (?f a))) \<inter> set (map fst (the (?f b))) \<noteq> {}"
      then obtain m i j where "(m, i) \<in> below es (Suc d) a" "(m, j) \<in> below es (Suc d) b"
        using sub(2) [OF ab(1)] sub(2) [OF ab(2)] by fastforce
      with below_disjoint [OF r [OF ab(1)] r [OF ab(2)]] ab(3) show False by blast
    qed
  qed (simp_all add: sub children_distinct assms(1))
  let ?t = "(n, d) # concat (map (the \<circ> ?f) ?cs)"
  have "preorder es (Suc fuel) d n = Some ?t" using those by simp
  moreover have "distinct (map fst ?t)"
  proof -
    have "n \<notin> set (concat (map (\<lambda>c. map fst (the (?f c))) ?cs))"
    proof
      assume "n \<in> set (concat (map (\<lambda>c. map fst (the (?f c))) ?cs))"
      then obtain c where c: "c \<in> set ?cs" "n \<in> fst ` set (the (?f c))" by auto
      with notin [OF c(1)] show False by (simp only: sub(2) [OF c(1)])
    qed
    with dis show ?thesis by (simp add: map_concat comp_def)
  qed
  moreover have "set ?t = below es d n"
  proof -
    have "set (concat (map (the \<circ> ?f) ?cs)) = (\<Union>c \<in> set ?cs. below es (Suc d) c)"
      using sub(2) by (simp add: comp_def)
    then show ?thesis
      using below_step [OF assms(1) rooted_name [OF Suc.prems(1)]] by simp
  qed
  ultimately show ?case by blast
qed

lemma set_depths_returns:
  assumes "distinct (map q_name es)" and "length es \<le> fuel"
  shows "\<exists>t. set_depths es fuel = Some t \<and> distinct (map fst t) \<and> set t = {(m, d). rooted es d m}"
proof -
  let ?f = "preorder es fuel 0" and ?rs = "roots es"
  have r: "rooted es 0 n" if "n \<in> set ?rs" for n
    using that by (auto simp: roots_iff [OF assms(1)] intro: rooted.root)
  have ex: "\<exists>t. ?f n = Some t \<and> distinct (map fst t) \<and> set t = below es 0 n" if "n \<in> set ?rs" for n
    using preorder_returns [OF assms(1) r [OF that]] assms(2) by simp
  have sub: "distinct (map fst (the (?f n)))" "set (the (?f n)) = below es 0 n" if "n \<in> set ?rs" for n
  proof -
    obtain t where t: "?f n = Some t" "distinct (map fst t)" "set t = below es 0 n"
      using ex [OF \<open>n \<in> set ?rs\<close>] by blast
    show "distinct (map fst (the (?f n)))" "set (the (?f n)) = below es 0 n"
      using t(2,3) by (simp_all only: t(1) option.sel)
  qed
  have "those (map ?f ?rs) = Some (map (the \<circ> ?f) ?rs)" using ex by (intro those_Some) blast
  then have eq: "set_depths es fuel = Some (concat (map (the \<circ> ?f) ?rs))" by (simp add: set_depths_def)
  have "distinct (concat (map (\<lambda>n. map fst (the (?f n))) ?rs))"
  proof (rule distinct_concat_map)
    fix a b
    assume ab: "a \<in> set ?rs" "b \<in> set ?rs" "a \<noteq> b"
    show "set (map fst (the (?f a))) \<inter> set (map fst (the (?f b))) = {}"
    proof (rule ccontr)
      assume "set (map fst (the (?f a))) \<inter> set (map fst (the (?f b))) \<noteq> {}"
      then obtain m i j where "(m, i) \<in> below es 0 a" "(m, j) \<in> below es 0 b"
        using sub(2) [OF ab(1)] sub(2) [OF ab(2)] by fastforce
      with below_disjoint [OF r [OF ab(1)] r [OF ab(2)]] ab(3) show False by blast
    qed
  qed (simp_all add: sub children_distinct assms(1))
  then have "distinct (map fst (concat (map (the \<circ> ?f) ?rs)))" by (simp add: map_concat comp_def)
  moreover have "set (concat (map (the \<circ> ?f) ?rs)) = {(m, d). rooted es d m}"
  proof -
    have "set (concat (map (the \<circ> ?f) ?rs)) = (\<Union>n \<in> set ?rs. below es 0 n)"
      using sub(2) by (simp add: comp_def)
    also have "\<dots> = {(m, d). rooted es d m}"
    proof (intro equalityI subsetI)
      fix x assume "x \<in> (\<Union>n \<in> set ?rs. below es 0 n)"
      then obtain n m j where "n \<in> set ?rs" "x = (m, j)" "m \<in> set (map q_name es)" "up es j m = Some n"
        by (auto simp: below_def)
      then show "x \<in> {(m, d). rooted es d m}" using up_rooted [OF _ r, of j m n] by simp
    next
      fix x assume "x \<in> {(m, d). rooted es d m}"
      then obtain m d where x: "x = (m, d)" "rooted es d m" by blast
      then obtain n where "up es d m = Some n" "rooted es 0 n" using rooted_up by blast
      then have "n \<in> set ?rs" "x \<in> below es 0 n"
        using x rooted_name [OF x(2)] by (auto simp: roots_iff [OF assms(1)] below_def elim: rooted.cases)
      then show "x \<in> (\<Union>n \<in> set ?rs. below es 0 n)" by blast
    qed
    finally show ?thesis .
  qed
  ultimately show ?thesis using eq by blast
qed

lemma fold_upd: "distinct (map fst t) \<Longrightarrow> (n, d) \<in> set t \<Longrightarrow> fold (\<lambda>(n, d) m. m(n := d)) t m0 n = d"
proof (induction t arbitrary: m0)
  case (Cons x t)
  obtain k e where x: "x = (k, e)" by (cases x)
  have keep: "fold (\<lambda>(n, d) m. m(n := d)) t m n = m n" if "n \<notin> fst ` set t" for m
    using that by (induction t arbitrary: m) auto
  show ?case
  proof (cases "(n, d) = (k, e)")
    case True
    with Cons.prems(1) x have "n \<notin> fst ` set t" by simp
    from keep [OF this] True show ?thesis by (simp add: x del: fun_upd_apply) simp
  next
    case False
    with Cons.prems x have "distinct (map fst t)" "(n, d) \<in> set t" by auto
    from Cons.IH [OF this] show ?thesis by (simp add: x del: fun_upd_apply)
  qed
qed simp

lemma depth_map_eq: "distinct (map fst t) \<Longrightarrow> (n, d) \<in> set t \<Longrightarrow> depth_map t n = d"
  by (simp add: depth_map_def fold_upd)

text \<open>C19: The queue tree is displayed after finitely many steps when no two entries share a name: with at
  least as much fuel as there are entries, building and flattening return, every entry is shown at most
  once, with the number of its ancestors as depth, and the entries shown are exactly those whose chain of
  parents ends at a root (an entry on or below a cycle of parents is not shown).\<close>
theorem queue_tree_terminates:
  assumes "distinct (map q_name es)" and "length es \<le> fuel"
  shows "\<exists>rows. flatNodes es fuel = Some rows \<and> distinct (map fst rows)
    \<and> (\<forall>e d. (e, d) \<in> set rows \<longleftrightarrow> e \<in> set es \<and> rooted es d (q_name e))"
proof -
  obtain t where t: "set_depths es fuel = Some t" "distinct (map fst t)" "set t = {(m, d). rooted es d m}"
    using set_depths_returns [OF assms] by blast
  let ?rows = "map (\<lambda>(n, d). (node_entry es n, depth_map t n)) t"
  have rows: "?rows = map (\<lambda>(n, d). (node_entry es n, d)) t"
    using depth_map_eq [OF t(2)] by auto
  have entry: "node_entry es n \<in> set es \<and> q_name (node_entry es n) = n" if "rooted es d n" for n d
    using rooted_name [OF that] node_entry_eq [OF assms(1)] by auto
  have "inj_on (node_entry es) (set (map fst t))"
    using entry t(3) by (intro inj_onI) (auto, metis)
  then have "distinct (map (node_entry es) (map fst t))" using t(2) by (simp add: distinct_map comp_inj_on_iff)
  then have "distinct (map fst ?rows)" unfolding rows by (simp add: comp_def case_prod_beta)
  moreover have "(e, d) \<in> set ?rows \<longleftrightarrow> e \<in> set es \<and> rooted es d (q_name e)" for e d
  proof
    assume "(e, d) \<in> set ?rows"
    then obtain n where "rooted es d n" "e = node_entry es n" unfolding rows using t(3) by auto
    then show "e \<in> set es \<and> rooted es d (q_name e)" using entry by auto
  next
    assume "e \<in> set es \<and> rooted es d (q_name e)"
    then have "(q_name e, d) \<in> set t" "node_entry es (q_name e) = e"
      using t(3) node_entry_eq [OF assms(1)] by auto
    then show "(e, d) \<in> set ?rows" unfolding rows by force
  qed
  ultimately show ?thesis using t(1) by (auto simp: flatNodes_def)
qed

definition demo_queue :: "string \<Rightarrow> string \<Rightarrow> entry" where
  "demo_queue n p = [(''name'', n), (''parent'', p)]"

theorem queue_tree_terminates_witness:
  "\<exists>rows. flatNodes [demo_queue ''b'' ''a'', demo_queue ''a'' ''global'', demo_queue ''x'' ''y'', demo_queue ''y'' ''x''] 4
     = Some rows \<and> distinct (map fst rows)"
proof -
  have "distinct (map q_name [demo_queue ''b'' ''a'', demo_queue ''a'' ''global'', demo_queue ''x'' ''y'', demo_queue ''y'' ''x''])"
    by code_simp
  from queue_tree_terminates [OF this, of 4] show ?thesis by auto
qed

text \<open>Its rows: the child below its parent, the cycle left out.\<close>

lemma cycle_not_shown:
  "flatNodes [demo_queue ''b'' ''a'', demo_queue ''a'' ''global'', demo_queue ''x'' ''y'', demo_queue ''y'' ''x''] 4
   = Some [(demo_queue ''a'' ''global'', 0), (demo_queue ''b'' ''a'', 1)]"
  by code_simp

text \<open>With a repeated name the recursion need not return: for these three entries no amount of fuel
  suffices, so the panel's recursion does not end.\<close>
theorem duplicate_names_diverge:
  "flatNodes [demo_queue ''a'' [], demo_queue ''a'' ''b'', demo_queue ''b'' ''a''] fuel = None"
proof -
  let ?es = "[demo_queue ''a'' [], demo_queue ''a'' ''b'', demo_queue ''b'' ''a'']"
  have c: "children ?es (Some ''a'') = [Some ''b'']" "children ?es (Some ''b'') = [Some ''a'']"
    "roots ?es = [Some ''a'']" by code_simp+
  have "preorder ?es fuel d (Some ''a'') = None \<and> preorder ?es fuel d (Some ''b'') = None" for d
    by (induction fuel arbitrary: d) (simp_all add: c)
  then show ?thesis by (simp add: flatNodes_def set_depths_def c)
qed

end
