(* ===== verification/InterfacePanels.thy ===== *)
theory InterfacePanels
  imports QueueTree
begin

text \<open>
  \<^verbatim>\<open>InterfacesPanel.tsx\<close> (addresses, VLANs, bridges and their ports) and \<^verbatim>\<open>WifiPanel.tsx\<close>.
  The dialogs of the former own their form: it is filled from the edited entry only when the dialog itself
  reports that it opens (\<open>handleOpenChange(true)\<close>); the buttons that open it from outside set the entry
  and the open flag and leave the form as it is.
\<close>

section \<open>Numbers\<close>

text \<open>\<open>Number(s)\<close> where it is an integer: blank is 0; hexadecimal, octal and binary literals; decimal
  literals with fraction and exponent, read exactly (rounding to a double is not modelled). \<open>None\<close> stands
  for \<open>NaN\<close>, the infinities and values that are not integers.\<close>

definition all_digits :: "nat \<Rightarrow> string \<Rightarrow> bool" where
  "all_digits r s \<longleftrightarrow> s \<noteq> [] \<and> list_all (is_digit r) s"

definition scale10 :: "nat \<Rightarrow> int \<Rightarrow> int option" where
  "scale10 m ex =
     (if 0 \<le> ex then Some (int m * 10 ^ nat ex)
      else if int m mod 10 ^ nat (- ex) = 0 then Some (int m div 10 ^ nat (- ex)) else None)"

definition exponent :: "string \<Rightarrow> int option" where
  "exponent s = (case s of
      [] \<Rightarrow> Some 0
    | c # cs \<Rightarrow>
        if c \<noteq> CHR ''e'' \<and> c \<noteq> CHR ''E'' then None
        else (case cs of
            [] \<Rightarrow> None
          | d # ds \<Rightarrow>
              if d = CHR ''-'' then (if all_digits 10 ds then Some (- int (radix_val 10 ds)) else None)
              else if d = CHR ''+'' then (if all_digits 10 ds then Some (int (radix_val 10 ds)) else None)
              else if all_digits 10 cs then Some (int (radix_val 10 cs)) else None))"

definition unsigned_decimal :: "string \<Rightarrow> int option" where
  "unsigned_decimal s =
     (let whole = takeWhile (is_digit 10) s;
          r = dropWhile (is_digit 10) s;
          point = (r \<noteq> [] \<and> hd r = CHR ''.'');
          frac = (if point then takeWhile (is_digit 10) (tl r) else []);
          rest = (if point then dropWhile (is_digit 10) (tl r) else r)
      in if whole = [] \<and> frac = [] then None
         else Option.bind (exponent rest) (\<lambda>ex. scale10 (radix_val 10 (whole @ frac)) (ex - int (length frac))))"

definition prefixed :: "string \<Rightarrow> int option option" where
  "prefixed s = (case s of
      CHR ''0'' # c # cs \<Rightarrow>
        let lit = (\<lambda>r. Some (if all_digits r cs then Some (int (radix_val r cs)) else None)) in
        if c = CHR ''x'' \<or> c = CHR ''X'' then lit 16
        else if c = CHR ''o'' \<or> c = CHR ''O'' then lit 8
        else if c = CHR ''b'' \<or> c = CHR ''B'' then lit 2
        else None
    | _ \<Rightarrow> None)"

definition Number_int :: "string \<Rightarrow> int option" where
  "Number_int s =
     (let t = js_trim s in
      if t = [] then Some 0
      else case prefixed t of
        Some v \<Rightarrow> v
      | None \<Rightarrow>
          if hd t = CHR ''-'' then map_option uminus (unsigned_decimal (tl t))
          else if hd t = CHR ''+'' then unsigned_decimal (tl t)
          else unsigned_decimal t)"

definition if_isValidCidr :: "string \<Rightarrow> bool" where
  "if_isValidCidr value =
     (if \<not> test CIDR_REGEX value then False
      else case split_on CHR ''/'' value of
        ip # m # _ \<Rightarrow>
          (if list_ex (\<lambda>p. num_lt (Number_int p) 0 \<or> num_gt (Number_int p) 255) (split_on CHR ''.'' ip) then False
           else in_range 0 32 (Number_int m))
      | _ \<Rightarrow> False)"

definition isValidVlanId :: "int option \<Rightarrow> bool" where
  "isValidVlanId value = (case value of None \<Rightarrow> False | Some v \<Rightarrow> 1 \<le> v \<and> v \<le> 4094)"

section \<open>Dialogs that own their form\<close>

definition open_only :: "entry option \<Rightarrow> 'f table \<Rightarrow> 'f table" where
  "open_only en t = t\<lparr>editing := en, dialogOpen := True\<rparr>"

text \<open>\<open>handleOpenChange\<close>: reset when opening, then tell the parent.\<close>

definition handleOpenChange :: "(entry option \<Rightarrow> 'f) \<Rightarrow> bool \<Rightarrow> 'f table \<Rightarrow> 'f table" where
  "handleOpenChange fill val t =
     (if val then t\<lparr>form := fill (editing t), errors := [], dialogOpen := val\<rparr> else t\<lparr>dialogOpen := val\<rparr>)"

definition opt_field :: "entry option \<Rightarrow> string \<Rightarrow> string" where
  "opt_field en k = (case en of None \<Rightarrow> [] | Some e \<Rightarrow> field e k)"

definition opt_disabled :: "entry option \<Rightarrow> bool" where
  "opt_disabled en = (case en of None \<Rightarrow> False | Some e \<Rightarrow> field_is e ''disabled'' ''true'')"

definition set_error :: "string \<Rightarrow> 'f table \<Rightarrow> 'f table" where
  "set_error m t = t\<lparr>errors := [(''error'', m)]\<rparr>"

definition toggle_yes_no :: "string \<Rightarrow> (entry \<Rightarrow> string) \<Rightarrow> entry \<Rightarrow> 'f table \<Rightarrow> 'f table" where
  "toggle_yes_no path what e t =
     (let newDisabled = (if field_is e ''disabled'' ''true'' then ''no'' else ''yes'') in
      queue (set_change path (entry_id e) [(''disabled'', newDisabled)]
        ((if newDisabled = ''yes'' then ''Disable'' else ''Enable'') @ what e)) t)"

section \<open>Addresses\<close>

record ifaddr_form =
  ia_address :: string
  ia_iface :: string
  ia_disabled :: bool

definition ifaddr_fill :: "entry option \<Rightarrow> ifaddr_form" where
  "ifaddr_fill en = \<lparr>ia_address = opt_field en ''address'', ia_iface = opt_field en ''interface'', ia_disabled = opt_disabled en\<rparr>"

definition ifaddr_openAdd :: "ifaddr_form table \<Rightarrow> ifaddr_form table" where
  "ifaddr_openAdd t = open_only None t"

definition ifaddr_openEdit :: "entry \<Rightarrow> ifaddr_form table \<Rightarrow> ifaddr_form table" where
  "ifaddr_openEdit e t = open_only (Some e) t"

definition ifaddr_handleRemove :: "entry \<Rightarrow> ifaddr_form table \<Rightarrow> ifaddr_form table" where
  "ifaddr_handleRemove e t = queue (remove_change ''/ip/address'' e
     (''Remove IP '' @ shown e ''address'' @ '' from '' @ shown e ''interface'')) t"

definition ifaddr_handleToggle :: "entry \<Rightarrow> ifaddr_form table \<Rightarrow> ifaddr_form table" where
  "ifaddr_handleToggle = toggle_yes_no ''/ip/address''
     (\<lambda>e. '' IP '' @ shown e ''address'' @ '' on '' @ shown e ''interface'')"

definition ifaddr_handleSubmit :: "ifaddr_form table \<Rightarrow> ifaddr_form table" where
  "ifaddr_handleSubmit t =
     (let f = form t in
      if \<not> if_isValidCidr (ia_address f) then set_error ''Invalid CIDR format. Use format like 192.168.1.1/24'' t
      else if ia_iface f = [] then set_error ''Please select an interface'' t
      else save_entry ''/ip/address''
             [(''address'', ia_address f), (''interface'', ia_iface f), (''disabled'', yes_no (ia_disabled f))]
             (''Update IP '' @ ia_address f @ '' on '' @ ia_iface f) (''Add IP '' @ ia_address f @ '' to '' @ ia_iface f)
             (t\<lparr>errors := []\<rparr>))"

section \<open>VLANs\<close>

record ifvlan_form =
  iv_name :: string
  iv_vlanId :: string
  iv_iface :: string
  iv_disabled :: bool

definition ifvlan_fill :: "entry option \<Rightarrow> ifvlan_form" where
  "ifvlan_fill en = \<lparr>iv_name = opt_field en ''name'', iv_vlanId = opt_field en ''vlan-id'',
     iv_iface = opt_field en ''interface'', iv_disabled = opt_disabled en\<rparr>"

definition ifvlan_openAdd :: "ifvlan_form table \<Rightarrow> ifvlan_form table" where
  "ifvlan_openAdd t = open_only None t"

definition ifvlan_openEdit :: "entry \<Rightarrow> ifvlan_form table \<Rightarrow> ifvlan_form table" where
  "ifvlan_openEdit e t = open_only (Some e) t"

definition ifvlan_handleRemove :: "entry \<Rightarrow> ifvlan_form table \<Rightarrow> ifvlan_form table" where
  "ifvlan_handleRemove e t = queue (remove_change ''/interface/vlan'' e
     (''Remove VLAN '' @ shown e ''name'' @ '' (ID: '' @ shown e ''vlan-id'' @ '')'')) t"

definition ifvlan_handleToggle :: "entry \<Rightarrow> ifvlan_form table \<Rightarrow> ifvlan_form table" where
  "ifvlan_handleToggle = toggle_yes_no ''/interface/vlan'' (\<lambda>e. '' VLAN '' @ shown e ''name'')"

definition ifvlan_handleSubmit :: "ifvlan_form table \<Rightarrow> ifvlan_form table" where
  "ifvlan_handleSubmit t =
     (let f = form t; vid = Number_int (iv_vlanId f) in
      if js_trim (iv_name f) = [] then set_error ''VLAN name is required'' t
      else if \<not> isValidVlanId vid then set_error ''VLAN ID must be between 1 and 4094'' t
      else if iv_iface f = [] then set_error ''Please select a parent interface'' t
      else
        let v = string_of_int (the vid);
            d = '' VLAN '' @ iv_name f @ '' (ID: '' @ v @ '') on '' @ iv_iface f
        in save_entry ''/interface/vlan''
             [(''name'', js_trim (iv_name f)), (''vlan-id'', v), (''interface'', iv_iface f),
              (''disabled'', yes_no (iv_disabled f))]
             (''Update'' @ d) (''Add'' @ d) (t\<lparr>errors := []\<rparr>))"

section \<open>Bridges and their ports\<close>

record bridge_form =
  br_name :: string
  br_protocolMode :: string

definition bridge_fill :: "entry option \<Rightarrow> bridge_form" where
  "bridge_fill en = \<lparr>br_name = opt_field en ''name'', br_protocolMode = str_or (opt_field en ''protocol-mode'') ''rstp''\<rparr>"

definition openAddBridge :: "bridge_form table \<Rightarrow> bridge_form table" where
  "openAddBridge t = open_only None t"

definition openEditBridge :: "entry \<Rightarrow> bridge_form table \<Rightarrow> bridge_form table" where
  "openEditBridge e t = open_only (Some e) t"

definition handleRemoveBridge :: "entry \<Rightarrow> bridge_form table \<Rightarrow> bridge_form table" where
  "handleRemoveBridge e t = queue (remove_change ''/interface/bridge'' e (''Remove bridge '' @ shown e ''name'')) t"

definition handleToggleBridge :: "entry \<Rightarrow> bridge_form table \<Rightarrow> bridge_form table" where
  "handleToggleBridge = toggle_yes_no ''/interface/bridge'' (\<lambda>e. '' bridge '' @ shown e ''name'')"

definition bridge_handleSubmit :: "bridge_form table \<Rightarrow> bridge_form table" where
  "bridge_handleSubmit t =
     (let f = form t; d = '' bridge '' @ br_name f @ '' ('' @ br_protocolMode f @ '')'' in
      if js_trim (br_name f) = [] then set_error ''Bridge name is required'' t
      else save_entry ''/interface/bridge'' [(''name'', js_trim (br_name f)), (''protocol-mode'', br_protocolMode f)]
             (''Update'' @ d) (''Add'' @ d) (t\<lparr>errors := []\<rparr>))"

record brport_form =
  bp_iface :: string
  bp_bridge :: string
  bp_pvid :: string

definition brport_fill :: "entry option \<Rightarrow> brport_form" where
  "brport_fill en = \<lparr>bp_iface = opt_field en ''interface'', bp_bridge = opt_field en ''bridge'',
     bp_pvid = str_or (opt_field en ''pvid'') ''1''\<rparr>"

definition openAddPort :: "brport_form table \<Rightarrow> brport_form table" where
  "openAddPort t = open_only None t"

definition openEditPort :: "entry \<Rightarrow> brport_form table \<Rightarrow> brport_form table" where
  "openEditPort e t = open_only (Some e) t"

definition handleRemovePort :: "entry \<Rightarrow> brport_form table \<Rightarrow> brport_form table" where
  "handleRemovePort e t = queue (remove_change ''/interface/bridge/port'' e
     (''Remove '' @ shown e ''interface'' @ '' from bridge '' @ shown e ''bridge'')) t"

definition brport_handleSubmit :: "brport_form table \<Rightarrow> brport_form table" where
  "brport_handleSubmit t =
     (let f = form t in
      if bp_iface f = [] then set_error ''Please select an interface'' t
      else if bp_bridge f = [] then set_error ''Please select a bridge'' t
      else save_entry ''/interface/bridge/port''
             [(''interface'', bp_iface f), (''bridge'', bp_bridge f), (''pvid'', bp_pvid f)]
             (''Update bridge port '' @ bp_iface f @ '' on '' @ bp_bridge f @ '' (PVID: '' @ bp_pvid f @ '')'')
             (''Add '' @ bp_iface f @ '' to bridge '' @ bp_bridge f @ '' (PVID: '' @ bp_pvid f @ '')'') (t\<lparr>errors := []\<rparr>))"

section \<open>Wireless\<close>

text \<open>\<open>/^(\d+)/\<close> on the version; version 6 when there is none.\<close>

definition parseMajorVersion :: "string option \<Rightarrow> int" where
  "parseMajorVersion version = (case version of
      None \<Rightarrow> 6
    | Some v \<Rightarrow>
        let ds = takeWhile (is_digit 10) v in
        if ds = [] then 6 else int (radix_val 10 ds))"

definition isV7 :: "string option \<Rightarrow> bool" where
  "isV7 version \<longleftrightarrow> 7 \<le> parseMajorVersion version"

definition wirelessPath :: "string option \<Rightarrow> string" where
  "wirelessPath version = (if isV7 version then ''/interface/wifi'' else ''/interface/wireless'')"

record wireless_form =
  wf_ssid :: string
  wf_band :: string
  wf_channel_width :: string
  wf_frequency :: string
  wf_security_profile :: string
  wf_disabled :: string
  wf_passphrase :: string

definition handleEditInterface :: "entry \<Rightarrow> wireless_form table \<Rightarrow> wireless_form table" where
  "handleEditInterface e t = open_only (Some e) t"

definition handleToggleDisabled :: "string option \<Rightarrow> entry \<Rightarrow> wireless_form table \<Rightarrow> wireless_form table" where
  "handleToggleDisabled version e t =
     (let isDisabled = field_is e ''disabled'' ''true'' \<or> field_is e ''disabled'' ''yes'' in
      queue (set_change (wirelessPath version) (entry_id e) [(''disabled'', if isDisabled then ''no'' else ''yes'')]
        ((if isDisabled then ''Enable'' else ''Disable'') @ '' wireless interface '' @ quoted (shown e ''name''))) t)"

definition handleDeleteInterface :: "string option \<Rightarrow> entry \<Rightarrow> wireless_form table \<Rightarrow> wireless_form table" where
  "handleDeleteInterface version e t = queue (remove_change (wirelessPath version) e
     (''Remove wireless interface '' @ quoted (shown e ''name''))) t"

definition wireless_props :: "bool \<Rightarrow> wireless_form \<Rightarrow> string obj" where
  "wireless_props v7 f =
     obj_set ''disabled'' (wf_disabled f)
     (put_if (v7 \<and> wf_passphrase f \<noteq> []) ''security.passphrase'' (wf_passphrase f)
     (put_if (\<not> v7 \<and> wf_security_profile f \<noteq> []) ''security-profile'' (wf_security_profile f)
     (put ''frequency'' (wf_frequency f) (put ''channel-width'' (wf_channel_width f)
     (put ''band'' (wf_band f) (put ''ssid'' (wf_ssid f) []))))))"

definition handleSaveInterface :: "string option \<Rightarrow> wireless_form table \<Rightarrow> wireless_form table" where
  "handleSaveInterface version t =
     (let f = form t;
          u = (case editing t of
                None \<Rightarrow> t
              | Some e \<Rightarrow> queue (set_change (wirelessPath version) (entry_id e) (wireless_props (isV7 version) f)
                    (''Update wireless interface '' @ quoted (shown e ''name'') @ '' (SSID: ''
                      @ str_or (str_or (wf_ssid f) (field e ''ssid'')) ''unchanged'' @ '')'')) t)
      in u\<lparr>editing := None, dialogOpen := False\<rparr>)"

record secprofile_form =
  sp_name :: string
  sp_mode :: string
  sp_auth_types :: string
  sp_wpa_key :: string
  sp_wpa2_key :: string

definition handleEditProfile :: "entry \<Rightarrow> secprofile_form table \<Rightarrow> secprofile_form table" where
  "handleEditProfile e t = open_only (Some e) t"

definition handleAddProfile :: "secprofile_form table \<Rightarrow> secprofile_form table" where
  "handleAddProfile t = open_only None t"

definition handleDeleteProfile :: "entry \<Rightarrow> secprofile_form table \<Rightarrow> secprofile_form table" where
  "handleDeleteProfile e t = queue (remove_change ''/interface/wireless/security-profiles'' e
     (''Remove security profile '' @ quoted (shown e ''name''))) t"

definition handleSaveProfile :: "secprofile_form table \<Rightarrow> secprofile_form table" where
  "handleSaveProfile t =
     (let f = form t in
      (save_entry ''/interface/wireless/security-profiles''
         (put ''wpa2-pre-shared-key'' (sp_wpa2_key f) (put ''wpa-pre-shared-key'' (sp_wpa_key f)
           [(''name'', sp_name f), (''mode'', sp_mode f), (''authentication-types'', sp_auth_types f)]))
         (''Update security profile '' @ quoted (sp_name f)) (''Add security profile '' @ quoted (sp_name f)) t)
        \<lparr>editing := None\<rparr>)"

section \<open>The contract\<close>

lemma plain_words_interface [simp]:
  "plain ''/interface/vlan''" "plain ''/interface/wireless/security-profiles''" "plain ''vlan-id''"
  "plain ''protocol-mode''" "plain ''pvid''" "plain ''ssid''" "plain ''band''" "plain ''channel-width''"
  "plain ''frequency''" "plain ''security-profile''" "plain ''security.passphrase''" "plain ''mode''"
  "plain ''authentication-types''" "plain ''wpa-pre-shared-key''" "plain ''wpa2-pre-shared-key''"
  by code_simp+

lemma plain_wirelessPath [simp]: "plain (wirelessPath v)"
proof -
  have "plain ''/interface/wifi''" "plain ''/interface/wireless''" by code_simp+
  then show ?thesis by (simp add: wirelessPath_def)
qed

lemma stages_open_only [simp]: "stages t (open_only None t)" "has_id e \<Longrightarrow> stages t (open_only (Some e) t)"
  by (simp_all add: open_only_def)

lemma stages_open_change [simp]: "table_ok t \<Longrightarrow> stages t (handleOpenChange fill b t)"
  by (auto simp: handleOpenChange_def table_ok_def intro!: stages_same_panel)

lemma stages_set_error [simp]: "table_ok t \<Longrightarrow> stages t (set_error m t)"
  by (simp add: set_error_def)

lemma stages_toggle_yes_no [simp]: "table_ok t \<Longrightarrow> plain path \<Longrightarrow> has_id e \<Longrightarrow> stages t (toggle_yes_no path w e t)"
  by (auto simp: toggle_yes_no_def Let_def has_id_plain)

lemma stages_save_clear [simp]:
  assumes "table_ok t" "plain path" "props_ok ps" "ps \<noteq> []"
  shows "stages t (save_entry path ps d d' (t\<lparr>errors := es\<rparr>))"
proof -
  have "table_ok (t\<lparr>errors := es\<rparr>)" using assms(1) by (simp add: table_ok_def)
  then show ?thesis using stages_trans [OF stages_errors [OF assms(1)] stages_save] assms by blast
qed

interpretation ifaddr: staging_table
    "[ifaddr_openAdd, ifaddr_handleSubmit, handleOpenChange ifaddr_fill True, handleOpenChange ifaddr_fill False]"
    "[ifaddr_openEdit, ifaddr_handleRemove, ifaddr_handleToggle]"
  by unfold_locales
    (auto simp: ifaddr_openAdd_def ifaddr_openEdit_def ifaddr_handleRemove_def ifaddr_handleToggle_def
      ifaddr_handleSubmit_def stage_simps)

interpretation ifvlan: staging_table
    "[ifvlan_openAdd, ifvlan_handleSubmit, handleOpenChange ifvlan_fill True, handleOpenChange ifvlan_fill False]"
    "[ifvlan_openEdit, ifvlan_handleRemove, ifvlan_handleToggle]"
  by unfold_locales
    (auto simp: ifvlan_openAdd_def ifvlan_openEdit_def ifvlan_handleRemove_def ifvlan_handleToggle_def
      ifvlan_handleSubmit_def stage_simps)

interpretation bridge: staging_table
    "[openAddBridge, bridge_handleSubmit, handleOpenChange bridge_fill True, handleOpenChange bridge_fill False]"
    "[openEditBridge, handleRemoveBridge, handleToggleBridge]"
  by unfold_locales
    (auto simp: openAddBridge_def openEditBridge_def handleRemoveBridge_def handleToggleBridge_def
      bridge_handleSubmit_def stage_simps)

interpretation brport: staging_table
    "[openAddPort, brport_handleSubmit, handleOpenChange brport_fill True, handleOpenChange brport_fill False]"
    "[openEditPort, handleRemovePort]"
  by unfold_locales
    (auto simp: openAddPort_def openEditPort_def handleRemovePort_def brport_handleSubmit_def stage_simps)

lemma stages_done: "stages t u \<Longrightarrow> stages t (u\<lparr>editing := None, dialogOpen := b\<rparr>)"
  by (simp add: stages_def table_ok_def)

lemma wireless_props_ok [simp]: "props_ok (wireless_props v7 f)" "wireless_props v7 f \<noteq> []"
  by (simp_all add: wireless_props_def)

lemma save_interface_stages: "table_ok t \<Longrightarrow> stages t (handleSaveInterface v t)"
  unfolding handleSaveInterface_def Let_def
  by (intro stages_done) (auto simp: table_ok_def has_id_plain stages_refl split: option.splits)

interpretation wireless: staging_table "[handleSaveInterface v]"
    "[handleEditInterface, handleToggleDisabled v, handleDeleteInterface v]"
  by unfold_locales
    (auto simp: save_interface_stages handleEditInterface_def handleToggleDisabled_def handleDeleteInterface_def stage_simps)

interpretation secprofile: staging_table "[handleAddProfile, handleSaveProfile]" "[handleEditProfile, handleDeleteProfile]"
  by unfold_locales
    (auto simp: handleAddProfile_def handleSaveProfile_def handleEditProfile_def handleDeleteProfile_def stage_simps
      intro!: stages_forget)

end
