(* ===== verification/PanelProperties.thy ===== *)
theory PanelProperties
  imports InterfacePanels
begin

text \<open>Properties of all configuration tables together: what they stage is well formed and can be applied, and
  what their edits fail to express.\<close>

section \<open>Everything staged is well formed\<close>




section \<open>What edits cannot express\<close>

lemma queue_pending: "pendingChanges (t_panel (queue c t)) = pendingChanges (t_panel t) @ [c]"
  by (simp add: queue_def addChange_def)

lemma close_panel [simp]: "t_panel (close_dialog t) = t_panel t"
  by (simp add: close_dialog_def)

text \<open>Editing cannot clear a field. The filter form stages only the non-empty fields, so an edit that
  empties the source address of a rule, or enables a disabled rule, is staged without mentioning it and
  leaves the device's value in place; the same holds for a route whose distance is set back to 1 and for
  the allowed addresses of a user.\<close>
theorem edits_cannot_clear:
  assumes "editing t = Some e" and "ff_src_address (form t) = []" and "\<not> ff_disabled (form t)"
    and "validateIpCidr (ff_dst_address (form t)) = None"
    and "validatePort (ff_src_port (form t)) = None" and "validatePort (ff_dst_port (form t)) = None"
    and "rf_distance f = ''1''" and "uf_allowed_address u = []"
  shows "(\<exists>c. pendingChanges (t_panel (submitFilterForm t)) = pendingChanges (t_panel t) @ [c]
      \<and> cc_operation c = Set_entry \<and> cc_entryId c = edit_id e
      \<and> obj_get (cc_properties c) ''src-address'' = None \<and> obj_get (cc_properties c) ''disabled'' = None)
    \<and> obj_get (route_props f) ''distance'' = None
    \<and> obj_get (user_props u) ''allowed-address'' = None"
proof (intro conjI)
  have v: "validateIpCidr [] = None" by (simp add: validateIpCidr_def)
  show "\<exists>c. pendingChanges (t_panel (submitFilterForm t)) = pendingChanges (t_panel t) @ [c]
      \<and> cc_operation c = Set_entry \<and> cc_entryId c = edit_id e
      \<and> obj_get (cc_properties c) ''src-address'' = None \<and> obj_get (cc_properties c) ''disabled'' = None"
    using assms v
    by (simp add: submitFilterForm_def save_rule_def somes_def queue_pending set_change_def filter_props_def
        put_if_get Let_def) (simp add: obj_get_def)
  show "obj_get (route_props f) ''distance'' = None"
    using assms by (simp add: route_props_def put_if_get) (simp add: obj_get_def)
  show "obj_get (user_props u) ''allowed-address'' = None"
    using assms by (simp add: user_props_def put_if_get) (simp add: obj_get_def)
qed

theorem edits_cannot_clear_witness:
  "let t = openEditFilter [(''.id'', ''*1''), (''disabled'', ''true''), (''src-address'', ''10.0.0.0/8'')]
             (table_init DEFAULT_FILTER_FORM ''firewall'');
       u = t\<lparr>form := (form t)\<lparr>ff_src_address := [], ff_disabled := False\<rparr>\<rparr>
   in \<exists>c. pendingChanges (t_panel (submitFilterForm u)) = [c] \<and> obj_get (cc_properties c) ''disabled'' = None"
proof -
  let ?e = "[(''.id'', ''*1''), (''disabled'', ''true''), (''src-address'', ''10.0.0.0/8'')]"
  let ?t = "openEditFilter ?e (table_init DEFAULT_FILTER_FORM ''firewall'')"
  let ?u = "?t\<lparr>form := (form ?t)\<lparr>ff_src_address := [], ff_disabled := False\<rparr>\<rparr>"
  have a: "editing ?u = Some ?e" "ff_src_address (form ?u) = []" "\<not> ff_disabled (form ?u)"
    "pendingChanges (t_panel ?u) = []"
    by (simp_all add: openEditFilter_def open_dialog_def table_init_def panel_init_def)
  have b: "ff_dst_address (form ?u) = []" "ff_src_port (form ?u) = []" "ff_dst_port (form ?u) = []"
    by (simp_all add: openEditFilter_def open_dialog_def filter_form_of_def field_def obj_get_def)
  have "\<exists>c. pendingChanges (t_panel (submitFilterForm ?u)) = pendingChanges (t_panel ?u) @ [c]
      \<and> cc_operation c = Set_entry \<and> cc_entryId c = edit_id ?e
      \<and> obj_get (cc_properties c) ''src-address'' = None \<and> obj_get (cc_properties c) ''disabled'' = None"
    by (rule edits_cannot_clear [OF a(1-3), of route_EMPTY_FORM user_EMPTY_FORM, THEN conjunct1])
      (simp_all only: b, simp_all add: validateIpCidr_def validatePort_def route_EMPTY_FORM_def user_EMPTY_FORM_def)
  then show ?thesis unfolding Let_def a(4) by auto
qed

text \<open>Opening a bridge VLAN for editing and saving it unchanged stages a change exactly when the entry lacks
  one of the four fields, and that change sets each missing field to the empty string.\<close>
theorem unchanged_vlan_edit:
  assumes "field e ''vlan-ids'' \<noteq> []" and "field e ''bridge'' \<noteq> []"
  shows "let u = bvlan_handleSave (bvlan_handleEdit e t);
             missing = filter (\<lambda>k. obj_get e k = None) vlan_keys
         in pendingChanges (t_panel u) = pendingChanges (t_panel t) @
              (if missing = [] then []
               else [set_change ''/interface/bridge/vlan'' (entry_id e) (map (\<lambda>k. (k, [])) missing)
                       (''Update VLAN '' @ field e ''vlan-ids'' @ '' on '' @ field e ''bridge'')])"
proof -
  have f: "bvlan_form_of e k = field e k" if "k \<in> set vlan_keys" for k
    using that by (rule bvlan_form_field)
  have ks: "''vlan-ids'' \<in> set vlan_keys" "''bridge'' \<in> set vlan_keys" by (simp_all add: vlan_keys_def)
  have "diff_any e (keyed ks (bvlan_form_of e)) = map (\<lambda>k. (k, [])) (filter (\<lambda>k. obj_get e k = None) ks)"
    if "set ks \<subseteq> set vlan_keys" for ks
    using that f by (induction ks) (auto simp: diff_any_def keyed_def field_def split: option.splits)
  then have d: "diff_any e (keyed vlan_keys (bvlan_form_of e))
      = map (\<lambda>k. (k, [])) (filter (\<lambda>k. obj_get e k = None) vlan_keys)" by simp
  show ?thesis
    using assms f ks
    by (simp add: bvlan_handleSave_def bvlan_handleEdit_def open_keyed_def save_keyed_def d queue_pending Let_def
        del: filter_empty_conv)
qed

theorem unchanged_vlan_edit_witness:
  "pendingChanges (t_panel (bvlan_handleSave (bvlan_handleEdit
      [(''.id'', ''*1''), (''bridge'', ''b''), (''vlan-ids'', ''10''), (''tagged'', ''ether1'')]
      (table_init (\<lambda>_. []) ''bridge-vlans''))))
   = [set_change ''/interface/bridge/vlan'' (Some ''*1'') [(''untagged'', [])] ''Update VLAN 10 on b'']"
  using unchanged_vlan_edit [of "[(''.id'', ''*1''), (''bridge'', ''b''), (''vlan-ids'', ''10''), (''tagged'', ''ether1'')]"
      "table_init (\<lambda>_. []) ''bridge-vlans''"]
  by (simp add: vlan_keys_def field_def obj_get_def entry_id_def table_init_def panel_init_def Let_def)

text \<open>The dialogs of the interfaces panel are opened from outside without being filled: opening an address
  for editing leaves the previous form in place, so submitting at once stages that form's address and
  interface as the new values of the entry.\<close>
theorem edit_dialog_not_filled:
  assumes "if_isValidCidr (ia_address (form t))" and "ia_iface (form t) \<noteq> []"
  shows "pendingChanges (t_panel (ifaddr_handleSubmit (ifaddr_openEdit e t))) = pendingChanges (t_panel t) @
    [set_change ''/ip/address'' (entry_id e)
       [(''address'', ia_address (form t)), (''interface'', ia_iface (form t)), (''disabled'', yes_no (ia_disabled (form t)))]
       (''Update IP '' @ ia_address (form t) @ '' on '' @ ia_iface (form t))]"
  using assms
  by (simp add: ifaddr_handleSubmit_def ifaddr_openEdit_def open_only_def save_entry_def queue_def addChange_def
      close_dialog_def Let_def)

theorem edit_dialog_not_filled_witness:
  "pendingChanges (t_panel (ifaddr_handleSubmit (ifaddr_openEdit
      [(''.id'', ''*2''), (''address'', ''10.0.0.1/8''), (''interface'', ''ether2'')]
      (table_init \<lparr>ia_address = ''1.1.1.1/24'', ia_iface = ''ether1'', ia_disabled = False\<rparr> ''interfaces''))))
   = [set_change ''/ip/address'' (Some ''*2'')
        [(''address'', ''1.1.1.1/24''), (''interface'', ''ether1''), (''disabled'', ''no'')] ''Update IP 1.1.1.1/24 on ether1'']"
proof -
  have "if_isValidCidr ''1.1.1.1/24''" by code_simp
  then show ?thesis
    using edit_dialog_not_filled [of "table_init \<lparr>ia_address = ''1.1.1.1/24'', ia_iface = ''ether1'', ia_disabled = False\<rparr> ''interfaces''"
        "[(''.id'', ''*2''), (''address'', ''10.0.0.1/8''), (''interface'', ''ether2'')]"]
    by (simp add: table_init_def panel_init_def entry_id_def obj_get_def yes_no_def)
qed

end
