(* ===== verification/SimpleSchema.thy ===== *)
theory SimpleSchema
  imports PanelProperties
begin

text \<open>
  The declarative schema of the simple mode (\<^verbatim>\<open>lib/simpleConfigSchema.ts\<close>): seven categories, their
  sections and fields. Icons are left out.
\<close>

datatype field_type = F_text | F_ip | F_cidr | F_number | F_boolean | F_select | F_password

record simple_field =
  sf_key :: string
  sf_label :: string
  sf_type :: field_type
  sf_help :: "string option"
  sf_placeholder :: "string option"
  sf_required :: bool
  sf_options :: "(string \<times> string) list"
  sf_validation :: "(string \<Rightarrow> string option) option"

definition sfield :: "string \<Rightarrow> string \<Rightarrow> field_type \<Rightarrow> string option \<Rightarrow> string option \<Rightarrow> bool \<Rightarrow>
    (string \<times> string) list \<Rightarrow> (string \<Rightarrow> string option) option \<Rightarrow> simple_field" where
  "sfield k l ty h p r os v = \<lparr>sf_key = k, sf_label = l, sf_type = ty, sf_help = h, sf_placeholder = p,
     sf_required = r, sf_options = os, sf_validation = v\<rparr>"

record simple_section =
  cs_label :: string
  cs_routerosPath :: string
  cs_isSingleton :: bool
  cs_fields :: "simple_field list"

record simple_category =
  sc_id :: string
  sc_label :: string
  sc_description :: string
  sc_sections :: "simple_section list"

definition category_internet :: simple_category where
  "category_internet = \<lparr>sc_id = ''internet'', sc_label = ''Internet Setup'',
     sc_description = ''Configure how this router connects to the internet'', sc_sections =
      [\<lparr>cs_label = ''DHCP Client'', cs_routerosPath = ''/ip/dhcp-client'', cs_isSingleton = False, cs_fields =
        [sfield ''interface'' ''WAN Interface'' F_select None None True
          [] None,
         sfield ''use-peer-dns'' ''Use ISP DNS'' F_boolean (Some ''Accept DNS servers from your ISP'') None False
          [] None,
         sfield ''use-peer-ntp'' ''Use ISP NTP'' F_boolean (Some ''Accept time servers from your ISP'') None False
          [] None,
         sfield ''add-default-route'' ''Add Default Route'' F_boolean (Some ''Automatically create a default route via this connection'') None False
          [] None]\<rparr>,
       \<lparr>cs_label = ''PPPoE Client'', cs_routerosPath = ''/interface/pppoe-client'', cs_isSingleton = False, cs_fields =
        [sfield ''interface'' ''Interface'' F_select None None True
          [] None,
         sfield ''user'' ''PPPoE Username'' F_text None (Some ''ISP username'') True
          [] None,
         sfield ''password'' ''PPPoE Password'' F_password None None True
          [] None,
         sfield ''service-name'' ''Service Name'' F_text None (Some ''Optional'') False
          [] None,
         sfield ''use-peer-dns'' ''Use ISP DNS'' F_boolean None None False
          [] None]\<rparr>,
       \<lparr>cs_label = ''Static IP'', cs_routerosPath = ''/ip/address'', cs_isSingleton = False, cs_fields =
        [sfield ''address'' ''IP Address / Mask'' F_cidr None (Some ''192.168.1.100/24'') True
          [] None,
         sfield ''interface'' ''WAN Interface'' F_select None None True
          [] None]\<rparr>]\<rparr>"

definition category_lan :: simple_category where
  "category_lan = \<lparr>sc_id = ''lan'', sc_label = ''LAN & DHCP'',
     sc_description = ''Local network addresses, DHCP server, and IP pools'', sc_sections =
      [\<lparr>cs_label = ''LAN Address'', cs_routerosPath = ''/ip/address'', cs_isSingleton = False, cs_fields =
        [sfield ''address'' ''IP Address / Mask'' F_cidr (Some ''The IP address of this router on the local network'') (Some ''192.168.88.1/24'') True
          [] None,
         sfield ''interface'' ''Interface'' F_text None None False
          [] None]\<rparr>,
       \<lparr>cs_label = ''DHCP Server'', cs_routerosPath = ''/ip/dhcp-server'', cs_isSingleton = False, cs_fields =
        [sfield ''disabled'' ''Enabled'' F_boolean (Some ''Enable or disable the DHCP server'') None False
          [] None,
         sfield ''address-pool'' ''Address Pool'' F_text None None False
          [] None]\<rparr>,
       \<lparr>cs_label = ''DHCP Network'', cs_routerosPath = ''/ip/dhcp-server/network'', cs_isSingleton = False, cs_fields =
        [sfield ''gateway'' ''Gateway'' F_ip None (Some ''192.168.88.1'') False
          [] None,
         sfield ''dns-server'' ''DNS Servers'' F_text (Some ''DNS servers provided to DHCP clients'') (Some ''192.168.88.1'') False
          [] None,
         sfield ''lease-time'' ''Lease Time'' F_text (Some ''How long a DHCP lease is valid'') (Some ''10m'') False
          [] None]\<rparr>,
       \<lparr>cs_label = ''Address Pool'', cs_routerosPath = ''/ip/pool'', cs_isSingleton = False, cs_fields =
        [sfield ''ranges'' ''IP Range'' F_text (Some ''Range of IP addresses for DHCP clients'') (Some ''192.168.88.10-192.168.88.254'') False
          [] None]\<rparr>]\<rparr>"

definition category_wifi :: simple_category where
  "category_wifi = \<lparr>sc_id = ''wifi'', sc_label = ''WiFi'',
     sc_description = ''Wireless network names, passwords, and bands'', sc_sections =
      [\<lparr>cs_label = ''Wireless Interface'', cs_routerosPath = ''/interface/wifi'', cs_isSingleton = False, cs_fields =
        [sfield ''ssid'' ''Network Name (SSID)'' F_text None (Some ''MyNetwork'') True
          [] None,
         sfield ''security.passphrase'' ''Password'' F_password (Some ''WPA2/WPA3 passphrase (min 8 characters)'') None True
          [] None,
         sfield ''configuration.band'' ''Band'' F_select None None False
          [(''2ghz-ax'', ''2.4 GHz''), (''5ghz-ax'', ''5 GHz'')] None,
         sfield ''disabled'' ''Enabled'' F_boolean None None False
          [] None]\<rparr>]\<rparr>"

definition category_port_forwarding :: simple_category where
  "category_port_forwarding = \<lparr>sc_id = ''port-forwarding'', sc_label = ''Port Forwarding'',
     sc_description = ''Forward external ports to internal servers'', sc_sections =
      [\<lparr>cs_label = ''NAT Rules'', cs_routerosPath = ''/ip/firewall/nat'', cs_isSingleton = False, cs_fields =
        [sfield ''dst-port'' ''External Port'' F_number None (Some ''80'') True
          [] (Some (\<lambda>v. if isValidPort v then None else Some ''Port must be 1-65535'')),
         sfield ''protocol'' ''Protocol'' F_select None None True
          [(''tcp'', ''TCP''), (''udp'', ''UDP''), (''6'', ''TCP + UDP'')] None,
         sfield ''to-addresses'' ''Internal IP Address'' F_ip None (Some ''192.168.88.100'') True
          [] None,
         sfield ''to-ports'' ''Internal Port'' F_number (Some ''Leave same as external port if unchanged'') (Some ''80'') True
          [] None,
         sfield ''comment'' ''Description'' F_text None (Some ''e.g., Web Server'') False
          [] None]\<rparr>]\<rparr>"

definition category_firewall :: simple_category where
  "category_firewall = \<lparr>sc_id = ''firewall'', sc_label = ''Firewall'',
     sc_description = ''Basic firewall rules and address lists'', sc_sections =
      [\<lparr>cs_label = ''Filter Rules'', cs_routerosPath = ''/ip/firewall/filter'', cs_isSingleton = False, cs_fields =
        [sfield ''chain'' ''Chain'' F_select None None True
          [(''input'', ''Input''), (''forward'', ''Forward'')] None,
         sfield ''action'' ''Action'' F_select None None True
          [(''accept'', ''Accept''), (''drop'', ''Drop''), (''reject'', ''Reject'')] None,
         sfield ''protocol'' ''Protocol'' F_select None None False
          [(''tcp'', ''TCP''), (''udp'', ''UDP''), (''icmp'', ''ICMP'')] None,
         sfield ''dst-port'' ''Destination Port'' F_number None (Some ''22'') False
          [] None,
         sfield ''src-address'' ''Source Address'' F_text (Some ''Leave blank to match any source'') (Some ''192.168.88.0/24'') False
          [] None,
         sfield ''comment'' ''Comment'' F_text None (Some ''e.g., Allow SSH from LAN'') False
          [] None]\<rparr>,
       \<lparr>cs_label = ''Address Lists'', cs_routerosPath = ''/ip/firewall/address-list'', cs_isSingleton = False, cs_fields =
        [sfield ''list'' ''List Name'' F_text None None True
          [] None,
         sfield ''address'' ''Address'' F_text None (Some ''192.168.88.0/24'') True
          [] None,
         sfield ''comment'' ''Comment'' F_text None None False
          [] None]\<rparr>]\<rparr>"

definition category_dns :: simple_category where
  "category_dns = \<lparr>sc_id = ''dns'', sc_label = ''DNS'',
     sc_description = ''DNS servers and local name resolution'', sc_sections =
      [\<lparr>cs_label = ''DNS Settings'', cs_routerosPath = ''/ip/dns'', cs_isSingleton = True, cs_fields =
        [sfield ''servers'' ''Upstream Servers'' F_text (Some ''Comma-separated list of DNS server IPs used for name resolution'') (Some ''8.8.8.8,8.8.4.4'') True
          [] None,
         sfield ''allow-remote-requests'' ''Allow Remote Requests'' F_boolean (Some ''Allow devices on your network to use this router as their DNS server'') None False
          [] None,
         sfield ''cache-size'' ''Cache Size (KiB)'' F_number (Some ''DNS cache size in KiB'') (Some ''2048'') False
          [] None]\<rparr>,
       \<lparr>cs_label = ''Static Entries'', cs_routerosPath = ''/ip/dns/static'', cs_isSingleton = False, cs_fields =
        [sfield ''name'' ''Name'' F_text None (Some ''myserver.local'') True
          [] None,
         sfield ''address'' ''Address'' F_ip None (Some ''192.168.88.100'') True
          [] None,
         sfield ''type'' ''Type'' F_select None None False
          [(''A'', ''A''), (''AAAA'', ''AAAA''), (''CNAME'', ''CNAME'')] None]\<rparr>]\<rparr>"

definition category_system :: simple_category where
  "category_system = \<lparr>sc_id = ''system'', sc_label = ''System'',
     sc_description = ''Device identity, time, passwords, and maintenance'', sc_sections =
      [\<lparr>cs_label = ''Identity'', cs_routerosPath = ''/system/identity'', cs_isSingleton = True, cs_fields =
        [sfield ''name'' ''Hostname'' F_text (Some ''A friendly name for this router, visible in the fleet dashboard'') (Some ''e.g., Office-Router-1'') True
          [] None]\<rparr>,
       \<lparr>cs_label = ''Clock'', cs_routerosPath = ''/system/clock'', cs_isSingleton = True, cs_fields =
        [sfield ''time-zone-name'' ''Timezone'' F_text (Some ''IANA timezone identifier (e.g., America/New_York, Europe/London)'') (Some ''America/New_York'') False
          [] None]\<rparr>,
       \<lparr>cs_label = ''NTP Client'', cs_routerosPath = ''/system/ntp/client'', cs_isSingleton = True, cs_fields =
        [sfield ''enabled'' ''NTP Enabled'' F_boolean None None False
          [] None,
         sfield ''server-dns-names'' ''NTP Servers'' F_text (Some ''Comma-separated NTP server hostnames'') (Some ''pool.ntp.org'') False
          [] None]\<rparr>,
       \<lparr>cs_label = ''System Resource'', cs_routerosPath = ''/system/resource'', cs_isSingleton = True, cs_fields =
        []\<rparr>]\<rparr>"

definition SIMPLE_CATEGORIES :: "simple_category list" where
  "SIMPLE_CATEGORIES = [category_internet, category_lan, category_wifi, category_port_forwarding, category_firewall, category_dns, category_system]"

section \<open>Well-formedness\<close>

text \<open>Keys and paths are plain words, keys are distinct within a section, options have distinct values, and
  the category has an apply mode of its own.\<close>

definition field_wf :: "simple_field \<Rightarrow> bool" where
  "field_wf f \<longleftrightarrow> plain (sf_key f) \<and> distinct (map fst (sf_options f)) \<and> (sf_options f \<noteq> [] \<longrightarrow> sf_type f = F_select)"

definition section_wf :: "simple_section \<Rightarrow> bool" where
  "section_wf s \<longleftrightarrow> plain (cs_routerosPath s) \<and> list_all field_wf (cs_fields s) \<and> distinct (map sf_key (cs_fields s))"

definition category_wf :: "simple_category \<Rightarrow> bool" where
  "category_wf c \<longleftrightarrow> list_all section_wf (sc_sections c)
     \<and> obj_get DEFAULT_APPLY_MODES (''simple-'' @ sc_id c) \<noteq> None"

lemma categories_wf:
  "category_wf category_internet"
  "category_wf category_lan"
  "category_wf category_wifi"
  "category_wf category_port_forwarding"
  "category_wf category_firewall"
  "category_wf category_dns"
  "category_wf category_system"
  by code_simp+

lemma schema_wellformed: "list_all category_wf SIMPLE_CATEGORIES \<and> distinct (map sc_id SIMPLE_CATEGORIES)"
proof
  show "list_all category_wf SIMPLE_CATEGORIES" by (simp add: SIMPLE_CATEGORIES_def categories_wf)
  show "distinct (map sc_id SIMPLE_CATEGORIES)" by code_simp
qed

end
