(* ===== verification/SimplePanels.thy ===== *)
theory SimplePanels
  imports SimpleSchema
begin

text \<open>
  The panels of the simple mode (\<^verbatim>\<open>components/simple-config/categories\<close>): port forwarding, basic
  firewall, internet connection, LAN, wireless, DNS and system. The tables are instances of
  \<open>staging_table\<close> again; the others stage from a form of their own (\<open>stage...\<close> functions), for which the
  same guarantee is proved directly.
\<close>

text \<open>\<open>entry.k ?? d\<close>: only a missing field is replaced.\<close>

definition field_nn :: "entry \<Rightarrow> string \<Rightarrow> string \<Rightarrow> string" where
  "field_nn e k d = (case obj_get e k of None \<Rightarrow> d | Some v \<Rightarrow> v)"

text \<open>The dialogs here keep the id of the edited entry; a missing or empty id means an addition.\<close>

definition edit_entry :: "entry \<Rightarrow> entry option" where
  "edit_entry e = (if field e ''.id'' = [] then None else Some e)"

text \<open>After saving, the form is reset and the edit forgotten.\<close>

definition save_reset :: "string \<Rightarrow> string obj \<Rightarrow> string \<Rightarrow> string \<Rightarrow> 'f \<Rightarrow> 'f table \<Rightarrow> 'f table" where
  "save_reset path ps editDesc addDesc f0 t = (save_entry path ps editDesc addDesc t)\<lparr>form := f0, editing := None\<rparr>"

section \<open>Port forwarding\<close>

record forward_form =
  fwd_comment :: string
  fwd_protocol :: string
  fwd_dst_port :: string
  fwd_to_addresses :: string
  fwd_to_ports :: string
  fwd_disabled :: string

definition forward_EMPTY_FORM :: forward_form where
  "forward_EMPTY_FORM = \<lparr>fwd_comment = [], fwd_protocol = ''tcp'', fwd_dst_port = [], fwd_to_addresses = [],
     fwd_to_ports = [], fwd_disabled = ''false''\<rparr>"

definition dstnatRules :: "entry list \<Rightarrow> entry list" where
  "dstnatRules es = filter (\<lambda>e. field_is e ''chain'' ''dstnat'') es"

definition hasMasquerade :: "entry list \<Rightarrow> bool" where
  "hasMasquerade es = list_ex (\<lambda>e. field_is e ''chain'' ''srcnat'' \<and> field_is e ''action'' ''masquerade'') es"

definition forward_openAddDialog :: "forward_form table \<Rightarrow> forward_form table" where
  "forward_openAddDialog t = t\<lparr>editing := None, form := forward_EMPTY_FORM, dialogOpen := True\<rparr>"

definition forward_openEditDialog :: "entry \<Rightarrow> forward_form table \<Rightarrow> forward_form table" where
  "forward_openEditDialog e t = t\<lparr>editing := edit_entry e, form :=
     \<lparr>fwd_comment = field_nn e ''comment'' [], fwd_protocol = field_nn e ''protocol'' ''tcp'',
      fwd_dst_port = field_nn e ''dst-port'' [], fwd_to_addresses = field_nn e ''to-addresses'' [],
      fwd_to_ports = field_nn e ''to-ports'' [], fwd_disabled = field_nn e ''disabled'' ''false''\<rparr>, dialogOpen := True\<rparr>"

definition forward_props :: "forward_form \<Rightarrow> string obj" where
  "forward_props f =
     put_if (fwd_disabled f = ''true'') ''disabled'' ''true'' (put ''comment'' (fwd_comment f)
       [(''chain'', ''dstnat''), (''action'', ''dst-nat''), (''protocol'', fwd_protocol f), (''dst-port'', fwd_dst_port f),
        (''to-addresses'', fwd_to_addresses f), (''to-ports'', str_or (fwd_to_ports f) (fwd_dst_port f))])"

definition forward_handleSave :: "forward_form table \<Rightarrow> forward_form table" where
  "forward_handleSave t =
     (let f = form t in
      save_reset ''/ip/firewall/nat'' (forward_props f)
        (''Update port forward: '' @ str_or (fwd_comment f) (fwd_dst_port f))
        (''Add port forward: '' @ str_or (fwd_comment f) (''port '' @ fwd_dst_port f) @ '' -> '' @ fwd_to_addresses f
           @ '':'' @ str_or (fwd_to_ports f) (fwd_dst_port f)) forward_EMPTY_FORM t)"

definition forward_handleDelete :: "entry \<Rightarrow> forward_form table \<Rightarrow> forward_form table" where
  "forward_handleDelete e t = queue (remove_change ''/ip/firewall/nat'' e
     (''Delete port forward: '' @ str_or (field e ''comment'') (shown e ''dst-port''))) t"

definition forward_handleToggle :: "entry \<Rightarrow> forward_form table \<Rightarrow> forward_form table" where
  "forward_handleToggle e t =
     (let newDisabled = (if field_is e ''disabled'' ''true'' then ''false'' else ''true'') in
      queue (set_change ''/ip/firewall/nat'' (entry_id e) [(''disabled'', newDisabled)]
        ((if newDisabled = ''true'' then ''Disable'' else ''Enable'') @ '' port forward: ''
           @ str_or (field e ''comment'') (shown e ''dst-port''))) t)"

section \<open>Basic firewall\<close>

record rule_form =
  rl_chain :: string
  rl_action :: string
  rl_protocol :: string
  rl_dst_port :: string
  rl_src_address :: string
  rl_comment :: string
  rl_disabled :: string

definition EMPTY_RULE :: rule_form where
  "EMPTY_RULE = \<lparr>rl_chain = ''input'', rl_action = ''accept'', rl_protocol = ''any'', rl_dst_port = [],
     rl_src_address = [], rl_comment = [], rl_disabled = ''false''\<rparr>"

definition openAddRuleDialog :: "string \<Rightarrow> rule_form table \<Rightarrow> rule_form table" where
  "openAddRuleDialog chain t = t\<lparr>editing := None, form := EMPTY_RULE\<lparr>rl_chain := chain\<rparr>, dialogOpen := True\<rparr>"

definition openEditRuleDialog :: "entry \<Rightarrow> rule_form table \<Rightarrow> rule_form table" where
  "openEditRuleDialog e t = t\<lparr>editing := edit_entry e, form :=
     \<lparr>rl_chain = field_nn e ''chain'' ''input'', rl_action = field_nn e ''action'' ''accept'',
      rl_protocol = field_or e ''protocol'' ''any'', rl_dst_port = field_nn e ''dst-port'' [],
      rl_src_address = field_nn e ''src-address'' [], rl_comment = field_nn e ''comment'' [],
      rl_disabled = field_nn e ''disabled'' ''false''\<rparr>, dialogOpen := True\<rparr>"

definition rule_props :: "rule_form \<Rightarrow> string obj" where
  "rule_props f =
     put_if (rl_disabled f = ''true'') ''disabled'' ''true'' (put ''comment'' (rl_comment f)
     (put ''src-address'' (rl_src_address f)
     (put_if (rl_dst_port f \<noteq> [] \<and> (rl_protocol f = ''tcp'' \<or> rl_protocol f = ''udp'')) ''dst-port'' (rl_dst_port f)
     (put_if (rl_protocol f \<noteq> [] \<and> rl_protocol f \<noteq> ''any'') ''protocol'' (rl_protocol f)
       [(''chain'', rl_chain f), (''action'', rl_action f)]))))"

definition handleRuleSave :: "rule_form table \<Rightarrow> rule_form table" where
  "handleRuleSave t =
     (let f = form t;
          d = '' '' @ (if rl_chain f = ''input'' then ''Input'' else ''Forward'') @ '' rule: '' @ rl_action f @ '' ''
            @ rl_protocol f @ (if rl_dst_port f \<noteq> [] then '':'' @ rl_dst_port f else []) in
      save_reset FILTER_PATH (rule_props f) (''Update'' @ d) (''Add'' @ d) EMPTY_RULE t)"

definition handleRuleDelete :: "entry \<Rightarrow> rule_form table \<Rightarrow> rule_form table" where
  "handleRuleDelete e t = queue (remove_change FILTER_PATH e
     (''Delete firewall rule: '' @ str_or (field e ''comment'')
        (shown e ''action'' @ '' '' @ field_or e ''protocol'' ''any''))) t"

definition handleRuleToggle :: "entry \<Rightarrow> rule_form table \<Rightarrow> rule_form table" where
  "handleRuleToggle e t =
     (let newDisabled = (if field_is e ''disabled'' ''true'' then ''false'' else ''true'') in
      queue (set_change FILTER_PATH (entry_id e) [(''disabled'', newDisabled)]
        ((if newDisabled = ''true'' then ''Disable'' else ''Enable'') @ '' firewall rule: ''
           @ str_or (field e ''comment'') (shown e ''.id''))) t)"

text \<open>The address lists: a deletion waits for its confirmation, the entry in \<open>deletingAddr\<close>.\<close>

record addr_form =
  ad_list :: string
  ad_address :: string
  ad_comment :: string
  ad_deletingAddr :: "entry option"
  ad_confirmOpen :: bool

definition EMPTY_ADDR :: addr_form where
  "EMPTY_ADDR = \<lparr>ad_list = [], ad_address = [], ad_comment = [], ad_deletingAddr = None, ad_confirmOpen = False\<rparr>"

definition clear_addr :: "addr_form \<Rightarrow> addr_form" where
  "clear_addr f = f\<lparr>ad_list := [], ad_address := [], ad_comment := []\<rparr>"

definition openAddrDialog :: "addr_form table \<Rightarrow> addr_form table" where
  "openAddrDialog t = t\<lparr>form := clear_addr (form t), dialogOpen := True\<rparr>"

definition handleAddrSave :: "addr_form table \<Rightarrow> addr_form table" where
  "handleAddrSave t =
     (let f = form t;
          u = queue (add_change ''/ip/firewall/address-list''
                (put ''comment'' (ad_comment f) [(''list'', ad_list f), (''address'', ad_address f)])
                (''Add address '' @ ad_address f @ '' to list '' @ quoted (ad_list f))) t
      in u\<lparr>form := clear_addr f, dialogOpen := False\<rparr>)"

definition handleAddrDelete :: "entry \<Rightarrow> addr_form table \<Rightarrow> addr_form table" where
  "handleAddrDelete e t = t\<lparr>form := (form t)\<lparr>ad_deletingAddr := Some e, ad_confirmOpen := True\<rparr>\<rparr>"

definition confirmAddrDelete :: "addr_form table \<Rightarrow> addr_form table" where
  "confirmAddrDelete t = (case ad_deletingAddr (form t) of
      None \<Rightarrow> t
    | Some e \<Rightarrow>
        (queue (remove_change ''/ip/firewall/address-list'' e
           (''Remove '' @ shown e ''address'' @ '' from list '' @ quoted (shown e ''list''))) t)
          \<lparr>form := (form t)\<lparr>ad_deletingAddr := None, ad_confirmOpen := False\<rparr>\<rparr>)"

text \<open>The entries by list name; only an entry without a list counts as unknown.\<close>

definition addressListGroups :: "entry list \<Rightarrow> entry list obj" where
  "addressListGroups es = fold (\<lambda>e m. let l = field_nn e ''list'' ''unknown'' in
     obj_set l ((case obj_get m l of None \<Rightarrow> [] | Some xs \<Rightarrow> xs) @ [e]) m) es []"

definition toggleListCollapse :: "string \<Rightarrow> string list \<Rightarrow> string list" where
  "toggleListCollapse n collapsed = (if n \<in> set collapsed then filter (\<lambda>x. x \<noteq> n) collapsed else collapsed @ [n])"

section \<open>Internet connection\<close>

datatype wan_type = Wan_dhcp | Wan_pppoe | Wan_static

definition detectedWanType :: "entry list \<Rightarrow> entry list \<Rightarrow> wan_type" where
  "detectedWanType pppoe dhcp = (if pppoe \<noteq> [] then Wan_pppoe else if dhcp \<noteq> [] then Wan_dhcp else Wan_static)"

record internet_form =
  in_dhcp_interface :: string
  in_dhcp_dns :: string
  in_dhcp_ntp :: string
  in_dhcp_route :: string
  in_ppp_interface :: string
  in_ppp_user :: string
  in_ppp_password :: string
  in_ppp_service :: string
  in_ppp_dns :: string
  in_st_address :: string
  in_st_interface :: string
  in_st_gateway :: string
  in_st_dns :: string

definition internet_INIT :: internet_form where
  "internet_INIT = \<lparr>in_dhcp_interface = [], in_dhcp_dns = ''true'', in_dhcp_ntp = ''true'', in_dhcp_route = ''true'',
     in_ppp_interface = [], in_ppp_user = [], in_ppp_password = [], in_ppp_service = [], in_ppp_dns = ''true'',
     in_st_address = [], in_st_interface = [], in_st_gateway = [], in_st_dns = []\<rparr>"

text \<open>The effects that copy what was browsed into the form.\<close>

definition dhcp_sync :: "entry option \<Rightarrow> internet_form \<Rightarrow> internet_form" where
  "dhcp_sync entry f = (case entry of None \<Rightarrow> f | Some e \<Rightarrow>
     f\<lparr>in_dhcp_interface := field_nn e ''interface'' [], in_dhcp_dns := field_nn e ''use-peer-dns'' ''true'',
       in_dhcp_ntp := field_nn e ''use-peer-ntp'' ''true'', in_dhcp_route := field_nn e ''add-default-route'' ''true''\<rparr>)"

definition pppoe_sync :: "entry option \<Rightarrow> internet_form \<Rightarrow> internet_form" where
  "pppoe_sync entry f = (case entry of None \<Rightarrow> f | Some e \<Rightarrow>
     f\<lparr>in_ppp_interface := field_nn e ''interface'' [], in_ppp_user := field_nn e ''user'' [], in_ppp_password := [],
       in_ppp_service := field_nn e ''service-name'' [], in_ppp_dns := field_nn e ''use-peer-dns'' ''true''\<rparr>)"

definition dhcp_props :: "internet_form \<Rightarrow> string obj" where
  "dhcp_props f = [(''interface'', in_dhcp_interface f), (''use-peer-dns'', in_dhcp_dns f),
     (''use-peer-ntp'', in_dhcp_ntp f), (''add-default-route'', in_dhcp_route f)]"

definition pppoe_props :: "internet_form \<Rightarrow> string obj" where
  "pppoe_props f =
     obj_set ''use-peer-dns'' (in_ppp_dns f) (put ''service-name'' (in_ppp_service f)
     (put ''interface'' (in_ppp_interface f) (put ''password'' (in_ppp_password f) (put ''user'' (in_ppp_user f) []))))"

definition internet_changes :: "wan_type \<Rightarrow> entry option \<Rightarrow> entry option \<Rightarrow> internet_form \<Rightarrow> config_change list" where
  "internet_changes wan dhcpEntry pppoeEntry f =
     (case wan of
        Wan_dhcp \<Rightarrow>
          (case dhcpEntry of
             Some e \<Rightarrow> [set_change ''/ip/dhcp-client'' (entry_id e) (dhcp_props f)
                          (''Update DHCP client on '' @ in_dhcp_interface f)]
           | None \<Rightarrow> [add_change ''/ip/dhcp-client'' (dhcp_props f) (''Add DHCP client on '' @ in_dhcp_interface f)])
      | Wan_pppoe \<Rightarrow>
          (case pppoeEntry of
             Some e \<Rightarrow> [set_change ''/interface/pppoe-client'' (entry_id e) (pppoe_props f) ''Update PPPoE client settings'']
           | None \<Rightarrow> [add_change ''/interface/pppoe-client'' (obj_set ''name'' ''pppoe-out1'' (pppoe_props f))
                          (''Add PPPoE client on '' @ in_ppp_interface f)])
      | Wan_static \<Rightarrow>
          (if in_st_address f \<noteq> [] \<and> in_st_interface f \<noteq> []
           then [add_change ''/ip/address'' [(''address'', in_st_address f), (''interface'', in_st_interface f)]
                   (''Set static WAN IP '' @ in_st_address f @ '' on '' @ in_st_interface f)] else [])
          @ (if in_st_gateway f \<noteq> []
             then [add_change ''/ip/route'' [(''dst-address'', ''0.0.0.0/0''), (''gateway'', in_st_gateway f)]
                     (''Set default gateway to '' @ in_st_gateway f)] else []))"

definition internet_stageChanges :: "wan_type \<Rightarrow> entry option \<Rightarrow> entry option \<Rightarrow> internet_form \<Rightarrow> panel \<Rightarrow> panel" where
  "internet_stageChanges wan dhcpEntry pppoeEntry f p = fold addChange (internet_changes wan dhcpEntry pppoeEntry f) p"

section \<open>LAN\<close>

definition find_first :: "('a \<Rightarrow> bool) \<Rightarrow> 'a list \<Rightarrow> 'a option" where
  "find_first P xs = List.find P xs"

definition first_entry :: "entry list \<Rightarrow> entry option" where
  "first_entry es = (case es of [] \<Rightarrow> None | e # _ \<Rightarrow> Some e)"

definition lanEntry :: "entry list \<Rightarrow> entry option" where
  "lanEntry addresses =
     (case find_first (\<lambda>e. str_includes (field e ''interface'') ''bridge'' \<or> str_includes (field e ''interface'') ''lan'') addresses of
        Some e \<Rightarrow> Some e
      | None \<Rightarrow> first_entry addresses)"

record lan_form =
  lan_address :: string
  lan_poolRange :: string
  lan_gateway :: string
  lan_dns :: string
  lan_leaseTime :: string

definition lan_sync :: "entry option \<Rightarrow> entry option \<Rightarrow> entry option \<Rightarrow> lan_form \<Rightarrow> lan_form" where
  "lan_sync lan pool network f =
     (let f1 = (case lan of None \<Rightarrow> f | Some e \<Rightarrow> f\<lparr>lan_address := field_nn e ''address'' []\<rparr>);
          f2 = (case pool of None \<Rightarrow> f1 | Some e \<Rightarrow> f1\<lparr>lan_poolRange := field_nn e ''ranges'' []\<rparr>)
      in (case network of None \<Rightarrow> f2 | Some e \<Rightarrow>
            f2\<lparr>lan_gateway := field_nn e ''gateway'' [], lan_dns := field_nn e ''dns-server'' [],
               lan_leaseTime := field_nn e ''lease-time'' []\<rparr>))"

definition put_changed :: "entry \<Rightarrow> string \<Rightarrow> string \<Rightarrow> string obj \<Rightarrow> string obj" where
  "put_changed e k v ps = put_if (obj_get e k \<noteq> Some v) k v ps"

definition lan_changes :: "entry option \<Rightarrow> entry option \<Rightarrow> entry option \<Rightarrow> lan_form \<Rightarrow> config_change list" where
  "lan_changes lan pool network f =
     (case lan of
        None \<Rightarrow> []
      | Some e \<Rightarrow> if obj_get e ''address'' = Some (lan_address f) then []
          else [set_change ''/ip/address'' (entry_id e) [(''address'', lan_address f)] (''Update LAN address to '' @ lan_address f)])
     @ (case pool of
          None \<Rightarrow> []
        | Some e \<Rightarrow> if obj_get e ''ranges'' = Some (lan_poolRange f) then []
            else [set_change ''/ip/pool'' (entry_id e) [(''ranges'', lan_poolRange f)]
                    (''Update DHCP pool range to '' @ lan_poolRange f)])
     @ (case network of
          None \<Rightarrow> []
        | Some e \<Rightarrow>
            let props = put_changed e ''lease-time'' (lan_leaseTime f) (put_changed e ''dns-server'' (lan_dns f)
                  (put_changed e ''gateway'' (lan_gateway f) []))
            in if props = [] then []
               else [set_change ''/ip/dhcp-server/network'' (entry_id e) props ''Update DHCP network settings''])"

definition lan_stageChanges :: "entry option \<Rightarrow> entry option \<Rightarrow> entry option \<Rightarrow> lan_form \<Rightarrow> panel \<Rightarrow> panel" where
  "lan_stageChanges lan pool network f p = fold addChange (lan_changes lan pool network f) p"

section \<open>Wireless\<close>

text \<open>Here an unknown version counts as 7, and one without leading digits as older.\<close>

definition simple_isV7 :: "string option \<Rightarrow> bool" where
  "simple_isV7 version = (case version of
      None \<Rightarrow> True
    | Some v \<Rightarrow> v = [] \<or> num_le 7 (parseInt 10 (hd (split_on CHR ''.'' v))))"

definition simple_wirelessPath :: "string option \<Rightarrow> string" where
  "simple_wirelessPath version = (if simple_isV7 version then ''/interface/wifi'' else ''/interface/wireless'')"

record wifi_form =
  wi_ssid :: string
  wi_passphrase :: string
  wi_band :: string
  wi_channel_width :: string
  wi_frequency :: string
  wi_security_profile :: string
  wi_disabled :: string

definition wifi_ssid_of :: "entry \<Rightarrow> string" where
  "wifi_ssid_of e = field_nn e ''ssid'' (field_nn e ''configuration.ssid'' [])"

definition wifi_band_of :: "entry \<Rightarrow> string" where
  "wifi_band_of e = field_nn e ''configuration.band'' (field_nn e ''band'' [])"

definition wifi_form_of :: "bool \<Rightarrow> entry \<Rightarrow> wifi_form" where
  "wifi_form_of v7 e =
     (if v7 then \<lparr>wi_ssid = wifi_ssid_of e, wi_passphrase = [], wi_band = wifi_band_of e, wi_channel_width = [],
          wi_frequency = [], wi_security_profile = [], wi_disabled = field_nn e ''disabled'' ''false''\<rparr>
      else \<lparr>wi_ssid = field_nn e ''ssid'' [], wi_passphrase = [], wi_band = field_nn e ''band'' [],
          wi_channel_width = field_nn e ''channel-width'' [], wi_frequency = field_nn e ''frequency'' [],
          wi_security_profile = field_nn e ''security-profile'' [], wi_disabled = field_nn e ''disabled'' ''false''\<rparr>)"

text \<open>The forms are read once: an entry whose id has a form keeps it.\<close>

definition wifi_sync :: "bool \<Rightarrow> entry list \<Rightarrow> wifi_form obj \<Rightarrow> wifi_form obj" where
  "wifi_sync v7 entries formState =
     (let newState = fold (\<lambda>e m. let i = field e ''.id'' in
            if i \<noteq> [] \<and> obj_get formState i = None then obj_set i (wifi_form_of v7 e) m else m) entries []
      in fold (\<lambda>(k, f) m. obj_set k f m) newState formState)"

definition wifi_props :: "bool \<Rightarrow> entry \<Rightarrow> wifi_form \<Rightarrow> string obj" where
  "wifi_props v7 e f =
     (if v7 then
        put_if (wi_disabled f \<noteq> field_nn e ''disabled'' ''false'') ''disabled'' (wi_disabled f)
        (put_if (wi_band f \<noteq> wifi_band_of e) ''configuration.band'' (wi_band f)
        (put ''security.passphrase'' (wi_passphrase f)
        (put_if (wi_ssid f \<noteq> wifi_ssid_of e) ''ssid'' (wi_ssid f) [])))
      else
        put_if (wi_disabled f \<noteq> field_nn e ''disabled'' ''false'') ''disabled'' (wi_disabled f)
        (put_if (wi_security_profile f \<noteq> field_nn e ''security-profile'' []) ''security-profile'' (wi_security_profile f)
        (put_if (wi_frequency f \<noteq> field_nn e ''frequency'' []) ''frequency'' (wi_frequency f)
        (put_if (wi_channel_width f \<noteq> field_nn e ''channel-width'' []) ''channel-width'' (wi_channel_width f)
        (put_if (wi_band f \<noteq> field_nn e ''band'' []) ''band'' (wi_band f)
        (put_if (wi_ssid f \<noteq> field_nn e ''ssid'' []) ''ssid'' (wi_ssid f) []))))))"

text \<open>\<open>formState\<close> keeps one form per entry id.\<close>

definition stageInterfaceChanges :: "string option \<Rightarrow> wifi_form obj \<Rightarrow> entry \<Rightarrow> panel \<Rightarrow> panel" where
  "stageInterfaceChanges version formState e p =
     (case obj_get formState (field e ''.id'') of
        None \<Rightarrow> p
      | Some f \<Rightarrow>
          let props = wifi_props (simple_isV7 version) e f in
          if props = [] then p
          else addChange (set_change (simple_wirelessPath version) (entry_id e) props
                 (''Update wireless '' @ field_nn e ''name'' (field e ''.id'') @ '': '' @ join '', '' (obj_keys props))) p)"

section \<open>DNS\<close>

record sdns_settings =
  sd_servers :: "string option"
  sd_remote :: "string option"
  sd_cacheSize :: "string option"

definition sdns_untouched :: sdns_settings where
  "sdns_untouched = \<lparr>sd_servers = None, sd_remote = None, sd_cacheSize = None\<rparr>"

definition stageResolverChanges :: "entry option \<Rightarrow> sdns_settings \<Rightarrow> panel \<Rightarrow> sdns_settings \<times> panel" where
  "stageResolverChanges settings s p =
     (let props = put_edited ''cache-size'' (sd_cacheSize s) (put_edited ''allow-remote-requests'' (sd_remote s)
            (put_edited ''servers'' (sd_servers s) [])) in
      if props = [] then (s, p)
      else (sdns_untouched,
            addChange (set_change ''/ip/dns'' (Option.bind settings entry_id) props
              (''Update DNS settings'' @ (case sd_servers s of None \<Rightarrow> [] | Some v \<Rightarrow> '' (servers: '' @ v @ '')''))) p))"

record sstatic_form =
  ss_name :: string
  ss_address :: string
  ss_type :: string

definition EMPTY_STATIC :: sstatic_form where
  "EMPTY_STATIC = \<lparr>ss_name = [], ss_address = [], ss_type = ''A''\<rparr>"

definition sdns_openAddDialog :: "sstatic_form table \<Rightarrow> sstatic_form table" where
  "sdns_openAddDialog t = t\<lparr>editing := None, form := EMPTY_STATIC, dialogOpen := True\<rparr>"

definition sdns_openEditDialog :: "entry \<Rightarrow> sstatic_form table \<Rightarrow> sstatic_form table" where
  "sdns_openEditDialog e t = t\<lparr>editing := edit_entry e, form :=
     \<lparr>ss_name = field_nn e ''name'' [], ss_address = field_nn e ''address'' [], ss_type = field_nn e ''type'' ''A''\<rparr>,
     dialogOpen := True\<rparr>"

definition handleStaticSave :: "sstatic_form table \<Rightarrow> sstatic_form table" where
  "handleStaticSave t =
     (let f = form t; d = '' DNS entry: '' @ ss_name f @ '' -> '' @ ss_address f in
      save_reset ''/ip/dns/static'' [(''name'', ss_name f), (''address'', ss_address f), (''type'', ss_type f)]
        (''Update'' @ d) (''Add'' @ d) EMPTY_STATIC t)"

definition handleStaticDelete :: "entry \<Rightarrow> sstatic_form table \<Rightarrow> sstatic_form table" where
  "handleStaticDelete e t = queue (remove_change ''/ip/dns/static'' e (''Delete DNS entry: '' @ shown e ''name'')) t"

section \<open>System\<close>

record system_form =
  sy_hostname :: string
  sy_timezone :: string
  sy_ntpEnabled :: string
  sy_ntpServers :: string

definition system_sync :: "entry option \<Rightarrow> entry option \<Rightarrow> entry option \<Rightarrow> system_form \<Rightarrow> system_form" where
  "system_sync identity clock ntp f =
     (let f1 = (case identity of None \<Rightarrow> f | Some e \<Rightarrow> f\<lparr>sy_hostname := field_nn e ''name'' []\<rparr>);
          f2 = (case clock of None \<Rightarrow> f1 | Some e \<Rightarrow> f1\<lparr>sy_timezone := field_nn e ''time-zone-name'' []\<rparr>)
      in (case ntp of None \<Rightarrow> f2 | Some e \<Rightarrow>
            f2\<lparr>sy_ntpEnabled := field_nn e ''enabled'' ''true'', sy_ntpServers := field_nn e ''server-dns-names'' []\<rparr>))"

definition stageIdentityChanges :: "entry option \<Rightarrow> system_form \<Rightarrow> panel \<Rightarrow> panel" where
  "stageIdentityChanges identity f p = (case identity of
      None \<Rightarrow> p
    | Some e \<Rightarrow>
        if sy_hostname f = field e ''name'' then p
        else addChange (set_change ''/system/identity'' (entry_id e) [(''name'', sy_hostname f)]
               (''Rename device to '' @ quoted (sy_hostname f))) p)"

definition time_changes :: "entry option \<Rightarrow> entry option \<Rightarrow> system_form \<Rightarrow> config_change list" where
  "time_changes clock ntp f =
     (case clock of
        None \<Rightarrow> []
      | Some e \<Rightarrow> if sy_timezone f = field e ''time-zone-name'' then []
          else [set_change ''/system/clock'' (entry_id e) [(''time-zone-name'', sy_timezone f)]
                  (''Set timezone to '' @ sy_timezone f)])
     @ (case ntp of
          None \<Rightarrow> []
        | Some e \<Rightarrow>
            let props = put_if (sy_ntpServers f \<noteq> field e ''server-dns-names'') ''server-dns-names'' (sy_ntpServers f)
                  (put_if (sy_ntpEnabled f \<noteq> field_nn e ''enabled'' ''true'') ''enabled'' (sy_ntpEnabled f) [])
            in if props = [] then []
               else [set_change ''/system/ntp/client'' (entry_id e) props ''Update NTP settings''])"

definition stageTimeChanges :: "entry option \<Rightarrow> entry option \<Rightarrow> system_form \<Rightarrow> panel \<Rightarrow> panel" where
  "stageTimeChanges clock ntp f p = fold addChange (time_changes clock ntp f) p"

text \<open>Rebooting sends one command at once; the message says whether it could be sent.\<close>

definition handleReboot :: "'d device \<Rightarrow> string \<Rightarrow> 'd \<Rightarrow> 'd \<times> string" where
  "handleReboot dev hostname d =
     (case dev (Execute ''/system/reboot'') d of
        (d', Inl e) \<Rightarrow> (d', ''Failed to send reboot command'')
      | (d', Inr r) \<Rightarrow> (d', ''Reboot command sent to '' @ str_or hostname ''device''))"

section \<open>The contract\<close>

lemma plain_words_simple [simp]:
  "plain ''/ip/firewall/nat''" "plain ''/interface/pppoe-client''" "plain ''user''" "plain ''service-name''"
  "plain ''configuration.band''" "plain ''server-dns-names''"
  by code_simp+

lemma plain_simple_path [simp]: "plain (simple_wirelessPath v)"
proof -
  have "plain ''/interface/wifi''" "plain ''/interface/wireless''" by code_simp+
  then show ?thesis by (simp add: simple_wirelessPath_def)
qed

lemma edit_entry_id: "has_id e \<Longrightarrow> edit_entry e = Some e' \<Longrightarrow> has_id e'"
  by (auto simp: edit_entry_def split: if_splits)

lemma stages_edit_entry [simp]:
  "has_id e \<Longrightarrow> stages t (t\<lparr>editing := edit_entry e, form := f, dialogOpen := b\<rparr>)"
  by (auto simp: edit_entry_def)

lemma stages_save_reset [simp]:
  "table_ok t \<Longrightarrow> plain path \<Longrightarrow> props_ok ps \<Longrightarrow> ps \<noteq> [] \<Longrightarrow> stages t (save_reset path ps d d' f0 t)"
  using stages_save [of t path ps d d'] by (simp add: save_reset_def stages_def table_ok_def)

interpretation forward: staging_table "[forward_openAddDialog, forward_handleSave]"
    "[forward_openEditDialog, forward_handleDelete, forward_handleToggle]"
  by unfold_locales
    (auto simp: forward_openAddDialog_def forward_openEditDialog_def forward_handleSave_def forward_props_def
      forward_handleDelete_def forward_handleToggle_def stage_simps)

interpretation basic_rules: staging_table
    "[openAddRuleDialog ''input'', openAddRuleDialog ''forward'', handleRuleSave]"
    "[openEditRuleDialog, handleRuleDelete, handleRuleToggle]"
  by unfold_locales
    (auto simp: openAddRuleDialog_def openEditRuleDialog_def handleRuleSave_def rule_props_def handleRuleDelete_def
      handleRuleToggle_def stage_simps)

interpretation sdns: staging_table "[sdns_openAddDialog, handleStaticSave]" "[sdns_openEditDialog, handleStaticDelete]"
  by unfold_locales
    (auto simp: sdns_openAddDialog_def sdns_openEditDialog_def handleStaticSave_def handleStaticDelete_def stage_simps)

text \<open>The forms that stage directly: every change of the list is well formed when the entries carry ids.\<close>

definition opt_id :: "entry option \<Rightarrow> bool" where
  "opt_id en \<longleftrightarrow> (case en of None \<Rightarrow> True | Some e \<Rightarrow> has_id e)"

lemma internet_staged:
  "opt_id dhcp \<Longrightarrow> opt_id ppp \<Longrightarrow> list_all staged (internet_changes wan dhcp ppp f)"
  by (auto simp: internet_changes_def opt_id_def dhcp_props_def pppoe_props_def has_id_plain
      split: wan_type.splits option.splits)

lemma lan_staged:
  "opt_id lan \<Longrightarrow> opt_id pool \<Longrightarrow> opt_id network \<Longrightarrow> list_all staged (lan_changes lan pool network f)"
  by (auto simp: lan_changes_def opt_id_def put_changed_def has_id_plain Let_def split: option.splits)

lemma time_staged: "opt_id clock \<Longrightarrow> opt_id ntp \<Longrightarrow> list_all staged (time_changes clock ntp f)"
  by (auto simp: time_changes_def opt_id_def has_id_plain Let_def split: option.splits)

lemma wifi_staged:
  "has_id e \<Longrightarrow> list_all staged (pendingChanges p) \<Longrightarrow>
   list_all staged (pendingChanges (stageInterfaceChanges v fs e p))"
  by (auto simp: stageInterfaceChanges_def addChange_def has_id_plain wifi_props_def Let_def split: option.splits)

section \<open>Forms as read from the device\<close>

lemma field_nn_empty [simp]: "field_nn e k [] = field e k"
  by (simp add: field_nn_def field_def split: option.split)

lemma wifi_fresh_form: "wifi_props v7 e (wifi_form_of v7 e) = []"
  by (simp add: wifi_props_def wifi_form_of_def put_if_def)

lemma obj_get_Cons: "obj_get ((i, v) # ps) k = (if k = i then Some v else obj_get ps k)"
  by (simp add: obj_get_def)

lemma obj_get_fold_set:
  "obj_wf ps \<Longrightarrow> obj_get (fold (\<lambda>(k, v) m. obj_set k v m) ps m0) k =
     (case obj_get ps k of None \<Rightarrow> obj_get m0 k | Some v \<Rightarrow> Some v)"
proof (induction ps arbitrary: m0)
  case (Cons p ps)
  obtain i v where p: "p = (i, v)" by force
  have "obj_wf ps" "obj_get ps i = None"
    using Cons.prems p by (auto simp: obj_wf_def obj_keys_def obj_get_def map_of_eq_None_iff)
  then show ?case using Cons.IH [of "obj_set i v m0"] p by (auto simp: obj_get_Cons split: option.splits)
qed simp

lemma wifi_new_forms:
  fixes es :: "entry list"
  assumes "\<forall>e \<in> set es. P (field e ''.id'') \<longrightarrow> g e = w (field e ''.id'')"
  shows "obj_wf m \<Longrightarrow> obj_wf (fold (\<lambda>e m. if P (field e ''.id'') then obj_set (field e ''.id'') (g e) m else m) es m)"
    and "obj_get (fold (\<lambda>e m. if P (field e ''.id'') then obj_set (field e ''.id'') (g e) m else m) es m) i =
      (if P i \<and> i \<in> (\<lambda>e. field e ''.id'') ` set es then Some (w i) else obj_get m i)"
  using assms by (induction es arbitrary: m) auto

lemma wifi_sync_get:
  assumes "inj_on (\<lambda>e. field e ''.id'') (set es)" "e \<in> set es" "field e ''.id'' \<noteq> []"
    "obj_get fs (field e ''.id'') = None"
  shows "obj_get (wifi_sync v7 es fs) (field e ''.id'') = Some (wifi_form_of v7 e)"
proof -
  let ?id = "\<lambda>e. field e ''.id''"
  let ?w = "\<lambda>i. wifi_form_of v7 (inv_into (set es) ?id i)"
  have w: "\<forall>e \<in> set es. (?id e \<noteq> [] \<and> obj_get fs (?id e) = None) \<longrightarrow> wifi_form_of v7 e = ?w (?id e)"
    using inv_into_f_f [OF assms(1)] by auto
  have "obj_wf ([] :: wifi_form obj)" by (simp add: obj_wf_def obj_keys_def)
  then show ?thesis
    using assms wifi_new_forms [where P = "\<lambda>i. i \<noteq> [] \<and> obj_get fs i = None" and w = ?w, OF w, of "[]"]
      inv_into_f_f [OF assms(1,2)]
    by (simp add: wifi_sync_def Let_def obj_get_fold_set)
qed

definition knows :: "string list \<Rightarrow> entry option \<Rightarrow> bool" where
  "knows ks entry \<longleftrightarrow> (case entry of None \<Rightarrow> True | Some e \<Rightarrow> list_all (\<lambda>k. obj_get e k \<noteq> None) ks)"

lemma put_if_Nil: "put_if b k v ps = [] \<longleftrightarrow> \<not> b \<and> ps = []"
proof -
  have "obj_set k v ps \<noteq> []" by (cases ps) auto
  then show ?thesis by (simp add: put_if_def)
qed

lemma lan_fresh_form:
  "lan_changes lan pool network (lan_sync lan pool network f) = [] \<longleftrightarrow>
   knows [''address''] lan \<and> knows [''ranges''] pool \<and> knows [''gateway'', ''dns-server'', ''lease-time''] network"
proof -
  have "field e k = v \<Longrightarrow> obj_get e k \<noteq> Some v \<longleftrightarrow> obj_get e k = None" for e k v
    by (auto simp: field_def split: option.splits)
  then show ?thesis
    by (cases lan; cases pool; cases network)
      (simp_all add: lan_changes_def lan_sync_def knows_def put_changed_def put_if_Nil Let_def)
qed

lemma system_fresh_form:
  "stageIdentityChanges identity (system_sync identity clock ntp f) p = p"
  "stageTimeChanges clock ntp (system_sync identity clock ntp f) p = p"
  by (auto simp: stageIdentityChanges_def stageTimeChanges_def time_changes_def system_sync_def put_if_def Let_def
      split: option.splits)

text \<open>A form of the simple mode just read from the device stages nothing for the system and the
  wireless panels. The LAN panel stages nothing exactly when the device reported every field it edits: a
  field the device does not report is staged as the empty string although nobody touched it.\<close>
theorem fresh_forms_stage_nothing:
  "stageIdentityChanges identity (system_sync identity clock ntp f) p = p \<and>
   stageTimeChanges clock ntp (system_sync identity clock ntp f) p = p \<and>
   (inj_on (\<lambda>e. field e ''.id'') (set es) \<longrightarrow> e \<in> set es \<longrightarrow> field e ''.id'' \<noteq> [] \<longrightarrow>
      stageInterfaceChanges version (wifi_sync (simple_isV7 version) es []) e p = p) \<and>
   (lan_changes lan pool network (lan_sync lan pool network lf) = [] \<longleftrightarrow>
      knows [''address''] lan \<and> knows [''ranges''] pool \<and> knows [''gateway'', ''dns-server'', ''lease-time''] network)"
  using wifi_sync_get [of es e "[]"]
  by (auto simp: system_fresh_form lan_fresh_form stageInterfaceChanges_def wifi_fresh_form Let_def)

theorem fresh_forms_stage_nothing_witness:
  "stageInterfaceChanges (Some ''7.1'') (wifi_sync True [[(''.id'', ''*1''), (''ssid'', ''net'')]] [])
     [(''.id'', ''*1''), (''ssid'', ''net'')] (panel_init ''simple-wifi'') = panel_init ''simple-wifi'' \<and>
   lan_changes None None (Some [(''.id'', ''*1''), (''gateway'', ''10.0.0.1''), (''dns-server'', ''10.0.0.1'')])
     (lan_sync None None (Some [(''.id'', ''*1''), (''gateway'', ''10.0.0.1''), (''dns-server'', ''10.0.0.1'')])
       \<lparr>lan_address = [], lan_poolRange = [], lan_gateway = [], lan_dns = [], lan_leaseTime = []\<rparr>) \<noteq> []"
proof -
  let ?e = "[(''.id'', ''*1''), (''ssid'', ''net'')]"
  let ?n = "[(''.id'', ''*1''), (''gateway'', ''10.0.0.1''), (''dns-server'', ''10.0.0.1'')]"
  have v: "simple_isV7 (Some ''7.1'')" "field ?e ''.id'' \<noteq> []" by code_simp+
  have "\<not> knows [''gateway'', ''dns-server'', ''lease-time''] (Some ?n)" by code_simp
  then show ?thesis
    using fresh_forms_stage_nothing [of _ _ _ _ "panel_init ''simple-wifi''" "[?e]" ?e "Some ''7.1''"
        None None "Some ?n" "\<lparr>lan_address = [], lan_poolRange = [], lan_gateway = [], lan_dns = [], lan_leaseTime = []\<rparr>"] v
    by simp
qed

section \<open>The two wireless panels\<close>

lemma hd_split_on: "hd (split_on c s) = takeWhile (\<lambda>x. x \<noteq> c) s"
proof (induction s)
  case (Cons x xs)
  then show ?case using split_on_nonempty [of c xs] by (auto split: list.splits)
qed simp

lemma major_version_read:
  assumes "is_digit 10 c"
  shows "parseInt 10 (hd (split_on CHR ''.'' (c # cs))) = Some (int (radix_val 10 (takeWhile (is_digit 10) (c # cs))))"
proof -
  let ?ds = "takeWhile (is_digit 10) (c # cs)" and ?r = "dropWhile (is_digit 10) (c # cs)"
  let ?u = "takeWhile (\<lambda>x. x \<noteq> CHR ''.'') ?r"
  have ds: "\<forall>x \<in> set ?ds. is_digit 10 x" by (meson set_takeWhileD)
  then have d: "digits (Suc 0) (length ?ds) ?ds" using assms by (simp add: digits_def)
  have "hd (split_on CHR ''.'' (?ds @ ?r)) = ?ds @ ?u"
    unfolding hd_split_on using ds digit_not_special by (intro takeWhile_append2) auto
  then have "hd (split_on CHR ''.'' (c # cs)) = ?ds @ ?u" by (simp only: takeWhile_dropWhile_id)
  moreover have "?u = [] \<or> \<not> is_digit 10 (hd ?u)"
    using hd_dropWhile [of "is_digit 10" "c # cs"] by (cases ?r) auto
  ultimately show ?thesis using parseInt_prefix [OF d] parseInt_digits [OF d] by simp
qed

text \<open>Both wireless panels address the same menu of a device whose version starts with a digit; for
  a device whose version is not known the standard panel configures the menu of version 6 and the simple
  panel that of version 7.\<close>
theorem wireless_menus_agree:
  "(\<forall>c v. is_digit 10 c \<longrightarrow> simple_wirelessPath (Some (c # v)) = wirelessPath (Some (c # v))) \<and>
   wirelessPath None = ''/interface/wireless'' \<and> simple_wirelessPath None = ''/interface/wifi''"
proof (intro conjI allI impI)
  fix c v
  assume "is_digit 10 c"
  then show "simple_wirelessPath (Some (c # v)) = wirelessPath (Some (c # v))"
    using major_version_read [of c v]
    by (simp add: simple_wirelessPath_def wirelessPath_def simple_isV7_def isV7_def parseMajorVersion_def num_le_def Let_def)
qed (simp_all add: simple_wirelessPath_def wirelessPath_def simple_isV7_def isV7_def parseMajorVersion_def)

theorem wireless_menus_agree_witness:
  "is_digit 10 (CHR ''7'') \<and> simple_wirelessPath (Some ''7.14.2'') = wirelessPath (Some ''7.14.2'')"
proof -
  have d: "is_digit 10 (CHR ''7'')" by code_simp
  show ?thesis using wireless_menus_agree [THEN conjunct1, rule_format, OF d, of "''.14.2''"] d by simp
qed

end
