(* ===== verification/Rollouts.thy ===== *)
theory Rollouts
  imports Staging
begin

text \<open>
  Operations on many devices: the bulk command wizard
  (\<^verbatim>\<open>components/operations/BulkCommandWizard.tsx\<close>), the batch configuration wizard
  (\<^verbatim>\<open>components/config/BatchConfigPanel.tsx\<close>), the template push wizard and its progress panel
  (\<^verbatim>\<open>components/templates\<close>). The first two run over the devices one after the other in the
  browser; the locale \<open>sequential_run\<close> states what both promise. The third starts a rollout on the server.
\<close>

record target =
  tg_id :: string
  tg_hostname :: string
  tg_ip :: string
  tg_status :: string
  tg_groups :: "string list"

abbreviation online :: "target \<Rightarrow> bool" where
  "online d \<equiv> tg_status d = ''online''"

section \<open>Bulk commands\<close>

datatype exec_status = Exec_pending | Exec_running | Exec_success | Exec_error | Exec_skipped

record exec_result =
  xr_deviceId :: string
  xr_hostname :: string
  xr_ipAddress :: string
  xr_status :: exec_status
  xr_output :: "string option"
  xr_error :: "json option"

definition BLOCKED_COMMAND_PREFIXES :: "string list" where
  "BLOCKED_COMMAND_PREFIXES = [''/system/reset-configuration'', ''/system/shutdown'', ''/system/reboot'',
     ''/user'', ''/password'', ''/certificate'']"

definition checkCommandBlocked :: "string \<Rightarrow> string option" where
  "checkCommandBlocked command =
     (let normalized = toLowerCase (js_trim command) in
      map_option (\<lambda>blocked. ''Command matches dangerous prefix '' @ quoted blocked
          @ ''. This operation is blocked for safety.'')
        (List.find (\<lambda>blocked. startsWith normalized blocked) BLOCKED_COMMAND_PREFIXES))"

record bulk_wizard =
  bw_step :: nat
  bw_selected :: "target list"
  bw_command :: string
  bw_results :: "exec_result list"
  bw_showConfirm :: bool
  bw_calls :: "(string \<times> string) list"

definition bulk_init :: bulk_wizard where
  "bulk_init = \<lparr>bw_step = 1, bw_selected = [], bw_command = [], bw_results = [], bw_showConfirm = False, bw_calls = []\<rparr>"

definition resetWizard :: "bulk_wizard \<Rightarrow> bulk_wizard" where
  "resetWizard w = w\<lparr>bw_step := 1, bw_selected := [], bw_command := [], bw_results := [], bw_showConfirm := False\<rparr>"

subsection \<open>Selecting the devices\<close>

definition filteredDevices :: "string \<Rightarrow> string \<Rightarrow> target list \<Rightarrow> target list" where
  "filteredDevices statusFilter search ds = filter (\<lambda>d.
     (statusFilter = ''all'' \<or> tg_status d = statusFilter) \<and>
     (search = [] \<or> (let q = toLowerCase search in
        str_includes (toLowerCase (tg_hostname d)) q \<or> str_includes (toLowerCase (tg_ip d)) q))) ds"

definition bulk_toggleDevice :: "target \<Rightarrow> target list \<Rightarrow> target list" where
  "bulk_toggleDevice d sel = (if tg_id d \<in> tg_id ` set sel then filter (\<lambda>e. tg_id e \<noteq> tg_id d) sel else sel @ [d])"

definition bulk_selectAllOnline :: "target list \<Rightarrow> target list" where
  "bulk_selectAllOnline ds = filter online ds"

text \<open>Nothing is selected when the group is not among those loaded.\<close>

definition selectByGroup :: "string list \<Rightarrow> string \<Rightarrow> target list \<Rightarrow> target list \<Rightarrow> target list" where
  "selectByGroup groups g ds sel = (if g \<in> set groups then filter (\<lambda>d. g \<in> set (tg_groups d)) ds else sel)"

definition check_all :: "bool \<Rightarrow> target list \<Rightarrow> target list \<Rightarrow> target list \<Rightarrow> target list" where
  "check_all checked filtered ds sel =
     (if checked then filter (\<lambda>d. tg_id d \<in> tg_id ` set sel \<or> tg_id d \<in> tg_id ` set filtered) ds
      else filter (\<lambda>d. tg_id d \<notin> tg_id ` set filtered) sel)"

subsection \<open>Running the command\<close>

definition initial_result :: "target \<Rightarrow> exec_result" where
  "initial_result d = \<lparr>xr_deviceId = tg_id d, xr_hostname = tg_hostname d, xr_ipAddress = tg_ip d,
     xr_status = (if online d then Exec_pending else Exec_skipped), xr_output = None,
     xr_error = (if online d then None else Some (JStr ''Device offline''))\<rparr>"

text \<open>\<open>err.response?.data?.detail ?? err.message ?? 'Execution failed'\<close>.\<close>

definition exec_error_text :: "thrown \<Rightarrow> json" where
  "exec_error_text err = (case detail_of err of
      Some d \<Rightarrow> if d = JNull then
          (case err of AxiosError _ m \<Rightarrow> JStr m | JsError m \<Rightarrow> JStr m | OtherThrown \<Rightarrow> JStr ''Execution failed'') else d
    | None \<Rightarrow> (case err of AxiosError _ m \<Rightarrow> JStr m | JsError m \<Rightarrow> JStr m | OtherThrown \<Rightarrow> JStr ''Execution failed''))"

text \<open>\<open>JSON.stringify(data, null, 2)\<close> is the argument \<open>stringify\<close>; an array is always truthy.\<close>

definition exec_outcome :: "(string obj list \<Rightarrow> string) \<Rightarrow> thrown + command_response \<Rightarrow> exec_result \<Rightarrow> exec_result" where
  "exec_outcome stringify answer r = (case answer of
      Inr response \<Rightarrow>
        if cr_success response
        then r\<lparr>xr_status := Exec_success, xr_output := Some (stringify (cr_data response))\<rparr>
        else r\<lparr>xr_status := Exec_error,
               xr_error := Some (JStr (case cr_error response of None \<Rightarrow> ''Unknown error'' | Some e \<Rightarrow> e))\<rparr>
    | Inl err \<Rightarrow> r\<lparr>xr_status := Exec_error, xr_error := Some (exec_error_text err)\<rparr>)"

text \<open>The loop from index \<open>i\<close>; \<open>abortRef\<close> is read before every device, \<open>execute i\<close> is the answer to the call
  for device \<open>i\<close>. The calls made come first.\<close>

fun execute_loop ::
  "(string obj list \<Rightarrow> string) \<Rightarrow> (nat \<Rightarrow> bool) \<Rightarrow> (nat \<Rightarrow> thrown + command_response) \<Rightarrow> string \<Rightarrow> nat
     \<Rightarrow> exec_result list \<Rightarrow> (string \<times> string) list \<times> exec_result list" where
  "execute_loop stringify aborted execute command i [] = ([], [])"
| "execute_loop stringify aborted execute command i (r # rs) =
     (if aborted i then ([], r # rs)
      else let (calls, rs') = execute_loop stringify aborted execute command (i + 1) rs in
           if xr_status r = Exec_skipped then (calls, r # rs')
           else ((xr_deviceId r, command) # calls, exec_outcome stringify (execute i) r # rs'))"

definition executeAll ::
  "(string obj list \<Rightarrow> string) \<Rightarrow> (nat \<Rightarrow> bool) \<Rightarrow> (nat \<Rightarrow> thrown + command_response) \<Rightarrow> bulk_wizard \<Rightarrow> bulk_wizard" where
  "executeAll stringify aborted execute w =
     (let (calls, results) = execute_loop stringify aborted execute (bw_command w) 0 (map initial_result (bw_selected w))
      in w\<lparr>bw_showConfirm := False, bw_results := results, bw_calls := bw_calls w @ calls\<rparr>)"

definition count_status :: "exec_status \<Rightarrow> exec_result list \<Rightarrow> nat" where
  "count_status st rs = length (filter (\<lambda>r. xr_status r = st) rs)"

subsection \<open>The wizard\<close>

text \<open>What the controls allow: the selection and the command can be changed in their own step only, and
  while the command runs everything is disabled.\<close>

datatype bulk_event =
    Bulk_select "target list"
  | Bulk_type string
  | Bulk_next
  | Bulk_back
  | Bulk_ask
  | Bulk_cancel
  | Bulk_confirm "nat \<Rightarrow> thrown + command_response"
  | Bulk_reset

definition blockWarning :: "bulk_wizard \<Rightarrow> string option" where
  "blockWarning w = (if bw_command w = [] then None else checkCommandBlocked (bw_command w))"

fun bulk_step :: "(string obj list \<Rightarrow> string) \<Rightarrow> bulk_event \<Rightarrow> bulk_wizard \<Rightarrow> bulk_wizard" where
  "bulk_step stringify Bulk_cancel w = w\<lparr>bw_showConfirm := False\<rparr>"
| "bulk_step stringify (Bulk_confirm execute) w =
     (if bw_showConfirm w then executeAll stringify (\<lambda>_. False) execute w else w)"
| "bulk_step stringify (Bulk_select ds) w = (if bw_step w = 1 \<and> \<not> bw_showConfirm w then w\<lparr>bw_selected := ds\<rparr> else w)"
| "bulk_step stringify (Bulk_type s) w = (if bw_step w = 2 \<and> \<not> bw_showConfirm w then w\<lparr>bw_command := s\<rparr> else w)"
| "bulk_step stringify Bulk_next w =
     (if bw_showConfirm w then w
      else if bw_step w = 1 \<and> bw_selected w \<noteq> [] then w\<lparr>bw_step := 2\<rparr>
      else if bw_step w = 2 \<and> js_trim (bw_command w) \<noteq> [] \<and> blockWarning w = None then w\<lparr>bw_step := 3\<rparr>
      else w)"
| "bulk_step stringify Bulk_back w =
     (if bw_showConfirm w then w
      else if bw_step w = 2 then w\<lparr>bw_step := 1\<rparr>
      else if bw_step w = 3 \<and> bw_results w = [] then w\<lparr>bw_step := 2\<rparr>
      else w)"
| "bulk_step stringify Bulk_ask w = (if bw_step w = 3 \<and> bw_results w = [] then w\<lparr>bw_showConfirm := True\<rparr> else w)"
| "bulk_step stringify Bulk_reset w =
     (if bw_step w = 3 \<and> bw_results w \<noteq> [] \<and> \<not> bw_showConfirm w then resetWizard w else w)"

section \<open>Batch configuration\<close>

datatype operation_type =
    Add_firewall_rule | Set_dns_servers | Add_vlan | Add_simple_queue | Add_ip_address | Add_static_dns

record batch_change =
  bc_operationType :: operation_type
  bc_path :: string
  bc_set :: bool
  bc_properties :: "string obj"
  bc_description :: string

definition clean :: "string obj \<Rightarrow> string obj" where
  "clean ps = fold (\<lambda>(k, v) m. if js_trim v \<noteq> [] then obj_set k (js_trim v) m else m) ps []"

text \<open>\<open>...(formData.k ? { k: formData.k } : {})\<close>\<close>

definition given :: "entry \<Rightarrow> string \<Rightarrow> string obj" where
  "given f k = (if field f k \<noteq> [] then [(k, field f k)] else [])"

definition trimmed :: "entry \<Rightarrow> string \<Rightarrow> string" where
  "trimmed f k = js_trim (field f k)"

text \<open>What each operation hands to \<open>clean\<close>.\<close>

definition raw_properties :: "operation_type \<Rightarrow> entry \<Rightarrow> string obj" where
  "raw_properties op f = (case op of
      Add_firewall_rule \<Rightarrow>
        [(''chain'', field_or f ''chain'' ''input''), (''action'', field_or f ''action'' ''accept'')]
        @ given f ''src-address'' @ given f ''dst-address'' @ given f ''protocol'' @ given f ''dst-port'' @ given f ''comment''
    | Set_dns_servers \<Rightarrow>
        [(''servers'', field f ''servers''), (''allow-remote-requests'', field_or f ''allow-remote-requests'' ''no'')]
    | Add_vlan \<Rightarrow>
        [(''name'', field_or f ''name'' (''vlan'' @ trimmed f ''vlan-id'')), (''vlan-id'', trimmed f ''vlan-id''),
         (''interface'', trimmed f ''interface'')]
    | Add_simple_queue \<Rightarrow>
        [(''name'', field_or f ''name'' ''batch-queue''), (''target'', trimmed f ''target'')]
        @ given f ''max-limit'' @ given f ''comment''
    | Add_ip_address \<Rightarrow> [(''address'', trimmed f ''address''), (''interface'', trimmed f ''interface'')] @ given f ''comment''
    | Add_static_dns \<Rightarrow> [(''name'', trimmed f ''name''), (''address'', trimmed f ''address'')] @ given f ''type'' @ given f ''comment'')"

definition batch_description :: "operation_type \<Rightarrow> entry \<Rightarrow> string" where
  "batch_description op f = (case op of
      Add_firewall_rule \<Rightarrow>
        (let props = clean (raw_properties op f) in ''Add firewall '' @ shown props ''chain'' @ ''/'' @ shown props ''action'' @ '' rule'')
    | Set_dns_servers \<Rightarrow> ''Set DNS servers to '' @ field f ''servers''
    | Add_vlan \<Rightarrow> ''Add VLAN '' @ trimmed f ''vlan-id'' @ '' on '' @ trimmed f ''interface''
    | Add_simple_queue \<Rightarrow> ''Add simple queue for '' @ trimmed f ''target''
    | Add_ip_address \<Rightarrow> ''Add IP '' @ trimmed f ''address'' @ '' on '' @ trimmed f ''interface''
    | Add_static_dns \<Rightarrow> ''Add static DNS '' @ trimmed f ''name'' @ '' -> '' @ trimmed f ''address'')"

definition batch_path :: "operation_type \<Rightarrow> string" where
  "batch_path op = (case op of
      Add_firewall_rule \<Rightarrow> ''/ip/firewall/filter'' | Set_dns_servers \<Rightarrow> ''/ip/dns'' | Add_vlan \<Rightarrow> ''/interface/vlan''
    | Add_simple_queue \<Rightarrow> ''/queue/simple'' | Add_ip_address \<Rightarrow> ''/ip/address'' | Add_static_dns \<Rightarrow> ''/ip/dns/static'')"

text \<open>The message shown when something required is missing.\<close>

definition batch_missing :: "operation_type \<Rightarrow> entry \<Rightarrow> string option" where
  "batch_missing op f = (case op of
      Add_firewall_rule \<Rightarrow> None
    | Set_dns_servers \<Rightarrow> if trimmed f ''servers'' = [] then Some ''DNS servers required'' else None
    | Add_vlan \<Rightarrow> if trimmed f ''vlan-id'' = [] \<or> trimmed f ''interface'' = []
        then Some ''VLAN ID and interface are required'' else None
    | Add_simple_queue \<Rightarrow> if trimmed f ''target'' = [] then Some ''Queue target is required'' else None
    | Add_ip_address \<Rightarrow> if trimmed f ''address'' = [] \<or> trimmed f ''interface'' = []
        then Some ''Address and interface are required'' else None
    | Add_static_dns \<Rightarrow> if trimmed f ''name'' = [] \<or> trimmed f ''address'' = []
        then Some ''Name and address are required'' else None)"

definition buildBatchChange :: "operation_type \<Rightarrow> entry \<Rightarrow> string + batch_change" where
  "buildBatchChange op f = (case batch_missing op f of
      Some m \<Rightarrow> Inl m
    | None \<Rightarrow> Inr \<lparr>bc_operationType = op, bc_path = batch_path op, bc_set = (op = Set_dns_servers),
        bc_properties = clean (raw_properties op f), bc_description = batch_description op f\<rparr>)"

datatype batch_status = Batch_pending | Batch_applying | Batch_success | Batch_failed

record exec_state =
  es_deviceId :: string
  es_hostname :: string
  es_ipAddress :: string
  es_status :: batch_status
  es_error :: "string option"

record batch_panel =
  ba_step :: nat
  ba_selected :: "string set"
  ba_operationType :: "operation_type option"
  ba_formData :: entry
  ba_change :: "batch_change option"
  ba_execStates :: "exec_state list"
  ba_isRunning :: bool
  ba_isComplete :: bool
  ba_toasts :: "string list"

definition batch_init :: batch_panel where
  "batch_init = \<lparr>ba_step = 1, ba_selected = {}, ba_operationType = None, ba_formData = [], ba_change = None,
     ba_execStates = [], ba_isRunning = False, ba_isComplete = False, ba_toasts = []\<rparr>"

definition ba_toast :: "string \<Rightarrow> batch_panel \<Rightarrow> batch_panel" where
  "ba_toast m b = b\<lparr>ba_toasts := ba_toasts b @ [m]\<rparr>"

text \<open>A row of a device that is not online does nothing.\<close>

definition batch_toggleDevice :: "target \<Rightarrow> batch_panel \<Rightarrow> batch_panel" where
  "batch_toggleDevice d b = (if online d then
     b\<lparr>ba_selected := (if tg_id d \<in> ba_selected b then ba_selected b - {tg_id d} else insert (tg_id d) (ba_selected b))\<rparr> else b)"

definition batch_selectAllOnline :: "target list \<Rightarrow> batch_panel \<Rightarrow> batch_panel" where
  "batch_selectAllOnline ds b = b\<lparr>ba_selected := tg_id ` set (filter online ds)\<rparr>"

definition batch_deselectAll :: "batch_panel \<Rightarrow> batch_panel" where
  "batch_deselectAll b = b\<lparr>ba_selected := {}\<rparr>"

definition setField :: "string \<Rightarrow> string \<Rightarrow> batch_panel \<Rightarrow> batch_panel" where
  "setField k v b = b\<lparr>ba_formData := obj_set k v (ba_formData b)\<rparr>"

definition ba_selectedDevices :: "target list \<Rightarrow> batch_panel \<Rightarrow> target list" where
  "ba_selectedDevices ds b = filter (\<lambda>d. tg_id d \<in> ba_selected b) ds"

definition pending_state :: "target \<Rightarrow> exec_state" where
  "pending_state d = \<lparr>es_deviceId = tg_id d, es_hostname = tg_hostname d, es_ipAddress = tg_ip d,
     es_status = Batch_pending, es_error = None\<rparr>"

definition batch_handleNext :: "target list \<Rightarrow> batch_panel \<Rightarrow> batch_panel" where
  "batch_handleNext ds b =
     (if ba_step b = 1 then
        (if ba_selected b = {} then ba_toast ''Select at least one device'' b else b\<lparr>ba_step := 2\<rparr>)
      else if ba_step b = 2 then
        (case ba_operationType b of
           None \<Rightarrow> ba_toast ''Select an operation type'' b
         | Some op \<Rightarrow>
             (case buildBatchChange op (ba_formData b) of
                Inl m \<Rightarrow> ba_toast m b
              | Inr c \<Rightarrow> b\<lparr>ba_change := Some c, ba_execStates := map pending_state (ba_selectedDevices ds b), ba_step := 3\<rparr>))
      else b)"

definition batch_handleBack :: "batch_panel \<Rightarrow> batch_panel" where
  "batch_handleBack b =
     (if ba_step b = 2 then b\<lparr>ba_step := 1\<rparr>
      else if ba_step b = 3 \<and> \<not> ba_isRunning b
      then b\<lparr>ba_step := 2, ba_change := None, ba_execStates := [], ba_isComplete := False\<rparr>
      else b)"

definition mark :: "string \<Rightarrow> batch_status \<Rightarrow> string option \<Rightarrow> exec_state list \<Rightarrow> exec_state list" where
  "mark i st err ss = map (\<lambda>s. if es_deviceId s = i then s\<lparr>es_status := st, es_error := (if err = None then es_error s else err)\<rparr> else s) ss"

definition batch_call :: "batch_change \<Rightarrow> editor_call" where
  "batch_call c = (if bc_set c then SetEntry (bc_path c) (Some []) (bc_properties c) else AddEntry (bc_path c) (bc_properties c))"

text \<open>\<open>err instanceof Error ? err.message : 'Unknown error'\<close>.\<close>

definition error_text :: "thrown \<Rightarrow> string" where
  "error_text err = (case err of AxiosError _ m \<Rightarrow> m | JsError m \<Rightarrow> m | OtherThrown \<Rightarrow> ''Unknown error'')"

definition settle :: "string \<Rightarrow> thrown + command_response \<Rightarrow> exec_state list \<Rightarrow> exec_state list" where
  "settle i answer ss = (case answer of
      Inr r \<Rightarrow> mark i Batch_success None ss
    | Inl err \<Rightarrow> mark i Batch_failed (Some (error_text err)) ss)"

text \<open>The loop over the selected devices from index \<open>i\<close>, with the calls made.\<close>

fun batch_loop ::
  "(nat \<Rightarrow> thrown + command_response) \<Rightarrow> editor_call \<Rightarrow> nat \<Rightarrow> target list \<Rightarrow> exec_state list
     \<Rightarrow> (string \<times> editor_call) list \<times> exec_state list" where
  "batch_loop answer call i [] ss = ([], ss)"
| "batch_loop answer call i (d # ds) ss =
     (let (calls, ss') = batch_loop answer call (i + 1) ds
            (settle (tg_id d) (answer i) (mark (tg_id d) Batch_applying None ss))
      in ((tg_id d, call) # calls, ss'))"

definition handleExecute :: "(nat \<Rightarrow> thrown + command_response) \<Rightarrow> target list \<Rightarrow> batch_panel \<Rightarrow> (string \<times> editor_call) list \<times> batch_panel" where
  "handleExecute answer ds b =
     (case ba_change b of
        None \<Rightarrow> ([], b)
      | Some c \<Rightarrow>
          if ba_isRunning b then ([], b)
          else let (calls, ss) = batch_loop answer (batch_call c) 0 (ba_selectedDevices ds b) (ba_execStates b)
               in (calls, ba_toast ''Batch execution complete''
                     (b\<lparr>ba_execStates := ss, ba_isRunning := False, ba_isComplete := True\<rparr>)))"

definition handleReset :: "batch_panel \<Rightarrow> batch_panel" where
  "handleReset b = batch_init\<lparr>ba_toasts := ba_toasts b\<rparr>"

section \<open>Template push\<close>

datatype wizard_step = Step_targets | Step_variables | Step_preview | Step_confirm | Step_progress

record variable_def =
  va_name :: string
  va_default :: "string option"

record push_wizard =
  pw_step :: wizard_step
  pw_selected :: "string list"
  pw_variables :: "string obj"
  pw_previewDevice :: "string option"
  pw_previews :: "string obj"
  pw_pending :: "(string \<times> string obj) list"
  pw_rolloutId :: "string option"

text \<open>\<open>pw_selected\<close> is a set in insertion order, \<open>pw_pending\<close> the preview requests under way with the
  variables they were sent with.\<close>

definition default_variables :: "variable_def list \<Rightarrow> string obj" where
  "default_variables vs = fold (\<lambda>v m. case va_default v of
      None \<Rightarrow> m
    | Some d \<Rightarrow> if d = [] then m else obj_set (va_name v) d m) vs []"

definition push_init :: "variable_def list \<Rightarrow> push_wizard" where
  "push_init vs = \<lparr>pw_step = Step_targets, pw_selected = [], pw_variables = default_variables vs,
     pw_previewDevice = None, pw_previews = [], pw_pending = [], pw_rolloutId = None\<rparr>"

definition userVars :: "variable_def list \<Rightarrow> variable_def list" where
  "userVars vs = filter (\<lambda>v. va_name v \<noteq> ''device'') vs"

definition handleGroupSelect :: "target list option \<Rightarrow> string \<Rightarrow> push_wizard \<Rightarrow> push_wizard" where
  "handleGroupSelect devices groupId w = (case devices of
      None \<Rightarrow> w
    | Some ds \<Rightarrow> w\<lparr>pw_selected := map tg_id (filter online ds)\<rparr>)"

definition push_toggleDevice :: "string \<Rightarrow> push_wizard \<Rightarrow> push_wizard" where
  "push_toggleDevice i w = w\<lparr>pw_selected :=
     (if i \<in> set (pw_selected w) then filter (\<lambda>j. j \<noteq> i) (pw_selected w) else pw_selected w @ [i])\<rparr>"

definition setVariable :: "string \<Rightarrow> string \<Rightarrow> push_wizard \<Rightarrow> push_wizard" where
  "setVariable k v w = w\<lparr>pw_variables := obj_set k v (pw_variables w)\<rparr>"

definition selectPreviewDevice :: "string \<Rightarrow> push_wizard \<Rightarrow> push_wizard" where
  "selectPreviewDevice i w =
     (let w = w\<lparr>pw_previewDevice := Some i\<rparr> in
      if field (pw_previews w) i = [] then w\<lparr>pw_pending := pw_pending w @ [(i, pw_variables w)]\<rparr> else w)"

definition goToPreview :: "target list \<Rightarrow> push_wizard \<Rightarrow> push_wizard" where
  "goToPreview ds w =
     (let w = w\<lparr>pw_step := Step_preview\<rparr> in
      case filter (\<lambda>d. tg_id d \<in> set (pw_selected w)) ds of
        [] \<Rightarrow> w
      | d # _ \<Rightarrow> selectPreviewDevice (tg_id d) w)"

text \<open>The \<open>n\<close>th preview request under way answers: \<open>render\<close> is what the server renders for a device and variables.\<close>

definition preview_done :: "(string \<Rightarrow> string obj \<Rightarrow> string) \<Rightarrow> nat \<Rightarrow> push_wizard \<Rightarrow> push_wizard" where
  "preview_done render n w =
     (if n < length (pw_pending w) then
        let (i, vars) = pw_pending w ! n in
        w\<lparr>pw_pending := take n (pw_pending w) @ drop (Suc n) (pw_pending w),
          pw_previews := obj_set i (render i vars) (pw_previews w)\<rparr>
      else w)"

definition targets_next :: "variable_def list \<Rightarrow> push_wizard \<Rightarrow> push_wizard" where
  "targets_next vs w = (if pw_selected w = [] then w
     else w\<lparr>pw_step := (if userVars vs \<noteq> [] then Step_variables else Step_preview)\<rparr>)"

definition push_back :: "variable_def list \<Rightarrow> push_wizard \<Rightarrow> push_wizard" where
  "push_back vs w = (case pw_step w of
      Step_variables \<Rightarrow> w\<lparr>pw_step := Step_targets\<rparr>
    | Step_preview \<Rightarrow> w\<lparr>pw_step := (if userVars vs \<noteq> [] then Step_variables else Step_targets)\<rparr>
    | Step_confirm \<Rightarrow> w\<lparr>pw_step := Step_preview\<rparr>
    | _ \<Rightarrow> w)"

definition preview_next :: "push_wizard \<Rightarrow> push_wizard" where
  "preview_next w = w\<lparr>pw_step := Step_confirm\<rparr>"

text \<open>What is sent, and what happens when the server has accepted it.\<close>

definition push_request :: "push_wizard \<Rightarrow> string list \<times> string obj" where
  "push_request w = (pw_selected w, pw_variables w)"

definition push_started :: "string \<Rightarrow> push_wizard \<Rightarrow> push_wizard" where
  "push_started rolloutId w = w\<lparr>pw_rolloutId := Some rolloutId, pw_step := Step_progress\<rparr>"

definition push_handleClose :: "variable_def list \<Rightarrow> push_wizard \<Rightarrow> push_wizard" where
  "push_handleClose vs w = w\<lparr>pw_step := Step_targets, pw_selected := [], pw_variables := default_variables vs,
     pw_previews := [], pw_rolloutId := None\<rparr>"

definition shown_preview :: "push_wizard \<Rightarrow> string option" where
  "shown_preview w = Option.bind (pw_previewDevice w) (\<lambda>i.
     if field (pw_previews w) i = [] then None else Some (field (pw_previews w) i))"

section \<open>Push progress\<close>

record push_job =
  pj_device_id :: string
  pj_status :: string

definition TERMINAL_STATUSES :: "string list" where
  "TERMINAL_STATUSES = [''committed'', ''reverted'', ''failed'']"

definition terminal :: "push_job \<Rightarrow> bool" where
  "terminal j \<longleftrightarrow> pj_status j \<in> set TERMINAL_STATUSES"

definition allDone :: "push_job list \<Rightarrow> bool" where
  "allDone jobs \<longleftrightarrow> jobs \<noteq> [] \<and> list_all terminal jobs"

text \<open>\<open>None\<close>: no further poll.\<close>

definition refetchInterval :: "push_job list \<Rightarrow> nat option" where
  "refetchInterval jobs = (if allDone jobs then None else Some 3000)"

definition jobs_with :: "string \<Rightarrow> push_job list \<Rightarrow> nat" where
  "jobs_with st jobs = length (filter (\<lambda>j. pj_status j = st) jobs)"

definition completedCount :: "push_job list \<Rightarrow> nat" where
  "completedCount jobs = jobs_with ''committed'' jobs + jobs_with ''failed'' jobs + jobs_with ''reverted'' jobs"

definition hasFailed :: "push_job list \<Rightarrow> bool" where
  "hasFailed jobs \<longleftrightarrow> 0 < jobs_with ''failed'' jobs \<or> 0 < jobs_with ''reverted'' jobs"

datatype push_message = All_configured nat | Paused nat nat | With_errors nat nat nat

definition push_messages :: "push_job list \<Rightarrow> push_message list" where
  "push_messages jobs =
     (let pending = jobs_with ''pending'' jobs; failed = jobs_with ''failed'' jobs; reverted = jobs_with ''reverted'' jobs in
      (if allDone jobs \<and> \<not> hasFailed jobs then [All_configured (jobs_with ''committed'' jobs)] else [])
      @ (if allDone jobs \<and> hasFailed jobs \<and> 0 < pending then [Paused (failed + reverted) pending] else [])
      @ (if allDone jobs \<and> hasFailed jobs \<and> pending = 0 then [With_errors failed reverted (length jobs)] else []))"

section \<open>What a run over devices promises\<close>

datatype outcome = Succeeded | Failed | Skipped | Unfinished

text \<open>The contract of a run: \<open>run a ds\<close> gives the ids called and the results, \<open>a i\<close> is the answer for the
  \<open>i\<close>th device. Eligible devices are called once, in order; each result reports the answer of its own device.\<close>

locale sequential_run =
  fixes run :: "(nat \<Rightarrow> thrown + command_response) \<Rightarrow> target list \<Rightarrow> string list \<times> 'r list"
    and eligible :: "target \<Rightarrow> bool"
    and accepted :: "thrown + command_response \<Rightarrow> bool"
    and outcome_of :: "'r \<Rightarrow> outcome"
  assumes called: "distinct (map tg_id ds) \<Longrightarrow> fst (run a ds) = map tg_id (filter eligible ds)"
    and outcomes: "distinct (map tg_id ds) \<Longrightarrow> map outcome_of (snd (run a ds)) =
      map (\<lambda>i. if \<not> eligible (ds ! i) then Skipped else if accepted (a i) then Succeeded else Failed) [0..<length ds]"
begin

lemma called_once: "distinct (map tg_id ds) \<Longrightarrow> distinct (fst (run a ds))"
  by (simp add: called distinct_map_filter)

lemma length_results: "distinct (map tg_id ds) \<Longrightarrow> length (snd (run a ds)) = length ds"
  using arg_cong [OF outcomes, of ds length a] by simp

lemma all_finished:
  assumes "distinct (map tg_id ds)"
  shows "Unfinished \<notin> set (map outcome_of (snd (run a ds)))"
  unfolding outcomes [OF assms] by auto

lemma counts_add_up:
  assumes "distinct (map tg_id ds)"
  shows "length (filter (\<lambda>r. outcome_of r = Succeeded) (snd (run a ds)))
    + length (filter (\<lambda>r. outcome_of r = Failed) (snd (run a ds)))
    + length (filter (\<lambda>r. outcome_of r = Skipped) (snd (run a ds))) = length ds"
proof -
  have "length (filter (\<lambda>r. outcome_of r = Succeeded) rs) + length (filter (\<lambda>r. outcome_of r = Failed) rs)
      + length (filter (\<lambda>r. outcome_of r = Skipped) rs) = length rs"
    if "Unfinished \<notin> set (map outcome_of rs)" for rs
    using that
  proof (induction rs)
    case (Cons r rs)
    then show ?case by (cases "outcome_of r") auto
  qed simp
  then show ?thesis using all_finished [OF assms] length_results [OF assms] by simp
qed

end

subsection \<open>Bulk commands\<close>

definition exec_outcome_of :: "exec_result \<Rightarrow> outcome" where
  "exec_outcome_of r = (case xr_status r of
      Exec_success \<Rightarrow> Succeeded | Exec_error \<Rightarrow> Failed | Exec_skipped \<Rightarrow> Skipped | _ \<Rightarrow> Unfinished)"

definition bulk_accepted :: "thrown + command_response \<Rightarrow> bool" where
  "bulk_accepted a = (case a of Inl e \<Rightarrow> False | Inr r \<Rightarrow> cr_success r)"

definition bulk_run ::
  "(string obj list \<Rightarrow> string) \<Rightarrow> string \<Rightarrow> (nat \<Rightarrow> thrown + command_response) \<Rightarrow> target list \<Rightarrow> string list \<times> exec_result list" where
  "bulk_run stringify command a ds = apfst (map fst) (execute_loop stringify (\<lambda>_. False) a command 0 (map initial_result ds))"

lemma upt_Cons: "[0..<length (x # xs)] = 0 # map Suc [0..<length xs]"
  by (simp add: upt_conv_Cons map_Suc_upt del: upt_Suc)

lemma execute_loop_run:
  "map fst (fst (execute_loop st (\<lambda>_. False) a c k (map initial_result ds))) = map tg_id (filter online ds)"
  "map exec_outcome_of (snd (execute_loop st (\<lambda>_. False) a c k (map initial_result ds))) =
     map (\<lambda>i. if \<not> online (ds ! i) then Skipped else if bulk_accepted (a (k + i)) then Succeeded else Failed) [0..<length ds]"
proof (induction ds arbitrary: k)
  case (Cons d ds)
  { case 1 show ?case using Cons(1) [of "k + 1"] by (auto simp: case_prod_beta Let_def initial_result_def)
  next
    case 2
    show ?case unfolding upt_Cons using Cons(2) [of "k + 1"]
      by (auto simp: case_prod_beta Let_def initial_result_def exec_outcome_of_def exec_outcome_def bulk_accepted_def
          split: sum.splits) }
qed simp_all

lemma execute_loop_calls: "set (map snd (fst (execute_loop st ab a c k rs))) \<subseteq> {c}"
  by (induction rs arbitrary: k) (auto simp: case_prod_beta Let_def)

interpretation bulk: sequential_run "bulk_run stringify command" online bulk_accepted exec_outcome_of
  by unfold_locales (simp_all add: bulk_run_def execute_loop_run)

subsection \<open>Batch configuration\<close>

definition batch_outcome_of :: "exec_state \<Rightarrow> outcome" where
  "batch_outcome_of s = (case es_status s of Batch_success \<Rightarrow> Succeeded | Batch_failed \<Rightarrow> Failed | _ \<Rightarrow> Unfinished)"

definition batch_run :: "editor_call \<Rightarrow> (nat \<Rightarrow> thrown + command_response) \<Rightarrow> target list \<Rightarrow> string list \<times> exec_state list" where
  "batch_run call a ds = apfst (map fst) (batch_loop a call 0 ds (map pending_state ds))"

definition attempt :: "string \<Rightarrow> thrown + command_response \<Rightarrow> exec_state \<Rightarrow> exec_state" where
  "attempt i answer s = (if es_deviceId s = i
     then s\<lparr>es_status := (if isl answer then Batch_failed else Batch_success),
            es_error := (case answer of Inl err \<Rightarrow> Some (error_text err) | Inr r \<Rightarrow> es_error s)\<rparr> else s)"

lemma settle_mark: "settle i answer (mark i Batch_applying None ss) = map (attempt i answer) ss"
  by (auto simp: settle_def mark_def attempt_def split: sum.split)

lemma attempt_id [simp]: "es_deviceId (attempt i answer s) = es_deviceId s"
  by (simp add: attempt_def)

lemma attempt_outcome: "batch_outcome_of (attempt i answer s) =
    (if es_deviceId s = i then if isl answer then Failed else Succeeded else batch_outcome_of s)"
  by (simp add: attempt_def batch_outcome_of_def)

lemma batch_loop_run:
  assumes "distinct (map tg_id (pre @ ds))" "map es_deviceId ss = map tg_id (pre @ ds)"
  shows "map fst (fst (batch_loop a c k ds ss)) = map tg_id ds \<and>
    map batch_outcome_of (snd (batch_loop a c k ds ss)) =
      map batch_outcome_of (take (length pre) ss) @ map (\<lambda>i. if isl (a (k + i)) then Failed else Succeeded) [0..<length ds]"
  using assms
proof (induction ds arbitrary: k ss pre)
  case Nil
  have "length ss = length pre" using arg_cong [OF Nil(2), of length] by simp
  then show ?case by simp
next
  case (Cons d ds)
  let ?ss = "map (attempt (tg_id d) (a k)) ss"
  have pre: "distinct (map tg_id ((pre @ [d]) @ ds))" "map es_deviceId ?ss = map tg_id ((pre @ [d]) @ ds)"
    using Cons.prems by (simp_all add: comp_def)
  have n: "length pre < length ss" using arg_cong [OF Cons.prems(2), of length] by simp
  have at: "es_deviceId (ss ! j) = (map tg_id (pre @ d # ds)) ! j" if "j \<le> length pre" for j
    using arg_cong [OF Cons.prems(2), of "\<lambda>xs. xs ! j"] that n by simp
  have "map batch_outcome_of (take (Suc (length pre)) ?ss) =
      map batch_outcome_of (take (length pre) ss) @ [if isl (a k) then Failed else Succeeded]"
  proof (rule nth_equalityI)
    fix j
    assume "j < length (map batch_outcome_of (take (Suc (length pre)) ?ss))"
    then have j: "j \<le> length pre" using n by simp
    have "tg_id d \<notin> tg_id ` set pre" using Cons.prems(1) by simp
    then have "j < length pre \<Longrightarrow> tg_id (pre ! j) \<noteq> tg_id d" by (metis image_eqI nth_mem)
    then show "map batch_outcome_of (take (Suc (length pre)) ?ss) ! j =
        (map batch_outcome_of (take (length pre) ss) @ [if isl (a k) then Failed else Succeeded]) ! j"
      using j n at [OF j] Cons.prems(1) by (auto simp: nth_append attempt_outcome)
  qed (use n in simp)
  then show ?case
    unfolding upt_Cons using Cons.IH [OF pre, of "k + 1"] by (simp add: case_prod_beta settle_mark)
qed

interpretation batch: sequential_run "batch_run call" "\<lambda>_. True" "\<lambda>a. \<not> isl a" batch_outcome_of
proof
  fix a :: "nat \<Rightarrow> thrown + command_response" and ds :: "target list"
  assume d: "distinct (map tg_id ds)"
  have e: "map es_deviceId (map pending_state ds) = map tg_id ([] @ ds)" by (simp add: pending_state_def)
  note r = batch_loop_run [of "[]" ds "map pending_state ds" a call 0, OF _ e]
  show "fst (batch_run call a ds) = map tg_id (filter (\<lambda>_. True) ds)"
    using r d by (simp add: batch_run_def)
  show "map batch_outcome_of (snd (batch_run call a ds)) =
      map (\<lambda>i. if \<not> True then Skipped else if \<not> isl (a i) then Succeeded else Failed) [0..<length ds]"
    using r d by (auto simp: batch_run_def)
qed

section \<open>Commands that reach a device\<close>

lemma blockWarning_None: "blockWarning w = None \<Longrightarrow> bw_command w \<noteq> [] \<Longrightarrow> checkCommandBlocked (bw_command w) = None"
  by (simp add: blockWarning_def)

definition bulk_inv :: "bulk_wizard \<Rightarrow> bool" where
  "bulk_inv w \<longleftrightarrow> (bw_step w = 3 \<longrightarrow> js_trim (bw_command w) \<noteq> [] \<and> checkCommandBlocked (bw_command w) = None)
     \<and> (bw_showConfirm w \<longrightarrow> bw_step w = 3)
     \<and> (\<forall>(i, c) \<in> set (bw_calls w). checkCommandBlocked c = None)"

lemma js_trim_Nil [simp]: "js_trim [] = []"
  by code_simp

lemma bulk_step_inv: "bulk_inv w \<Longrightarrow> bulk_inv (bulk_step stringify e w)"
proof (cases e)
  case (Bulk_confirm execute)
  assume i: "bulk_inv w"
  show ?thesis
  proof (cases "bw_showConfirm w")
    case True
    let ?calls = "fst (execute_loop stringify (\<lambda>_. False) execute (bw_command w) 0 (map initial_result (bw_selected w)))"
    have "\<forall>(i, c) \<in> set ?calls. c = bw_command w"
      using execute_loop_calls [of stringify "\<lambda>_. False" execute "bw_command w" 0] by fastforce
    then show ?thesis
      using i True Bulk_confirm by (auto simp: bulk_inv_def executeAll_def case_prod_beta Let_def)
  qed (use i Bulk_confirm in simp)
qed (auto simp: bulk_inv_def resetWizard_def dest: blockWarning_None)

text \<open>C21: No blocked command reaches a device. Whatever the user clicks and types, every command the bulk wizard
  sends has passed the check when it is sent, in particular none starts, after trimming and in any
  letter case, with one of the blocked prefixes.\<close>
theorem blocked_never_sent:
  assumes "(i, c) \<in> set (bw_calls (fold (bulk_step stringify) es bulk_init))" and "p \<in> set BLOCKED_COMMAND_PREFIXES"
  shows "\<not> startsWith (toLowerCase (js_trim c)) p"
proof -
  have "bulk_inv (fold (bulk_step stringify) es w)" if "bulk_inv w" for w
    using that by (induction es arbitrary: w) (simp_all add: bulk_step_inv)
  moreover have "bulk_inv bulk_init" by (simp add: bulk_inv_def bulk_init_def)
  ultimately have "checkCommandBlocked c = None" using assms(1) by (auto simp: bulk_inv_def)
  then show ?thesis using assms(2) by (auto simp: checkCommandBlocked_def Let_def find_None_iff)
qed

definition demo_target :: target where
  "demo_target = \<lparr>tg_id = ''d1'', tg_hostname = ''r1'', tg_ip = ''10.0.0.1'', tg_status = ''online'', tg_groups = []\<rparr>"

theorem blocked_never_sent_witness:
  "(''d1'', ''/ip/address/print'') \<in> set (bw_calls (fold (bulk_step (\<lambda>_. []))
     [Bulk_select [demo_target], Bulk_next, Bulk_type ''/ip/address/print'', Bulk_next, Bulk_ask, Bulk_confirm (\<lambda>_. Inl OtherThrown)]
     bulk_init)) \<and> \<not> startsWith (toLowerCase (js_trim ''/ip/address/print'')) ''/user''"
proof -
  have c: "(''d1'', ''/ip/address/print'') \<in> set (bw_calls (fold (bulk_step (\<lambda>_. []))
     [Bulk_select [demo_target], Bulk_next, Bulk_type ''/ip/address/print'', Bulk_next, Bulk_ask, Bulk_confirm (\<lambda>_. Inl OtherThrown)]
     bulk_init))"
    by code_simp
  moreover have "''/user'' \<in> set BLOCKED_COMMAND_PREFIXES" by (simp add: BLOCKED_COMMAND_PREFIXES_def)
  ultimately show ?thesis using blocked_never_sent by blast
qed

text \<open>The check is literal: the spelling with a space, which the device's command line understands alike,
  passes.\<close>

lemma blocklist_spelling:
  "checkCommandBlocked '' /SYSTEM/reboot'' \<noteq> None" "checkCommandBlocked ''/system reboot'' = None"
  by code_simp+

text \<open>C24: Both runs over devices treat every device exactly once and report its own answer. For distinct
  devices, a bulk command is sent to the online ones in order and the offline ones are skipped; a batch
  change is sent to every selected one; a result says succeeded exactly when that device accepted, a
  failure does not stop the rest, nothing is left unfinished, and the counters add up.\<close>
theorem device_runs_complete:
  assumes "distinct (map tg_id ds)"
  shows "fst (bulk_run stringify command a ds) = map tg_id (filter online ds) \<and>
    map exec_outcome_of (snd (bulk_run stringify command a ds)) =
      map (\<lambda>i. if \<not> online (ds ! i) then Skipped else if bulk_accepted (a i) then Succeeded else Failed) [0..<length ds] \<and>
    fst (batch_run call a ds) = map tg_id ds \<and>
    map batch_outcome_of (snd (batch_run call a ds)) = map (\<lambda>i. if isl (a i) then Failed else Succeeded) [0..<length ds] \<and>
    count_status Exec_success (snd (bulk_run stringify command a ds)) + count_status Exec_error (snd (bulk_run stringify command a ds))
      + count_status Exec_skipped (snd (bulk_run stringify command a ds)) = length ds"
proof -
  have f: "exec_outcome_of r = Succeeded \<longleftrightarrow> xr_status r = Exec_success" "exec_outcome_of r = Failed \<longleftrightarrow> xr_status r = Exec_error"
    "exec_outcome_of r = Skipped \<longleftrightarrow> xr_status r = Exec_skipped" for r
    by (cases "xr_status r"; simp add: exec_outcome_of_def)+
  have b: "map batch_outcome_of (snd (batch_run call a ds)) = map (\<lambda>i. if isl (a i) then Failed else Succeeded) [0..<length ds]"
    using batch.outcomes [OF assms, of call a] by (simp add: if_distrib cong: if_cong)
  show ?thesis
    using bulk.called [OF assms, of stringify command a] bulk.outcomes [OF assms, of stringify command a]
      batch.called [OF assms, of call a] bulk.counts_add_up [OF assms, of stringify command a] b
    by (simp add: f count_status_def)
qed

theorem device_runs_complete_witness:
  "fst (bulk_run (\<lambda>_. []) ''/ip/address/print'' (\<lambda>_. Inl OtherThrown) [demo_target, demo_target\<lparr>tg_id := ''d2'', tg_status := ''offline''\<rparr>]) = [''d1'']"
  using device_runs_complete [of "[demo_target, demo_target\<lparr>tg_id := ''d2'', tg_status := ''offline''\<rparr>]" "\<lambda>_. []" "''/ip/address/print''" "\<lambda>_. Inl OtherThrown"]
  by (simp add: demo_target_def)

section \<open>Batch changes\<close>

lemma js_trim_ends:
  assumes "js_trim s \<noteq> []"
  shows "\<not> is_space (hd (js_trim s))" "\<not> is_space (last (js_trim s))"
proof -
  let ?u = "js_trim_start s"
  have u: "?u = js_trim s @ rev (takeWhile is_space (rev ?u))"
    by (metis js_trim_def js_trim_end_def rev_append rev_rev_ident takeWhile_dropWhile_id)
  then have "?u \<noteq> []" "hd ?u = hd (js_trim s)" using assms by (metis append_is_Nil_conv, metis hd_append2)
  then show "\<not> is_space (hd (js_trim s))" by (metis hd_dropWhile js_trim_start_def)
  show "\<not> is_space (last (js_trim s))"
    using assms hd_dropWhile [of is_space "rev ?u"] by (simp add: js_trim_def js_trim_end_def last_rev)
qed

lemma js_trim_idem [simp]: "js_trim (js_trim s) = js_trim s"
  using js_trim_ends [of s] js_trim_id [of "js_trim s"] by (cases "js_trim s = []") auto

text \<open>What \<open>clean\<close> keeps: trimmed, non-empty values under the given keys.\<close>

definition neat :: "string obj \<Rightarrow> bool" where
  "neat ps \<longleftrightarrow> props_ok ps \<and> (\<forall>(k, v) \<in> set ps. v \<noteq> [] \<and> js_trim v = v)"


lemma neat_set: "neat m \<Longrightarrow> plain k \<Longrightarrow> js_trim v \<noteq> [] \<Longrightarrow> neat (obj_set k (js_trim v) m)"
  using set_obj_set [of k "js_trim v" m] unfolding neat_def by (auto simp: props_ok_def)

lemma clean_fold_neat:
  "neat m \<Longrightarrow> \<forall>(k, v) \<in> set ps. plain k \<Longrightarrow> neat (fold (\<lambda>(k, v) m. if js_trim v \<noteq> [] then obj_set k (js_trim v) m else m) ps m)"
  by (induction ps arbitrary: m) (auto simp: neat_set)

lemma clean_neat: "\<forall>(k, v) \<in> set ps. plain k \<Longrightarrow> neat (clean ps)"
  unfolding clean_def by (intro clean_fold_neat) (simp_all add: neat_def props_ok_def)

lemma clean_fold_keeps:
  "m \<noteq> [] \<or> (\<exists>(k, v) \<in> set ps. js_trim v \<noteq> []) \<Longrightarrow>
   fold (\<lambda>(k, v) m. if js_trim v \<noteq> [] then obj_set k (js_trim v) m else m) ps m \<noteq> []"
  by (induction ps arbitrary: m) auto

lemma clean_nonempty: "\<exists>(k, v) \<in> set ps. js_trim v \<noteq> [] \<Longrightarrow> clean ps \<noteq> []"
  unfolding clean_def by (intro clean_fold_keeps) blast

lemma given_plain: "plain k \<Longrightarrow> \<forall>(k', v) \<in> set (given f k). plain k'"
  by (simp add: given_def)

lemma plain_batch_words [simp]:
  "plain ''servers''" "plain ''allow-remote-requests''" "plain ''vlan-id''" "plain ''target''" "plain ''max-limit''"
  "plain ''type''" "plain ''/queue/simple''" "plain ''/interface/vlan''" "plain ''/ip/dns''" "plain ''/ip/dns/static''"
  "plain ''/ip/address''" "plain ''/ip/firewall/filter''" "plain ''chain''" "plain ''action''" "plain ''src-address''"
  "plain ''dst-address''" "plain ''protocol''" "plain ''dst-port''" "plain ''comment''" "plain ''name''"
  "plain ''interface''" "plain ''address''"
  by code_simp+

lemma clean_empty_iff: "clean ps = [] \<longleftrightarrow> (\<forall>(k, v) \<in> set ps. js_trim v = [])"
proof -
  have "fold (\<lambda>(k, v) m. if js_trim v \<noteq> [] then obj_set k (js_trim v) m else m) ps m = m"
    if "\<forall>(k, v) \<in> set ps. js_trim v = []" for m
    using that by (induction ps arbitrary: m) auto
  then show ?thesis using clean_nonempty [of ps] by (auto simp: clean_def)
qed

lemma raw_plain: "\<forall>(k, v) \<in> set (raw_properties op f). plain k"
  by (cases op) (auto simp: raw_properties_def given_def)

lemma batch_path_plain: "plain (batch_path op)"
  by (cases op) (simp_all add: batch_path_def)

lemma batch_required: "batch_missing op f = None \<Longrightarrow> op \<noteq> Add_firewall_rule \<Longrightarrow> clean (raw_properties op f) \<noteq> []"
  by (cases op) (auto simp: clean_empty_iff raw_properties_def batch_missing_def trimmed_def split: if_splits)

text \<open>A batch change is fit to be sent: whatever was typed, its path and property names are plain words, no
  property occurs twice, and every value is trimmed and not empty; a change other than a firewall rule
  whose required fields are filled sets at least one property, and one with a blank required field is
  refused with a message.\<close>
theorem batch_change_wellformed:
  "(case buildBatchChange op f of
      Inl m \<Rightarrow> batch_missing op f = Some m \<and> op \<noteq> Add_firewall_rule
    | Inr c \<Rightarrow> plain (bc_path c) \<and> props_ok (bc_properties c) \<and>
        list_all (\<lambda>(k, v). v \<noteq> [] \<and> js_trim v = v) (bc_properties c) \<and>
        (op \<noteq> Add_firewall_rule \<longrightarrow> bc_properties c \<noteq> []) \<and> (bc_set c \<longleftrightarrow> op = Set_dns_servers))"
proof (cases "batch_missing op f")
  case None
  then show ?thesis
    using clean_neat [OF raw_plain, of op f] batch_path_plain batch_required [OF None]
    by (auto simp: buildBatchChange_def neat_def list_all_iff)
next
  case (Some m)
  then have "op \<noteq> Add_firewall_rule" by (auto simp: batch_missing_def)
  then show ?thesis using Some by (simp add: buildBatchChange_def)
qed

theorem batch_change_wellformed_witness:
  "\<exists>c. buildBatchChange Add_vlan [(''vlan-id'', '' 10 ''), (''interface'', ''bridge1''), (''name'', ''  '')] = Inr c \<and>
     bc_properties c = [(''vlan-id'', ''10''), (''interface'', ''bridge1'')] \<and> bc_properties c \<noteq> []"
proof -
  let ?f = "[(''vlan-id'', '' 10 ''), (''interface'', ''bridge1''), (''name'', ''  '')]"
  have m: "batch_missing Add_vlan ?f = None" by code_simp
  have p: "clean (raw_properties Add_vlan ?f) = [(''vlan-id'', ''10''), (''interface'', ''bridge1'')]" by code_simp
  obtain c where c: "buildBatchChange Add_vlan ?f = Inr c" "bc_properties c = clean (raw_properties Add_vlan ?f)"
    by (simp add: buildBatchChange_def m)
  show ?thesis using batch_change_wellformed [of Add_vlan ?f] c p by simp
qed

section \<open>Previews of a template push\<close>

datatype push_event =
    Push_group "target list option" string
  | Push_toggle string
  | Push_variable string string
  | Push_targets_next
  | Push_go_preview "target list"
  | Push_select_preview string
  | Push_preview_done nat
  | Push_preview_next
  | Push_back
  | Push_started string
  | Push_close

fun push_step :: "variable_def list \<Rightarrow> (string \<Rightarrow> string obj \<Rightarrow> string) \<Rightarrow> push_event \<Rightarrow> push_wizard \<Rightarrow> push_wizard" where
  "push_step vs render (Push_group ds g) w = handleGroupSelect ds g w"
| "push_step vs render (Push_toggle i) w = push_toggleDevice i w"
| "push_step vs render (Push_variable k v) w = setVariable k v w"
| "push_step vs render Push_targets_next w = targets_next vs w"
| "push_step vs render (Push_go_preview ds) w = goToPreview ds w"
| "push_step vs render (Push_select_preview i) w = selectPreviewDevice i w"
| "push_step vs render (Push_preview_done n) w = preview_done render n w"
| "push_step vs render Push_preview_next w = preview_next w"
| "push_step vs render Push_back w = push_back vs w"
| "push_step vs render (Push_started r) w = push_started r w"
| "push_step vs render Push_close w = push_handleClose vs w"

definition previews_current :: "(string \<Rightarrow> string obj \<Rightarrow> string) \<Rightarrow> push_wizard \<Rightarrow> bool" where
  "previews_current render w \<longleftrightarrow>
     (\<forall>i t. obj_get (pw_previews w) i = Some t \<longrightarrow> t = render i (pw_variables w)) \<and>
     (\<forall>(i, vars) \<in> set (pw_pending w). vars = pw_variables w)"

fun keeps_variables :: "push_event \<Rightarrow> bool" where
  "keeps_variables (Push_variable k v) = False"
| "keeps_variables Push_close = False"
| "keeps_variables _ = True"

lemma select_preview_current: "previews_current render w \<Longrightarrow> previews_current render (selectPreviewDevice i w)"
  by (auto simp: previews_current_def selectPreviewDevice_def Let_def)

lemma preview_done_current:
  assumes "previews_current render w"
  shows "previews_current render (preview_done render n w)"
proof (cases "n < length (pw_pending w)")
  case True
  obtain i vars where p: "pw_pending w ! n = (i, vars)" by force
  then have "vars = pw_variables w" using assms nth_mem [OF True] by (auto simp: previews_current_def)
  moreover have "set (take n (pw_pending w) @ drop (Suc n) (pw_pending w)) \<subseteq> set (pw_pending w)"
    by (auto dest: in_set_takeD in_set_dropD)
  ultimately show ?thesis
    using assms True p by (fastforce simp: previews_current_def preview_done_def)
qed (use assms in \<open>simp add: preview_done_def\<close>)

lemma step_current: "previews_current render w \<Longrightarrow> keeps_variables e \<Longrightarrow> previews_current render (push_step vs render e w)"
proof (cases e)
  case (Push_go_preview ds)
  assume c: "previews_current render w"
  then have "previews_current render (w\<lparr>pw_step := Step_preview\<rparr>)" by (simp add: previews_current_def)
  then show ?thesis
    using Push_go_preview by (auto simp: goToPreview_def Let_def select_preview_current split: list.split)
qed (auto simp: select_preview_current preview_done_current, auto simp: previews_current_def handleGroupSelect_def push_toggleDevice_def
    targets_next_def preview_next_def push_back_def push_started_def split: option.splits wizard_step.splits)

text \<open>C29: What a preview is worth. As long as no variable is edited, every preview, loaded or under way, is the
  rendering with the variables that a push would send. But previews are kept per device and never
  discarded when a variable changes: after an edit, going to the preview again shows the old rendering
  and requests no new one, while the push sends the new variables.\<close>
theorem template_preview_fidelity:
  "(previews_current render w \<and> list_all keeps_variables es \<longrightarrow> previews_current render (fold (push_step vs render) es w)) \<and>
   (obj_get (pw_previews w) (tg_id d) = Some t \<and> t \<noteq> [] \<and> tg_id d \<in> set (pw_selected w) \<longrightarrow>
      (let w' = push_step vs render (Push_go_preview (d # ds)) (push_step vs render (Push_variable k v) w) in
       shown_preview w' = Some t \<and> pw_pending w' = pw_pending w \<and>
       push_request w' = (pw_selected w, obj_set k v (pw_variables w))))"
proof
  have "previews_current render w \<Longrightarrow> list_all keeps_variables es \<Longrightarrow> previews_current render (fold (push_step vs render) es w)"
    by (induction es arbitrary: w) (simp_all add: step_current)
  then show "previews_current render w \<and> list_all keeps_variables es \<longrightarrow> previews_current render (fold (push_step vs render) es w)"
    by blast
qed (simp add: setVariable_def goToPreview_def selectPreviewDevice_def shown_preview_def push_request_def field_def Let_def)

theorem template_preview_fidelity_witness:
  "let w' = push_step [] (\<lambda>i vars. ''vlan '' @ field vars ''vlan'') (Push_go_preview [demo_target])
     (push_step [] (\<lambda>i vars. ''vlan '' @ field vars ''vlan'') (Push_variable ''vlan'' ''20'')
       ((push_init [])\<lparr>pw_selected := [''d1''], pw_variables := [(''vlan'', ''10'')], pw_previews := [(''d1'', ''vlan 10'')]\<rparr>)) in
   shown_preview w' = Some ''vlan 10'' \<and> push_request w' = ([''d1''], [(''vlan'', ''20'')])"
  using template_preview_fidelity [of "\<lambda>i vars. ''vlan '' @ field vars ''vlan''"
      "(push_init [])\<lparr>pw_selected := [''d1''], pw_variables := [(''vlan'', ''10'')], pw_previews := [(''d1'', ''vlan 10'')]\<rparr>"
      "[]" "[]" demo_target "''vlan 10''" "[]" "''vlan''" "''20''", THEN conjunct2]
  by (simp add: demo_target_def obj_get_def Let_def)

section \<open>Paused rollouts\<close>

lemma jobs_with_pos: "0 < jobs_with st jobs \<longleftrightarrow> (\<exists>j \<in> set jobs. pj_status j = st)"
  by (auto simp: jobs_with_def filter_empty_conv)

text \<open>The progress panel stops polling exactly when every job has ended, and reports that every device is
  configured exactly when all are committed. The message for a paused rollout is never shown: it asks for
  pending jobs while all jobs have ended. A rollout that stopped at a failure with devices left is polled
  on, without any message.\<close>
theorem push_progress_spec:
  "(refetchInterval jobs = None \<longleftrightarrow> jobs \<noteq> [] \<and> completedCount jobs = length jobs) \<and>
   (All_configured n \<in> set (push_messages jobs) \<longleftrightarrow> jobs \<noteq> [] \<and> (\<forall>j \<in> set jobs. pj_status j = ''committed'') \<and> n = length jobs) \<and>
   Paused n m \<notin> set (push_messages jobs) \<and>
   (0 < jobs_with ''pending'' jobs \<longrightarrow> refetchInterval jobs = Some 3000 \<and> push_messages jobs = [])"
proof -
  have cc: "completedCount jobs = length (filter terminal jobs)"
  proof (induction jobs)
    case (Cons j js)
    then show ?case by (auto simp: completedCount_def jobs_with_def terminal_def TERMINAL_STATUSES_def)
  qed (simp add: completedCount_def jobs_with_def)
  have "length (filter terminal jobs) = length jobs \<longleftrightarrow> list_all terminal jobs"
    by (metis Ball_set filter_id_conv length_filter_less less_irrefl)
  with cc have a: "allDone jobs \<longleftrightarrow> jobs \<noteq> [] \<and> completedCount jobs = length jobs" by (simp add: allDone_def)
  have p: "allDone jobs \<Longrightarrow> jobs_with ''pending'' jobs = 0"
    by (auto simp: allDone_def list_all_iff jobs_with_def terminal_def TERMINAL_STATUSES_def filter_empty_conv)
  have c: "allDone jobs \<and> \<not> hasFailed jobs \<longleftrightarrow> jobs \<noteq> [] \<and> (\<forall>j \<in> set jobs. pj_status j = ''committed'')"
    by (auto simp: allDone_def hasFailed_def jobs_with_pos list_all_iff terminal_def TERMINAL_STATUSES_def)
  have "(\<forall>j \<in> set jobs. pj_status j = ''committed'') \<Longrightarrow> jobs_with ''committed'' jobs = length jobs"
    by (simp add: jobs_with_def)
  then show ?thesis using a p c by (auto simp: refetchInterval_def push_messages_def Let_def)
qed

theorem push_progress_spec_witness:
  "refetchInterval [\<lparr>pj_device_id = ''a'', pj_status = ''failed''\<rparr>, \<lparr>pj_device_id = ''b'', pj_status = ''pending''\<rparr>] = Some 3000 \<and>
   push_messages [\<lparr>pj_device_id = ''a'', pj_status = ''failed''\<rparr>, \<lparr>pj_device_id = ''b'', pj_status = ''pending''\<rparr>] = []"
proof -
  let ?js = "[\<lparr>pj_device_id = ''a'', pj_status = ''failed''\<rparr>, \<lparr>pj_device_id = ''b'', pj_status = ''pending''\<rparr>]"
  have "0 < jobs_with ''pending'' ?js" by code_simp
  then show ?thesis using push_progress_spec [of ?js 0 0] by blast
qed

end
