(* ===== verification/AppShell.thy ===== *)
theory AppShell
  imports Auth
begin

text \<open>
  The frame around the pages: what the layout does with live events and which tenant it follows
  (\<^verbatim>\<open>routes/_authenticated.tsx\<close>), the keyboard shortcuts (\<^verbatim>\<open>hooks/useShortcut.ts\<close>), the persisted view
  state (\<^verbatim>\<open>lib/store.ts\<close>) with the theme (\<^verbatim>\<open>lib/theme.ts\<close>), page titles
  (\<^verbatim>\<open>hooks/usePageTitle.ts\<close>) and uptimes (\<^verbatim>\<open>lib/utils.ts\<close>).
\<close>

section \<open>View state\<close>

datatype theme = Dark | Light

record ui_state =
  selectedTenantId :: "string option"
  sidebarCollapsed :: bool
  mobileSidebarOpen :: bool
  ui_theme :: theme
  uiScale :: nat

definition ui_init :: ui_state where
  "ui_init = \<lparr>selectedTenantId = None, sidebarCollapsed = False, mobileSidebarOpen = False, ui_theme = Dark, uiScale = 100\<rparr>"

text \<open>The document next to it: whether the root element has the class \<open>dark\<close>, and its zoom.\<close>

record document =
  doc_dark :: bool
  doc_zoom :: "nat option"

definition applyTheme :: "theme \<Rightarrow> document \<Rightarrow> document" where
  "applyTheme t d = d\<lparr>doc_dark := (t = Dark)\<rparr>"

definition setSelectedTenantId :: "string option \<Rightarrow> ui_state \<Rightarrow> ui_state" where
  "setSelectedTenantId i s = s\<lparr>selectedTenantId := i\<rparr>"

definition setSidebarCollapsed :: "bool \<Rightarrow> ui_state \<Rightarrow> ui_state" where
  "setSidebarCollapsed b s = s\<lparr>sidebarCollapsed := b\<rparr>"

definition toggleSidebar :: "ui_state \<Rightarrow> ui_state" where
  "toggleSidebar s = s\<lparr>sidebarCollapsed := \<not> sidebarCollapsed s\<rparr>"

definition setMobileSidebarOpen :: "bool \<Rightarrow> ui_state \<Rightarrow> ui_state" where
  "setMobileSidebarOpen b s = s\<lparr>mobileSidebarOpen := b\<rparr>"

definition setTheme :: "theme \<Rightarrow> ui_state \<times> document \<Rightarrow> ui_state \<times> document" where
  "setTheme t = (\<lambda>(s, d). (s\<lparr>ui_theme := t\<rparr>, applyTheme t d))"

definition setUIScale :: "nat \<Rightarrow> ui_state \<times> document \<Rightarrow> ui_state \<times> document" where
  "setUIScale n = (\<lambda>(s, d). (s\<lparr>uiScale := n\<rparr>, d\<lparr>doc_zoom := Some n\<rparr>))"

text \<open>What is written to the local storage, and the state after a reload: the stored fields over the
  initial ones.\<close>

record stored_ui =
  st_sidebarCollapsed :: bool
  st_theme :: theme
  st_selectedTenantId :: "string option"
  st_uiScale :: nat

definition partialize :: "ui_state \<Rightarrow> stored_ui" where
  "partialize s = \<lparr>st_sidebarCollapsed = sidebarCollapsed s, st_theme = ui_theme s,
     st_selectedTenantId = selectedTenantId s, st_uiScale = uiScale s\<rparr>"

definition rehydrate :: "stored_ui option \<Rightarrow> ui_state" where
  "rehydrate p = (case p of
      None \<Rightarrow> ui_init
    | Some p \<Rightarrow> ui_init\<lparr>selectedTenantId := st_selectedTenantId p, sidebarCollapsed := st_sidebarCollapsed p,
        ui_theme := st_theme p, uiScale := st_uiScale p\<rparr>)"

text \<open>The class set before the first render: a stored state decides, without one the preference of the
  operating system does.\<close>

definition initializeTheme :: "stored_ui option \<Rightarrow> bool \<Rightarrow> document \<Rightarrow> document" where
  "initializeTheme stored prefers_light =
     applyTheme (case stored of Some p \<Rightarrow> st_theme p | None \<Rightarrow> if prefers_light then Light else Dark)"

section \<open>Tenant and live events\<close>

definition effectiveTenantId :: "user_me option \<Rightarrow> ui_state \<Rightarrow> string option" where
  "effectiveTenantId user ui = (if isSuperAdmin user then selectedTenantId ui else Option.bind user um_tenant_id)"

definition str_of :: "string option \<Rightarrow> string" where
  "str_of x = (case x of None \<Rightarrow> [] | Some s \<Rightarrow> s)"

text \<open>The cache entry the layout updates, and the one the dashboard shows
  (\<^verbatim>\<open>components/fleet/FleetDashboard.tsx\<close>).\<close>

definition fleetSummaryKey :: "user_me option \<Rightarrow> ui_state \<Rightarrow> string list" where
  "fleetSummaryKey user ui =
     [''fleet-summary'', if isSuperAdmin user then ''all'' else str_of (effectiveTenantId user ui)]"

definition dashboard_tenant :: "user_me option \<Rightarrow> ui_state \<Rightarrow> string" where
  "dashboard_tenant user ui =
     (if isSuperAdmin user then str_of (selectedTenantId ui) else str_of (Option.bind user um_tenant_id))"

definition dashboardKey :: "user_me option \<Rightarrow> ui_state \<Rightarrow> string list" where
  "dashboardKey user ui =
     [''fleet-summary'', if isSuperAdmin user \<and> \<not> truthy_str (selectedTenantId ui) then ''all'' else dashboard_tenant user ui]"

record fleet_device =
  fd_id :: string
  fd_hostname :: string
  fd_status :: string
  fd_last_seen :: "string option"

datatype sse_event =
    Device_status string string
  | Alert_fired
  | Alert_resolved
  | Config_push string string "string option"
  | Firmware_progress "string option" "string option" string "string option" "string option"
  | Metric_update

record shell =
  sh_cache :: "string list \<rightharpoonup> fleet_device list"
  sh_invalidated :: "string list list"
  sh_dispatched :: "(string \<times> string list) list"

definition invalidate :: "string list list \<Rightarrow> shell \<Rightarrow> shell" where
  "invalidate ks s = s\<lparr>sh_invalidated := sh_invalidated s @ ks\<rparr>"

definition update_status :: "string \<Rightarrow> string \<Rightarrow> string \<Rightarrow> fleet_device list \<Rightarrow> fleet_device list" where
  "update_status now device_id st old =
     map (\<lambda>d. if fd_id d = device_id then d\<lparr>fd_status := st, fd_last_seen := Some now\<rparr> else d) old"

fun onEvent :: "string \<Rightarrow> string list \<Rightarrow> sse_event \<Rightarrow> shell \<Rightarrow> shell" where
  "onEvent now key (Device_status device_id st) s =
     invalidate [[''device'', device_id], [''fleet-devices'']]
       (s\<lparr>sh_cache := (sh_cache s)(key := map_option (update_status now device_id st) (sh_cache s key))\<rparr>)"
| "onEvent now key Alert_fired s = invalidate [[''active-alerts''], [''alert-events''], [''dashboard-alerts'']] s"
| "onEvent now key Alert_resolved s = invalidate [[''active-alerts''], [''alert-events''], [''dashboard-alerts'']] s"
| "onEvent now key (Config_push device_id stage message) s =
     (let s = s\<lparr>sh_dispatched := sh_dispatched s @ [(''config-push-progress'', [device_id, stage, str_of message])]\<rparr> in
      if stage \<in> set [''committed'', ''reverted'', ''failed''] then invalidate [[''config-backups'', device_id]] s else s)"
| "onEvent now key (Firmware_progress job_id device_id stage message target_version) s =
     (let s = s\<lparr>sh_dispatched := sh_dispatched s @ [(''firmware-progress'',
              [str_of job_id, str_of device_id, stage, str_of message, str_of target_version])]\<rparr>;
          s = (if truthy_str job_id then invalidate [[''upgrade-job'']] s else s)
      in if stage \<in> set [''completed'', ''failed''] then invalidate [[''firmware-overview''], [''upgrade-jobs'']] s else s)"
| "onEvent now key Metric_update s = invalidate [[''fleet-summary''], [''fleet-devices'']] s"

text \<open>The tenant whose stream is followed.\<close>

definition stream_tenant :: "auth_state \<Rightarrow> ui_state \<Rightarrow> string option" where
  "stream_tenant a ui = (if isAuthenticated a \<and> \<not> isLoading a then effectiveTenantId (au_user a) ui else None)"

section \<open>Shortcuts\<close>

text \<open>A key press: when, which key, and whether the focus is in a text field.\<close>

record key_press =
  kp_time :: nat
  kp_key :: string
  kp_typing :: bool

definition shortcut_handler :: "string \<Rightarrow> key_press \<Rightarrow> bool" where
  "shortcut_handler key e \<longleftrightarrow> \<not> kp_typing e \<and> kp_key e = key"

text \<open>A sequence of two keys: \<open>pendingRef\<close> and the time at which the timer clears it.\<close>

record sequence =
  sq_pending :: bool
  sq_deadline :: "nat option"
  sq_fired :: "nat list"

definition sequence_init :: sequence where
  "sequence_init = \<lparr>sq_pending = False, sq_deadline = None, sq_fired = []\<rparr>"

definition run_timer :: "nat \<Rightarrow> sequence \<Rightarrow> sequence" where
  "run_timer now q = (case sq_deadline q of
      Some d \<Rightarrow> if d \<le> now then q\<lparr>sq_pending := False, sq_deadline := None\<rparr> else q
    | None \<Rightarrow> q)"

definition sequence_handler :: "string \<Rightarrow> string \<Rightarrow> key_press \<Rightarrow> sequence \<Rightarrow> sequence" where
  "sequence_handler k1 k2 e q =
     (if kp_typing e then q
      else if sq_pending q \<and> kp_key e = k2
      then q\<lparr>sq_pending := False, sq_deadline := None, sq_fired := sq_fired q @ [kp_time e]\<rparr>
      else if kp_key e = k1 then q\<lparr>sq_pending := True, sq_deadline := Some (kp_time e + 1000)\<rparr>
      else q\<lparr>sq_pending := False\<rparr>)"

definition sequence_step :: "string \<Rightarrow> string \<Rightarrow> key_press \<Rightarrow> sequence \<Rightarrow> sequence" where
  "sequence_step k1 k2 e q = sequence_handler k1 k2 e (run_timer (kp_time e) q)"

section \<open>Titles and uptimes\<close>

definition ROUTE_TITLES :: "string obj" where
  "ROUTE_TITLES = [(''/'', ''Dashboard''), (''/alerts'', ''Alerts''), (''/alert-rules'', ''Alert Rules''),
     (''/audit'', ''Audit Log''), (''/batch-config'', ''Batch Config''), (''/bulk-commands'', ''Bulk Commands''),
     (''/certificates'', ''Certificates''), (''/config-editor'', ''Config Editor''), (''/firmware'', ''Firmware''),
     (''/maintenance'', ''Maintenance''), (''/map'', ''Map''), (''/reports'', ''Reports''), (''/settings'', ''Settings''),
     (''/settings/api-keys'', ''API Keys''), (''/setup'', ''Setup''), (''/templates'', ''Templates''),
     (''/tenants'', ''Organizations''), (''/topology'', ''Topology''), (''/transparency'', ''Transparency''),
     (''/vpn'', ''VPN''), (''/about'', ''About'')]"

definition segment_title :: "string \<Rightarrow> string" where
  "segment_title seg = toUpperCase (take 1 seg) @ map (\<lambda>c. if c = CHR ''-'' then CHR '' '' else c) (drop 1 seg)"

definition page_title :: "string \<Rightarrow> string" where
  "page_title pathname =
     (case obj_get ROUTE_TITLES pathname of
        Some t \<Rightarrow> t
      | None \<Rightarrow>
          if startsWith pathname ''/devices/'' then ''Device''
          else (case filter (\<lambda>s. s \<noteq> []) (split_on (CHR ''/'') pathname) of
                  [] \<Rightarrow> ''Dashboard'' | seg # _ \<Rightarrow> segment_title seg)) @ '' | TOD''"

text \<open>A missing or zero uptime is shown as a dash.\<close>

definition formatUptime :: "nat option \<Rightarrow> string option" where
  "formatUptime seconds = (case seconds of
      None \<Rightarrow> None
    | Some n \<Rightarrow>
        if n = 0 then None
        else let d = n div 86400; h = n mod 86400 div 3600; m = n mod 3600 div 60 in
          Some (if 0 < d then string_of_nat d @ ''d '' @ string_of_nat h @ ''h''
                else if 0 < h then string_of_nat h @ ''h '' @ string_of_nat m @ ''m''
                else string_of_nat m @ ''m''))"

section \<open>Properties\<close>

text \<open>A live status change reaches the dashboard for everyone but a super admin who has chosen a tenant:
  the layout updates the entry of all tenants then, while the dashboard shows the one of that tenant. Where
  the two agree, exactly the named device gets the new status, every other device, their number and
  order, and every other cache entry stay as they are.\<close>
theorem live_status_reaches_dashboard:
  "(fleetSummaryKey user ui = dashboardKey user ui \<longleftrightarrow>
      \<not> (isSuperAdmin user \<and> truthy_str (selectedTenantId ui)) \<or> selectedTenantId ui = Some ''all'') \<and>
   (let s' = onEvent now (fleetSummaryKey user ui) (Device_status i st) s in
    (\<forall>k. k \<noteq> fleetSummaryKey user ui \<longrightarrow> sh_cache s' k = sh_cache s k) \<and>
    (\<forall>ds. sh_cache s (fleetSummaryKey user ui) = Some ds \<longrightarrow>
       (\<exists>ds'. sh_cache s' (fleetSummaryKey user ui) = Some ds' \<and> length ds' = length ds \<and>
         (\<forall>n < length ds. ds' ! n = (if fd_id (ds ! n) = i then (ds ! n)\<lparr>fd_status := st, fd_last_seen := Some now\<rparr> else ds ! n)))))"
proof -
  have "isSuperAdmin user \<Longrightarrow> (''all'' = dashboard_tenant user ui) = (selectedTenantId ui = Some ''all'')"
    by (auto simp: dashboard_tenant_def str_of_def split: option.splits)
  then have "fleetSummaryKey user ui = dashboardKey user ui \<longleftrightarrow>
      \<not> (isSuperAdmin user \<and> truthy_str (selectedTenantId ui)) \<or> selectedTenantId ui = Some ''all''"
    by (auto simp: fleetSummaryKey_def dashboardKey_def dashboard_tenant_def effectiveTenantId_def truthy_str_def)
  then show ?thesis by (auto simp: invalidate_def update_status_def Let_def)
qed

theorem live_status_reaches_dashboard_witness:
  "let user = Some \<lparr>um_id = ''1'', um_email = ''a'', um_name = ''A'', um_role = ''super_admin'', um_tenant_id = None, um_auth_version = 2\<rparr>;
       ui = ui_init\<lparr>selectedTenantId := Some ''t1''\<rparr> in
   fleetSummaryKey user ui \<noteq> dashboardKey user ui"
  unfolding Let_def
  using live_status_reaches_dashboard [THEN conjunct1, of
      "Some \<lparr>um_id = ''1'', um_email = ''a'', um_name = ''A'', um_role = ''super_admin'', um_tenant_id = None, um_auth_version = 2\<rparr>"
      "ui_init\<lparr>selectedTenantId := Some ''t1''\<rparr>"]
  by (simp add: isSuperAdmin_def truthy_str_def)

text \<open>What a sequence shortcut promises, for key presses in order of time: it fires at a press of the second
  key, outside text fields, when the last press outside text fields before it was the first key, less
  than a second ago.\<close>

definition armed :: "string \<Rightarrow> key_press option \<Rightarrow> nat \<Rightarrow> bool" where
  "armed k1 prev now \<longleftrightarrow> (case prev of None \<Rightarrow> False | Some e \<Rightarrow> kp_key e = k1 \<and> now < kp_time e + 1000)"

fun spec_fired :: "string \<Rightarrow> string \<Rightarrow> key_press option \<Rightarrow> key_press list \<Rightarrow> nat list" where
  "spec_fired k1 k2 prev [] = []"
| "spec_fired k1 k2 prev (e # es) =
     (if kp_typing e then spec_fired k1 k2 prev es
      else (if armed k1 prev (kp_time e) \<and> kp_key e = k2 then [kp_time e] else []) @ spec_fired k1 k2 (Some e) es)"

definition seq_rel :: "string \<Rightarrow> key_press option \<Rightarrow> nat \<Rightarrow> sequence \<Rightarrow> bool" where
  "seq_rel k1 prev now q \<longleftrightarrow> (sq_pending q \<longleftrightarrow> armed k1 prev now) \<and>
     (sq_pending q \<longrightarrow> sq_deadline q = map_option (\<lambda>e. kp_time e + 1000) prev)"

lemma run_timer_fired [simp]: "sq_fired (run_timer now q) = sq_fired q"
  by (simp add: run_timer_def split: option.splits)

lemma run_timer_rel: "seq_rel k1 prev t q \<Longrightarrow> t \<le> now \<Longrightarrow> seq_rel k1 prev now (run_timer now q)"
  by (auto simp: seq_rel_def run_timer_def armed_def split: option.splits)

lemma sequence_simulates:
  assumes "k1 \<noteq> k2" and "seq_rel k1 prev t q" and "sorted (t # map kp_time es)"
  shows "sq_fired (fold (sequence_step k1 k2) es q) = sq_fired q @ spec_fired k1 k2 prev es"
  using assms(2,3)
proof (induction es arbitrary: prev t q)
  case (Cons e es)
  let ?q = "run_timer (kp_time e) q"
  have r: "seq_rel k1 prev (kp_time e) ?q" using Cons.prems by (intro run_timer_rel) auto
  have s: "sorted (kp_time e # map kp_time es)" using Cons.prems(2) by simp
  show ?case
  proof (cases "kp_typing e")
    case True
    then show ?thesis using Cons.IH [OF r s] by (simp add: sequence_step_def sequence_handler_def)
  next
    case False
    then have "seq_rel k1 (Some e) (kp_time e) (sequence_handler k1 k2 e ?q)"
      using r assms(1) by (auto simp: seq_rel_def sequence_handler_def armed_def)
    from Cons.IH [OF this s] show ?thesis
      using False r by (auto simp: sequence_step_def sequence_handler_def seq_rel_def)
  qed
qed simp

text \<open>C38: The sequence shortcuts (\<^verbatim>\<open>g d\<close> and its like) refine what they promise: for two different keys pressed
  in order of time, the callback runs exactly at the presses of the second key that follow the first key
  within a second, typing in text fields neither counting nor interrupting.\<close>
theorem sequence_shortcut_spec:
  assumes "k1 \<noteq> k2" and "sorted (map kp_time es)"
  shows "sq_fired (fold (sequence_step k1 k2) es sequence_init) = spec_fired k1 k2 None es"
proof -
  have "seq_rel k1 None 0 sequence_init" by (simp add: seq_rel_def sequence_init_def armed_def)
  from sequence_simulates [OF assms(1) this] show ?thesis using assms(2) by (simp add: sequence_init_def)
qed

theorem sequence_shortcut_spec_witness:
  "sq_fired (fold (sequence_step ''g'' ''d'')
     [\<lparr>kp_time = 0, kp_key = ''g'', kp_typing = False\<rparr>, \<lparr>kp_time = 10, kp_key = ''x'', kp_typing = True\<rparr>,
      \<lparr>kp_time = 900, kp_key = ''d'', kp_typing = False\<rparr>, \<lparr>kp_time = 1000, kp_key = ''d'', kp_typing = False\<rparr>] sequence_init) = [900]"
  by (subst sequence_shortcut_spec) (simp_all add: armed_def)

text \<open>View settings survive a reload, except that the mobile sidebar is closed; the class of the document
  agrees with the stored theme then. On a first visit with a light system theme they disagree: the
  document is light while the store says dark, so the first switch to light changes nothing.\<close>
theorem ui_state_reload:
  "rehydrate (Some (partialize s)) = s\<lparr>mobileSidebarOpen := False\<rparr> \<and>
   doc_dark (initializeTheme (Some (partialize s)) light d) = (ui_theme (rehydrate (Some (partialize s))) = Dark) \<and>
   doc_dark (initializeTheme None light d) = (\<not> light) \<and> ui_theme (rehydrate None) = Dark \<and>
   doc_dark (snd (setTheme Light (rehydrate None, initializeTheme None True d))) = doc_dark (initializeTheme None True d)"
  by (cases s) (simp add: rehydrate_def partialize_def ui_init_def initializeTheme_def applyTheme_def setTheme_def)

end
