(* ===== verification/ApiRoutes.thy ===== *)
theory ApiRoutes
  imports Errors
begin

text \<open>
  The requests of the API modules (\<^verbatim>\<open>lib/api.ts\<close> and the other \<^verbatim>\<open>lib/*Api.ts\<close> files): one datatype of calls
  per module and the request each call makes. Path arguments are interpolated as they are, so a path is a
  list of segments; what the server makes of the URL is stated at the end.
\<close>

datatype http_method = GET | POST | PUT | PATCH | DELETE

record api_request =
  rq_method :: http_method
  rq_segments :: "string list"
  rq_params :: "json obj option"
  rq_body :: "json option"

definition tenant_path :: "string \<Rightarrow> string list \<Rightarrow> string list" where
  "tenant_path t segs = ''api'' # ''tenants'' # t # segs"

definition device_path :: "string \<Rightarrow> string \<Rightarrow> string list \<Rightarrow> string list" where
  "device_path t d segs = tenant_path t (''devices'' # d # segs)"

definition mk_get :: "string list \<Rightarrow> api_request" where
  "mk_get segs = \<lparr>rq_method = GET, rq_segments = segs, rq_params = None, rq_body = None\<rparr>"

definition get_with :: "string list \<Rightarrow> json obj option \<Rightarrow> api_request" where
  "get_with segs ps = \<lparr>rq_method = GET, rq_segments = segs, rq_params = ps, rq_body = None\<rparr>"

definition send :: "http_method \<Rightarrow> string list \<Rightarrow> api_request" where
  "send m segs = \<lparr>rq_method = m, rq_segments = segs, rq_params = None, rq_body = None\<rparr>"

definition send_data :: "http_method \<Rightarrow> string list \<Rightarrow> json \<Rightarrow> api_request" where
  "send_data m segs data = \<lparr>rq_method = m, rq_segments = segs, rq_params = None, rq_body = Some data\<rparr>"

text \<open>An optional property: left out when undefined (\<open>opt\<close>), or when empty as well (\<open>opt_str\<close>).\<close>

definition opt :: "string \<Rightarrow> json option \<Rightarrow> json obj" where
  "opt k v = (case v of None \<Rightarrow> [] | Some x \<Rightarrow> [(k, x)])"

definition opt_str :: "string \<Rightarrow> string option \<Rightarrow> json obj" where
  "opt_str k v = (case v of None \<Rightarrow> [] | Some s \<Rightarrow> if s = [] then [] else [(k, JStr s)])"

text \<open>\<open>params: x ? { k: x } : undefined\<close>\<close>

definition param_if :: "string \<Rightarrow> string option \<Rightarrow> json obj option" where
  "param_if k v = (case opt_str k v of [] \<Rightarrow> None | ps \<Rightarrow> Some ps)"

section \<open>Accounts, tenants and users\<close>

datatype auth_call =
    Auth_login string string | Auth_logout | Auth_me | Auth_refresh | Auth_forgotPassword string
  | Auth_resetPassword string string | Auth_srpInit string | Auth_srpVerify json | Auth_registerSRP json
  | Auth_getEmergencyKitPDF | Auth_changePassword json | Auth_deleteMyAccount string | Auth_exportMyData

fun authApi :: "auth_call \<Rightarrow> api_request" where
  "authApi (Auth_login email password) =
     send_data POST [''api'', ''auth'', ''login''] (JObj [(''email'', JStr email), (''password'', JStr password)])"
| "authApi Auth_logout = send POST [''api'', ''auth'', ''logout'']"
| "authApi Auth_me = mk_get [''api'', ''auth'', ''me'']"
| "authApi Auth_refresh = send POST [''api'', ''auth'', ''refresh'']"
| "authApi (Auth_forgotPassword email) =
     send_data POST [''api'', ''auth'', ''forgot-password''] (JObj [(''email'', JStr email)])"
| "authApi (Auth_resetPassword token newPassword) =
     send_data POST [''api'', ''auth'', ''reset-password''] (JObj [(''token'', JStr token), (''new_password'', JStr newPassword)])"
| "authApi (Auth_srpInit email) = send_data POST [''api'', ''auth'', ''srp'', ''init''] (JObj [(''email'', JStr email)])"
| "authApi (Auth_srpVerify params) = send_data POST [''api'', ''auth'', ''srp'', ''verify''] params"
| "authApi (Auth_registerSRP params) = send_data POST [''api'', ''auth'', ''register-srp''] params"
| "authApi Auth_getEmergencyKitPDF = mk_get [''api'', ''auth'', ''emergency-kit-template'']"
| "authApi (Auth_changePassword params) = send_data POST [''api'', ''auth'', ''change-password''] params"
| "authApi (Auth_deleteMyAccount confirmation) =
     send_data DELETE [''api'', ''auth'', ''delete-my-account''] (JObj [(''confirmation'', JStr confirmation)])"
| "authApi Auth_exportMyData = mk_get [''api'', ''auth'', ''export-my-data'']"

datatype tenants_call =
    Tenants_list | Tenants_get string | Tenants_create json | Tenants_update string json | Tenants_delete string

fun tenantsApi :: "tenants_call \<Rightarrow> api_request" where
  "tenantsApi Tenants_list = mk_get [''api'', ''tenants'']"
| "tenantsApi (Tenants_get i) = mk_get [''api'', ''tenants'', i]"
| "tenantsApi (Tenants_create data) = send_data POST [''api'', ''tenants''] data"
| "tenantsApi (Tenants_update i data) = send_data PUT [''api'', ''tenants'', i] data"
| "tenantsApi (Tenants_delete i) = send DELETE [''api'', ''tenants'', i]"

datatype users_call =
    Users_list | Users_create json | Users_update string json | Users_deactivate string

fun usersApi :: "string \<Rightarrow> users_call \<Rightarrow> api_request" where
  "usersApi t Users_list = mk_get (tenant_path t [''users''])"
| "usersApi t (Users_create data) = send_data POST (tenant_path t [''users'']) data"
| "usersApi t (Users_update u data) = send_data PUT (tenant_path t [''users'', u]) data"
| "usersApi t (Users_deactivate u) = send DELETE (tenant_path t [''users'', u])"

section \<open>Devices\<close>

datatype devices_call =
    Devices_list "json obj option" | Devices_get string | Devices_create json
  | Devices_update string json | Devices_delete string | Devices_scan string
  | Devices_bulkAdd json | Devices_testConnection string | Devices_bulkAddWithProfile json
  | Devices_addToGroup string string | Devices_removeFromGroup string string
  | Devices_addTag string string | Devices_removeTag string string

fun devicesApi :: "string \<Rightarrow> devices_call \<Rightarrow> api_request" where
  "devicesApi t (Devices_list ps) = get_with (tenant_path t [''devices'']) ps"
| "devicesApi t (Devices_get d) = mk_get (device_path t d [])"
| "devicesApi t (Devices_create data) = send_data POST (tenant_path t [''devices'']) data"
| "devicesApi t (Devices_update d data) = send_data PUT (device_path t d []) data"
| "devicesApi t (Devices_delete d) = send DELETE (device_path t d [])"
| "devicesApi t (Devices_scan cidr) = send_data POST (tenant_path t [''devices'', ''scan'']) (JObj [(''cidr'', JStr cidr)])"
| "devicesApi t (Devices_bulkAdd data) = send_data POST (tenant_path t [''devices'', ''bulk-add'']) data"
| "devicesApi t (Devices_testConnection d) = send POST (device_path t d [''test-connection''])"
| "devicesApi t (Devices_bulkAddWithProfile data) = send_data POST (tenant_path t [''devices'', ''bulk'']) data"
| "devicesApi t (Devices_addToGroup d g) = send POST (device_path t d [''groups'', g])"
| "devicesApi t (Devices_removeFromGroup d g) = send DELETE (device_path t d [''groups'', g])"
| "devicesApi t (Devices_addTag d g) = send POST (device_path t d [''tags'', g])"
| "devicesApi t (Devices_removeTag d g) = send DELETE (device_path t d [''tags'', g])"

datatype credential_call =
    Cred_list "string option" | Cred_get string | Cred_create json
  | Cred_update string json | Cred_delete string | Cred_devices string

fun credentialProfilesApi :: "string \<Rightarrow> credential_call \<Rightarrow> api_request" where
  "credentialProfilesApi t (Cred_list ty) = get_with (tenant_path t [''credential-profiles'']) (param_if ''credential_type'' ty)"
| "credentialProfilesApi t (Cred_get p) = mk_get (tenant_path t [''credential-profiles'', p])"
| "credentialProfilesApi t (Cred_create data) = send_data POST (tenant_path t [''credential-profiles'']) data"
| "credentialProfilesApi t (Cred_update p data) = send_data PUT (tenant_path t [''credential-profiles'', p]) data"
| "credentialProfilesApi t (Cred_delete p) = send DELETE (tenant_path t [''credential-profiles'', p])"
| "credentialProfilesApi t (Cred_devices p) = mk_get (tenant_path t [''credential-profiles'', p, ''devices''])"

text \<open>The form data of \<open>parseMib\<close> is the file.\<close>

datatype snmp_call =
    Snmp_list | Snmp_get string | Snmp_create json | Snmp_update string json
  | Snmp_delete string | Snmp_parseMib json | Snmp_testProfile string json

fun snmpProfilesApi :: "string \<Rightarrow> snmp_call \<Rightarrow> api_request" where
  "snmpProfilesApi t Snmp_list = mk_get (tenant_path t [''snmp-profiles''])"
| "snmpProfilesApi t (Snmp_get p) = mk_get (tenant_path t [''snmp-profiles'', p])"
| "snmpProfilesApi t (Snmp_create data) = send_data POST (tenant_path t [''snmp-profiles'']) data"
| "snmpProfilesApi t (Snmp_update p data) = send_data PUT (tenant_path t [''snmp-profiles'', p]) data"
| "snmpProfilesApi t (Snmp_delete p) = send DELETE (tenant_path t [''snmp-profiles'', p])"
| "snmpProfilesApi t (Snmp_parseMib file) = send_data POST (tenant_path t [''snmp-profiles'', ''parse-mib'']) (JObj [(''file'', file)])"
| "snmpProfilesApi t (Snmp_testProfile p data) = send_data POST (tenant_path t [''snmp-profiles'', p, ''test'']) data"

text \<open>Groups and tags have the same three calls.\<close>

datatype label_call = Label_list | Label_create json | Label_delete string

fun deviceGroupsApi :: "string \<Rightarrow> label_call \<Rightarrow> api_request" where
  "deviceGroupsApi t Label_list = mk_get (tenant_path t [''device-groups''])"
| "deviceGroupsApi t (Label_create data) = send_data POST (tenant_path t [''device-groups'']) data"
| "deviceGroupsApi t (Label_delete i) = send DELETE (tenant_path t [''device-groups'', i])"

fun deviceTagsApi :: "string \<Rightarrow> label_call \<Rightarrow> api_request" where
  "deviceTagsApi t Label_list = mk_get (tenant_path t [''device-tags''])"
| "deviceTagsApi t (Label_create data) = send_data POST (tenant_path t [''device-tags'']) data"
| "deviceTagsApi t (Label_delete i) = send DELETE (tenant_path t [''device-tags'', i])"

section \<open>Sites\<close>

datatype sites_call =
    Sites_list | Sites_get string | Sites_create json | Sites_update string json
  | Sites_delete string | Sites_assignDevice string string | Sites_removeDevice string string
  | Sites_bulkAssign string "string list"

fun sitesApi :: "string \<Rightarrow> sites_call \<Rightarrow> api_request" where
  "sitesApi t Sites_list = mk_get (tenant_path t [''sites''])"
| "sitesApi t (Sites_get s) = mk_get (tenant_path t [''sites'', s])"
| "sitesApi t (Sites_create data) = send_data POST (tenant_path t [''sites'']) data"
| "sitesApi t (Sites_update s data) = send_data PUT (tenant_path t [''sites'', s]) data"
| "sitesApi t (Sites_delete s) = send DELETE (tenant_path t [''sites'', s])"
| "sitesApi t (Sites_assignDevice s d) = send POST (tenant_path t [''sites'', s, ''devices'', d])"
| "sitesApi t (Sites_removeDevice s d) = send DELETE (tenant_path t [''sites'', s, ''devices'', d])"
| "sitesApi t (Sites_bulkAssign s ds) =
     send_data POST (tenant_path t [''sites'', s, ''devices'', ''bulk-assign'']) (JObj [(''device_ids'', JArr (map JStr ds))])"

datatype sectors_call =
    Sectors_list string | Sectors_create string json | Sectors_update string string json
  | Sectors_delete string string | Sectors_assignDevice string "string option"

fun sectorsApi :: "string \<Rightarrow> sectors_call \<Rightarrow> api_request" where
  "sectorsApi t (Sectors_list s) = mk_get (tenant_path t [''sites'', s, ''sectors''])"
| "sectorsApi t (Sectors_create s data) = send_data POST (tenant_path t [''sites'', s, ''sectors'']) data"
| "sectorsApi t (Sectors_update s c data) = send_data PUT (tenant_path t [''sites'', s, ''sectors'', c]) data"
| "sectorsApi t (Sectors_delete s c) = send DELETE (tenant_path t [''sites'', s, ''sectors'', c])"
| "sectorsApi t (Sectors_assignDevice d c) =
     send_data PUT (device_path t d [''sector'']) (JObj [(''sector_id'', case c of None \<Rightarrow> JNull | Some x \<Rightarrow> JStr x)])"

datatype wireless_call =
    Wireless_getLinks "json obj option" | Wireless_getSiteLinks string
  | Wireless_getDeviceLinks string | Wireless_getDeviceRegistrations string
  | Wireless_getDeviceRFStats string | Wireless_getUnknownClients string

fun wirelessApi :: "string \<Rightarrow> wireless_call \<Rightarrow> api_request" where
  "wirelessApi t (Wireless_getLinks ps) = get_with (tenant_path t [''links'']) ps"
| "wirelessApi t (Wireless_getSiteLinks s) = mk_get (tenant_path t [''sites'', s, ''links''])"
| "wirelessApi t (Wireless_getDeviceLinks d) = mk_get (device_path t d [''links''])"
| "wirelessApi t (Wireless_getDeviceRegistrations d) = mk_get (device_path t d [''registrations''])"
| "wirelessApi t (Wireless_getDeviceRFStats d) = mk_get (device_path t d [''rf-stats''])"
| "wirelessApi t (Wireless_getUnknownClients d) = mk_get (device_path t d [''unknown-clients''])"

section \<open>Configurations\<close>

datatype config_call =
    Config_listBackups string | Config_triggerBackup string | Config_createCheckpoint string
  | Config_getExportText string string | Config_downloadBinary string string
  | Config_restore string string | Config_previewRestore string string
  | Config_emergencyRollback string | Config_getSchedule string | Config_updateSchedule string json

fun configApi :: "string \<Rightarrow> config_call \<Rightarrow> api_request" where
  "configApi t (Config_listBackups d) = mk_get (device_path t d [''config'', ''backups''])"
| "configApi t (Config_triggerBackup d) = send POST (device_path t d [''config'', ''backups''])"
| "configApi t (Config_createCheckpoint d) = send POST (device_path t d [''config'', ''checkpoint''])"
| "configApi t (Config_getExportText d sha) = mk_get (device_path t d [''config'', ''backups'', sha, ''export''])"
| "configApi t (Config_downloadBinary d sha) = mk_get (device_path t d [''config'', ''backups'', sha, ''binary''])"
| "configApi t (Config_restore d sha) =
     send_data POST (device_path t d [''config'', ''restore'']) (JObj [(''commit_sha'', JStr sha)])"
| "configApi t (Config_previewRestore d sha) =
     send_data POST (device_path t d [''config'', ''preview-restore'']) (JObj [(''commit_sha'', JStr sha)])"
| "configApi t (Config_emergencyRollback d) = send POST (device_path t d [''config'', ''emergency-rollback''])"
| "configApi t (Config_getSchedule d) = mk_get (device_path t d [''config'', ''schedules''])"
| "configApi t (Config_updateSchedule d data) = send_data PUT (device_path t d [''config'', ''schedules'']) data"

datatype history_call =
    History_list string int int | History_getDiff string string | History_getSnapshot string string

fun configHistoryApi :: "string \<Rightarrow> history_call \<Rightarrow> api_request" where
  "configHistoryApi t (History_list d limit offset) =
     get_with (device_path t d [''config-history'']) (Some [(''limit'', JNum limit), (''offset'', JNum offset)])"
| "configHistoryApi t (History_getDiff d s) = mk_get (device_path t d [''config'', s, ''diff''])"
| "configHistoryApi t (History_getSnapshot d s) = mk_get (device_path t d [''config'', s])"

datatype editor_api_call =
    Editor_browse string string | Editor_addEntry string string json
  | Editor_setEntry string string "string option" json | Editor_removeEntry string string string
  | Editor_execute string string

fun configEditorApi :: "string \<Rightarrow> editor_api_call \<Rightarrow> api_request" where
  "configEditorApi t (Editor_browse d path) =
     get_with (device_path t d [''config-editor'', ''browse'']) (Some [(''path'', JStr path)])"
| "configEditorApi t (Editor_addEntry d path properties) =
     send_data POST (device_path t d [''config-editor'', ''add'']) (JObj [(''path'', JStr path), (''properties'', properties)])"
| "configEditorApi t (Editor_setEntry d path i properties) =
     send_data POST (device_path t d [''config-editor'', ''set''])
       (JObj [(''path'', JStr path), (''entry_id'', case i of None \<Rightarrow> JNull | Some x \<Rightarrow> JStr x), (''properties'', properties)])"
| "configEditorApi t (Editor_removeEntry d path i) =
     send_data POST (device_path t d [''config-editor'', ''remove'']) (JObj [(''path'', JStr path), (''entry_id'', JStr i)])"
| "configEditorApi t (Editor_execute d command) =
     send_data POST (device_path t d [''config-editor'', ''execute'']) (JObj [(''command'', JStr command)])"

section \<open>Monitoring\<close>

datatype metrics_call =
    Metrics_health string string string | Metrics_interfaces string string string "string option"
  | Metrics_interfaceList string | Metrics_wireless string string string
  | Metrics_wirelessLatest string | Metrics_fleetSummary
  | Metrics_wirelessIssues | Metrics_sparkline string
  | Metrics_snmp string string string string

fun metricsApi :: "string \<Rightarrow> metrics_call \<Rightarrow> api_request" where
  "metricsApi t (Metrics_health d start fin) =
     get_with (device_path t d [''metrics'', ''health'']) (Some [(''start'', JStr start), (''end'', JStr fin)])"
| "metricsApi t (Metrics_interfaces d start fin iface) =
     get_with (device_path t d [''metrics'', ''interfaces''])
       (Some ([(''start'', JStr start), (''end'', JStr fin)] @ opt_str ''interface'' iface))"
| "metricsApi t (Metrics_interfaceList d) = mk_get (device_path t d [''metrics'', ''interfaces'', ''list''])"
| "metricsApi t (Metrics_wireless d start fin) =
     get_with (device_path t d [''metrics'', ''wireless'']) (Some [(''start'', JStr start), (''end'', JStr fin)])"
| "metricsApi t (Metrics_wirelessLatest d) = mk_get (device_path t d [''metrics'', ''wireless'', ''latest''])"
| "metricsApi t Metrics_fleetSummary = mk_get (tenant_path t [''fleet'', ''summary''])"
| "metricsApi t Metrics_wirelessIssues = mk_get (tenant_path t [''fleet'', ''wireless-issues''])"
| "metricsApi t (Metrics_sparkline d) = mk_get (device_path t d [''metrics'', ''sparkline''])"
| "metricsApi t (Metrics_snmp d metricName start fin) =
     get_with (device_path t d [''metrics'', ''snmp''])
       (Some [(''metric_name'', JStr metricName), (''start'', JStr start), (''end'', JStr fin)])"

text \<open>The views across tenants.\<close>

definition metricsApi_fleetSummaryAll :: api_request where
  "metricsApi_fleetSummaryAll = mk_get [''api'', ''fleet'', ''summary'']"

definition metricsApi_fleetWirelessIssues :: api_request where
  "metricsApi_fleetWirelessIssues = mk_get [''api'', ''fleet'', ''wireless-issues'']"

definition signalHistoryApi_get :: "string \<Rightarrow> string \<Rightarrow> string \<Rightarrow> string option \<Rightarrow> api_request" where
  "signalHistoryApi_get t d mac rng =
     get_with (device_path t d [''signal-history''])
       (Some [(''mac_address'', JStr mac), (''range'', JStr (case rng of None \<Rightarrow> ''7d'' | Some r \<Rightarrow> r))])"

definition eventsApi_getEvents :: "string \<Rightarrow> json obj option \<Rightarrow> api_request" where
  "eventsApi_getEvents t ps = get_with (tenant_path t [''events'']) ps"

datatype maintenance_call =
    Maint_list "string option" | Maint_create json | Maint_update string json | Maint_delete string

fun maintenanceApi :: "string \<Rightarrow> maintenance_call \<Rightarrow> api_request" where
  "maintenanceApi t (Maint_list st) = get_with (tenant_path t [''maintenance-windows'']) (Some (opt_str ''status'' st))"
| "maintenanceApi t (Maint_create data) = send_data POST (tenant_path t [''maintenance-windows'']) data"
| "maintenanceApi t (Maint_update w data) = send_data PUT (tenant_path t [''maintenance-windows'', w]) data"
| "maintenanceApi t (Maint_delete w) = send DELETE (tenant_path t [''maintenance-windows'', w])"

text \<open>The export asks for the same list in another format; a \<open>format\<close> among the parameters is overwritten.\<close>

datatype audit_call = Audit_list "json obj option" | Audit_exportCsv "json obj option"

fun auditLogsApi :: "string \<Rightarrow> audit_call \<Rightarrow> api_request" where
  "auditLogsApi t (Audit_list ps) = get_with (tenant_path t [''audit-logs'']) ps"
| "auditLogsApi t (Audit_exportCsv ps) =
     get_with (tenant_path t [''audit-logs''])
       (Some (obj_set ''format'' (JStr ''csv'') (case ps of None \<Rightarrow> [] | Some o' \<Rightarrow> o')))"

datatype transparency_call =
    Transparency_list "json obj" | Transparency_stats | Transparency_exportCsv "json obj"

fun transparencyApi :: "string \<Rightarrow> transparency_call \<Rightarrow> api_request" where
  "transparencyApi t (Transparency_list ps) = get_with (tenant_path t [''transparency-logs'']) (Some ps)"
| "transparencyApi t Transparency_stats = mk_get (tenant_path t [''transparency-logs'', ''stats''])"
| "transparencyApi t (Transparency_exportCsv ps) = get_with (tenant_path t [''transparency-logs'', ''export'']) (Some ps)"

definition reportsApi_generate :: "string \<Rightarrow> json \<Rightarrow> api_request" where
  "reportsApi_generate t req = send_data POST (tenant_path t [''reports'', ''generate'']) req"

text \<open>\<open>disposition.match(/filename="?([^"]+)"?/)\<close>: the leftmost place where the name is not empty.\<close>

fun filename_match :: "string \<Rightarrow> string option" where
  "filename_match [] = None"
| "filename_match (c # s) =
     (let t = c # s; rest = drop 9 t;
          rest = (case rest of q # r \<Rightarrow> if q = CHR 0x22 then r else rest | [] \<Rightarrow> []);
          name = takeWhile (\<lambda>c. c \<noteq> CHR 0x22) rest
      in if startsWith t ''filename='' \<and> name \<noteq> [] then Some name else filename_match s)"

definition report_filename :: "string option \<Rightarrow> bool \<Rightarrow> string" where
  "report_filename disposition csv =
     (case Option.bind disposition filename_match of
        Some n \<Rightarrow> n
      | None \<Rightarrow> ''report.'' @ (if csv then ''csv'' else ''pdf''))"

section \<open>Alerts\<close>

datatype alerts_call =
    Alerts_getAlertRules "json obj option" | Alerts_createAlertRule json | Alerts_updateAlertRule string json
  | Alerts_deleteAlertRule string | Alerts_toggleAlertRule string | Alerts_getNotificationChannels
  | Alerts_createChannel json | Alerts_updateChannel string json | Alerts_deleteChannel string
  | Alerts_testChannel string | Alerts_testSmtp json | Alerts_getAlerts "json obj option"
  | Alerts_getActiveAlertCount | Alerts_acknowledgeAlert string | Alerts_silenceAlert string int
  | Alerts_getDeviceAlerts string "json obj option"

fun alertsApi :: "string \<Rightarrow> alerts_call \<Rightarrow> api_request" where
  "alertsApi t (Alerts_getAlertRules ps) = get_with (tenant_path t [''alert-rules'']) ps"
| "alertsApi t (Alerts_createAlertRule data) = send_data POST (tenant_path t [''alert-rules'']) data"
| "alertsApi t (Alerts_updateAlertRule r data) = send_data PUT (tenant_path t [''alert-rules'', r]) data"
| "alertsApi t (Alerts_deleteAlertRule r) = send DELETE (tenant_path t [''alert-rules'', r])"
| "alertsApi t (Alerts_toggleAlertRule r) = send PATCH (tenant_path t [''alert-rules'', r, ''toggle''])"
| "alertsApi t Alerts_getNotificationChannels = mk_get (tenant_path t [''notification-channels''])"
| "alertsApi t (Alerts_createChannel data) = send_data POST (tenant_path t [''notification-channels'']) data"
| "alertsApi t (Alerts_updateChannel c data) = send_data PUT (tenant_path t [''notification-channels'', c]) data"
| "alertsApi t (Alerts_deleteChannel c) = send DELETE (tenant_path t [''notification-channels'', c])"
| "alertsApi t (Alerts_testChannel c) = send POST (tenant_path t [''notification-channels'', c, ''test''])"
| "alertsApi t (Alerts_testSmtp data) = send_data POST (tenant_path t [''notification-channels'', ''test-smtp'']) data"
| "alertsApi t (Alerts_getAlerts ps) = get_with (tenant_path t [''alerts'']) ps"
| "alertsApi t Alerts_getActiveAlertCount = mk_get (tenant_path t [''alerts'', ''active-count''])"
| "alertsApi t (Alerts_acknowledgeAlert a) = send POST (tenant_path t [''alerts'', a, ''acknowledge''])"
| "alertsApi t (Alerts_silenceAlert a minutes) =
     send_data POST (tenant_path t [''alerts'', a, ''silence'']) (JObj [(''duration_minutes'', JNum minutes)])"
| "alertsApi t (Alerts_getDeviceAlerts d ps) = get_with (device_path t d [''alerts'']) ps"

datatype site_rules_call =
    SiteRules_list string "string option" | SiteRules_get string string | SiteRules_create string json
  | SiteRules_update string string json | SiteRules_delete string string

fun alertRulesApi :: "string \<Rightarrow> site_rules_call \<Rightarrow> api_request" where
  "alertRulesApi t (SiteRules_list s c) = get_with (tenant_path t [''sites'', s, ''alert-rules'']) (param_if ''sector_id'' c)"
| "alertRulesApi t (SiteRules_get s r) = mk_get (tenant_path t [''sites'', s, ''alert-rules'', r])"
| "alertRulesApi t (SiteRules_create s rule) = send_data POST (tenant_path t [''sites'', s, ''alert-rules'']) rule"
| "alertRulesApi t (SiteRules_update s r rule) = send_data PUT (tenant_path t [''sites'', s, ''alert-rules'', r]) rule"
| "alertRulesApi t (SiteRules_delete s r) = send DELETE (tenant_path t [''sites'', s, ''alert-rules'', r])"

datatype site_events_call =
    SiteEvents_list string "string option" "int option" | SiteEvents_resolve string | SiteEvents_activeCount

fun alertEventsApi :: "string \<Rightarrow> site_events_call \<Rightarrow> api_request" where
  "alertEventsApi t (SiteEvents_list s st limit) =
     get_with (tenant_path t [''sites'', s, ''alert-events''])
       (Some (opt ''state'' (map_option JStr st) @ opt ''limit'' (map_option JNum limit)))"
| "alertEventsApi t (SiteEvents_resolve e) = send POST (tenant_path t [''alert-events'', e, ''resolve''])"
| "alertEventsApi t SiteEvents_activeCount = mk_get (tenant_path t [''alert-events'', ''count''])"

section \<open>Keys, remote access and VPN\<close>

datatype keys_call = Keys_list | Keys_create json | Keys_revoke string

fun apiKeysApi :: "string \<Rightarrow> keys_call \<Rightarrow> api_request" where
  "apiKeysApi t Keys_list = mk_get (tenant_path t [''api-keys''])"
| "apiKeysApi t (Keys_create data) = send_data POST (tenant_path t [''api-keys'']) data"
| "apiKeysApi t (Keys_revoke k) = send DELETE (tenant_path t [''api-keys'', k])"

datatype remote_call =
    Remote_openWinbox string | Remote_closeWinbox string string | Remote_openSSH string int int
  | Remote_getSessions string

fun remoteAccessApi :: "string \<Rightarrow> remote_call \<Rightarrow> api_request" where
  "remoteAccessApi t (Remote_openWinbox d) = send POST (device_path t d [''winbox-session''])"
| "remoteAccessApi t (Remote_closeWinbox d tunnel) = send DELETE (device_path t d [''winbox-session'', tunnel])"
| "remoteAccessApi t (Remote_openSSH d cols rows) =
     send_data POST (device_path t d [''ssh-session'']) (JObj [(''cols'', JNum cols), (''rows'', JNum rows)])"
| "remoteAccessApi t (Remote_getSessions d) = mk_get (device_path t d [''sessions''])"

datatype winbox_call =
    Winbox_create string "json option" | Winbox_get string string | Winbox_list string
  | Winbox_delete string string

fun remoteWinboxApi :: "string \<Rightarrow> winbox_call \<Rightarrow> api_request" where
  "remoteWinboxApi t (Winbox_create d opts) =
     send_data POST (device_path t d [''winbox-remote-sessions'']) (case opts of None \<Rightarrow> JObj [] | Some o' \<Rightarrow> o')"
| "remoteWinboxApi t (Winbox_get d s) = mk_get (device_path t d [''winbox-remote-sessions'', s])"
| "remoteWinboxApi t (Winbox_list d) = mk_get (device_path t d [''winbox-remote-sessions''])"
| "remoteWinboxApi t (Winbox_delete d s) = send DELETE (device_path t d [''winbox-remote-sessions'', s])"

definition getWebSocketUrl :: "string \<Rightarrow> string \<Rightarrow> string \<Rightarrow> string" where
  "getWebSocketUrl protocol host sessionPath =
     (if protocol = ''https:'' then ''wss:'' else ''ws:'') @ ''//'' @ host @ sessionPath"

datatype vpn_call =
    Vpn_getConfig | Vpn_setup "string option" | Vpn_updateConfig json | Vpn_deleteConfig
  | Vpn_listPeers | Vpn_addPeer string | Vpn_removePeer string | Vpn_getPeerConfig string
  | Vpn_onboard json

fun vpnApi :: "string \<Rightarrow> vpn_call \<Rightarrow> api_request" where
  "vpnApi t Vpn_getConfig = mk_get (tenant_path t [''vpn''])"
| "vpnApi t (Vpn_setup endpoint) = send_data POST (tenant_path t [''vpn'']) (JObj (opt ''endpoint'' (map_option JStr endpoint)))"
| "vpnApi t (Vpn_updateConfig data) = send_data PATCH (tenant_path t [''vpn'']) data"
| "vpnApi t Vpn_deleteConfig = send DELETE (tenant_path t [''vpn''])"
| "vpnApi t Vpn_listPeers = mk_get (tenant_path t [''vpn'', ''peers''])"
| "vpnApi t (Vpn_addPeer d) = send_data POST (tenant_path t [''vpn'', ''peers'']) (JObj [(''device_id'', JStr d)])"
| "vpnApi t (Vpn_removePeer p) = send DELETE (tenant_path t [''vpn'', ''peers'', p])"
| "vpnApi t (Vpn_getPeerConfig p) = mk_get (tenant_path t [''vpn'', ''peers'', p, ''config''])"
| "vpnApi t (Vpn_onboard data) = send_data POST (tenant_path t [''vpn'', ''peers'', ''onboard'']) data"

section \<open>Firmware, templates and certificates\<close>

datatype firmware_call =
    Firmware_getFirmwareOverview | Firmware_startUpgrade json
  | Firmware_startMassUpgrade json | Firmware_getUpgradeJobs "json obj option" | Firmware_getUpgradeJob string
  | Firmware_getRolloutStatus string | Firmware_cancelUpgrade string | Firmware_retryUpgrade string
  | Firmware_resumeRollout string | Firmware_abortRollout string
  | Firmware_setDevicePreferredChannel string string | Firmware_setGroupPreferredChannel string string

fun firmwareApi :: "string \<Rightarrow> firmware_call \<Rightarrow> api_request" where
  "firmwareApi t Firmware_getFirmwareOverview = mk_get (tenant_path t [''firmware'', ''overview''])"
| "firmwareApi t (Firmware_startUpgrade data) = send_data POST (tenant_path t [''firmware'', ''upgrade'']) data"
| "firmwareApi t (Firmware_startMassUpgrade data) = send_data POST (tenant_path t [''firmware'', ''mass-upgrade'']) data"
| "firmwareApi t (Firmware_getUpgradeJobs ps) = get_with (tenant_path t [''firmware'', ''upgrades'']) ps"
| "firmwareApi t (Firmware_getUpgradeJob j) = mk_get (tenant_path t [''firmware'', ''upgrades'', j])"
| "firmwareApi t (Firmware_getRolloutStatus g) = mk_get (tenant_path t [''firmware'', ''rollouts'', g])"
| "firmwareApi t (Firmware_cancelUpgrade j) = send POST (tenant_path t [''firmware'', ''upgrades'', j, ''cancel''])"
| "firmwareApi t (Firmware_retryUpgrade j) = send POST (tenant_path t [''firmware'', ''upgrades'', j, ''retry''])"
| "firmwareApi t (Firmware_resumeRollout g) = send POST (tenant_path t [''firmware'', ''rollouts'', g, ''resume''])"
| "firmwareApi t (Firmware_abortRollout g) = send POST (tenant_path t [''firmware'', ''rollouts'', g, ''abort''])"
| "firmwareApi t (Firmware_setDevicePreferredChannel d ch) =
     send_data PATCH (device_path t d [''preferred-channel'']) (JObj [(''preferred_channel'', JStr ch)])"
| "firmwareApi t (Firmware_setGroupPreferredChannel g ch) =
     send_data PATCH (tenant_path t [''device-groups'', g, ''preferred-channel'']) (JObj [(''preferred_channel'', JStr ch)])"

definition firmwareApi_getFirmwareVersions :: "json obj option \<Rightarrow> api_request" where
  "firmwareApi_getFirmwareVersions ps = get_with [''api'', ''firmware'', ''versions''] ps"

datatype templates_call =
    Templates_list "string option" | Templates_get string | Templates_create json
  | Templates_update string json | Templates_delete string | Templates_preview string string json
  | Templates_push string "string list" json | Templates_pushStatus string

fun templatesApi :: "string \<Rightarrow> templates_call \<Rightarrow> api_request" where
  "templatesApi t (Templates_list tag) = get_with (tenant_path t [''templates'']) (param_if ''tag'' tag)"
| "templatesApi t (Templates_get m) = mk_get (tenant_path t [''templates'', m])"
| "templatesApi t (Templates_create data) = send_data POST (tenant_path t [''templates'']) data"
| "templatesApi t (Templates_update m data) = send_data PUT (tenant_path t [''templates'', m]) data"
| "templatesApi t (Templates_delete m) = send DELETE (tenant_path t [''templates'', m])"
| "templatesApi t (Templates_preview m d vars) =
     send_data POST (tenant_path t [''templates'', m, ''preview'']) (JObj [(''device_id'', JStr d), (''variables'', vars)])"
| "templatesApi t (Templates_push m ds vars) =
     send_data POST (tenant_path t [''templates'', m, ''push''])
       (JObj [(''device_ids'', JArr (map JStr ds)), (''variables'', vars)])"
| "templatesApi t (Templates_pushStatus r) = mk_get (tenant_path t [''templates'', ''push-status'', r])"

text \<open>The certificates module names the tenant in a parameter.\<close>

definition tenantParams :: "string option \<Rightarrow> json obj option \<Rightarrow> json obj" where
  "tenantParams t extra =
     fold (\<lambda>(k, v). obj_set k v) (case extra of None \<Rightarrow> [] | Some e \<Rightarrow> e) (opt_str ''tenant_id'' t)"

datatype certificates_call =
    Cert_getCA "string option" | Cert_createCA "string option" "int option" "string option" | Cert_getCACertPEM "string option"
  | Cert_signCert string "int option" "string option" | Cert_deployCert string "string option"
  | Cert_bulkDeploy "string list" "string option" | Cert_getDeviceCerts "string option" "string option"
  | Cert_rotateCert string "string option" | Cert_revokeCert string "string option"

definition cert_post :: "string list \<Rightarrow> json option \<Rightarrow> string option \<Rightarrow> api_request" where
  "cert_post segs data t = \<lparr>rq_method = POST, rq_segments = ''api'' # ''certificates'' # segs,
     rq_params = Some (tenantParams t None), rq_body = data\<rparr>"

fun certificatesApi :: "certificates_call \<Rightarrow> api_request" where
  "certificatesApi (Cert_getCA t) = get_with [''api'', ''certificates'', ''ca''] (Some (tenantParams t None))"
| "certificatesApi (Cert_createCA commonName years t) =
     cert_post [''ca''] (Some (JObj [(''common_name'', JStr (case commonName of None \<Rightarrow> ''Portal Root CA'' | Some n \<Rightarrow> n)),
       (''validity_years'', JNum (case years of None \<Rightarrow> 10 | Some y \<Rightarrow> y))])) t"
| "certificatesApi (Cert_getCACertPEM t) = get_with [''api'', ''certificates'', ''ca'', ''pem''] (Some (tenantParams t None))"
| "certificatesApi (Cert_signCert d days t) =
     cert_post [''sign''] (Some (JObj [(''device_id'', JStr d), (''validity_days'', JNum (case days of None \<Rightarrow> 730 | Some n \<Rightarrow> n))])) t"
| "certificatesApi (Cert_deployCert c t) = cert_post [c, ''deploy''] None t"
| "certificatesApi (Cert_bulkDeploy ds t) =
     cert_post [''deploy'', ''bulk''] (Some (JObj [(''device_ids'', JArr (map JStr ds))])) t"
| "certificatesApi (Cert_getDeviceCerts d t) =
     get_with [''api'', ''certificates'', ''devices''] (Some (tenantParams t (param_if ''device_id'' d)))"
| "certificatesApi (Cert_rotateCert c t) = cert_post [c, ''rotate''] None t"
| "certificatesApi (Cert_revokeCert c t) = cert_post [c, ''revoke''] None t"

text \<open>A missing certificate authority is not an error.\<close>

definition getCA_result :: "thrown + 'a \<Rightarrow> thrown + 'a option" where
  "getCA_result answer = (case answer of
      Inr x \<Rightarrow> Inr (Some x)
    | Inl e \<Rightarrow> if status_of e = Some 404 then Inr None else Inl e)"

section \<open>Settings and network\<close>

datatype settings_call =
    Settings_getSMTP | Settings_updateSMTP json | Settings_clearWinboxSessions | Settings_testSMTP json
  | Settings_getLicenseStatus | Settings_activateLicense string | Settings_removeLicense

fun settingsApi :: "settings_call \<Rightarrow> api_request" where
  "settingsApi Settings_getSMTP = mk_get [''api'', ''settings'', ''smtp'']"
| "settingsApi (Settings_updateSMTP data) = send_data PUT [''api'', ''settings'', ''smtp''] data"
| "settingsApi Settings_clearWinboxSessions = send DELETE [''api'', ''settings'', ''winbox-sessions'']"
| "settingsApi (Settings_testSMTP data) = send_data POST [''api'', ''settings'', ''smtp'', ''test''] data"
| "settingsApi Settings_getLicenseStatus = mk_get [''api'', ''settings'', ''license'']"
| "settingsApi (Settings_activateLicense key) =
     send_data POST [''api'', ''settings'', ''license''] (JObj [(''license_key'', JStr key)])"
| "settingsApi Settings_removeLicense = send DELETE [''api'', ''settings'', ''license'']"

datatype network_call =
    Network_getTopology | Network_getClients string | Network_getDeviceLogs string "json obj option"

fun networkApi :: "string \<Rightarrow> network_call \<Rightarrow> api_request" where
  "networkApi t Network_getTopology = mk_get (tenant_path t [''topology''])"
| "networkApi t (Network_getClients d) = mk_get (device_path t d [''clients''])"
| "networkApi t (Network_getDeviceLogs d ps) = get_with (device_path t d [''logs'']) ps"

section \<open>What the server sees\<close>

text \<open>The calls that are made for a tenant.\<close>

datatype tenant_call =
    Users users_call | Devices devices_call | Credential_profiles credential_call | Snmp_profiles snmp_call
  | Device_groups label_call | Device_tags label_call | Sites sites_call | Sectors sectors_call | Wireless wireless_call
  | Config config_call | Config_history history_call | Config_editor editor_api_call | Metrics metrics_call
  | Signal_history string string "string option" | Events "json obj option" | Maintenance maintenance_call
  | Audit_logs audit_call | Transparency transparency_call | Reports json | Alerts alerts_call | Alert_rules site_rules_call
  | Alert_events site_events_call | Api_keys keys_call | Remote_access remote_call | Remote_winbox winbox_call
  | Vpn vpn_call | Firmware firmware_call | Templates templates_call | Network network_call

fun tenant_request :: "string \<Rightarrow> tenant_call \<Rightarrow> api_request" where
  "tenant_request t (Users c) = usersApi t c"
| "tenant_request t (Devices c) = devicesApi t c"
| "tenant_request t (Credential_profiles c) = credentialProfilesApi t c"
| "tenant_request t (Snmp_profiles c) = snmpProfilesApi t c"
| "tenant_request t (Device_groups c) = deviceGroupsApi t c"
| "tenant_request t (Device_tags c) = deviceTagsApi t c"
| "tenant_request t (Sites c) = sitesApi t c"
| "tenant_request t (Sectors c) = sectorsApi t c"
| "tenant_request t (Wireless c) = wirelessApi t c"
| "tenant_request t (Config c) = configApi t c"
| "tenant_request t (Config_history c) = configHistoryApi t c"
| "tenant_request t (Config_editor c) = configEditorApi t c"
| "tenant_request t (Metrics c) = metricsApi t c"
| "tenant_request t (Signal_history d m r) = signalHistoryApi_get t d m r"
| "tenant_request t (Events ps) = eventsApi_getEvents t ps"
| "tenant_request t (Maintenance c) = maintenanceApi t c"
| "tenant_request t (Audit_logs c) = auditLogsApi t c"
| "tenant_request t (Transparency c) = transparencyApi t c"
| "tenant_request t (Reports r) = reportsApi_generate t r"
| "tenant_request t (Alerts c) = alertsApi t c"
| "tenant_request t (Alert_rules c) = alertRulesApi t c"
| "tenant_request t (Alert_events c) = alertEventsApi t c"
| "tenant_request t (Api_keys c) = apiKeysApi t c"
| "tenant_request t (Remote_access c) = remoteAccessApi t c"
| "tenant_request t (Remote_winbox c) = remoteWinboxApi t c"
| "tenant_request t (Vpn c) = vpnApi t c"
| "tenant_request t (Firmware c) = firmwareApi t c"
| "tenant_request t (Templates c) = templatesApi t c"
| "tenant_request t (Network c) = networkApi t c"

text \<open>The URL, and its path after the browser has resolved dot segments.\<close>

definition url :: "api_request \<Rightarrow> string" where
  "url r = concat (map (\<lambda>s. CHR ''/'' # s) (rq_segments r))"

fun remove_dots :: "string list \<Rightarrow> string list \<Rightarrow> string list" where
  "remove_dots acc [] = rev acc"
| "remove_dots acc (s # ss) =
     (if s = ''.'' then remove_dots acc ss
      else if s = ''..'' then remove_dots (tl acc) ss
      else remove_dots (s # acc) ss)"

definition server_segments :: "string \<Rightarrow> string list" where
  "server_segments u = remove_dots [] (tl (split_on (CHR ''/'') (takeWhile (\<lambda>c. c \<noteq> CHR ''?'' \<and> c \<noteq> CHR ''#'') u)))"

definition addressed_tenant :: "string \<Rightarrow> string option" where
  "addressed_tenant u = (case server_segments u of
      a # b # t # _ \<Rightarrow> if a = ''api'' \<and> b = ''tenants'' then Some t else None
    | _ \<Rightarrow> None)"

text \<open>An identifier as the server makes them: letters, digits, hyphens and underscores, and dots that are not
  a dot segment.\<close>

definition id_char :: "char \<Rightarrow> bool" where
  "id_char c \<longleftrightarrow> (let n = of_char c :: nat in (97 \<le> n \<and> n \<le> 122) \<or> (65 \<le> n \<and> n \<le> 90) \<or> (48 \<le> n \<and> n \<le> 57))
     \<or> c \<in> set ''-_.''"

definition clean_segment :: "string \<Rightarrow> bool" where
  "clean_segment s \<longleftrightarrow> list_all id_char s \<and> s \<noteq> ''.'' \<and> s \<noteq> ''..''"

lemma clean_chars:
  assumes "clean_segment s"
  shows "CHR ''/'' \<notin> set s" "CHR ''?'' \<notin> set s" "CHR ''#'' \<notin> set s"
proof -
  have "\<not> id_char (CHR ''/'')" "\<not> id_char (CHR ''?'')" "\<not> id_char (CHR ''#'')" by code_simp+
  then show "CHR ''/'' \<notin> set s" "CHR ''?'' \<notin> set s" "CHR ''#'' \<notin> set s"
    using assms by (auto simp: clean_segment_def list_all_iff)
qed

lemma remove_dots_clean: "list_all clean_segment segs \<Longrightarrow> remove_dots acc segs = rev acc @ segs"
  by (induction segs arbitrary: acc) (auto simp: clean_segment_def)

lemma slashes_join: "segs \<noteq> [] \<Longrightarrow> concat (map (\<lambda>s. CHR ''/'' # s) segs) = CHR ''/'' # join ''/'' segs"
proof (induction segs)
  case (Cons s segs)
  then show ?case by (cases "segs = []") (simp_all add: join_Cons)
qed simp

lemma server_resolves:
  assumes "\<forall>s \<in> set segs. CHR ''/'' \<notin> set s \<and> CHR ''?'' \<notin> set s \<and> CHR ''#'' \<notin> set s" and "segs \<noteq> []"
  shows "server_segments (concat (map (\<lambda>s. CHR ''/'' # s) segs)) = remove_dots [] segs"
proof -
  have "takeWhile (\<lambda>c. c \<noteq> CHR ''?'' \<and> c \<noteq> CHR ''#'') (concat (map (\<lambda>s. CHR ''/'' # s) segs)) = concat (map (\<lambda>s. CHR ''/'' # s) segs)"
    unfolding takeWhile_eq_all_conv using assms(1) by auto
  moreover have "split_on (CHR ''/'') (concat (map (\<lambda>s. CHR ''/'' # s) segs)) = [] # segs"
    using split_join [of segs "CHR ''/''"] assms by (simp add: slashes_join)
  ultimately show ?thesis by (simp only: server_segments_def list.sel)
qed

lemma server_sees: "list_all clean_segment (rq_segments r) \<Longrightarrow> rq_segments r \<noteq> [] \<Longrightarrow> server_segments (url r) = rq_segments r"
  unfolding url_def using clean_chars by (subst server_resolves) (auto simp: list_all_iff remove_dots_clean)

text \<open>The contract of a module that works for a tenant: its paths start with the tenant's.\<close>

definition scoped :: "string \<Rightarrow> api_request \<Rightarrow> bool" where
  "scoped t r \<longleftrightarrow> take 3 (rq_segments r) = [''api'', ''tenants'', t]"

locale tenant_module =
  fixes req :: "string \<Rightarrow> 'c \<Rightarrow> api_request"
  assumes scoped: "scoped t (req t c)"
begin

lemma confined:
  assumes "list_all clean_segment (rq_segments (req t c))"
  shows "server_segments (url (req t c)) = rq_segments (req t c)" "addressed_tenant (url (req t c)) = Some t"
proof -
  obtain segs where segs: "rq_segments (req t c) = ''api'' # ''tenants'' # t # segs"
    using scoped [of t c] unfolding scoped_def by (metis append_Cons append_Nil append_take_drop_id)
  show s: "server_segments (url (req t c)) = rq_segments (req t c)"
    by (rule server_sees [OF assms]) (simp add: segs)
  show "addressed_tenant (url (req t c)) = Some t"
    by (simp add: addressed_tenant_def s segs)
qed

end

lemma scoped_simps [simp]:
  "scoped t (mk_get (tenant_path t segs))" "scoped t (get_with (tenant_path t segs) ps)"
  "scoped t (send m (tenant_path t segs))" "scoped t (send_data m (tenant_path t segs) b)"
  "scoped t (mk_get (device_path t d segs))" "scoped t (get_with (device_path t d segs) ps)"
  "scoped t (send m (device_path t d segs))" "scoped t (send_data m (device_path t d segs) b)"
  by (simp_all add: scoped_def mk_get_def get_with_def send_def send_data_def device_path_def tenant_path_def)

lemma devices_scoped [simp]: "scoped t (usersApi t u)" "scoped t (devicesApi t d)" "scoped t (credentialProfilesApi t c)"
    "scoped t (snmpProfilesApi t s)" "scoped t (deviceGroupsApi t g)" "scoped t (deviceTagsApi t g)"
  by (cases u; simp) ((cases d; simp), (cases c; simp), (cases s; simp), (cases g; simp)+)

lemma sites_scoped [simp]: "scoped t (sitesApi t s)" "scoped t (sectorsApi t c)" "scoped t (wirelessApi t w)"
    "scoped t (configApi t f)" "scoped t (configHistoryApi t h)" "scoped t (configEditorApi t e)"
  by (cases s; simp) ((cases c; simp), (cases w; simp), (cases f; simp), (cases h; simp), (cases e; simp))

lemma monitoring_scoped [simp]: "scoped t (metricsApi t m)" "scoped t (signalHistoryApi_get t d mac r)"
    "scoped t (eventsApi_getEvents t ps)" "scoped t (maintenanceApi t w)" "scoped t (auditLogsApi t a)"
    "scoped t (transparencyApi t y)" "scoped t (reportsApi_generate t q)" "scoped t (alertsApi t l)"
    "scoped t (alertRulesApi t x)" "scoped t (alertEventsApi t e)"
  by (cases m; simp) (simp add: signalHistoryApi_get_def, simp add: eventsApi_getEvents_def, (cases w; simp), (cases a; simp),
      (cases y; simp), simp add: reportsApi_generate_def, (cases l; simp), (cases x; simp), (cases e; simp))

lemma access_scoped [simp]: "scoped t (apiKeysApi t k)" "scoped t (remoteAccessApi t r)" "scoped t (remoteWinboxApi t w)"
    "scoped t (vpnApi t v)" "scoped t (firmwareApi t f)" "scoped t (templatesApi t m)" "scoped t (networkApi t n)"
  by (cases k; simp) ((cases r; simp), (cases w; simp), (cases v; simp), (cases f; simp), (cases m; simp), (cases n; simp))

interpretation tenant: tenant_module tenant_request
proof
  show "scoped t (tenant_request t c)" for t c by (cases c) simp_all
qed

text \<open>C15: Every request made for a tenant stays with that tenant. If the arguments that go into the path are
  identifiers, the server sees exactly the segments of the call, and they address the tenant it was made
  for, for every call of every module.\<close>
theorem tenant_confinement:
  assumes "list_all clean_segment (rq_segments (tenant_request t c))"
  shows "server_segments (url (tenant_request t c)) = rq_segments (tenant_request t c) \<and>
    addressed_tenant (url (tenant_request t c)) = Some t"
  using tenant.confined [OF assms] by blast

theorem tenant_confinement_witness:
  "addressed_tenant (url (tenant_request ''t1'' (Config (Config_getExportText ''d1'' ''abc'')))) = Some ''t1''"
proof -
  have "list_all clean_segment (rq_segments (tenant_request ''t1'' (Config (Config_getExportText ''d1'' ''abc''))))" by code_simp
  then show ?thesis using tenant_confinement by blast
qed

text \<open>Path arguments are not encoded, and an argument that is not an identifier leaves its place: asking one
  tenant for the device \<^verbatim>\<open>../../t2/devices/d\<close> is the request for device \<^verbatim>\<open>d\<close> of tenant \<^verbatim>\<open>t2\<close>.\<close>
theorem unencoded_id_escapes:
  assumes "clean_segment t1" and "clean_segment t2" and "clean_segment d"
  shows "server_segments (url (devicesApi t1 (Devices_get (''../../'' @ t2 @ ''/devices/'' @ d)))) =
      server_segments (url (devicesApi t2 (Devices_get d))) \<and>
    addressed_tenant (url (devicesApi t1 (Devices_get (''../../'' @ t2 @ ''/devices/'' @ d)))) = Some t2"
proof -
  let ?segs = "[''api'', ''tenants'', t1, ''devices'', ''..'', ''..'', t2, ''devices'', d]"
  have lit: "clean_segment ''api''" "clean_segment ''tenants''" "clean_segment ''devices''" by code_simp+
  note no = clean_chars [OF assms(1)] clean_chars [OF assms(2)] clean_chars [OF assms(3)]
  have u: "url (devicesApi t1 (Devices_get (''../../'' @ t2 @ ''/devices/'' @ d))) = concat (map (\<lambda>s. CHR ''/'' # s) ?segs)"
    by (simp add: url_def mk_get_def device_path_def tenant_path_def)
  have "server_segments (concat (map (\<lambda>s. CHR ''/'' # s) ?segs)) = remove_dots [] ?segs"
    by (rule server_resolves) (use no in simp_all)
  then have s: "server_segments (url (devicesApi t1 (Devices_get (''../../'' @ t2 @ ''/devices/'' @ d)))) =
      [''api'', ''tenants'', t2, ''devices'', d]"
    unfolding u using assms by (simp add: clean_segment_def)
  moreover have "server_segments (url (devicesApi t2 (Devices_get d))) = [''api'', ''tenants'', t2, ''devices'', d]"
    using assms lit by (subst server_sees) (simp_all add: mk_get_def device_path_def tenant_path_def)
  ultimately show ?thesis by (simp add: addressed_tenant_def)
qed

theorem unencoded_id_escapes_witness:
  "addressed_tenant (url (devicesApi ''t1'' (Devices_get ''../../t2/devices/d''))) = Some ''t2''"
proof -
  have "clean_segment ''t1''" "clean_segment ''t2''" "clean_segment ''d''" by code_simp+
  from unencoded_id_escapes [OF this] show ?thesis by simp
qed

end
