(* ===== verification/Onboarding.thy ===== *)
theory Onboarding
  imports InterfacePanels ApiRoutes
begin

text \<open>
  Adding devices to the fleet: the Add Device dialog (\<^verbatim>\<open>components/fleet/AddDeviceForm.tsx\<close>) with its
  RouterOS and SNMP tabs, the bulk form (\<^verbatim>\<open>BulkAddForm.tsx\<close>), and the results of a subnet scan
  (\<^verbatim>\<open>SubnetScanForm.tsx\<close>, \<^verbatim>\<open>ScanResultsList.tsx\<close>). Requests are those of \<open>devicesApi\<close>. The
  dialog is a machine of user actions, answers of the server and the timer that closes it.
\<close>

section \<open>Bulk addition\<close>

definition ipv4Re :: regex where
  "ipv4Re = Regex.fields 1 3 (is_digit 10) CHR ''.'' 3"

text \<open>The loop over the lines; \<open>seen\<close> and \<open>result\<close> hold the same addresses.\<close>

fun ip_lines :: "string list \<Rightarrow> string list \<Rightarrow> string list" where
  "ip_lines [] result = result"
| "ip_lines (raw # rest) result =
     (let line = js_trim raw in
      if line = [] then ip_lines rest result
      else if CHR ''/'' \<in> set line \<or> CHR ''-'' \<in> set line then ip_lines rest result
      else if test ipv4Re line \<and> line \<notin> set result then ip_lines rest (result @ [line])
      else ip_lines rest result)"

definition parseIPList :: "string \<Rightarrow> string list" where
  "parseIPList text = ip_lines (split_on (CHR 0x0A) text) []"

text \<open>\<open>parseInt(s)\<close> without a radix reads a hexadecimal prefix; \<open>parseInt(s) || d\<close> takes the default for
  \<open>NaN\<close> and for zero.\<close>

definition parseInt_any :: "string \<Rightarrow> int option" where
  "parseInt_any s =
     (let t = js_trim_start s; u = (if t \<noteq> [] \<and> (hd t = CHR ''-'' \<or> hd t = CHR ''+'') then tl t else t) in
      if startsWith u ''0x'' \<or> startsWith u ''0X'' then parseInt 16 s else parseInt 10 s)"

definition port_or :: "int \<Rightarrow> string \<Rightarrow> json" where
  "port_or d s = JNum (case parseInt_any s of Some n \<Rightarrow> if n = 0 then d else n | None \<Rightarrow> d)"

datatype device_type = Routeros | Snmp

definition device_type_text :: "device_type \<Rightarrow> string" where
  "device_type_text dt = (case dt of Routeros \<Rightarrow> ''routeros'' | Snmp \<Rightarrow> ''snmp'')"

record bulk_form =
  bf_profileId :: string
  bf_snmpProfileId :: string
  bf_ipText :: string
  bf_hostnamePrefix :: string
  bf_snmpPort :: string
  bf_apiPort :: string
  bf_apiSslPort :: string
  bf_error :: "string option"

definition bulk_form_init :: bulk_form where
  "bulk_form_init = \<lparr>bf_profileId = [], bf_snmpProfileId = [], bf_ipText = [], bf_hostnamePrefix = [],
     bf_snmpPort = ''161'', bf_apiPort = ''8728'', bf_apiSslPort = ''8729'', bf_error = None\<rparr>"

definition bulk_hostname :: "string \<Rightarrow> nat \<Rightarrow> string" where
  "bulk_hostname prefix i = prefix @ padStart 2 CHR ''0'' (string_of_nat (i + 1))"

definition bulk_add_device :: "string \<Rightarrow> nat \<times> string \<Rightarrow> json" where
  "bulk_add_device prefix d = JObj ((''ip_address'', JStr (snd d)) #
     (if prefix \<noteq> [] then [(''hostname'', JStr (bulk_hostname prefix (fst d)))] else []))"

definition bulk_add_request :: "device_type \<Rightarrow> bulk_form \<Rightarrow> json" where
  "bulk_add_request dt f = JObj
     [(''credential_profile_id'', JStr (bf_profileId f)),
      (''device_type'', JStr (device_type_text dt)),
      (''defaults'', JObj (case dt of
          Snmp \<Rightarrow> (''snmp_port'', port_or 161 (bf_snmpPort f)) # opt_str ''snmp_profile_id'' (Some (bf_snmpProfileId f))
        | Routeros \<Rightarrow> [(''api_port'', port_or 8728 (bf_apiPort f)), (''api_ssl_port'', port_or 8729 (bf_apiSslPort f))])),
      (''devices'', JArr (map (bulk_add_device (bf_hostnamePrefix f)) (enumerate 0 (parseIPList (bf_ipText f)))))]"

text \<open>\<open>handleSubmit\<close>: the request it makes, if any, and the form after it.\<close>

definition bulk_handleSubmit :: "string \<Rightarrow> device_type \<Rightarrow> bulk_form \<Rightarrow> api_request option \<times> bulk_form" where
  "bulk_handleSubmit tenantId dt f =
     (if parseIPList (bf_ipText f) = [] then (None, f\<lparr>bf_error := Some ''Enter at least one valid IP address''\<rparr>)
      else if bf_profileId f = [] then (None, f\<lparr>bf_error := Some ''Select a credential profile''\<rparr>)
      else (Some (devicesApi tenantId (Devices_bulkAddWithProfile (bulk_add_request dt f))), f\<lparr>bf_error := None\<rparr>))"

section \<open>Scan results\<close>

record discovered =
  dc_ip :: string
  dc_hostname :: "string option"

record scan_list =
  sl_selected :: "string list"
  sl_username :: string
  sl_password :: string

definition scan_list_init :: scan_list where
  "scan_list_init = \<lparr>sl_selected = [], sl_username = ''admin'', sl_password = []\<rparr>"

definition toggleSelect :: "string \<Rightarrow> scan_list \<Rightarrow> scan_list" where
  "toggleSelect ip s = s\<lparr>sl_selected :=
     (if ip \<in> set (sl_selected s) then filter (\<lambda>x. x \<noteq> ip) (sl_selected s) else sl_selected s @ [ip])\<rparr>"

text \<open>\<open>new Set(xs)\<close> enumerates the elements in the order of their first occurrence.\<close>

definition set_of_list :: "'a list \<Rightarrow> 'a list" where
  "set_of_list xs = rev (remdups (rev xs))"

definition scan_selectAll :: "discovered list \<Rightarrow> scan_list \<Rightarrow> scan_list" where
  "scan_selectAll ds s = s\<lparr>sl_selected := set_of_list (map dc_ip ds)\<rparr>"

definition scan_deselectAll :: "scan_list \<Rightarrow> scan_list" where
  "scan_deselectAll s = s\<lparr>sl_selected := []\<rparr>"

definition allSelected :: "discovered list \<Rightarrow> scan_list \<Rightarrow> bool" where
  "allSelected ds s \<longleftrightarrow> 0 < length ds \<and> length (sl_selected s) = length ds"

definition scan_device :: "discovered list \<Rightarrow> string \<Rightarrow> json" where
  "scan_device ds ip = JObj ((''ip_address'', JStr ip) #
     opt ''hostname'' (map_option JStr (Option.bind (find (\<lambda>d. dc_ip d = ip) ds) dc_hostname)))"

definition scan_request :: "string \<Rightarrow> discovered list \<Rightarrow> scan_list \<Rightarrow> api_request" where
  "scan_request tenantId ds s = devicesApi tenantId (Devices_bulkAdd (JObj
     [(''devices'', JArr (map (scan_device ds) (sl_selected s))),
      (''shared_username'', JStr (sl_username s)), (''shared_password'', JStr (sl_password s))]))"

definition scan_handleSubmit :: "string \<Rightarrow> string \<Rightarrow> api_request option \<times> string option" where
  "scan_handleSubmit tenantId cidr =
     (if js_trim cidr = [] then (None, Some ''CIDR is required (e.g. 192.168.1.0/24)'')
      else (Some (devicesApi tenantId (Devices_scan cidr)), None))"

section \<open>The Add Device dialog\<close>

datatype connection_status = Idle_status | Success_status | Error_status

record add_form =
  af_hostname :: string
  af_ip_address :: string
  af_api_port :: string
  af_api_ssl_port :: string
  af_ssh_port :: string
  af_tls_mode :: string
  af_username :: string
  af_password :: string

definition add_form_init :: add_form where
  "add_form_init = \<lparr>af_hostname = [], af_ip_address = [], af_api_port = ''8728'', af_api_ssl_port = ''8729'',
     af_ssh_port = ''22'', af_tls_mode = ''auto'', af_username = [], af_password = []\<rparr>"

datatype add_field = F_hostname | F_ip_address | F_api_port | F_api_ssl_port | F_ssh_port | F_username | F_password

fun set_field :: "add_field \<Rightarrow> string \<Rightarrow> add_form \<Rightarrow> add_form" where
  "set_field F_hostname v f = f\<lparr>af_hostname := v\<rparr>"
| "set_field F_ip_address v f = f\<lparr>af_ip_address := v\<rparr>"
| "set_field F_api_port v f = f\<lparr>af_api_port := v\<rparr>"
| "set_field F_api_ssl_port v f = f\<lparr>af_api_ssl_port := v\<rparr>"
| "set_field F_ssh_port v f = f\<lparr>af_ssh_port := v\<rparr>"
| "set_field F_username v f = f\<lparr>af_username := v\<rparr>"
| "set_field F_password v f = f\<lparr>af_password := v\<rparr>"

record cred_profile =
  cp_id :: string
  cp_credential_type :: string

text \<open>
  The dialog stays mounted while it is closed. Beside the component's state: whether it is open, whether
  each mutation is running, how many closing timers are set, and the requests made so far.
\<close>

record add_dialog =
  ad_open :: bool
  ad_useProfile :: bool
  ad_showBulk :: bool
  ad_rosProfileId :: string
  ad_form :: add_form
  ad_showSnmpBulk :: bool
  ad_snmpIp :: string
  ad_snmpCredProfileId :: string
  ad_error :: "json option"
  ad_status :: connection_status
  ad_rosPending :: bool
  ad_snmpPending :: bool
  ad_timers :: nat
  ad_sent :: "api_request list"

definition add_init :: add_dialog where
  "add_init = \<lparr>ad_open = False, ad_useProfile = False, ad_showBulk = False, ad_rosProfileId = [],
     ad_form = add_form_init, ad_showSnmpBulk = False, ad_snmpIp = [], ad_snmpCredProfileId = [],
     ad_error = None, ad_status = Idle_status, ad_rosPending = False, ad_snmpPending = False, ad_timers = 0,
     ad_sent = []\<rparr>"

text \<open>The body of the RouterOS request. The SSH port is a required number field, so that the browser submits
  only integers; \<open>NaN\<close> would become \<open>null\<close>.\<close>

definition ros_body :: "bool \<Rightarrow> string \<Rightarrow> add_form \<Rightarrow> json" where
  "ros_body useProfile rosProfileId f = JObj
     (opt_str ''hostname'' (Some (js_trim (af_hostname f)))
      @ [(''ip_address'', JStr (af_ip_address f)), (''device_type'', JStr ''routeros'')]
      @ (if useProfile then [(''credential_profile_id'', JStr rosProfileId)] else [])
      @ [(''api_port'', port_or 8728 (af_api_port f)), (''api_ssl_port'', port_or 8729 (af_api_ssl_port f)),
         (''ssh_port'', case Number_int (af_ssh_port f) of Some n \<Rightarrow> JNum n | None \<Rightarrow> JNull),
         (''tls_mode'', JStr (af_tls_mode f))]
      @ (if useProfile then [] else [(''username'', JStr (af_username f)), (''password'', JStr (af_password f))]))"

definition snmpCredProfileList :: "cred_profile list \<Rightarrow> cred_profile list" where
  "snmpCredProfileList ps = filter (\<lambda>p. cp_credential_type p = ''snmp_v2c'' \<or> cp_credential_type p = ''snmp_v3'') ps"

definition snmp_body :: "cred_profile list \<Rightarrow> string \<Rightarrow> string \<Rightarrow> thrown + json" where
  "snmp_body ps snmpIp profileId =
     (case find (\<lambda>p. cp_id p = profileId) (snmpCredProfileList ps) of
        None \<Rightarrow> Inl (JsError ''Select a credential profile'')
      | Some p \<Rightarrow> Inr (JObj
          [(''hostname'', JStr snmpIp), (''ip_address'', JStr snmpIp), (''device_type'', JStr ''snmp''),
           (''snmp_version'', JStr (if cp_credential_type p = ''snmp_v3'' then ''v3'' else ''v2c'')),
           (''credential_profile_id'', JStr profileId)]))"

text \<open>\<open>err?.response?.data?.detail ?? fallback\<close>\<close>

definition detail_or :: "string \<Rightarrow> thrown \<Rightarrow> json" where
  "detail_or fallback err = (case detail_of err of
      Some d \<Rightarrow> if d = JNull then JStr fallback else d
    | None \<Rightarrow> JStr fallback)"

definition add_onSuccess :: "add_dialog \<Rightarrow> add_dialog" where
  "add_onSuccess d = d\<lparr>ad_status := Success_status, ad_timers := ad_timers d + 1\<rparr>"

definition add_onError :: "string \<Rightarrow> thrown \<Rightarrow> add_dialog \<Rightarrow> add_dialog" where
  "add_onError fallback err d = d\<lparr>ad_status := Error_status, ad_error := Some (detail_or fallback err)\<rparr>"

definition ROS_FAILED :: string where
  "ROS_FAILED = ''Connection failed. Check the IP address, port, and credentials.''"

definition SNMP_FAILED :: string where
  "SNMP_FAILED = ''Discovery failed. Check the IP address and credential profile.''"

definition add_handleClose :: "add_dialog \<Rightarrow> add_dialog" where
  "add_handleClose d = d\<lparr>ad_form := add_form_init, ad_snmpIp := [], ad_snmpCredProfileId := [], ad_rosProfileId := [],
     ad_useProfile := False, ad_showBulk := False, ad_showSnmpBulk := False, ad_error := None,
     ad_status := Idle_status, ad_open := False\<rparr>"

definition ros_check :: "add_dialog \<Rightarrow> string option" where
  "ros_check d =
     (if js_trim (af_ip_address (ad_form d)) = [] then Some ''IP address is required''
      else if ad_useProfile d \<and> ad_rosProfileId d = [] then Some ''Select a credential profile''
      else if \<not> ad_useProfile d \<and> (js_trim (af_username (ad_form d)) = [] \<or> js_trim (af_password (ad_form d)) = [])
      then Some ''Username and password are required''
      else None)"

definition handleRosSubmit :: "string \<Rightarrow> add_dialog \<Rightarrow> add_dialog" where
  "handleRosSubmit tenantId d = (case ros_check d of
      Some m \<Rightarrow> d\<lparr>ad_error := Some (JStr m)\<rparr>
    | None \<Rightarrow> d\<lparr>ad_error := None, ad_status := Idle_status, ad_rosPending := True,
        ad_sent := ad_sent d @ [devicesApi tenantId (Devices_create (ros_body (ad_useProfile d) (ad_rosProfileId d) (ad_form d)))]\<rparr>)"

definition snmp_check :: "add_dialog \<Rightarrow> string option" where
  "snmp_check d =
     (if js_trim (ad_snmpIp d) = [] then Some ''IP address is required''
      else if ad_snmpCredProfileId d = [] then Some ''Select a credential profile''
      else None)"

text \<open>Without the chosen profile in the list the mutation fails before a request is made.\<close>

definition handleSnmpSubmit :: "string \<Rightarrow> cred_profile list \<Rightarrow> add_dialog \<Rightarrow> add_dialog" where
  "handleSnmpSubmit tenantId ps d = (case snmp_check d of
      Some m \<Rightarrow> d\<lparr>ad_error := Some (JStr m)\<rparr>
    | None \<Rightarrow>
        (let d = d\<lparr>ad_error := None, ad_status := Idle_status\<rparr> in
         case snmp_body ps (ad_snmpIp d) (ad_snmpCredProfileId d) of
           Inl e \<Rightarrow> add_onError SNMP_FAILED e d
         | Inr b \<Rightarrow> d\<lparr>ad_snmpPending := True, ad_sent := ad_sent d @ [devicesApi tenantId (Devices_create b)]\<rparr>))"

definition updateRos :: "add_field \<Rightarrow> string \<Rightarrow> add_dialog \<Rightarrow> add_dialog" where
  "updateRos fld v d = d\<lparr>ad_form := set_field fld v (ad_form d), ad_error := None, ad_status := Idle_status\<rparr>"

text \<open>\<open>statusBanner\<close>: what the dialog tells the user.\<close>

definition statusBanner :: "add_dialog \<Rightarrow> json option" where
  "statusBanner d = (case ad_status d of
      Success_status \<Rightarrow> Some (JStr ''Device added successfully'')
    | Error_status \<Rightarrow> (case ad_error d of Some e \<Rightarrow> if truthy e then Some e else None | None \<Rightarrow> None)
    | Idle_status \<Rightarrow> None)"

datatype add_event =
    Add_open | Add_cancel | Add_toggleProfile | Add_rosProfile string | Add_edit add_field string
  | Add_tls string | Add_bulk bool | Add_snmpBulk bool | Add_snmpIp string | Add_snmpProfile string
  | Add_rosSubmit | Add_snmpSubmit "cred_profile list" | Add_vpnDone
  | Add_rosAnswer "thrown + unit" | Add_snmpAnswer "thrown + unit" | Add_timer

definition settle_add :: "string \<Rightarrow> thrown + unit \<Rightarrow> add_dialog \<Rightarrow> add_dialog" where
  "settle_add fallback r d = (case r of Inr _ \<Rightarrow> add_onSuccess d | Inl e \<Rightarrow> add_onError fallback e d)"

text \<open>User actions need the open dialog, a submission also that no other is running; answers and the timer
  come whether or not it is open.\<close>

fun add_action :: "string \<Rightarrow> add_event \<Rightarrow> add_dialog \<Rightarrow> add_dialog" where
  "add_action t Add_open d = d\<lparr>ad_open := True\<rparr>"
| "add_action t Add_cancel d = add_handleClose d"
| "add_action t Add_toggleProfile d = d\<lparr>ad_useProfile := \<not> ad_useProfile d\<rparr>"
| "add_action t (Add_rosProfile p) d = d\<lparr>ad_rosProfileId := p\<rparr>"
| "add_action t (Add_edit fld v) d = updateRos fld v d"
| "add_action t (Add_tls v) d = d\<lparr>ad_form := (ad_form d)\<lparr>af_tls_mode := v\<rparr>\<rparr>"
| "add_action t (Add_bulk b) d = d\<lparr>ad_showBulk := b\<rparr>"
| "add_action t (Add_snmpBulk b) d = d\<lparr>ad_showSnmpBulk := b\<rparr>"
| "add_action t (Add_snmpIp v) d = d\<lparr>ad_snmpIp := v, ad_error := None, ad_status := Idle_status\<rparr>"
| "add_action t (Add_snmpProfile v) d = d\<lparr>ad_snmpCredProfileId := v, ad_error := None, ad_status := Idle_status\<rparr>"
| "add_action t Add_rosSubmit d = (if ad_rosPending d then d else handleRosSubmit t d)"
| "add_action t (Add_snmpSubmit ps) d = (if ad_snmpPending d then d else handleSnmpSubmit t ps d)"
| "add_action t Add_vpnDone d = add_handleClose d"
| "add_action t (Add_rosAnswer r) d = settle_add ROS_FAILED r (d\<lparr>ad_rosPending := False\<rparr>)"
| "add_action t (Add_snmpAnswer r) d = settle_add SNMP_FAILED r (d\<lparr>ad_snmpPending := False\<rparr>)"
| "add_action t Add_timer d = add_handleClose (d\<lparr>ad_timers := ad_timers d - 1\<rparr>)"

fun add_enabled :: "add_event \<Rightarrow> add_dialog \<Rightarrow> bool" where
  "add_enabled Add_open d = (\<not> ad_open d)"
| "add_enabled (Add_rosAnswer r) d = ad_rosPending d"
| "add_enabled (Add_snmpAnswer r) d = ad_snmpPending d"
| "add_enabled Add_timer d = (0 < ad_timers d)"
| "add_enabled Add_rosSubmit d = (ad_open d \<and> \<not> ad_showBulk d)"
| "add_enabled (Add_snmpSubmit ps) d = (ad_open d \<and> \<not> ad_showSnmpBulk d \<and> snmpCredProfileList ps \<noteq> []
     \<and> js_trim (ad_snmpIp d) \<noteq> [] \<and> ad_snmpCredProfileId d \<noteq> [])"
| "add_enabled e d = ad_open d"

definition add_step :: "string \<Rightarrow> add_event \<Rightarrow> add_dialog \<Rightarrow> add_dialog" where
  "add_step t e d = (if add_enabled e d then add_action t e d else d)"

section \<open>Properties of the lists of addresses\<close>

lemma set_of_list_snoc: "set_of_list (xs @ [x]) = (if x \<in> set xs then set_of_list xs else set_of_list xs @ [x])"
  by (simp add: set_of_list_def)

lemma set_of_list_Nil [simp]: "set_of_list [] = []"
  by (simp add: set_of_list_def)

lemma set_set_of_list [simp]: "set (set_of_list xs) = set xs"
  by (simp add: set_of_list_def)

lemma distinct_set_of_list [simp]: "distinct (set_of_list xs)"
  by (simp add: set_of_list_def)

lemma quad_no_dash: "quad ts \<Longrightarrow> CHR ''-'' \<notin> set (join ''.'' ts)"
proof -
  assume q: "quad ts"
  then obtain a b c d where ts: "ts = [a, b, c, d]" by (auto simp: quad_def length_Suc_conv eval_nat_numeral)
  with q show ?thesis by (auto simp: quad_def dest: digits_sep)
qed

lemma test_ipv4Re: "test ipv4Re = (\<lambda>s. \<exists>ts. quad ts \<and> s = join ''.'' ts)"
  by (rule ext) (simp only: ipv4Re_def test_iff lang_quad)

lemma ip_lines_set:
  "ip_lines ls (set_of_list acc) = set_of_list (acc @ filter (test ipv4Re) (map js_trim ls))"
proof (induction ls arbitrary: acc)
  case (Cons raw ls)
  have "CHR ''/'' \<notin> set l \<and> CHR ''-'' \<notin> set l \<and> l \<noteq> []" if "test ipv4Re l" for l
    using that quad_split(2,4) quad_no_dash by (auto simp: test_ipv4Re)
  moreover have "set_of_list (acc @ [l]) = set_of_list acc @ [l]" if "l \<notin> set acc" for l
    using that by (simp add: set_of_list_snoc)
  moreover have "remdups (zs @ l # ys) = remdups (zs @ ys)" if "l \<in> set ys" for l and zs ys :: "string list"
    using that by (induction zs) auto
  then have "set_of_list (acc @ l # xs) = set_of_list (acc @ xs)" if "l \<in> set acc" for l xs
    using that by (simp add: set_of_list_def)
  ultimately show ?case
    using Cons.IH [of acc] Cons.IH [of "acc @ [js_trim raw]"] by (auto simp: Let_def)
qed simp

lemma bulk_hostname_eq: "bulk_hostname p i = bulk_hostname p j \<longleftrightarrow> i = j"
proof -
  have "radix_val 10 (padStart 2 CHR ''0'' (string_of_nat n)) = n" for n
    by (simp add: padStart_def radix_val_replicate_0 string_of_nat_def radix_val_to_radix)
  then show ?thesis by (auto simp: bulk_hostname_def) (metis Suc_inject)
qed



section \<open>Properties of the dialog\<close>

definition body_field :: "api_request \<Rightarrow> string \<Rightarrow> json option" where
  "body_field r k = (case rq_body r of Some (JObj ps) \<Rightarrow> map_of ps k | _ \<Rightarrow> None)"

definition text_field :: "(string \<Rightarrow> bool) \<Rightarrow> api_request \<Rightarrow> string \<Rightarrow> bool" where
  "text_field P r k = (case body_field r k of Some (JStr s) \<Rightarrow> P s | _ \<Rightarrow> False)"

text \<open>A request for one device of the tenant, with an address and either a profile or typed credentials.\<close>

definition one_credential :: "string \<Rightarrow> api_request \<Rightarrow> bool" where
  "one_credential t r \<longleftrightarrow> rq_method r = POST \<and> rq_segments r = tenant_path t [''devices'']
     \<and> text_field (\<lambda>s. js_trim s \<noteq> []) r ''ip_address''
     \<and> (text_field (\<lambda>s. s \<noteq> []) r ''credential_profile_id'' \<and> body_field r ''username'' = None \<and> body_field r ''password'' = None
        \<or> body_field r ''credential_profile_id'' = None
          \<and> text_field (\<lambda>s. js_trim s \<noteq> []) r ''username'' \<and> text_field (\<lambda>s. js_trim s \<noteq> []) r ''password'')"

lemma handleRosSubmit_sent:
  "\<forall>r \<in> set (ad_sent (handleRosSubmit t d)). r \<in> set (ad_sent d) \<or> one_credential t r"
proof (cases "ros_check d")
  case None
  then show ?thesis
    by (auto simp: handleRosSubmit_def one_credential_def body_field_def text_field_def ros_body_def send_data_def
        opt_str_def ros_check_def split: if_splits)
qed (simp add: handleRosSubmit_def)

lemma handleSnmpSubmit_sent:
  "\<forall>r \<in> set (ad_sent (handleSnmpSubmit t ps d)). r \<in> set (ad_sent d) \<or> one_credential t r"
proof (cases "snmp_check d")
  case None
  then show ?thesis
    by (auto simp: handleSnmpSubmit_def one_credential_def body_field_def text_field_def snmp_body_def send_data_def
        snmp_check_def add_onError_def Let_def split: if_splits option.splits)
qed (simp add: handleSnmpSubmit_def)

lemma add_action_sent: "r \<in> set (ad_sent (add_action t e d)) \<Longrightarrow> r \<in> set (ad_sent d) \<or> one_credential t r"
proof (cases e)
  case Add_rosSubmit
  assume "r \<in> set (ad_sent (add_action t e d))"
  with Add_rosSubmit show ?thesis using handleRosSubmit_sent [of t d] by (auto split: if_splits)
next
  case (Add_snmpSubmit ps)
  assume "r \<in> set (ad_sent (add_action t e d))"
  with Add_snmpSubmit show ?thesis using handleSnmpSubmit_sent [of t ps d] by (auto split: if_splits)
qed (auto simp: add_handleClose_def updateRos_def settle_add_def add_onSuccess_def add_onError_def split: sum.splits)

interpretation dialog: event_machine "add_step t" "\<lambda>d. \<forall>r \<in> set (ad_sent d). one_credential t r"
  by unfold_locales (auto simp: add_step_def dest: add_action_sent)

text \<open>C22: Whatever is typed, clicked and answered, every request of the Add Device dialog creates one device of its
  tenant, with an address that is not blank and either a credential profile and no typed credentials, or a user
  name and a password that are not blank and no profile.\<close>
theorem add_device_requests:
  "\<forall>r \<in> set (ad_sent (fold (add_step t) es add_init)). one_credential t r"
  by (rule dialog.run_inv) (simp add: add_init_def)

definition demo_adding :: "add_event list" where
  "demo_adding = [Add_open, Add_edit F_username ''admin'', Add_edit F_ip_address ''10.0.0.1'', Add_toggleProfile,
     Add_rosProfile ''p1'', Add_rosSubmit]"

theorem add_device_requests_witness:
  "length (ad_sent (fold (add_step ''t1'') demo_adding add_init)) = 1
   \<and> one_credential ''t1'' (hd (ad_sent (fold (add_step ''t1'') demo_adding add_init)))"
proof -
  have n: "length (ad_sent (fold (add_step ''t1'') demo_adding add_init)) = 1" by code_simp
  then have "hd (ad_sent (fold (add_step ''t1'') demo_adding add_init)) \<in> set (ad_sent (fold (add_step ''t1'') demo_adding add_init))"
    by (intro hd_in_set) auto
  with n show ?thesis using add_device_requests by blast
qed

text \<open>Refused submissions of the RouterOS tab are silent: nothing is sent, the reason is recorded, and unless
  the last attempt failed the banner stays as it was, so that a first attempt with an empty field shows nothing.\<close>
theorem add_refusal_silent:
  assumes "ros_check d = Some m" "ad_status d \<noteq> Error_status"
  shows "ad_sent (handleRosSubmit t d) = ad_sent d \<and> ad_error (handleRosSubmit t d) = Some (JStr m)
    \<and> statusBanner (handleRosSubmit t d) = statusBanner d \<and> statusBanner (handleRosSubmit t d) \<noteq> Some (JStr m)"
  using assms by (auto simp: handleRosSubmit_def statusBanner_def ros_check_def split: connection_status.splits if_splits)

theorem add_refusal_silent_witness:
  "ros_check (add_step ''t1'' Add_open add_init) = Some ''IP address is required''
   \<and> statusBanner (handleRosSubmit ''t1'' (add_step ''t1'' Add_open add_init)) = None"
proof -
  have c: "ros_check (add_step ''t1'' Add_open add_init) = Some ''IP address is required''"
    and b: "statusBanner (add_step ''t1'' Add_open add_init) = None" by code_simp+
  moreover have "ad_status (add_step ''t1'' Add_open add_init) \<noteq> Error_status" by code_simp
  ultimately show ?thesis using add_refusal_silent [of "add_step ''t1'' Add_open add_init" _ "''t1''"] by simp
qed

lemma add_edits:
  assumes "ad_open d"
  shows "ad_open (fold (\<lambda>(f, v). add_step t (Add_edit f v)) eds d) \<and> ad_timers (fold (\<lambda>(f, v). add_step t (Add_edit f v)) eds d) = ad_timers d
    \<and> ad_sent (fold (\<lambda>(f, v). add_step t (Add_edit f v)) eds d) = ad_sent d"
  using assms by (induction eds arbitrary: d) (auto simp: add_step_def updateRos_def)

text \<open>The timer that closes the dialog after a success outlives it. If the user closes the dialog himself and opens
  it again for the next device, the timer empties whatever he has typed and closes the dialog, with nothing sent.\<close>
theorem add_timer_erases:
  assumes "ad_open d" "ad_rosPending d"
  shows "let again = fold (add_step t) [Add_rosAnswer (Inr ()), Add_cancel, Add_open] d;
             d' = add_step t Add_timer (fold (\<lambda>(f, v). add_step t (Add_edit f v)) eds again)
         in ad_open again \<and> \<not> ad_open d' \<and> ad_form d' = add_form_init \<and> ad_sent d' = ad_sent d"
proof -
  have "ad_open again" "0 < ad_timers again" "ad_sent again = ad_sent d"
    if "again = fold (add_step t) [Add_rosAnswer (Inr ()), Add_cancel, Add_open] d" for again
    using assms that by (auto simp: add_step_def settle_add_def add_onSuccess_def add_handleClose_def)
  with add_edits [of _ t eds] show ?thesis
    by (simp add: add_step_def [of t Add_timer] add_handleClose_def Let_def del: fold.simps)
qed

theorem add_timer_erases_witness:
  "ad_form (fold (add_step ''t1'') (demo_adding @ [Add_rosAnswer (Inr ()), Add_cancel, Add_open,
     Add_edit F_ip_address ''10.0.0.2'', Add_timer]) add_init) = add_form_init"
proof -
  have "ad_open (fold (add_step ''t1'') demo_adding add_init)" "ad_rosPending (fold (add_step ''t1'') demo_adding add_init)"
    by code_simp+
  from add_timer_erases [OF this, of "''t1''" "[(F_ip_address, ''10.0.0.2'')]"] show ?thesis by (simp add: Let_def)
qed

text \<open>The scan results: selecting everything selects each discovered address once, and the request names
  exactly the selected addresses.\<close>

lemma scan_select_all:
  "distinct (map dc_ip ds) \<Longrightarrow> ds \<noteq> [] \<Longrightarrow> allSelected ds (scan_selectAll ds s)"
  by (simp add: allSelected_def scan_selectAll_def set_of_list_def distinct_remdups_id)

end
