(* ===== verification/RemoteAccess.thy ===== *)
theory RemoteAccess
  imports ApiRoutes Bytes
begin

text \<open>
  Sessions on a device: the SSH terminal (\<^verbatim>\<open>components/fleet/SSHTerminal.tsx\<close>), the WinBox tunnel
  (\<^verbatim>\<open>WinBoxButton.tsx\<close>), the remote WinBox in the browser (\<^verbatim>\<open>RemoteWinBoxButton.tsx\<close>) and the
  address of its frame (\<^verbatim>\<open>lib/xpraIframe.ts\<close>). Each component is a machine whose events are user
  actions, answers of the server, timers and socket events; an event that cannot happen in a state leaves it.
\<close>

section \<open>WinBox tunnel\<close>

datatype tunnel_state = T_idle | T_requesting | T_ready | T_closing | T_error

record tunnel_info =
  ti_tunnel_id :: string
  ti_host :: string
  ti_port :: int
  ti_winbox_uri :: string

record tunnel =
  tn_state :: tunnel_state
  tn_info :: "tunnel_info option"
  tn_error :: "json option"
  tn_openPending :: bool
  tn_closePending :: bool
  tn_sent :: "api_request list"
  tn_opened :: "string list"

definition tunnel_init :: tunnel where
  "tunnel_init = \<lparr>tn_state = T_idle, tn_info = None, tn_error = None, tn_openPending = False, tn_closePending = False,
     tn_sent = [], tn_opened = []\<rparr>"

text \<open>\<open>e.response?.data?.detail || fallback\<close>\<close>

definition detail_or_text :: "string \<Rightarrow> thrown \<Rightarrow> json" where
  "detail_or_text fallback e = (case detail_of e of
      Some d \<Rightarrow> if truthy d then d else JStr fallback
    | None \<Rightarrow> JStr fallback)"

datatype tunnel_event =
    Tn_click | Tn_answer "thrown + tunnel_info" | Tn_close | Tn_closed "thrown + unit"

fun tunnel_enabled :: "tunnel_event \<Rightarrow> tunnel \<Rightarrow> bool" where
  "tunnel_enabled Tn_click w = (tn_state w \<in> {T_idle, T_error} \<and> \<not> tn_openPending w)"
| "tunnel_enabled (Tn_answer r) w = tn_openPending w"
| "tunnel_enabled Tn_close w = (tn_state w = T_ready \<and> tn_info w \<noteq> None \<and> \<not> tn_closePending w)"
| "tunnel_enabled (Tn_closed r) w = tn_closePending w"

fun tunnel_action :: "string \<Rightarrow> string \<Rightarrow> tunnel_event \<Rightarrow> tunnel \<Rightarrow> tunnel" where
  "tunnel_action t dev Tn_click w = w\<lparr>tn_state := T_requesting, tn_error := None, tn_openPending := True,
     tn_sent := tn_sent w @ [remoteAccessApi t (Remote_openWinbox dev)]\<rparr>"
| "tunnel_action t dev (Tn_answer r) w = (case r of
      Inr info \<Rightarrow> w\<lparr>tn_openPending := False, tn_info := Some info, tn_state := T_ready, tn_opened := tn_opened w @ [ti_winbox_uri info]\<rparr>
    | Inl e \<Rightarrow> w\<lparr>tn_openPending := False, tn_state := T_error, tn_error := Some (detail_or_text ''Failed to open tunnel'' e)\<rparr>)"
| "tunnel_action t dev Tn_close w = (case tn_info w of
      None \<Rightarrow> w\<lparr>tn_state := T_closing\<rparr>
    | Some info \<Rightarrow> w\<lparr>tn_state := T_closing, tn_closePending := True,
        tn_sent := tn_sent w @ [remoteAccessApi t (Remote_closeWinbox dev (ti_tunnel_id info))]\<rparr>)"
| "tunnel_action t dev (Tn_closed r) w = (case r of
      Inr _ \<Rightarrow> w\<lparr>tn_closePending := False, tn_state := T_idle, tn_info := None\<rparr>
    | Inl e \<Rightarrow> w\<lparr>tn_closePending := False\<rparr>)"

definition tunnel_step :: "string \<Rightarrow> string \<Rightarrow> tunnel_event \<Rightarrow> tunnel \<Rightarrow> tunnel" where
  "tunnel_step t dev e w = (if tunnel_enabled e w then tunnel_action t dev e w else w)"

text \<open>What is rendered: the button, the tunnel, or nothing.\<close>

datatype tunnel_view = View_button "json option" | View_tunnel tunnel_info | View_nothing

definition tunnel_view :: "tunnel \<Rightarrow> tunnel_view" where
  "tunnel_view w =
     (if tn_state w \<in> {T_idle, T_error} then View_button (tn_error w)
      else case tn_info w of
        Some info \<Rightarrow> if tn_state w = T_ready then View_tunnel info else View_nothing
      | None \<Rightarrow> View_nothing)"

section \<open>SSH terminal\<close>

datatype ssh_state = S_closed | S_connecting | S_connected | S_disconnected

datatype socket_state = Ws_connecting | Ws_open | Ws_closing | Ws_closed

text \<open>
  \<open>ss_terminal\<close> is the size of the terminal in \<open>terminalRef\<close>, \<open>ss_ws\<close> the socket in \<open>wsRef\<close> as an index
  into all sockets ever created, \<open>ss_frames\<close> the animation frames asked for, \<open>ss_pending\<close> the session
  requests under way, \<open>ss_resize\<close> the size the resize timer will report. \<open>ss_out\<close> is what went into the
  sockets, \<open>ss_written\<close> what was written to a terminal.
\<close>

datatype term_data = Text string | Data bytes

datatype ssh_data = Keys bytes | Resize int int

record ssh =
  ss_state :: ssh_state
  ss_terminal :: "(int \<times> int) option"
  ss_ws :: "nat option"
  ss_sockets :: "socket_state list"
  ss_frames :: nat
  ss_pending :: nat
  ss_resize :: "(int \<times> int) option"
  ss_sent :: "api_request list"
  ss_out :: "(nat \<times> ssh_data) list"
  ss_written :: "term_data list"

definition ssh_init :: ssh where
  "ssh_init = \<lparr>ss_state = S_closed, ss_terminal = None, ss_ws = None, ss_sockets = [], ss_frames = 0, ss_pending = 0,
     ss_resize = None, ss_sent = [], ss_out = [], ss_written = []\<rparr>"

text \<open>Messages of the component in red.\<close>

definition crlf :: string where
  "crlf = [CHR 0x0D, CHR 0x0A]"

definition red :: "string \<Rightarrow> term_data" where
  "red m = Text (crlf @ [CHR 0x1B] @ ''[31m'' @ m @ [CHR 0x1B] @ ''[0m'' @ crlf)"

definition term_write :: "term_data \<Rightarrow> ssh \<Rightarrow> ssh" where
  "term_write m s = (case ss_terminal s of None \<Rightarrow> s | Some _ \<Rightarrow> s\<lparr>ss_written := ss_written s @ [m]\<rparr>)"

text \<open>\<open>wsRef.current?.close()\<close>: a socket that is not closed starts to close.\<close>

definition ws_close :: "ssh \<Rightarrow> ssh" where
  "ws_close s = (case ss_ws s of
      None \<Rightarrow> s
    | Some i \<Rightarrow> if i < length (ss_sockets s) \<and> ss_sockets s ! i \<in> {Ws_connecting, Ws_open}
        then s\<lparr>ss_sockets := (ss_sockets s)[i := Ws_closing]\<rparr> else s)"

definition connectWebSocket :: "ssh \<Rightarrow> ssh" where
  "connectWebSocket s = s\<lparr>ss_sockets := ss_sockets s @ [Ws_connecting], ss_ws := Some (length (ss_sockets s))\<rparr>"

text \<open>The panel that holds the terminal is there unless the state is closed.\<close>

definition initTerminal :: "int \<times> int \<Rightarrow> ssh \<Rightarrow> ssh" where
  "initTerminal sz s = (if ss_state s = S_closed \<or> ss_terminal s \<noteq> None then s else s\<lparr>ss_terminal := Some sz\<rparr>)"

definition openSSH :: "string \<Rightarrow> string \<Rightarrow> ssh \<Rightarrow> ssh" where
  "openSSH t dev s =
     (let cols = (case ss_terminal s of Some (c, _) \<Rightarrow> if c = 0 then 80 else c | None \<Rightarrow> 80);
          rows = (case ss_terminal s of Some (_, r) \<Rightarrow> if r = 0 then 24 else r | None \<Rightarrow> 24)
      in s\<lparr>ss_pending := ss_pending s + 1, ss_sent := ss_sent s @ [remoteAccessApi t (Remote_openSSH dev cols rows)]\<rparr>)"

definition close_reason :: "nat \<Rightarrow> string" where
  "close_reason code = (if code = 1006 then ''Connection dropped'' else if code = 1008 then ''Authentication failed''
     else if code = 1011 then ''Server error'' else ''Session closed'')"

definition ssh_handleOpen :: "ssh \<Rightarrow> ssh" where
  "ssh_handleOpen s = s\<lparr>ss_state := S_connecting, ss_frames := ss_frames s + 1\<rparr>"

definition ssh_handleReconnect :: "ssh \<Rightarrow> ssh" where
  "ssh_handleReconnect s = (ws_close (s\<lparr>ss_terminal := None\<rparr>))\<lparr>ss_ws := None, ss_state := S_connecting, ss_frames := ss_frames s + 1\<rparr>"

definition ssh_handleDisconnect :: "ssh \<Rightarrow> ssh" where
  "ssh_handleDisconnect s = (ws_close s)\<lparr>ss_terminal := None, ss_state := S_closed\<rparr>"

definition ws_sending :: "ssh \<Rightarrow> nat option" where
  "ws_sending s = (case ss_ws s of
      Some i \<Rightarrow> if i < length (ss_sockets s) \<and> ss_sockets s ! i = Ws_open then Some i else None
    | None \<Rightarrow> None)"

definition ws_send :: "ssh_data \<Rightarrow> ssh \<Rightarrow> ssh" where
  "ws_send x s = (case ws_sending s of Some i \<Rightarrow> s\<lparr>ss_out := ss_out s @ [(i, x)]\<rparr> | None \<Rightarrow> s)"

text \<open>A message is an \<open>ArrayBuffer\<close>, or a text that is ignored.\<close>

datatype ssh_frame = Binary bytes | Textual string

datatype ssh_event =
    Ssh_open | Ssh_reconnect | Ssh_disconnect | Ssh_frame "int \<times> int" | Ssh_answer bool
  | Ssh_wsOpen nat | Ssh_wsMessage nat "ssh_frame" | Ssh_wsError nat | Ssh_wsClose nat nat
  | Ssh_type string | Ssh_resize "int \<times> int" | Ssh_resizeTimer

definition socket_in :: "socket_state set \<Rightarrow> nat \<Rightarrow> ssh \<Rightarrow> bool" where
  "socket_in A i s \<longleftrightarrow> i < length (ss_sockets s) \<and> ss_sockets s ! i \<in> A"

fun ssh_enabled :: "ssh_event \<Rightarrow> ssh \<Rightarrow> bool" where
  "ssh_enabled Ssh_open s = (ss_state s = S_closed)"
| "ssh_enabled Ssh_reconnect s = (ss_state s = S_disconnected)"
| "ssh_enabled Ssh_disconnect s = (ss_state s \<in> {S_connecting, S_connected})"
| "ssh_enabled (Ssh_frame sz) s = (0 < ss_frames s)"
| "ssh_enabled (Ssh_answer ok) s = (0 < ss_pending s)"
| "ssh_enabled (Ssh_wsOpen i) s = socket_in {Ws_connecting} i s"
| "ssh_enabled (Ssh_wsMessage i m) s = socket_in {Ws_open, Ws_closing} i s"
| "ssh_enabled (Ssh_wsError i) s = socket_in {Ws_connecting, Ws_open, Ws_closing} i s"
| "ssh_enabled (Ssh_wsClose i code) s = socket_in {Ws_connecting, Ws_open, Ws_closing} i s"
| "ssh_enabled (Ssh_type m) s = (ss_terminal s \<noteq> None)"
| "ssh_enabled (Ssh_resize sz) s = (ss_terminal s \<noteq> None)"
| "ssh_enabled Ssh_resizeTimer s = (ss_resize s \<noteq> None)"

fun ssh_action :: "string \<Rightarrow> string \<Rightarrow> ssh_event \<Rightarrow> ssh \<Rightarrow> ssh" where
  "ssh_action t dev Ssh_open s = ssh_handleOpen s"
| "ssh_action t dev Ssh_reconnect s = ssh_handleReconnect s"
| "ssh_action t dev Ssh_disconnect s = ssh_handleDisconnect s"
| "ssh_action t dev (Ssh_frame sz) s = openSSH t dev (initTerminal sz (s\<lparr>ss_frames := ss_frames s - 1\<rparr>))"
| "ssh_action t dev (Ssh_answer ok) s =
     (let s = s\<lparr>ss_pending := ss_pending s - 1\<rparr> in
      if ok then connectWebSocket s
      else (term_write (red ''Failed to create SSH session.'') s)\<lparr>ss_state := S_disconnected\<rparr>)"
| "ssh_action t dev (Ssh_wsOpen i) s =
     term_write (Text (''Connecting to router...'' @ crlf)) (s\<lparr>ss_sockets := (ss_sockets s)[i := Ws_open], ss_state := S_connected\<rparr>)"
| "ssh_action t dev (Ssh_wsMessage i m) s = (case m of Binary bs \<Rightarrow> term_write (Data bs) s | Textual _ \<Rightarrow> s)"
| "ssh_action t dev (Ssh_wsError i) s = term_write (red ''Connection error.'') s"
| "ssh_action t dev (Ssh_wsClose i code) s =
     term_write (red (close_reason code @ ''.'')) (s\<lparr>ss_sockets := (ss_sockets s)[i := Ws_closed], ss_state := S_disconnected\<rparr>)"
| "ssh_action t dev (Ssh_type m) s = ws_send (Keys (utf8_encode m)) s"
| "ssh_action t dev (Ssh_resize sz) s = s\<lparr>ss_terminal := Some sz, ss_resize := Some sz\<rparr>"
| "ssh_action t dev Ssh_resizeTimer s = (case ss_resize s of
      Some (c, r) \<Rightarrow> ws_send (Resize c r) (s\<lparr>ss_resize := None\<rparr>) | None \<Rightarrow> s)"

definition ssh_step :: "string \<Rightarrow> string \<Rightarrow> ssh_event \<Rightarrow> ssh \<Rightarrow> ssh" where
  "ssh_step t dev e s = (if ssh_enabled e s then ssh_action t dev e s else s)"

section \<open>Remote WinBox in the browser\<close>

datatype remote_state = R_idle | R_requesting | R_connecting | R_active | R_closing | R_terminated | R_failed

record remote_session =
  rs_session_id :: string
  rs_session_status :: string
  rs_expires_at :: "nat option"

text \<open>
  Times are in milliseconds. \<open>rw_existing\<close> is the cached list of sessions, \<open>rw_polls\<close> counts the polls under
  way, \<open>rw_resets\<close> the resets under way.
\<close>

record remote =
  rw_state :: remote_state
  rw_session :: "remote_session option"
  rw_error :: "json option"
  rw_countdown :: "string option"
  rw_existing :: "remote_session list option"
  rw_createPending :: bool
  rw_closePending :: bool
  rw_polls :: nat
  rw_resets :: nat
  rw_sent :: "api_request list"

definition remote_init :: remote where
  "remote_init = \<lparr>rw_state = R_idle, rw_session = None, rw_error = None, rw_countdown = None, rw_existing = None,
     rw_createPending = False, rw_closePending = False, rw_polls = 0, rw_resets = 0, rw_sent = []\<rparr>"

definition adoptable :: "remote_session \<Rightarrow> bool" where
  "adoptable s \<longleftrightarrow> rs_session_status s = ''active'' \<or> rs_session_status s = ''creating''"

text \<open>The effect on \<open>[existingSessions, state]\<close>: an idle button takes up a session of the list.\<close>

definition adopt_effect :: "remote \<Rightarrow> remote" where
  "adopt_effect w =
     (if rw_state w \<noteq> R_idle then w
      else case Option.bind (rw_existing w) (find adoptable) of
        None \<Rightarrow> w
      | Some a \<Rightarrow> w\<lparr>rw_session := Some a, rw_state := (if rs_session_status a = ''active'' then R_active else R_connecting)\<rparr>)"

text \<open>The rest of the period between effect and expiry, and the text of the countdown.\<close>

definition countdown_text :: "nat \<Rightarrow> string" where
  "countdown_text remaining = string_of_nat (remaining div 60000) @ '':'' @
     padStart 2 CHR ''0'' (string_of_nat (remaining mod 60000 div 1000))"

definition tick :: "nat \<Rightarrow> nat \<Rightarrow> remote \<Rightarrow> remote" where
  "tick expires now w =
     (let remaining = expires - now in
      if remaining \<le> 0 then w\<lparr>rw_countdown := Some ''Expired'', rw_state := R_terminated\<rparr>
      else w\<lparr>rw_countdown := Some (countdown_text remaining)\<rparr>)"

definition expiry_of :: "remote \<Rightarrow> nat option" where
  "expiry_of w = (if rw_state w = R_active then Option.bind (rw_session w) rs_expires_at else None)"

text \<open>The answer to a poll.\<close>

definition remote_polled :: "remote_session \<Rightarrow> remote \<Rightarrow> remote" where
  "remote_polled updated w =
     (let w = w\<lparr>rw_session := Some updated\<rparr> in
      if rs_session_status updated = ''active'' then w\<lparr>rw_state := R_active\<rparr>
      else if rs_session_status updated = ''failed''
        then w\<lparr>rw_state := R_failed, rw_error := Some (JStr ''Session failed to provision'')\<rparr>
      else if rs_session_status updated = ''terminated'' then w\<lparr>rw_state := R_terminated\<rparr>
      else w)"

definition create_success :: "remote_session \<Rightarrow> remote \<Rightarrow> remote" where
  "create_success data w = w\<lparr>rw_session := Some data,
     rw_state := (if rs_session_status data = ''active'' then R_active else R_connecting)\<rparr>"

definition remote_handleOpen :: "string \<Rightarrow> string \<Rightarrow> remote \<Rightarrow> remote" where
  "remote_handleOpen t dev w = w\<lparr>rw_state := R_requesting, rw_error := None, rw_createPending := True,
     rw_sent := rw_sent w @ [remoteWinboxApi t (Winbox_create dev None)]\<rparr>"

text \<open>Without a session the mutation throws and its error handler runs.\<close>

definition remote_handleClose :: "string \<Rightarrow> string \<Rightarrow> remote \<Rightarrow> remote" where
  "remote_handleClose t dev w = (case rw_session w of
      None \<Rightarrow> w\<lparr>rw_state := R_failed, rw_error := Some (JStr ''Failed to close session'')\<rparr>
    | Some s \<Rightarrow> w\<lparr>rw_state := R_closing, rw_closePending := True,
        rw_sent := rw_sent w @ [remoteWinboxApi t (Winbox_delete dev (rs_session_id s))]\<rparr>)"

text \<open>The sessions a reset deletes, one after the other until one fails: \<open>deletes\<close> is the server's answer.\<close>

definition resettable :: "remote_session \<Rightarrow> bool" where
  "resettable s \<longleftrightarrow> rs_session_status s \<in> {''active'', ''creating'', ''grace''}"

fun reset_loop :: "(string \<Rightarrow> bool) \<Rightarrow> remote_session list \<Rightarrow> string list" where
  "reset_loop deletes [] = []"
| "reset_loop deletes (s # ss) =
     (if resettable s then rs_session_id s # (if deletes (rs_session_id s) then reset_loop deletes ss else [])
      else reset_loop deletes ss)"

definition reset_done :: "string \<Rightarrow> string \<Rightarrow> (string \<Rightarrow> bool) \<Rightarrow> remote_session list option \<Rightarrow> remote \<Rightarrow> remote" where
  "reset_done t dev deletes listed w = w\<lparr>rw_state := R_idle, rw_session := None, rw_error := None,
     rw_sent := rw_sent w @ (case listed of None \<Rightarrow> []
       | Some ss \<Rightarrow> map (\<lambda>i. remoteWinboxApi t (Winbox_delete dev i)) (reset_loop deletes ss))\<rparr>"

datatype remote_event =
    Rw_fetched "remote_session list" | Rw_open | Rw_created "thrown + remote_session"
  | Rw_poll | Rw_polled "thrown + remote_session" | Rw_tick nat
  | Rw_close | Rw_closed "thrown + unit" | Rw_reset | Rw_resetDone "string \<Rightarrow> bool" "remote_session list option"

text \<open>\<open>iframeSrc\<close> exists for a session with an identifier; the reset button of the last view needs its absence.\<close>

definition has_frame :: "remote \<Rightarrow> bool" where
  "has_frame w = (case rw_session w of None \<Rightarrow> False | Some s \<Rightarrow> rs_session_id s \<noteq> [])"

fun remote_enabled :: "remote_event \<Rightarrow> remote \<Rightarrow> bool" where
  "remote_enabled (Rw_fetched ss) w = True"
| "remote_enabled Rw_open w = (rw_state w \<in> {R_idle, R_failed, R_terminated} \<and> \<not> rw_createPending w)"
| "remote_enabled (Rw_created r) w = rw_createPending w"
| "remote_enabled Rw_poll w = (rw_state w = R_connecting \<and> rw_session w \<noteq> None)"
| "remote_enabled (Rw_polled r) w = (0 < rw_polls w)"
| "remote_enabled (Rw_tick now) w = (expiry_of w \<noteq> None)"
| "remote_enabled Rw_close w = (rw_state w = R_active \<and> has_frame w \<and> \<not> rw_closePending w)"
| "remote_enabled (Rw_closed r) w = rw_closePending w"
| "remote_enabled Rw_reset w = (rw_state w \<in> {R_idle, R_failed, R_terminated} \<or> rw_state w = R_active \<and> \<not> has_frame w)"
| "remote_enabled (Rw_resetDone d l) w = (0 < rw_resets w)"

fun remote_action :: "string \<Rightarrow> string \<Rightarrow> remote_event \<Rightarrow> remote \<Rightarrow> remote" where
  "remote_action t dev (Rw_fetched ss) w = w\<lparr>rw_existing := Some ss\<rparr>"
| "remote_action t dev Rw_open w = remote_handleOpen t dev w"
| "remote_action t dev (Rw_created r) w =
     (let w = w\<lparr>rw_createPending := False\<rparr> in case r of
        Inr s \<Rightarrow> create_success s w
      | Inl e \<Rightarrow> w\<lparr>rw_state := R_failed, rw_error := Some (detail_or_text ''Failed to create session'' e)\<rparr>)"
| "remote_action t dev Rw_poll w = (case rw_session w of
      Some s \<Rightarrow> w\<lparr>rw_polls := rw_polls w + 1, rw_sent := rw_sent w @ [remoteWinboxApi t (Winbox_get dev (rs_session_id s))]\<rparr>
    | None \<Rightarrow> w)"
| "remote_action t dev (Rw_polled r) w =
     (let w = w\<lparr>rw_polls := rw_polls w - 1\<rparr> in case r of Inr s \<Rightarrow> remote_polled s w | Inl _ \<Rightarrow> w)"
| "remote_action t dev (Rw_tick now) w = (case expiry_of w of Some x \<Rightarrow> tick x now w | None \<Rightarrow> w)"
| "remote_action t dev Rw_close w = remote_handleClose t dev w"
| "remote_action t dev (Rw_closed r) w =
     (let w = w\<lparr>rw_closePending := False\<rparr> in case r of
        Inr _ \<Rightarrow> w\<lparr>rw_state := R_idle, rw_session := None, rw_error := None\<rparr>
      | Inl e \<Rightarrow> w\<lparr>rw_state := R_failed, rw_error := Some (detail_or_text ''Failed to close session'' e)\<rparr>)"
| "remote_action t dev Rw_reset w = w\<lparr>rw_resets := rw_resets w + 1, rw_sent := rw_sent w @ [remoteWinboxApi t (Winbox_list dev)]\<rparr>"
| "remote_action t dev (Rw_resetDone d l) w = reset_done t dev d l (w\<lparr>rw_resets := rw_resets w - 1\<rparr>)"

text \<open>The countdown is cleared whenever the effect runs without an expiry.\<close>

definition countdown_effect :: "remote \<Rightarrow> remote" where
  "countdown_effect w = (if expiry_of w = None then w\<lparr>rw_countdown := None\<rparr> else w)"

definition remote_step :: "string \<Rightarrow> string \<Rightarrow> remote_event \<Rightarrow> remote \<Rightarrow> remote" where
  "remote_step t dev e w =
     (if remote_enabled e w then countdown_effect (adopt_effect (remote_action t dev e w)) else w)"

section \<open>The address of the frame\<close>

definition unreserved :: "byte \<Rightarrow> bool" where
  "unreserved b \<longleftrightarrow> (let n = unat b in (65 \<le> n \<and> n \<le> 90) \<or> (97 \<le> n \<and> n \<le> 122) \<or> (48 \<le> n \<and> n \<le> 57)
     \<or> n \<in> {45, 95, 46, 33, 126, 42, 39, 40, 41})"

definition percent :: "byte \<Rightarrow> string" where
  "percent b = CHR ''%'' # toUpperCase (byte_hex b)"

definition encodeURIComponent :: "string \<Rightarrow> string" where
  "encodeURIComponent s = concat (map (\<lambda>b. if unreserved b then [char_of (unat b)] else percent b) (utf8_encode s))"

text \<open>The serializer of \<open>URLSearchParams\<close>: a blank becomes a plus.\<close>

definition form_plain :: "byte \<Rightarrow> bool" where
  "form_plain b \<longleftrightarrow> (let n = unat b in (65 \<le> n \<and> n \<le> 90) \<or> (97 \<le> n \<and> n \<le> 122) \<or> (48 \<le> n \<and> n \<le> 57)
     \<or> n \<in> {42, 45, 46, 95})"

definition form_encode :: "string \<Rightarrow> string" where
  "form_encode s = concat (map (\<lambda>b. if unat b = 32 then ''+'' else if form_plain b then [char_of (unat b)] else percent b) (utf8_encode s))"

definition search_params :: "string obj \<Rightarrow> string" where
  "search_params ps = join ''&'' (map (\<lambda>(k, v). form_encode k @ ''='' @ form_encode v) ps)"

definition xpra_base :: "string \<Rightarrow> string \<Rightarrow> string \<Rightarrow> string" where
  "xpra_base tenantId deviceId sessionId = ''/api/tenants/'' @ encodeURIComponent tenantId @ ''/devices/'' @
     encodeURIComponent deviceId @ ''/winbox-remote-sessions/'' @ encodeURIComponent sessionId"

definition xpraIframeSrc :: "string \<Rightarrow> string \<Rightarrow> string \<Rightarrow> string" where
  "xpraIframeSrc tenantId deviceId sessionId =
     (let base = xpra_base tenantId deviceId sessionId in
      base @ ''/xpra/index.html?'' @ search_params
        [(''path'', base @ ''/ws''), (''keyboard'', ''false''), (''floating_menu'', ''false''), (''sharing'', ''false''), (''clipboard'', ''false'')])"

section \<open>Properties of the tunnel\<close>

definition tunnel_inv :: "tunnel \<Rightarrow> bool" where
  "tunnel_inv w \<longleftrightarrow> (tn_openPending w \<longleftrightarrow> tn_state w = T_requesting) \<and> (tn_closePending w \<longrightarrow> tn_state w = T_closing)
     \<and> (tn_state w \<in> {T_ready, T_closing} \<longrightarrow> tn_info w \<noteq> None)"

interpretation tunnel: event_machine "tunnel_step t dev" tunnel_inv
proof
  fix w e
  assume "tunnel_inv w"
  then show "tunnel_inv (tunnel_step t dev e w)"
    by (cases e) (auto simp: tunnel_step_def tunnel_inv_def split: sum.splits option.splits)
qed

definition tunnel_stuck :: "tunnel \<Rightarrow> bool" where
  "tunnel_stuck w \<longleftrightarrow> tn_state w = T_closing \<and> \<not> tn_openPending w \<and> \<not> tn_closePending w"

interpretation stuck: event_machine "tunnel_step t dev" tunnel_stuck
proof
  fix w e
  assume "tunnel_stuck w"
  then show "tunnel_stuck (tunnel_step t dev e w)"
    by (cases e) (simp_all add: tunnel_step_def tunnel_stuck_def)
qed

text \<open>A WinBox tunnel that could not be closed takes its button with it. In every reachable state with a close under
  way, the tunnel's data is kept but once the close fails nothing is rendered, whatever happens afterwards: neither
  the tunnel nor the button comes back.\<close>
theorem tunnel_close_failure_final:
  assumes "tn_closePending (fold (tunnel_step t dev) es tunnel_init)"
  shows "tunnel_view (fold (tunnel_step t dev) es' (tunnel_step t dev (Tn_closed (Inl e)) (fold (tunnel_step t dev) es tunnel_init)))
     = View_nothing"
proof -
  have "tunnel_inv (fold (tunnel_step t dev) es tunnel_init)"
    by (rule tunnel.run_inv) (simp add: tunnel_inv_def tunnel_init_def)
  with assms have "tunnel_stuck (tunnel_step t dev (Tn_closed (Inl e)) (fold (tunnel_step t dev) es tunnel_init))"
    by (auto simp: tunnel_step_def tunnel_stuck_def tunnel_inv_def)
  from stuck.run_inv [OF this] show ?thesis by (auto simp: tunnel_view_def tunnel_stuck_def split: option.splits)
qed

theorem tunnel_close_failure_final_witness:
  "tunnel_view (fold (tunnel_step ''t1'' ''d1'') [Tn_click, Tn_answer (Inr \<lparr>ti_tunnel_id = ''n1'', ti_host = ''h'', ti_port = 49000,
       ti_winbox_uri = ''winbox://h:49000''\<rparr>), Tn_close, Tn_closed (Inl OtherThrown), Tn_click] tunnel_init) = View_nothing"
proof -
  let ?es = "[Tn_click, Tn_answer (Inr \<lparr>ti_tunnel_id = ''n1'', ti_host = ''h'', ti_port = 49000,
       ti_winbox_uri = ''winbox://h:49000''\<rparr>), Tn_close]"
  have "tn_closePending (fold (tunnel_step ''t1'' ''d1'') ?es tunnel_init)" by code_simp
  from tunnel_close_failure_final [OF this, of "[Tn_click]" OtherThrown] show ?thesis by simp
qed

section \<open>Properties of the terminal\<close>

text \<open>The socket referred to exists, the terminal goes with the panel, and data only went into sockets that had
  opened.\<close>

definition ssh_inv :: "ssh \<Rightarrow> bool" where
  "ssh_inv s \<longleftrightarrow> (\<forall>i. ss_ws s = Some i \<longrightarrow> i < length (ss_sockets s)) \<and> (ss_terminal s \<noteq> None \<longrightarrow> ss_state s \<noteq> S_closed)
     \<and> (\<forall>(i, x) \<in> set (ss_out s). i < length (ss_sockets s) \<and> ss_sockets s ! i \<noteq> Ws_connecting)"

lemma term_write_keeps [simp]:
  "ss_state (term_write m s) = ss_state s" "ss_terminal (term_write m s) = ss_terminal s" "ss_ws (term_write m s) = ss_ws s"
  "ss_sockets (term_write m s) = ss_sockets s" "ss_out (term_write m s) = ss_out s" "ss_pending (term_write m s) = ss_pending s"
  "ss_frames (term_write m s) = ss_frames s"
  by (simp_all add: term_write_def split: option.splits)

lemma ws_close_keeps [simp]:
  "ss_state (ws_close s) = ss_state s" "ss_terminal (ws_close s) = ss_terminal s" "ss_ws (ws_close s) = ss_ws s"
  "length (ss_sockets (ws_close s)) = length (ss_sockets s)" "ss_out (ws_close s) = ss_out s"
  "ss_pending (ws_close s) = ss_pending s" "ss_frames (ws_close s) = ss_frames s"
  by (simp_all add: ws_close_def split: option.splits)

lemma ws_close_nth:
  "i < length (ss_sockets s) \<Longrightarrow> ss_sockets s ! i \<noteq> Ws_connecting \<Longrightarrow> ss_sockets (ws_close s) ! i \<noteq> Ws_connecting"
  by (auto simp: ws_close_def nth_list_update split: option.splits)

lemma ssh_inv_write [simp]: "ssh_inv (term_write m s) = ssh_inv s"
  by (simp add: ssh_inv_def)

lemma ssh_inv_send: "ssh_inv s \<Longrightarrow> ssh_inv (ws_send x s)"
  by (auto simp: ssh_inv_def ws_send_def ws_sending_def split: option.splits if_splits)

lemma ssh_inv_close: "ssh_inv s \<Longrightarrow> ssh_inv (ws_close s)"
  by (auto simp: ssh_inv_def ws_close_nth split: prod.splits)

lemma ssh_inv_step: "ssh_inv s \<Longrightarrow> ssh_inv (ssh_step t dev e s)"
proof (cases "ssh_enabled e s")
  case True
  assume inv: "ssh_inv s"
  show ?thesis
  proof (cases e)
    case Ssh_reconnect
    with inv ssh_inv_close [of "s\<lparr>ss_terminal := None\<rparr>"] True show ?thesis
      by (auto simp: ssh_step_def ssh_handleReconnect_def ssh_inv_def)
  next
    case Ssh_disconnect
    with inv ssh_inv_close [of s] True show ?thesis
      by (auto simp: ssh_step_def ssh_handleDisconnect_def ssh_inv_def)
  next
    case (Ssh_type m)
    with inv True show ?thesis by (simp add: ssh_step_def ssh_inv_send)
  next
    case Ssh_resizeTimer
    have "ssh_inv (s\<lparr>ss_resize := None\<rparr>)" using inv by (simp add: ssh_inv_def)
    with Ssh_resizeTimer inv True show ?thesis by (auto simp: ssh_step_def intro: ssh_inv_send split: option.splits)
  next
    case (Ssh_wsOpen i)
    with inv True show ?thesis
      by (auto simp: ssh_step_def ssh_inv_def socket_in_def nth_list_update split: if_splits)
  next
    case (Ssh_wsClose i c)
    with inv True show ?thesis
      by (auto simp: ssh_step_def ssh_inv_def socket_in_def nth_list_update split: if_splits)
  next
    case (Ssh_answer ok)
    with inv True show ?thesis
      by (auto simp: ssh_step_def ssh_inv_def connectWebSocket_def nth_append Let_def)
  qed (use inv True in \<open>auto simp: ssh_step_def ssh_inv_def ssh_handleOpen_def openSSH_def initTerminal_def Let_def split: ssh_frame.splits\<close>)
qed (simp add: ssh_step_def)

interpretation ssh: event_machine "ssh_step t dev" ssh_inv
  by unfold_locales (rule ssh_inv_step)


definition demo_ssh :: "ssh_event list" where
  "demo_ssh = [Ssh_open, Ssh_frame (80, 24), Ssh_answer True, Ssh_wsOpen 0]"


text \<open>Closing the terminal does not last. After the close button of a connected terminal, the event of its own
  socket puts the panel back as disconnected, where the close button is not offered. A terminal closed while its session
  is being created connects when the answer comes, without a terminal to show it; and if it was opened again
  meanwhile, two sessions are open and the earlier one can no longer be reached.\<close>
theorem ssh_close_undone:
  assumes "ss_ws s = Some i" "socket_in {Ws_open} i s" "ss_state s = S_connected"
    and "ss_state c = S_connecting" "ss_pending c = 1" "ss_frames c = 0"
  shows "(let s' = fold (ssh_step t dev) [Ssh_disconnect, Ssh_wsClose i code] s
          in ss_state s' = S_disconnected \<and> \<not> ssh_enabled Ssh_disconnect s')
    \<and> (let c' = fold (ssh_step t dev) [Ssh_disconnect, Ssh_answer True, Ssh_wsOpen (length (ss_sockets c))] c
       in ss_state c' = S_connected \<and> ss_terminal c' = None)
    \<and> (let n = length (ss_sockets c);
           c' = fold (ssh_step t dev) [Ssh_disconnect, Ssh_open, Ssh_frame sz, Ssh_answer True, Ssh_answer True, Ssh_wsOpen n, Ssh_wsOpen (n + 1)] c
       in socket_in {Ws_open} n c' \<and> socket_in {Ws_open} (n + 1) c' \<and> ss_ws c' = Some (n + 1))"
proof (intro conjI)
  show "let s' = fold (ssh_step t dev) [Ssh_disconnect, Ssh_wsClose i code] s
        in ss_state s' = S_disconnected \<and> \<not> ssh_enabled Ssh_disconnect s'"
    using assms(1-3) by (simp add: ssh_step_def ssh_handleDisconnect_def ws_close_def socket_in_def Let_def)
  let ?d = "ssh_handleDisconnect c"
  have d: "ssh_step t dev Ssh_disconnect c = ?d" "ss_state ?d = S_closed" "ss_terminal ?d = None" "ss_pending ?d = 1"
    "length (ss_sockets ?d) = length (ss_sockets c)" "ss_frames ?d = 0"
    using assms(4-6) by (simp_all add: ssh_step_def ssh_handleDisconnect_def)
  show "let c' = fold (ssh_step t dev) [Ssh_disconnect, Ssh_answer True, Ssh_wsOpen (length (ss_sockets c))] c
       in ss_state c' = S_connected \<and> ss_terminal c' = None"
    using d by (simp add: d(1) ssh_step_def [of _ _ "Ssh_answer _"] ssh_step_def [of _ _ "Ssh_wsOpen _"]
      connectWebSocket_def socket_in_def Let_def nth_append)
  show "let n = length (ss_sockets c);
           c' = fold (ssh_step t dev) [Ssh_disconnect, Ssh_open, Ssh_frame sz, Ssh_answer True, Ssh_answer True, Ssh_wsOpen n, Ssh_wsOpen (n + 1)] c
       in socket_in {Ws_open} n c' \<and> socket_in {Ws_open} (n + 1) c' \<and> ss_ws c' = Some (n + 1)"
    using d(2-6) by (simp add: d(1) ssh_step_def [of _ _ Ssh_open] ssh_step_def [of _ _ "Ssh_frame _"] ssh_step_def [of _ _ "Ssh_answer _"]
      ssh_step_def [of _ _ "Ssh_wsOpen _"] connectWebSocket_def ssh_handleOpen_def openSSH_def initTerminal_def socket_in_def
      Let_def nth_append)
qed

theorem ssh_close_undone_witness:
  "ss_state (fold (ssh_step ''t1'' ''d1'') (demo_ssh @ [Ssh_disconnect, Ssh_wsClose 0 1000]) ssh_init) = S_disconnected
   \<and> ss_state (fold (ssh_step ''t1'' ''d1'') [Ssh_open, Ssh_frame (80, 24), Ssh_disconnect, Ssh_answer True, Ssh_wsOpen 0] ssh_init) = S_connected"
proof -
  let ?s = "fold (ssh_step ''t1'' ''d1'') demo_ssh ssh_init" and ?c = "fold (ssh_step ''t1'' ''d1'') [Ssh_open, Ssh_frame (80, 24)] ssh_init"
  have "ss_ws ?s = Some 0" "socket_in {Ws_open} 0 ?s" "ss_state ?s = S_connected"
    "ss_state ?c = S_connecting" "ss_pending ?c = 1" "ss_frames ?c = 0" and n: "length (ss_sockets ?c) = 0" by code_simp+
  from ssh_close_undone [OF this(1-6), of "''t1''" "''d1''" 1000] n show ?thesis by (simp add: Let_def)
qed

section \<open>Properties of the remote WinBox\<close>

definition for_device :: "string \<Rightarrow> string \<Rightarrow> api_request \<Rightarrow> bool" where
  "for_device t dev r \<longleftrightarrow> (\<exists>segs. rq_segments r = device_path t dev (''winbox-remote-sessions'' # segs))"

definition remote_inv :: "string \<Rightarrow> string \<Rightarrow> remote \<Rightarrow> bool" where
  "remote_inv t dev w \<longleftrightarrow> (rw_state w \<in> {R_connecting, R_active, R_closing} \<longrightarrow> rw_session w \<noteq> None)
     \<and> list_all (for_device t dev) (rw_sent w)"

lemma remote_effects_inv: "remote_inv t dev w \<Longrightarrow> remote_inv t dev (countdown_effect (adopt_effect w))"
  by (auto simp: remote_inv_def countdown_effect_def adopt_effect_def split: option.splits)

lemma remote_paths:
  "for_device t dev (remoteWinboxApi t (Winbox_create dev o'))" "for_device t dev (remoteWinboxApi t (Winbox_get dev i))"
  "for_device t dev (remoteWinboxApi t (Winbox_list dev))" "for_device t dev (remoteWinboxApi t (Winbox_delete dev i))"
  by (auto simp: for_device_def send_data_def mk_get_def send_def)

lemma remote_action_inv: "remote_inv t dev w \<Longrightarrow> remote_enabled e w \<Longrightarrow> remote_inv t dev (remote_action t dev e w)"
proof (cases e)
  case (Rw_resetDone d l)
  assume "remote_inv t dev w"
  with Rw_resetDone show ?thesis
    by (auto simp: remote_inv_def reset_done_def list_all_iff remote_paths simp del: remoteWinboxApi.simps split: option.splits)
next
  case (Rw_tick now)
  assume "remote_inv t dev w"
  with Rw_tick show ?thesis by (auto simp: remote_inv_def tick_def Let_def split: option.splits)
qed (auto simp: remote_inv_def remote_handleOpen_def create_success_def remote_polled_def remote_handleClose_def remote_paths Let_def
      simp del: remoteWinboxApi.simps split: option.splits sum.splits)

interpretation remote: event_machine "remote_step t dev" "remote_inv t dev"
  by unfold_locales (simp add: remote_step_def remote_effects_inv remote_action_inv)

text \<open>C33: In every reachable state of the remote WinBox button a state that polls, shows or closes a session has one, so that
  neither the error for a missing session nor a poll without an identifier can occur; and every request concerns
  the remote sessions of the button's own device and tenant.\<close>
theorem remote_session_invariant:
  "let w = fold (remote_step t dev) es remote_init in
     (rw_state w \<in> {R_connecting, R_active, R_closing} \<longrightarrow> rw_session w \<noteq> None) \<and> list_all (for_device t dev) (rw_sent w)"
proof -
  have "remote_inv t dev (fold (remote_step t dev) es remote_init)"
    by (rule remote.run_inv) (simp add: remote_inv_def remote_init_def)
  then show ?thesis by (simp add: remote_inv_def Let_def)
qed

definition demo_session :: remote_session where
  "demo_session = \<lparr>rs_session_id = ''s1'', rs_session_status = ''active'', rs_expires_at = Some 900\<rparr>"

theorem remote_session_invariant_witness:
  "rw_session (fold (remote_step ''t1'' ''d1'') [Rw_fetched [], Rw_open, Rw_created (Inr demo_session)] remote_init) \<noteq> None"
proof -
  have "rw_state (fold (remote_step ''t1'' ''d1'') [Rw_fetched [], Rw_open, Rw_created (Inr demo_session)] remote_init) = R_active"
    by code_simp
  with remote_session_invariant [of "''t1''" "''d1''" "[Rw_fetched [], Rw_open, Rw_created (Inr demo_session)]"]
  show ?thesis by (simp add: Let_def)
qed

text \<open>A session found when the page was loaded cannot be closed. The list that was loaded still names it when
  the close succeeds, and the idle button takes it up again at once: the view is back on the deleted session. The
  same happens after a reset.\<close>
theorem closed_session_returns:
  assumes "rw_state w = R_active" "rw_session w = Some s" "rs_session_id s \<noteq> []" "\<not> rw_closePending w"
    and "rw_existing w = Some ss" "find adoptable ss = Some a" "rs_session_status a = ''active''"
  shows "let w' = fold (remote_step t dev) [Rw_close, Rw_closed (Inr ())] w;
             v = remote_step t dev (Rw_resetDone deletes listed) (w\<lparr>rw_state := R_terminated, rw_resets := 1\<rparr>)
         in rw_state w' = R_active \<and> rw_session w' = Some a \<and> rw_state v = R_active \<and> rw_session v = Some a
           \<and> rw_sent w' = rw_sent w @ [remoteWinboxApi t (Winbox_delete dev (rs_session_id s))]"
proof -
  have adopt: "countdown_effect (adopt_effect v) = (countdown_effect (v\<lparr>rw_session := Some a, rw_state := R_active\<rparr>))"
    if "rw_state v = R_idle" "rw_existing v = Some ss" for v
    using that assms(6,7) by (simp add: adopt_effect_def)
  have keeps: "rw_state (countdown_effect v) = rw_state v" "rw_session (countdown_effect v) = rw_session v"
    "rw_sent (countdown_effect v) = rw_sent v" "rw_closePending (countdown_effect v) = rw_closePending v"
    "rw_existing (countdown_effect v) = rw_existing v" for v
    by (simp_all add: countdown_effect_def)
  have close: "remote_step t dev Rw_close w = countdown_effect (remote_handleClose t dev w)"
    using assms(1-4) by (simp add: remote_step_def has_frame_def adopt_effect_def remote_handleClose_def)
  have "remote_step t dev (Rw_closed (Inr ())) (countdown_effect (remote_handleClose t dev w))
      = countdown_effect (adopt_effect ((countdown_effect (remote_handleClose t dev w))
          \<lparr>rw_closePending := False, rw_state := R_idle, rw_session := None, rw_error := None\<rparr>))"
    using assms(2) by (simp add: remote_step_def keeps remote_handleClose_def Let_def)
  then show ?thesis
    using assms(2,5) by (simp add: close adopt keeps remote_step_def [of _ _ "Rw_resetDone _ _"] reset_done_def remote_handleClose_def Let_def)
qed

theorem closed_session_returns_witness:
  "rw_state (fold (remote_step ''t1'' ''d1'') [Rw_fetched [demo_session], Rw_close, Rw_closed (Inr ())] remote_init) = R_active"
proof -
  let ?w = "remote_step ''t1'' ''d1'' (Rw_fetched [demo_session]) remote_init"
  have "rw_state ?w = R_active" "rw_session ?w = Some demo_session" "rs_session_id demo_session \<noteq> []" "\<not> rw_closePending ?w"
    "rw_existing ?w = Some [demo_session]" "find adoptable [demo_session] = Some demo_session" "rs_session_status demo_session = ''active''"
    by code_simp+
  from closed_session_returns [OF this, of "''t1''" "''d1''"] show ?thesis by (simp add: Let_def)
qed

section \<open>Properties of the frame\<close>

lemma byte_char_eq: "(char_of (unat (b :: byte)) :: char) = c \<longleftrightarrow> unat b = of_char c"
proof -
  have "unat b < 256" using unsigned_less [of b] by simp
  then have "of_char (char_of (unat b) :: char) = unat b" by (simp add: of_char_of)
  then show ?thesis by (metis char_of_char)
qed

lemma encode_chars: "c \<in> set (encodeURIComponent s) \<Longrightarrow> c \<noteq> CHR ''/'' \<and> c \<noteq> CHR ''?'' \<and> c \<noteq> CHR ''#''"
proof -
  have pct: "c \<noteq> CHR ''/'' \<and> c \<noteq> CHR ''?'' \<and> c \<noteq> CHR ''#''" if "c \<in> set (percent b)" for b
  proof -
    from that consider "c = CHR ''%''" | x where "x \<in> set (byte_hex b)" "c = upper_char x"
      by (auto simp: percent_def toUpperCase_def)
    then show ?thesis
    proof cases
      case 2
      then have "is_digit 16 x" by (simp add: byte_hex_digits)
      then have "of_char x \<in> {48..57::nat} \<union> {65..70} \<union> {97..102}"
        by (auto simp: is_digit_def digit_of_def Let_def split: if_splits)
      with 2(2) have "of_char c \<in> {48..57::nat} \<union> {65..70}" by (auto simp: upper_char_def Let_def of_char_of)
      then show ?thesis by auto
    qed simp
  qed
  have "char_of (unat b) \<noteq> CHR ''/'' \<and> char_of (unat b) \<noteq> CHR ''?'' \<and> char_of (unat b) \<noteq> CHR ''#''" if "unreserved b" for b
    using that by (auto simp: byte_char_eq unreserved_def Let_def)
  with pct show "c \<in> set (encodeURIComponent s) \<Longrightarrow> ?thesis"
    by (auto simp: encodeURIComponent_def split: if_splits)
qed

text \<open>A dot is only ever written for a dot.\<close>

lemma encode_dots:
  assumes "encodeURIComponent s = replicate n (CHR ''.'')"
  shows "utf8_encode s = replicate n 46"
proof -
  have "bs = replicate n 46"
    if "concat (map (\<lambda>b. if unreserved b then [char_of (unat b)] else percent b) bs) = replicate n (CHR ''.'')" for bs
    using that
  proof (induction bs arbitrary: n)
    case (Cons b bs)
    then obtain m where n: "n = Suc m" by (cases n) (auto simp: percent_def split: if_splits)
    with Cons.prems have b: "unreserved b \<and> char_of (unat b) = CHR ''.''" by (auto simp: percent_def split: if_splits)
    then have "unat b = 46" by (simp add: byte_char_eq)
    then have "word_of_nat (unat b) = (46 :: byte)" by simp
    then have "b = 46" by simp
    with Cons n b show ?case by auto
  qed simp
  with assms show ?thesis by (simp add: encodeURIComponent_def)
qed

lemma encode_dot_segment:
  "encodeURIComponent s = ''.'' \<longleftrightarrow> s = ''.''" "encodeURIComponent s = ''..'' \<longleftrightarrow> s = ''..''"
proof -
  have e: "utf8_encode ''.'' = [46]" "utf8_encode ''..'' = [46, 46]" "encodeURIComponent ''.'' = ''.''" "encodeURIComponent ''..'' = ''..''"
    by code_simp+
  have "s = t" if "utf8_encode s = utf8_encode t" for t using that utf8_roundtrip by (metis option.inject)
  with e show "encodeURIComponent s = ''.'' \<longleftrightarrow> s = ''.''" "encodeURIComponent s = ''..'' \<longleftrightarrow> s = ''..''"
    using encode_dots [of s 1] encode_dots [of s 2] by (auto simp: numeral_2_eq_2)
qed

lemma server_segments_query:
  "CHR ''?'' \<notin> set p \<Longrightarrow> CHR ''#'' \<notin> set p \<Longrightarrow> server_segments (p @ ''?'' @ q) = server_segments p"
proof -
  assume "CHR ''?'' \<notin> set p" "CHR ''#'' \<notin> set p"
  then have "\<And>c. c \<in> set p \<Longrightarrow> c \<noteq> CHR ''?'' \<and> c \<noteq> CHR ''#''" by auto
  then have "takeWhile (\<lambda>c. c \<noteq> CHR ''?'' \<and> c \<noteq> CHR ''#'') (p @ ''?'' @ q) = p"
    "takeWhile (\<lambda>c. c \<noteq> CHR ''?'' \<and> c \<noteq> CHR ''#'') p = p"
    by (simp_all add: takeWhile_append2 takeWhile_eq_all_conv)
  then show ?thesis by (simp only: server_segments_def)
qed

text \<open>The frame of a remote session shows that session and no other. For all identifiers but the two dot segments,
  the browser resolves the frame's address to the page of the encoded session, device and tenant, whatever characters
  the identifiers contain; \<^verbatim>\<open>.\<close> and \<^verbatim>\<open>..\<close>, which no encoding changes, are resolved away.\<close>
theorem xpra_frame_confined:
  "(tenantId \<notin> {''.'', ''..''} \<and> deviceId \<notin> {''.'', ''..''} \<and> sessionId \<notin> {''.'', ''..''} \<longrightarrow>
     server_segments (xpraIframeSrc tenantId deviceId sessionId) =
       [''api'', ''tenants'', encodeURIComponent tenantId, ''devices'', encodeURIComponent deviceId,
        ''winbox-remote-sessions'', encodeURIComponent sessionId, ''xpra'', ''index.html''])
   \<and> server_segments (xpraIframeSrc ''t1'' ''..'' ''s1'') = [''api'', ''tenants'', ''t1'', ''winbox-remote-sessions'', ''s1'', ''xpra'', ''index.html'']"
  (is "?A \<and> ?B")
proof
  let ?segs = "[''api'', ''tenants'', encodeURIComponent tenantId, ''devices'', encodeURIComponent deviceId,
        ''winbox-remote-sessions'', encodeURIComponent sessionId, ''xpra'', ''index.html'']"
  let ?p = "concat (map (\<lambda>s. CHR ''/'' # s) ?segs)"
  have plain: "\<forall>s \<in> set ?segs. CHR ''/'' \<notin> set s \<and> CHR ''?'' \<notin> set s \<and> CHR ''#'' \<notin> set s"
    using encode_chars by auto
  then have "CHR ''?'' \<notin> set ?p" "CHR ''#'' \<notin> set ?p" by auto
  note q = server_segments_query [OF this]
  have src: "\<exists>q. xpraIframeSrc tenantId deviceId sessionId = ?p @ ''?'' @ q"
    by (simp add: xpraIframeSrc_def xpra_base_def Let_def)
  have "remove_dots [] ?segs = ?segs" if "tenantId \<notin> {''.'', ''..''}" "deviceId \<notin> {''.'', ''..''}" "sessionId \<notin> {''.'', ''..''}"
    using that encode_dot_segment by auto
  then show ?A using src q server_resolves [OF plain] by auto
  show ?B by code_simp
qed

theorem xpra_frame_confined_witness:
  "server_segments (xpraIframeSrc ''t1'' ''../../t2/devices/d'' ''s1'') =
     [''api'', ''tenants'', ''t1'', ''devices'', ''..%2F..%2Ft2%2Fdevices%2Fd'', ''winbox-remote-sessions'', ''s1'', ''xpra'', ''index.html'']"
proof -
  have "encodeURIComponent ''../../t2/devices/d'' = ''..%2F..%2Ft2%2Fdevices%2Fd''" "encodeURIComponent ''t1'' = ''t1''"
    "encodeURIComponent ''s1'' = ''s1''"
    by code_simp+
  with xpra_frame_confined [of "''t1''" "''../../t2/devices/d''" "''s1''"] show ?thesis by simp
qed

end
