(* ===== verification/EditorPage.thy ===== *)
theory EditorPage
  imports Staging ApiRoutes
begin

text \<open>
  The configuration editor (\<^verbatim>\<open>components/config-editor\<close>): the page that browses a menu path of a device and
  adds, edits and deletes entries (\<^verbatim>\<open>ConfigEditorPage.tsx\<close>, \<^verbatim>\<open>EntryForm.tsx\<close>), the menu
  (\<^verbatim>\<open>MenuTree.tsx\<close>), the command line with its history (\<^verbatim>\<open>CommandExecutor.tsx\<close>), and the
  commands that the diagnostic tools of a device build (\<^verbatim>\<open>components/config/PingTool.tsx\<close>,
  \<^verbatim>\<open>TorchTool.tsx\<close>, \<^verbatim>\<open>TracerouteTool.tsx\<close>, \<^verbatim>\<open>BandwidthTestTool.tsx\<close>).
\<close>

section \<open>The form\<close>

definition SKIP_FIELDS :: "string set" where
  "SKIP_FIELDS = {''.id'', ''running'', ''dynamic'', ''default'', ''invalid''}"

definition BOOLEAN_FIELDS :: "string set" where
  "BOOLEAN_FIELDS = {''disabled'', ''running'', ''active'', ''dynamic'', ''default'', ''invalid'', ''comment'', ''passthrough'', ''logging''}"

definition isBooleanValue :: "string \<Rightarrow> bool" where
  "isBooleanValue value \<longleftrightarrow> toLowerCase value \<in> {''true'', ''false'', ''yes'', ''no''}"

definition isIpLike :: "string \<Rightarrow> bool" where
  "isIpLike value = test IP_CIDR_REGEX value"

definition isNumeric :: "string \<Rightarrow> bool" where
  "isNumeric value \<longleftrightarrow> value \<noteq> [] \<and> list_all (is_digit 10) value"

datatype form_mode = Add_mode | Edit_mode

definition editableFields :: "form_mode \<Rightarrow> entry option \<Rightarrow> string list \<Rightarrow> string list" where
  "editableFields mode en columns = (case (mode, en) of
      (Edit_mode, Some e) \<Rightarrow> filter (\<lambda>k. k \<notin> SKIP_FIELDS) (obj_keys e)
    | _ \<Rightarrow> filter (\<lambda>k. k \<notin> SKIP_FIELDS) columns)"

text \<open>The initial values, computed once, when the form is mounted.\<close>

definition init_values :: "form_mode \<Rightarrow> entry option \<Rightarrow> string list \<Rightarrow> string obj" where
  "init_values mode en columns = foldl (\<lambda>v k. obj_set k (case (mode, en) of
      (Edit_mode, Some e) \<Rightarrow> field e k | _ \<Rightarrow> []) v) [] (editableFields mode en columns)"

definition submit_properties :: "form_mode \<Rightarrow> string obj \<Rightarrow> string obj" where
  "submit_properties mode values = foldl (\<lambda>ps (k, v). if mode = Add_mode \<and> v = [] then ps else obj_set k v ps) [] values"

datatype field_control = Checkbox_control bool | Number_control string | Text_control string

text \<open>\<open>renderField\<close>: the control a field gets and what it shows.\<close>

definition renderField :: "entry option \<Rightarrow> string obj \<Rightarrow> string \<Rightarrow> field_control" where
  "renderField en values k =
     (let value = field values k;
          originalValue = (case en of None \<Rightarrow> [] | Some e \<Rightarrow> field e k)
      in if k \<in> BOOLEAN_FIELDS \<or> isBooleanValue (str_or originalValue value)
         then Checkbox_control (value = ''true'' \<or> value = ''yes'')
         else if isNumeric originalValue \<and> \<not> isIpLike originalValue then Number_control value
         else Text_control value)"

section \<open>The page\<close>

text \<open>
  The form is mounted whenever a device is selected, whether or not it is open: \<open>ep_values\<close> is its state.
  \<open>ep_mount\<close> numbers its
  instances and \<open>ep_submits\<close> lists the submissions under way, each with the instance it came from.
\<close>

record editor_page =
  ep_device :: "string option"
  ep_path :: string
  ep_formOpen :: bool
  ep_formMode :: form_mode
  ep_editing :: "entry option"
  ep_deleteOpen :: bool
  ep_deleting :: "entry option"
  ep_values :: "string obj"
  ep_submitting :: bool
  ep_formError :: "string option"
  ep_mount :: nat
  ep_submits :: "nat list"
  ep_removePending :: bool
  ep_sent :: "api_request list"

definition page_init :: editor_page where
  "page_init = \<lparr>ep_device = None, ep_path = ''/interface'', ep_formOpen = False, ep_formMode = Add_mode, ep_editing = None,
     ep_deleteOpen = False, ep_deleting = None, ep_values = [], ep_submitting = False, ep_formError = None, ep_mount = 0, ep_submits = [],
     ep_removePending = False, ep_sent = []\<rparr>"

definition entry_columns :: "entry list \<Rightarrow> string list" where
  "entry_columns es = (case es of [] \<Rightarrow> [] | e # _ \<Rightarrow> filter (\<lambda>k. k \<noteq> ''.id'') (obj_keys e))"

text \<open>\<open>cached\<close> are the entries already known for the device and path, if any.\<close>

definition select_device :: "string \<Rightarrow> entry list \<Rightarrow> editor_page \<Rightarrow> editor_page" where
  "select_device d cached p = p\<lparr>ep_device := Some d, ep_mount := ep_mount p + 1, ep_submitting := False, ep_formError := None,
     ep_values := init_values (ep_formMode p) (ep_editing p) (entry_columns cached)\<rparr>"

definition ep_handleAdd :: "editor_page \<Rightarrow> editor_page" where
  "ep_handleAdd p = p\<lparr>ep_formMode := Add_mode, ep_editing := None, ep_formOpen := True\<rparr>"

definition ep_handleEdit :: "entry \<Rightarrow> editor_page \<Rightarrow> editor_page" where
  "ep_handleEdit e p = p\<lparr>ep_formMode := Edit_mode, ep_editing := Some e, ep_formOpen := True\<rparr>"

definition ep_handleDelete :: "entry \<Rightarrow> editor_page \<Rightarrow> editor_page" where
  "ep_handleDelete e p = p\<lparr>ep_deleting := Some e, ep_deleteOpen := True\<rparr>"

definition entry_json :: "string obj \<Rightarrow> json" where
  "entry_json ps = JObj (map (\<lambda>(k, v). (k, JStr v)) ps)"

text \<open>\<open>handleFormSubmit\<close>: the call made, nothing, or a local error.\<close>

definition handleFormSubmit :: "editor_page \<Rightarrow> string \<Rightarrow> string obj \<Rightarrow> string + editor_api_call option" where
  "handleFormSubmit p dev ps = (case ep_formMode p of
      Add_mode \<Rightarrow> Inr (Some (Editor_addEntry dev (ep_path p) (entry_json ps)))
    | Edit_mode \<Rightarrow> (case ep_editing p of
        None \<Rightarrow> Inr None
      | Some e \<Rightarrow> if field e ''.id'' = [] then Inl ''Entry has no .id field''
          else Inr (Some (Editor_setEntry dev (ep_path p) (Some (field e ''.id'')) (entry_json ps)))))"

definition form_handleSubmit :: "string \<Rightarrow> string \<Rightarrow> editor_page \<Rightarrow> editor_page" where
  "form_handleSubmit t dev p = (case handleFormSubmit p dev (submit_properties (ep_formMode p) (ep_values p)) of
      Inl m \<Rightarrow> p\<lparr>ep_formError := Some m, ep_submitting := False\<rparr>
    | Inr None \<Rightarrow> p\<lparr>ep_formError := None, ep_submitting := False, ep_formOpen := False\<rparr>
    | Inr (Some c) \<Rightarrow> p\<lparr>ep_formError := None, ep_submitting := True, ep_submits := ep_submits p @ [ep_mount p],
        ep_sent := ep_sent p @ [configEditorApi t c]\<rparr>)"

definition failure_text :: "thrown \<Rightarrow> string" where
  "failure_text e = (case e of AxiosError r m \<Rightarrow> m | JsError m \<Rightarrow> m | OtherThrown \<Rightarrow> ''Operation failed'')"

definition handleConfirmDelete :: "string \<Rightarrow> string \<Rightarrow> editor_page \<Rightarrow> editor_page" where
  "handleConfirmDelete t dev p = (case ep_deleting p of
      None \<Rightarrow> p
    | Some e \<Rightarrow> if field e ''.id'' = [] then p
        else p\<lparr>ep_removePending := True, ep_sent := ep_sent p @ [configEditorApi t (Editor_removeEntry dev (ep_path p) (field e ''.id''))]\<rparr>)"

datatype page_event =
    Ep_select string "entry list" | Ep_change | Ep_path string | Ep_add | Ep_edit entry | Ep_delete entry
  | Ep_value string string | Ep_submit | Ep_answer nat "thrown + unit" | Ep_close
  | Ep_confirm | Ep_removed "thrown + unit" | Ep_cancelDelete

text \<open>The table offers its actions to a user who may write; the rest of the page is out of reach while a dialog
  is open.\<close>

fun page_enabled :: "bool \<Rightarrow> page_event \<Rightarrow> editor_page \<Rightarrow> bool" where
  "page_enabled writable (Ep_select d es) p = (ep_device p = None)"
| "page_enabled writable Ep_change p = (ep_device p \<noteq> None \<and> \<not> ep_formOpen p \<and> \<not> ep_deleteOpen p)"
| "page_enabled writable (Ep_path q) p = (ep_device p \<noteq> None \<and> \<not> ep_formOpen p \<and> \<not> ep_deleteOpen p)"
| "page_enabled writable Ep_add p = (writable \<and> ep_device p \<noteq> None \<and> \<not> ep_formOpen p \<and> \<not> ep_deleteOpen p)"
| "page_enabled writable (Ep_edit e) p = (writable \<and> ep_device p \<noteq> None \<and> \<not> ep_formOpen p \<and> \<not> ep_deleteOpen p)"
| "page_enabled writable (Ep_delete e) p = (writable \<and> ep_device p \<noteq> None \<and> \<not> ep_formOpen p \<and> \<not> ep_deleteOpen p)"
| "page_enabled writable (Ep_value k v) p = (ep_device p \<noteq> None \<and> ep_formOpen p)"
| "page_enabled writable Ep_submit p = (ep_device p \<noteq> None \<and> ep_formOpen p \<and> \<not> ep_submitting p)"
| "page_enabled writable (Ep_answer i r) p = (i < length (ep_submits p))"
| "page_enabled writable Ep_close p = (ep_device p \<noteq> None \<and> ep_formOpen p)"
| "page_enabled writable Ep_confirm p = (ep_device p \<noteq> None \<and> ep_deleteOpen p \<and> \<not> ep_removePending p)"
| "page_enabled writable (Ep_removed r) p = ep_removePending p"
| "page_enabled writable Ep_cancelDelete p = ep_deleteOpen p"

fun page_action :: "string \<Rightarrow> page_event \<Rightarrow> editor_page \<Rightarrow> editor_page" where
  "page_action t (Ep_select d es) p = select_device d es p"
| "page_action t Ep_change p = p\<lparr>ep_device := None\<rparr>"
| "page_action t (Ep_path q) p = p\<lparr>ep_path := q\<rparr>"
| "page_action t Ep_add p = ep_handleAdd p"
| "page_action t (Ep_edit e) p = ep_handleEdit e p"
| "page_action t (Ep_delete e) p = ep_handleDelete e p"
| "page_action t (Ep_value k v) p = p\<lparr>ep_values := obj_set k v (ep_values p)\<rparr>"
| "page_action t Ep_submit p = (case ep_device p of None \<Rightarrow> p | Some dev \<Rightarrow> form_handleSubmit t dev p)"
| "page_action t (Ep_answer i r) p =
     (let mine = (ep_submits p ! i = ep_mount p);
          p = p\<lparr>ep_submits := take i (ep_submits p) @ drop (i + 1) (ep_submits p), ep_submitting := ep_submitting p \<and> \<not> mine\<rparr>
      in case r of
        Inr _ \<Rightarrow> p\<lparr>ep_formOpen := False\<rparr>
      | Inl e \<Rightarrow> if mine then p\<lparr>ep_formError := Some (failure_text e)\<rparr> else p)"
| "page_action t Ep_close p = p\<lparr>ep_formOpen := False\<rparr>"
| "page_action t Ep_confirm p = (case ep_device p of None \<Rightarrow> p | Some dev \<Rightarrow> handleConfirmDelete t dev p)"
| "page_action t (Ep_removed r) p =
     (let p = p\<lparr>ep_removePending := False\<rparr> in case r of
        Inr _ \<Rightarrow> p\<lparr>ep_deleteOpen := False, ep_deleting := None\<rparr> | Inl _ \<Rightarrow> p)"
| "page_action t Ep_cancelDelete p = p\<lparr>ep_deleteOpen := False\<rparr>"

definition page_step :: "string \<Rightarrow> bool \<Rightarrow> page_event \<Rightarrow> editor_page \<Rightarrow> editor_page" where
  "page_step t writable e p = (if page_enabled writable e p then page_action t e p else p)"

text \<open>The segments of the breadcrumb with the path each of them leads to.\<close>

definition pathSegments :: "string \<Rightarrow> string list" where
  "pathSegments path = filter (\<lambda>s. s \<noteq> []) (split_on (CHR ''/'') path)"

definition crumb_path :: "string \<Rightarrow> nat \<Rightarrow> string" where
  "crumb_path path i = CHR ''/'' # join ''/'' (take (i + 1) (pathSegments path))"

section \<open>The menu\<close>

datatype menu_node = Menu string string "menu_node list"

definition MENU_TREE :: "menu_node list" where
  "MENU_TREE = [
     Menu ''interface'' ''/interface'' [
       Menu ''bridge'' ''/interface/bridge'' [
         Menu ''bridge'' ''/interface/bridge'' [],
         Menu ''port'' ''/interface/bridge/port'' [],
         Menu ''vlan'' ''/interface/bridge/vlan'' [],
         Menu ''host'' ''/interface/bridge/host'' []],
       Menu ''ethernet'' ''/interface/ethernet'' [],
       Menu ''vlan'' ''/interface/vlan'' [],
       Menu ''wireless'' ''/interface/wireless'' [],
       Menu ''wifi'' ''/interface/wifi'' [
         Menu ''wifi'' ''/interface/wifi'' [],
         Menu ''configuration'' ''/interface/wifi/configuration'' [],
         Menu ''security'' ''/interface/wifi/security'' [],
         Menu ''datapath'' ''/interface/wifi/datapath'' [],
         Menu ''provisioning'' ''/interface/wifi/provisioning'' [],
         Menu ''capsman'' ''/interface/wifi/capsman'' [],
         Menu ''cap'' ''/interface/wifi/cap'' [],
         Menu ''access-list'' ''/interface/wifi/access-list'' [],
         Menu ''registration-table'' ''/interface/wifi/registration-table'' []],
       Menu ''bonding'' ''/interface/bonding'' [],
       Menu ''wireguard'' ''/interface/wireguard'' [],
       Menu ''gre'' ''/interface/gre'' [],
       Menu ''eoip'' ''/interface/eoip'' [],
       Menu ''ipip'' ''/interface/ipip'' [],
       Menu ''pppoe-client'' ''/interface/pppoe-client'' [],
       Menu ''pppoe-server'' ''/interface/pppoe-server/server'' [],
       Menu ''l2tp-server'' ''/interface/l2tp-server/server'' [],
       Menu ''sstp-server'' ''/interface/sstp-server/server'' [],
       Menu ''ovpn-server'' ''/interface/ovpn-server/server'' [],
       Menu ''list'' ''/interface/list'' []],
     Menu ''ip'' ''/ip'' [
       Menu ''address'' ''/ip/address'' [],
       Menu ''route'' ''/ip/route'' [],
       Menu ''dns'' ''/ip/dns'' [],
       Menu ''dhcp-client'' ''/ip/dhcp-client'' [],
       Menu ''dhcp-server'' ''/ip/dhcp-server'' [
         Menu ''dhcp-server'' ''/ip/dhcp-server'' [],
         Menu ''network'' ''/ip/dhcp-server/network'' [],
         Menu ''lease'' ''/ip/dhcp-server/lease'' []],
       Menu ''firewall'' ''/ip/firewall'' [
         Menu ''filter'' ''/ip/firewall/filter'' [],
         Menu ''nat'' ''/ip/firewall/nat'' [],
         Menu ''mangle'' ''/ip/firewall/mangle'' [],
         Menu ''raw'' ''/ip/firewall/raw'' [],
         Menu ''address-list'' ''/ip/firewall/address-list'' [],
         Menu ''connection'' ''/ip/firewall/connection'' []],
       Menu ''ipsec'' ''/ip/ipsec'' [
         Menu ''peer'' ''/ip/ipsec/peer'' [],
         Menu ''identity'' ''/ip/ipsec/identity'' [],
         Menu ''policy'' ''/ip/ipsec/policy'' [],
         Menu ''proposal'' ''/ip/ipsec/proposal'' [],
         Menu ''profile'' ''/ip/ipsec/profile'' [],
         Menu ''active-peers'' ''/ip/ipsec/active-peers'' [],
         Menu ''installed-sa'' ''/ip/ipsec/installed-sa'' []],
       Menu ''pool'' ''/ip/pool'' [],
       Menu ''service'' ''/ip/service'' [],
       Menu ''neighbor'' ''/ip/neighbor'' [],
       Menu ''arp'' ''/ip/arp'' []],
     Menu ''ipv6'' ''/ipv6'' [
       Menu ''address'' ''/ipv6/address'' [],
       Menu ''route'' ''/ipv6/route'' [],
       Menu ''firewall'' ''/ipv6/firewall'' [
         Menu ''filter'' ''/ipv6/firewall/filter'' [],
         Menu ''mangle'' ''/ipv6/firewall/mangle'' [],
         Menu ''raw'' ''/ipv6/firewall/raw'' [],
         Menu ''address-list'' ''/ipv6/firewall/address-list'' []],
       Menu ''nd'' ''/ipv6/nd'' [],
       Menu ''pool'' ''/ipv6/pool'' [],
       Menu ''dhcp-client'' ''/ipv6/dhcp-client'' []],
     Menu ''caps-man'' ''/caps-man'' [
       Menu ''interface'' ''/caps-man/interface'' [],
       Menu ''configuration'' ''/caps-man/configuration'' [],
       Menu ''provisioning'' ''/caps-man/provisioning'' [],
       Menu ''datapath'' ''/caps-man/datapath'' [],
       Menu ''security'' ''/caps-man/security'' [],
       Menu ''channel'' ''/caps-man/channel'' [],
       Menu ''access-list'' ''/caps-man/access-list'' [],
       Menu ''registration-table'' ''/caps-man/registration-table'' []],
     Menu ''ppp'' ''/ppp'' [
       Menu ''profile'' ''/ppp/profile'' [],
       Menu ''secret'' ''/ppp/secret'' [],
       Menu ''active'' ''/ppp/active'' []],
     Menu ''system'' ''/system'' [
       Menu ''identity'' ''/system/identity'' [],
       Menu ''clock'' ''/system/clock'' [],
       Menu ''ntp'' ''/system/ntp'' [
         Menu ''client'' ''/system/ntp/client'' [],
         Menu ''server'' ''/system/ntp/server'' []],
       Menu ''resource'' ''/system/resource'' [],
       Menu ''routerboard'' ''/system/routerboard'' [],
       Menu ''health'' ''/system/health'' [],
       Menu ''note'' ''/system/note'' [],
       Menu ''scheduler'' ''/system/scheduler'' [],
       Menu ''script'' ''/system/script'' [],
       Menu ''logging'' ''/system/logging'' [],
       Menu ''package'' ''/system/package'' []],
     Menu ''routing'' ''/routing'' [
       Menu ''ospf'' ''/routing/ospf'' [
         Menu ''instance'' ''/routing/ospf/instance'' [],
         Menu ''area'' ''/routing/ospf/area'' [],
         Menu ''interface-template'' ''/routing/ospf/interface-template'' [],
         Menu ''static-neighbor'' ''/routing/ospf/static-neighbor'' []],
       Menu ''bgp'' ''/routing/bgp'' [
         Menu ''connection'' ''/routing/bgp/connection'' [],
         Menu ''template'' ''/routing/bgp/template'' []],
       Menu ''filter rule'' ''/routing/filter/rule'' [],
       Menu ''table'' ''/routing/table'' [],
       Menu ''rule'' ''/routing/rule'' []],
     Menu ''queue'' ''/queue'' [
       Menu ''simple'' ''/queue/simple'' [],
       Menu ''tree'' ''/queue/tree'' [],
       Menu ''type'' ''/queue/type'' []],
     Menu ''tool'' ''/tool'' [
       Menu ''bandwidth-server'' ''/tool/bandwidth-server'' [],
       Menu ''e-mail'' ''/tool/e-mail'' [],
       Menu ''graphing'' ''/tool/graphing'' [],
       Menu ''netwatch'' ''/tool/netwatch'' [],
       Menu ''sniffer'' ''/tool/sniffer'' [],
       Menu ''romon'' ''/tool/romon'' []],
     Menu ''user'' ''/user'' [],
     Menu ''snmp'' ''/snmp'' [],
     Menu ''certificate'' ''/certificate'' [],
     Menu ''container'' ''/container'' []]"

text \<open>The nodes that can be browsed, and the nodes unfolded at first for a path.\<close>

fun menu_leaves :: "menu_node \<Rightarrow> string list" where
  "menu_leaves (Menu l p cs) = (if cs = [] then [p] else concat (map menu_leaves cs))"

definition item_expanded :: "string \<Rightarrow> menu_node \<Rightarrow> bool" where
  "item_expanded currentPath n = (case n of Menu l p cs \<Rightarrow> startsWith currentPath p)"

text \<open>A click on a node: unfold or fold it, or go to its path.\<close>

definition item_click :: "menu_node \<Rightarrow> bool \<times> string \<Rightarrow> bool \<times> string" where
  "item_click n s = (case n of Menu l p cs \<Rightarrow> if cs \<noteq> [] then (\<not> fst s, snd s) else (fst s, p))"

definition custom_path :: "string \<Rightarrow> string \<Rightarrow> string" where
  "custom_path customPath currentPath = (if js_trim customPath \<noteq> [] then js_trim customPath else currentPath)"

section \<open>The command line\<close>

record command_result =
  cr_command :: string
  cr_success :: bool
  cr_output :: string

record executor =
  ex_command :: string
  ex_running :: "string option"
  ex_results :: "command_result list"
  ex_history :: "string list"
  ex_index :: int
  ex_sent :: "api_request list"

definition executor_init :: executor where
  "executor_init = \<lparr>ex_command = [], ex_running = None, ex_results = [], ex_history = [], ex_index = - 1, ex_sent = []\<rparr>"

record execute_response =
  rp_ok :: bool
  rp_data :: "entry list option"
  rp_message :: "string option"

definition row_text :: "entry \<Rightarrow> string" where
  "row_text row = join [CHR 0x0A] (map (\<lambda>(k, v). k @ '': '' @ v) row)"

definition output_text :: "execute_response \<Rightarrow> string" where
  "output_text r = (case rp_data r of
      Some rows \<Rightarrow> join ([CHR 0x0A] @ ''---'' @ [CHR 0x0A]) (map row_text rows)
    | None \<Rightarrow> str_or (case rp_message r of None \<Rightarrow> [] | Some m \<Rightarrow> m) ''Command executed (no output)'')"

definition executeCommand :: "string \<Rightarrow> string \<Rightarrow> executor \<Rightarrow> executor" where
  "executeCommand t dev x =
     (let cmd = js_trim (ex_command x) in
      if cmd = [] then x
      else x\<lparr>ex_running := Some cmd, ex_history := take 10 (cmd # filter (\<lambda>h. h \<noteq> cmd) (ex_history x)), ex_index := - 1,
             ex_sent := ex_sent x @ [configEditorApi t (Editor_execute dev cmd)]\<rparr>)"

definition executed :: "thrown + execute_response \<Rightarrow> executor \<Rightarrow> executor" where
  "executed r x = (case ex_running x of
      None \<Rightarrow> x
    | Some cmd \<Rightarrow>
        x\<lparr>ex_results := take 20 ((case r of
             Inr a \<Rightarrow> \<lparr>cr_command = cmd, cr_success = rp_ok a, cr_output = output_text a\<rparr>
           | Inl e \<Rightarrow> \<lparr>cr_command = cmd, cr_success = False,
                cr_output = (case e of AxiosError _ m \<Rightarrow> m | JsError m \<Rightarrow> m | OtherThrown \<Rightarrow> ''Command failed'')\<rparr>) # ex_results x),
           ex_running := None, ex_command := []\<rparr>)"

definition arrow_up :: "executor \<Rightarrow> executor" where
  "arrow_up x =
     (if ex_history x = [] then x
      else let n = min (ex_index x + 1) (int (length (ex_history x)) - 1)
           in x\<lparr>ex_index := n, ex_command := ex_history x ! nat n\<rparr>)"

definition arrow_down :: "executor \<Rightarrow> executor" where
  "arrow_down x =
     (if 0 < ex_index x then x\<lparr>ex_index := ex_index x - 1, ex_command := ex_history x ! nat (ex_index x - 1)\<rparr>
      else x\<lparr>ex_index := - 1, ex_command := []\<rparr>)"

datatype executor_event = Ex_type string | Ex_run | Ex_up | Ex_down | Ex_answer "thrown + execute_response"

text \<open>The field is disabled while a command runs.\<close>

definition executor_step :: "string \<Rightarrow> string \<Rightarrow> executor_event \<Rightarrow> executor \<Rightarrow> executor" where
  "executor_step t dev e x = (case e of
      Ex_answer r \<Rightarrow> executed r x
    | _ \<Rightarrow> if ex_running x \<noteq> None then x else (case e of
        Ex_type s \<Rightarrow> x\<lparr>ex_command := s\<rparr>
      | Ex_run \<Rightarrow> executeCommand t dev x
      | Ex_up \<Rightarrow> arrow_up x
      | Ex_down \<Rightarrow> arrow_down x
      | _ \<Rightarrow> x))"

section \<open>Diagnostic commands\<close>

definition arg :: "string \<Rightarrow> string \<Rightarrow> string" where
  "arg k v = k @ ''='' @ v"

definition arg_if :: "bool \<Rightarrow> string \<Rightarrow> string \<Rightarrow> string list" where
  "arg_if b k v = (if b then [arg k v] else [])"

record ping_form =
  pg_target :: string
  pg_count :: string
  pg_size :: string
  pg_srcAddress :: string
  pg_iface :: string

definition ping_parts :: "ping_form \<Rightarrow> string list" where
  "ping_parts f = [''/ping'', arg ''address'' (pg_target f), arg ''count'' (pg_count f)]
     @ arg_if (pg_size f \<noteq> ''64'') ''size'' (pg_size f) @ arg_if (pg_srcAddress f \<noteq> []) ''src-address'' (pg_srcAddress f)
     @ arg_if (pg_iface f \<noteq> []) ''interface'' (pg_iface f)"

record torch_form =
  tf_iface :: string
  tf_src :: string
  tf_dst :: string
  tf_protocol :: string
  tf_port :: string

definition torch_parts :: "torch_form \<Rightarrow> string list" where
  "torch_parts f = [''/tool/torch'', arg ''interface'' (tf_iface f), ''duration=3s'']
     @ arg_if (tf_src f \<noteq> []) ''src-address'' (tf_src f) @ arg_if (tf_dst f \<noteq> []) ''dst-address'' (tf_dst f)
     @ arg_if (tf_protocol f \<noteq> []) ''protocol'' (tf_protocol f) @ arg_if (tf_port f \<noteq> []) ''port'' (tf_port f)"

record trace_form =
  tr_target :: string
  tr_maxHops :: string
  tr_timeout :: string
  tr_protocol :: string

definition trace_parts :: "trace_form \<Rightarrow> string list" where
  "trace_parts f = [''/tool/traceroute'', arg ''address'' (tr_target f), ''count=3'']
     @ arg_if (tr_maxHops f \<noteq> ''30'') ''max-hops'' (tr_maxHops f)
     @ arg_if (tr_timeout f \<noteq> ''1000'') ''timeout'' (tr_timeout f @ ''ms'')
     @ arg_if (tr_protocol f \<noteq> ''icmp'') ''protocol'' (tr_protocol f)"

record bw_form =
  bw_target :: string
  bw_direction :: string
  bw_protocol :: string
  bw_duration :: string
  bw_username :: string
  bw_password :: string

definition bw_parts :: "bw_form \<Rightarrow> string list" where
  "bw_parts f = [''/tool/bandwidth-test'', arg ''address'' (bw_target f), arg ''direction'' (bw_direction f),
       arg ''protocol'' (bw_protocol f), arg ''duration'' (bw_duration f @ ''s'')]
     @ arg_if (bw_username f \<noteq> []) ''user'' (bw_username f) @ arg_if (bw_password f \<noteq> []) ''password'' (bw_password f)"

text \<open>\<open>handleRun\<close>: a blank target is not run; the torch has none.\<close>

definition tool_request :: "string \<Rightarrow> string \<Rightarrow> string option \<Rightarrow> string list \<Rightarrow> api_request option" where
  "tool_request t dev target parts =
     (if (case target of Some s \<Rightarrow> js_trim s = [] | None \<Rightarrow> False) then None
      else Some (configEditorApi t (Editor_execute dev (join '' '' parts))))"

definition hop_status :: "entry \<Rightarrow> string" where
  "hop_status d = str_or (field d ''status'') (if field d ''address'' \<noteq> [] then ''ok'' else ''timeout'')"

record ping_row =
  pr_host :: string
  pr_seq :: string
  pr_ttl :: string
  pr_time :: string
  pr_status :: string

definition ping_row_of :: "string \<Rightarrow> entry \<Rightarrow> ping_row" where
  "ping_row_of target d = \<lparr>pr_host = field_or d ''host'' target, pr_seq = str_or (field d ''seq'') (field d ''#''),
     pr_ttl = field d ''ttl'', pr_time = field d ''time'',
     pr_status = str_or (field d ''status'') (if field d ''time'' \<noteq> [] then ''ok'' else ''timeout'')\<rparr>"

definition ping_received :: "ping_row list \<Rightarrow> nat" where
  "ping_received rows = length (filter (\<lambda>r. pr_status r \<noteq> ''timeout'' \<and> pr_time r \<noteq> []) rows)"

definition torch_rows :: "entry list \<Rightarrow> entry list" where
  "torch_rows ds = map (\<lambda>d. [(''srcAddress'', field d ''src-address''), (''dstAddress'', field d ''dst-address''),
       (''protocol'', str_or (field d ''ip-protocol'') (field d ''protocol'')), (''srcPort'', field d ''src-port''),
       (''dstPort'', field d ''dst-port''), (''txRate'', str_or (field d ''tx-rate'') (field d ''tx'')),
       (''rxRate'', str_or (field d ''rx-rate'') (field d ''rx'')), (''tx'', field d ''tx-packets''), (''rx'', field d ''rx-packets'')])
     (filter (\<lambda>d. field d ''src-address'' \<noteq> [] \<or> field d ''dst-address'' \<noteq> []) ds)"

definition hop_row :: "entry \<Rightarrow> entry" where
  "hop_row d = [(''hop'', str_or (field d ''#'') (field d ''hop'')), (''address'', str_or (field d ''address'') (field d ''host'')),
     (''hostname'', field d ''hostname''), (''rtt1'', str_or (field d ''avg-rtt'') (str_or (field d ''last'') (field d ''time1''))),
     (''rtt2'', field d ''time2''), (''rtt3'', field d ''time3''), (''loss'', str_or (field d ''loss'') (field d ''packet-loss'')),
     (''status'', hop_status d)]"

definition bw_row :: "string \<Rightarrow> entry \<Rightarrow> entry" where
  "bw_row direction d = [(''direction'', field_or d ''direction'' direction),
     (''txRate'', str_or (field d ''tx-total-average'') (str_or (field d ''tx-current'') (field d ''tx-10-second-average''))),
     (''rxRate'', str_or (field d ''rx-total-average'') (str_or (field d ''rx-current'') (field d ''rx-10-second-average''))),
     (''txCurrent'', field d ''tx-current''), (''rxCurrent'', field d ''rx-current''),
     (''lostPackets'', field_or d ''lost-packets'' ''0''), (''status'', field_or d ''status'' ''done'')]"

section \<open>Properties of the page\<close>

definition at_rest :: "editor_page \<Rightarrow> bool" where
  "at_rest p \<longleftrightarrow> \<not> ep_formOpen p \<and> \<not> ep_deleteOpen p \<and> ep_sent p = []"

interpretation viewer: event_machine "page_step t False" at_rest
proof
  fix p e
  assume "at_rest p"
  then show "at_rest (page_step t False e p)"
    by (cases e) (auto simp: page_step_def at_rest_def select_device_def Let_def split: sum.splits)
qed

text \<open>What one event sends.\<close>

definition write_of :: "page_event \<Rightarrow> editor_page \<Rightarrow> editor_api_call \<Rightarrow> bool" where
  "write_of e p c \<longleftrightarrow> (\<exists>dev. ep_device p = Some dev \<and>
     (e = Ep_submit \<and> ep_formOpen p \<and>
        (\<exists>ps. c = Editor_addEntry dev (ep_path p) ps \<and> ep_formMode p = Add_mode
          \<or> (\<exists>en. ep_editing p = Some en \<and> field en ''.id'' \<noteq> [] \<and> c = Editor_setEntry dev (ep_path p) (Some (field en ''.id'')) ps))
      \<or> e = Ep_confirm \<and> ep_deleteOpen p
        \<and> (\<exists>en. ep_deleting p = Some en \<and> field en ''.id'' \<noteq> [] \<and> c = Editor_removeEntry dev (ep_path p) (field en ''.id''))))"

lemma submit_sends:
  "ep_sent (form_handleSubmit t dev p) = ep_sent p
   \<or> (\<exists>c. ep_sent (form_handleSubmit t dev p) = ep_sent p @ [configEditorApi t c]
       \<and> (\<exists>ps. c = Editor_addEntry dev (ep_path p) ps \<and> ep_formMode p = Add_mode
          \<or> (\<exists>en. ep_editing p = Some en \<and> field en ''.id'' \<noteq> [] \<and> c = Editor_setEntry dev (ep_path p) (Some (field en ''.id'')) ps)))"
  by (cases "ep_formMode p"; cases "ep_editing p")
    (auto simp: form_handleSubmit_def handleFormSubmit_def simp del: configEditorApi.simps)


lemma obj_set_fresh: "k \<notin> set (obj_keys ps) \<Longrightarrow> obj_set k v ps = ps @ [(k, v)]"
  by (induction ps) (auto simp: obj_keys_def)

lemma submit_edit_all: "obj_wf vs \<Longrightarrow> submit_properties Edit_mode vs = vs"
proof -
  have "foldl (\<lambda>ps (k, v). obj_set k v ps) acc vs = acc @ vs" if "distinct (obj_keys (acc @ vs))" for acc vs :: "string obj"
    using that
  proof (induction vs arbitrary: acc)
    case (Cons x vs)
    then show ?case by (cases x) (simp add: obj_set_fresh obj_keys_def)
  qed simp
  from this [of "[]" vs] show "obj_wf vs \<Longrightarrow> ?thesis" by (simp add: submit_properties_def obj_wf_def)
qed

text \<open>The form never takes over the entry it edits. Its values are set when a device is chosen, before any entry is known,
  so every field of an entry opened for editing is shown blank; and they are never reset, so that saving one entry after another
  sends for the second what was typed for the first.\<close>
theorem form_values_leak:
  assumes "field a ''.id'' \<noteq> []" "field b ''.id'' \<noteq> []"
  shows "let start = page_step t True (Ep_select dev []) page_init;
             one = fold (page_step t True) [Ep_edit a, Ep_value k v, Ep_submit, Ep_answer 0 (Inr ())] start;
             two = fold (page_step t True) [Ep_edit b, Ep_submit] one
         in field (ep_values (page_step t True (Ep_edit a) start)) f = []
          \<and> ep_sent two = [configEditorApi t (Editor_setEntry dev ''/interface'' (Some (field a ''.id'')) (entry_json [(k, v)])),
                           configEditorApi t (Editor_setEntry dev ''/interface'' (Some (field b ''.id'')) (entry_json [(k, v)]))]"
  using assms
  by (simp add: page_step_def page_init_def select_device_def init_values_def editableFields_def entry_columns_def ep_handleEdit_def
      form_handleSubmit_def handleFormSubmit_def submit_properties_def field_def [of "[]"] Let_def del: configEditorApi.simps)

theorem form_values_leak_witness:
  "last (ep_sent (fold (page_step ''t1'' True) [Ep_select ''d1'' [], Ep_edit [(''.id'', ''*1''), (''name'', ''a'')], Ep_value ''mtu'' ''9000'',
      Ep_submit, Ep_answer 0 (Inr ()), Ep_edit [(''.id'', ''*2''), (''name'', ''b'')], Ep_submit] page_init))
   = configEditorApi ''t1'' (Editor_setEntry ''d1'' ''/interface'' (Some ''*2'') (entry_json [(''mtu'', ''9000'')]))"
proof -
  have "field [(''.id'', ''*1''), (''name'', ''a'')] ''.id'' = ''*1''" "field [(''.id'', ''*2''), (''name'', ''b'')] ''.id'' = ''*2''"
    by code_simp+
  with form_values_leak [of "[(''.id'', ''*1''), (''name'', ''a'')]" "[(''.id'', ''*2''), (''name'', ''b'')]" "''t1''" "''d1''" "''mtu''" "''9000''"]
  show ?thesis by (simp add: Let_def del: configEditorApi.simps)
qed

text \<open>The field \<^verbatim>\<open>comment\<close> is listed among the switches, and a switch writes one of two texts over it.\<close>

lemma comment_is_checkbox: "\<exists>b. renderField en values ''comment'' = Checkbox_control b"
  by (simp add: renderField_def BOOLEAN_FIELDS_def Let_def)

lemma menu_paths_absolute: "list_all (\<lambda>p. startsWith p ''/'') (concat (map menu_leaves MENU_TREE))"
  by code_simp

section \<open>Properties of the command line\<close>

definition executor_inv :: "executor \<Rightarrow> bool" where
  "executor_inv x \<longleftrightarrow> distinct (ex_history x) \<and> length (ex_history x) \<le> 10 \<and> length (ex_results x) \<le> 20
     \<and> - 1 \<le> ex_index x \<and> ex_index x < int (length (ex_history x)) \<and> [] \<notin> set (ex_history x)"

lemma executor_inv_step: "executor_inv x \<Longrightarrow> executor_inv (executor_step t dev e x)"
proof (cases e)
  case Ex_run
  assume inv: "executor_inv x"
  have "distinct (take 10 (c # filter (\<lambda>h. h \<noteq> c) hs))" "[] \<notin> set (take 10 (c # filter (\<lambda>h. h \<noteq> c) hs))"
    if "distinct hs" "[] \<notin> set hs" "c \<noteq> []" for c and hs :: "string list"
    using that distinct_take [of "c # filter (\<lambda>h. h \<noteq> c) hs" 10] by (auto dest: in_set_takeD)
  with inv Ex_run show ?thesis
    by (auto simp: executor_inv_def executor_step_def executeCommand_def Let_def)
next
  case (Ex_answer r)
  assume "executor_inv x"
  with Ex_answer show ?thesis by (simp add: executor_inv_def executor_step_def executed_def split: option.splits)
next
  case Ex_up
  assume "executor_inv x"
  with Ex_up show ?thesis by (cases "ex_history x") (auto simp: executor_inv_def executor_step_def arrow_up_def Let_def)
next
  case Ex_down
  assume "executor_inv x"
  with Ex_down show ?thesis by (auto simp: executor_inv_def executor_step_def arrow_down_def)
qed (simp add: executor_inv_def executor_step_def)

interpretation command_line: event_machine "executor_step t dev" executor_inv
  by unfold_locales (rule executor_inv_step)

lemma up_step: "ex_running y = None \<Longrightarrow> executor_step t dev Ex_up y = arrow_up y"
  by (simp add: executor_step_def)

lemma up_walk:
  assumes "ex_running x = None" "ex_history x \<noteq> []" "ex_index x = - 1"
  shows "ex_running ((executor_step t dev Ex_up ^^ Suc n) x) = None \<and> ex_history ((executor_step t dev Ex_up ^^ Suc n) x) = ex_history x
    \<and> ex_index ((executor_step t dev Ex_up ^^ Suc n) x) = int (min n (length (ex_history x) - 1))
    \<and> ex_command ((executor_step t dev Ex_up ^^ Suc n) x) = ex_history x ! min n (length (ex_history x) - 1)"
proof (induction n)
  case 0
  then show ?case using assms by (cases "ex_history x") (auto simp: executor_step_def arrow_up_def Let_def)
next
  case (Suc n)
  let ?y = "(executor_step t dev Ex_up ^^ Suc n) x"
  have "min (int (min n (length (ex_history x) - 1)) + 1) (int (length (ex_history x)) - 1) = int (min (Suc n) (length (ex_history x) - 1))"
    using assms(2) by (cases "ex_history x") (auto simp: min_def)
  moreover have "(executor_step t dev Ex_up ^^ Suc (Suc n)) x = arrow_up ?y"
    using Suc up_step [of ?y] by (metis comp_apply funpow.simps(2))
  ultimately show ?case using Suc assms(2) by (simp only: arrow_up_def Let_def) simp
qed

text \<open>C40: The command line keeps its history in order. After any run of typing, arrows, commands and answers the history has at
  most ten commands, all different and none blank, there are at most twenty results, and the position lies within the history.
  Running a command puts it first, and from there the up arrow pressed \<open>n + 1\<close> times shows the command run \<open>n\<close> commands
  earlier, or the oldest.\<close>
theorem command_history_spec:
  assumes "x = fold (executor_step t dev) es executor_init" "ex_running x = None" "js_trim (ex_command x) \<noteq> []"
  shows "executor_inv x
    \<and> (let y = fold (executor_step t dev) [Ex_run, Ex_answer r] x in
        hd (ex_history y) = js_trim (ex_command x) \<and> last (ex_sent y) = configEditorApi t (Editor_execute dev (js_trim (ex_command x)))
        \<and> ex_command ((executor_step t dev Ex_up ^^ Suc n) y) = ex_history y ! min n (length (ex_history y) - 1))"
proof
  show "executor_inv x" unfolding assms(1) by (rule command_line.run_inv) (simp add: executor_inv_def executor_init_def)
  let ?y = "fold (executor_step t dev) [Ex_run, Ex_answer r] x"
  have "ex_running ?y = None" "ex_index ?y = - 1" "hd (ex_history ?y) = js_trim (ex_command x)" "ex_history ?y \<noteq> []"
    "last (ex_sent ?y) = configEditorApi t (Editor_execute dev (js_trim (ex_command x)))"
    using assms(2,3) by (simp_all add: executor_step_def executeCommand_def executed_def Let_def)
  then show "let y = ?y in hd (ex_history y) = js_trim (ex_command x) \<and> last (ex_sent y) = configEditorApi t (Editor_execute dev (js_trim (ex_command x)))
        \<and> ex_command ((executor_step t dev Ex_up ^^ Suc n) y) = ex_history y ! min n (length (ex_history y) - 1)"
    using up_walk [where x = ?y and t = t and dev = dev and n = n] by (simp only: Let_def) simp
qed

theorem command_history_spec_witness:
  "ex_command ((executor_step ''t1'' ''d1'' Ex_up ^^ 1) (fold (executor_step ''t1'' ''d1'') [Ex_type '' /log/print '', Ex_run, Ex_answer (Inl OtherThrown)] executor_init))
     = ''/log/print''"
proof -
  let ?x = "fold (executor_step ''t1'' ''d1'') [Ex_type '' /log/print ''] executor_init"
  have "ex_running ?x = None" "js_trim (ex_command ?x) = ''/log/print''"
    and h: "length (ex_history (fold (executor_step ''t1'' ''d1'') [Ex_run, Ex_answer (Inl OtherThrown)] ?x)) = 1" by code_simp+
  then have "js_trim (ex_command ?x) \<noteq> []" by simp
  from command_history_spec [OF refl \<open>ex_running ?x = None\<close> this, of "Inl OtherThrown" 0] h \<open>js_trim (ex_command ?x) = ''/log/print''\<close>
  show ?thesis by (cases "ex_history (fold (executor_step ''t1'' ''d1'') [Ex_run, Ex_answer (Inl OtherThrown)] ?x)") (simp_all add: Let_def)
qed

section \<open>Properties of the diagnostic commands\<close>

abbreviation blank_free :: "string \<Rightarrow> bool" where
  "blank_free s \<equiv> CHR '' '' \<notin> set s"

lemma arg_blank [simp]: "CHR '' '' \<in> set (arg k v) \<longleftrightarrow> CHR '' '' \<in> set k \<or> CHR '' '' \<in> set v"
  by (simp add: arg_def)

lemma words_of_parts: "ps \<noteq> [] \<Longrightarrow> \<forall>s \<in> set ps. blank_free s \<Longrightarrow> split_on (CHR '' '') (join '' '' ps) = ps"
  by (rule split_join)

lemma words_injected:
  assumes "\<forall>s \<in> set (ps @ qs). blank_free s" "blank_free a" "blank_free b"
  shows "split_on (CHR '' '') (join '' '' (ps @ (a @ '' '' @ b) # qs)) = ps @ a # b # qs"
proof -
  have "join '' '' (ps @ (a @ '' '' @ b) # qs) = join '' '' (ps @ a # b # qs)"
  proof (induction ps)
    case Nil
    then show ?case by (cases qs) (simp_all add: join_Cons)
  next
    case (Cons p ps)
    then show ?case by (simp add: join_Cons)
  qed
  then show ?thesis using assms words_of_parts [of "ps @ a # b # qs"] by auto
qed

text \<open>The diagnostic tools pass on what was typed word by word. When no field contains a blank, the words of the command sent are
  the intended command and its arguments. But fields are neither quoted nor checked: a target with a blank turns into an
  address and a further argument of the user's choice, of the same command.\<close>
theorem tool_command_words:
  "(blank_free (pg_target f) \<and> blank_free (pg_count f) \<and> blank_free (pg_size f) \<and> blank_free (pg_srcAddress f) \<and> blank_free (pg_iface f) \<longrightarrow>
      split_on (CHR '' '') (join '' '' (ping_parts f)) = ping_parts f
      \<and> (\<forall>x. blank_free x \<longrightarrow> split_on (CHR '' '') (join '' '' (ping_parts (f\<lparr>pg_target := pg_target f @ '' '' @ x\<rparr>)))
           = [''/ping'', arg ''address'' (pg_target f), x] @ drop 2 (ping_parts f)))
   \<and> (blank_free (tr_target r) \<and> blank_free (tr_maxHops r) \<and> blank_free (tr_timeout r) \<and> blank_free (tr_protocol r) \<longrightarrow>
      split_on (CHR '' '') (join '' '' (trace_parts r)) = trace_parts r)
   \<and> (blank_free (tf_iface h) \<and> blank_free (tf_src h) \<and> blank_free (tf_dst h) \<and> blank_free (tf_protocol h) \<and> blank_free (tf_port h) \<longrightarrow>
      split_on (CHR '' '') (join '' '' (torch_parts h)) = torch_parts h)
   \<and> (blank_free (bw_target w) \<and> blank_free (bw_direction w) \<and> blank_free (bw_protocol w) \<and> blank_free (bw_duration w)
        \<and> blank_free (bw_username w) \<and> blank_free (bw_password w) \<longrightarrow>
      split_on (CHR '' '') (join '' '' (bw_parts w)) = bw_parts w)"
proof (intro conjI impI allI)
  assume f: "blank_free (pg_target f) \<and> blank_free (pg_count f) \<and> blank_free (pg_size f) \<and> blank_free (pg_srcAddress f) \<and> blank_free (pg_iface f)"
  then show "split_on (CHR '' '') (join '' '' (ping_parts f)) = ping_parts f"
    by (intro words_of_parts) (auto simp: ping_parts_def arg_if_def split: if_splits)
  fix x :: string
  assume x: "blank_free x"
  have "ping_parts (f\<lparr>pg_target := pg_target f @ '' '' @ x\<rparr>)
      = [''/ping''] @ (arg ''address'' (pg_target f) @ '' '' @ x) # drop 2 (ping_parts f)"
    by (simp add: ping_parts_def arg_def arg_if_def)
  moreover have "\<forall>s \<in> set ([''/ping''] @ drop 2 (ping_parts f)). blank_free s"
    using f by (auto simp: ping_parts_def arg_if_def split: if_splits)
  ultimately show "split_on (CHR '' '') (join '' '' (ping_parts (f\<lparr>pg_target := pg_target f @ '' '' @ x\<rparr>)))
           = [''/ping'', arg ''address'' (pg_target f), x] @ drop 2 (ping_parts f)"
    using words_injected [of "[''/ping'']" "drop 2 (ping_parts f)" "arg ''address'' (pg_target f)" x] f x by simp
qed ((rule words_of_parts; auto simp: trace_parts_def torch_parts_def bw_parts_def arg_if_def split: if_splits)+)

theorem tool_command_words_witness:
  "split_on (CHR '' '') (join '' '' (ping_parts \<lparr>pg_target = ''8.8.8.8 count=100000'', pg_count = ''4'', pg_size = ''64'', pg_srcAddress = [], pg_iface = []\<rparr>))
     = [''/ping'', ''address=8.8.8.8'', ''count=100000'', ''count=4'']"
proof -
  let ?f = "\<lparr>pg_target = ''8.8.8.8'', pg_count = ''4'', pg_size = ''64'', pg_srcAddress = [], pg_iface = []\<rparr>"
  have "blank_free (pg_target ?f) \<and> blank_free (pg_count ?f) \<and> blank_free (pg_size ?f) \<and> blank_free (pg_srcAddress ?f) \<and> blank_free (pg_iface ?f)"
    "blank_free ''count=100000''" by simp_all
  with tool_command_words [of ?f] show ?thesis by (auto simp: ping_parts_def arg_def arg_if_def)
qed

end
