(* ===== verification/Tables.thy ===== *)
theory Tables
  imports Onboarding "HOL-Library.Multiset" "HOL-Library.List_Lexorder"
begin

text \<open>
  The tables that search, sort, select and page: clients of a device (\<^verbatim>\<open>components/network/ClientsTab.tsx\<close>),
  sites (\<^verbatim>\<open>components/sites/SiteTable.tsx\<close>), the fleet (\<^verbatim>\<open>components/fleet/FleetTable.tsx\<close>), the audit and
  transparency logs (\<^verbatim>\<open>components/audit/AuditLogTable.tsx\<close>, \<^verbatim>\<open>components/transparency/TransparencyLogTable.tsx\<close>)
  and the device log (\<^verbatim>\<open>components/network/LogsTab.tsx\<close>).
\<close>

section \<open>Sorting\<close>

text \<open>
  \<open>Array.prototype.sort\<close> is stable; for a comparator that is a total preorder its result is therefore determined,
  and insertion computes it. The locale \<open>row_comparator\<close> is what a comparator must promise.
\<close>

fun insert_cmp :: "('a \<Rightarrow> 'a \<Rightarrow> int) \<Rightarrow> 'a \<Rightarrow> 'a list \<Rightarrow> 'a list" where
  "insert_cmp cmp x [] = [x]"
| "insert_cmp cmp x (y # ys) = (if cmp x y \<le> 0 then x # y # ys else y # insert_cmp cmp x ys)"

definition js_sort :: "('a \<Rightarrow> 'a \<Rightarrow> int) \<Rightarrow> 'a list \<Rightarrow> 'a list" where
  "js_sort cmp xs = foldr (insert_cmp cmp) xs []"

lemma mset_insert_cmp [simp]: "mset (insert_cmp cmp x ys) = add_mset x (mset ys)"
  by (induction ys) auto

lemma mset_js_sort [simp]: "mset (js_sort cmp xs) = mset xs"
  by (induction xs) (simp_all add: js_sort_def)

lemma set_insert_cmp [simp]: "set (insert_cmp cmp x ys) = insert x (set ys)"
  by (metis mset_insert_cmp set_mset_add_mset_insert set_mset_mset)

locale row_comparator =
  fixes cmp :: "'a \<Rightarrow> 'a \<Rightarrow> int"
  assumes cmp_swap: "cmp y x < 0 \<longleftrightarrow> 0 < cmp x y"
    and cmp_trans: "cmp x y \<le> 0 \<Longrightarrow> cmp y z \<le> 0 \<Longrightarrow> cmp x z \<le> 0"
begin

lemma cmp_total: "\<not> cmp x y \<le> 0 \<Longrightarrow> cmp y x \<le> 0"
  using cmp_swap [of y x] by auto

lemma cmp_zero: "cmp x y = 0 \<longleftrightarrow> cmp x y \<le> 0 \<and> cmp y x \<le> 0"
  using cmp_swap [of x y] cmp_swap [of y x] by auto

lemma sorted_insert: "sorted_wrt (\<lambda>a b. cmp a b \<le> 0) ys \<Longrightarrow> sorted_wrt (\<lambda>a b. cmp a b \<le> 0) (insert_cmp cmp x ys)"
  by (induction ys) (auto dest: cmp_total intro: cmp_trans)

lemma sort_sorted: "sorted_wrt (\<lambda>a b. cmp a b \<le> 0) (js_sort cmp xs)"
  by (induction xs) (simp_all add: js_sort_def sorted_insert)

lemma insert_stable:
  "filter (\<lambda>y. cmp z y = 0) (insert_cmp cmp x ys) = (if cmp z x = 0 then x # filter (\<lambda>y. cmp z y = 0) ys else filter (\<lambda>y. cmp z y = 0) ys)"
proof (induction ys)
  case (Cons y ys)
  have "cmp z y \<noteq> 0" if "\<not> cmp x y \<le> 0" "cmp z x = 0"
    using that cmp_trans [of x z y] cmp_zero by fastforce
  with Cons show ?case by auto
qed simp

text \<open>Rows that compare equal keep their order.\<close>

lemma sort_stable: "filter (\<lambda>y. cmp z y = 0) (js_sort cmp xs) = filter (\<lambda>y. cmp z y = 0) xs"
  by (induction xs) (simp_all add: js_sort_def insert_stable)

end

text \<open>A column with its direction, \<open>sortDir === 'asc' ? cmp : -cmp\<close>, compares again.\<close>

definition directed :: "bool \<Rightarrow> ('a \<Rightarrow> 'a \<Rightarrow> int) \<Rightarrow> 'a \<Rightarrow> 'a \<Rightarrow> int" where
  "directed asc cmp x y = (if asc then cmp x y else - cmp x y)"

locale sort_column = row_comparator cmp for cmp :: "'a \<Rightarrow> 'a \<Rightarrow> int" +
  fixes asc :: bool

sublocale sort_column \<subseteq> dir: row_comparator "directed asc cmp"
proof
  fix x y z
  show "directed asc cmp y x < 0 \<longleftrightarrow> 0 < directed asc cmp x y"
    using cmp_swap [of y x] cmp_swap [of x y] by (auto simp: directed_def)
  have le: "0 \<le> cmp a b \<longleftrightarrow> cmp b a \<le> 0" for a b using cmp_swap [of a b] by auto
  show "directed asc cmp x y \<le> 0 \<Longrightarrow> directed asc cmp y z \<le> 0 \<Longrightarrow> directed asc cmp x z \<le> 0"
    using cmp_trans [of x y z] cmp_trans [of z y x] by (auto simp: directed_def le)
qed

context sort_column
begin

lemma directed_axioms: "row_comparator (directed asc cmp)"
  by (rule dir.row_comparator_axioms)

end

section \<open>Clients of a device\<close>

text \<open>\<open>signal.match(/-?\d+/)\<close>: the first run of digits, with the minus sign right before it.\<close>

fun first_number :: "string \<Rightarrow> int option" where
  "first_number [] = None"
| "first_number (c # cs) =
     (if is_digit 10 c then Some (int (radix_val 10 (takeWhile (is_digit 10) (c # cs))))
      else if c = CHR ''-'' \<and> cs \<noteq> [] \<and> is_digit 10 (hd cs) then Some (- int (radix_val 10 (takeWhile (is_digit 10) cs)))
      else first_number cs)"

definition parseSignalDbm :: "string option \<Rightarrow> int option" where
  "parseSignalDbm signal = (case signal of None \<Rightarrow> None | Some s \<Rightarrow> first_number s)"

definition signalLabel :: "int \<Rightarrow> string" where
  "signalLabel dbm = (if - 65 < dbm then ''Good'' else if - 75 \<le> dbm then ''Fair'' else ''Poor'')"

record client_device =
  cd_mac :: string
  cd_ip :: string
  cd_interface :: string
  cd_hostname :: "string option"
  cd_status :: string
  cd_is_wireless :: bool

datatype client_field = Sort_ip | Sort_mac | Sort_hostname | Sort_interface | Sort_status

record clients_tab =
  ct_sortField :: client_field
  ct_asc :: bool
  ct_searchQuery :: string
  ct_expandedMac :: "string option"

definition clients_init :: clients_tab where
  "clients_init = \<lparr>ct_sortField = Sort_ip, ct_asc = True, ct_searchQuery = [], ct_expandedMac = None\<rparr>"

definition clients_handleSort :: "client_field \<Rightarrow> clients_tab \<Rightarrow> clients_tab" where
  "clients_handleSort f t = (if f = ct_sortField t then t\<lparr>ct_asc := \<not> ct_asc t\<rparr> else t\<lparr>ct_sortField := f, ct_asc := True\<rparr>)"

definition client_matches :: "string \<Rightarrow> client_device \<Rightarrow> bool" where
  "client_matches query c \<longleftrightarrow> str_includes (toLowerCase (cd_ip c)) query \<or> str_includes (toLowerCase (cd_mac c)) query
     \<or> (case cd_hostname c of Some h \<Rightarrow> h \<noteq> [] \<and> str_includes (toLowerCase h) query | None \<Rightarrow> False)"

text \<open>\<open>parts[i] || 0\<close> for the numbers of the dotted parts: missing parts and \<open>NaN\<close> count as zero.\<close>

definition ip_part :: "string \<Rightarrow> nat \<Rightarrow> int" where
  "ip_part ip i = (let ps = split_on (CHR ''.'') ip in
     if i < length ps then (case Number_int (ps ! i) of Some n \<Rightarrow> n | None \<Rightarrow> 0) else 0)"

fun first_difference :: "int list \<Rightarrow> int" where
  "first_difference [] = 0"
| "first_difference (d # ds) = (if d \<noteq> 0 then d else first_difference ds)"

definition compare_ip :: "string \<Rightarrow> string \<Rightarrow> int" where
  "compare_ip a b = first_difference (map (\<lambda>i. ip_part a i - ip_part b i) [0, 1, 2, 3])"

text \<open>\<open>localeCompare\<close> belongs to the browser's locale data: \<open>lc\<close> is a parameter.\<close>

definition compare_client :: "(string \<Rightarrow> string \<Rightarrow> int) \<Rightarrow> client_field \<Rightarrow> client_device \<Rightarrow> client_device \<Rightarrow> int" where
  "compare_client lc f a b = (case f of
      Sort_ip \<Rightarrow> compare_ip (cd_ip a) (cd_ip b)
    | Sort_mac \<Rightarrow> lc (cd_mac a) (cd_mac b)
    | Sort_hostname \<Rightarrow> lc (case cd_hostname a of None \<Rightarrow> [] | Some h \<Rightarrow> h) (case cd_hostname b of None \<Rightarrow> [] | Some h \<Rightarrow> h)
    | Sort_interface \<Rightarrow> lc (cd_interface a) (cd_interface b)
    | Sort_status \<Rightarrow> lc (cd_status a) (cd_status b))"

definition clients_filtered :: "clients_tab \<Rightarrow> client_device list \<Rightarrow> client_device list" where
  "clients_filtered t cs =
     (let query = js_trim (toLowerCase (ct_searchQuery t)) in if query \<noteq> [] then filter (client_matches query) cs else cs)"

definition clients_shown :: "(string \<Rightarrow> string \<Rightarrow> int) \<Rightarrow> clients_tab \<Rightarrow> client_device list \<Rightarrow> client_device list" where
  "clients_shown lc t cs = js_sort (directed (ct_asc t) (compare_client lc (ct_sortField t))) (clients_filtered t cs)"

section \<open>Sites\<close>

record site_row =
  sr_id :: string
  sr_name :: string
  sr_device_count :: int
  sr_online_percent :: int

datatype site_field = Site_name | Site_device_count | Site_online_percent

record site_table =
  st_sortBy :: site_field
  st_asc :: bool
  st_deleteTarget :: "site_row option"

definition site_table_init :: site_table where
  "site_table_init = \<lparr>st_sortBy = Site_name, st_asc = True, st_deleteTarget = None\<rparr>"

definition site_handleSort :: "site_field \<Rightarrow> site_table \<Rightarrow> site_table" where
  "site_handleSort f t = (if f = st_sortBy t then t\<lparr>st_asc := \<not> st_asc t\<rparr> else t\<lparr>st_sortBy := f, st_asc := True\<rparr>)"

text \<open>The percentage is compared by difference: it counts in any unit, here an integer one.\<close>

definition compare_site :: "(string \<Rightarrow> string \<Rightarrow> int) \<Rightarrow> site_field \<Rightarrow> site_row \<Rightarrow> site_row \<Rightarrow> int" where
  "compare_site lc f a b = (case f of
      Site_name \<Rightarrow> lc (sr_name a) (sr_name b)
    | Site_device_count \<Rightarrow> sr_device_count a - sr_device_count b
    | Site_online_percent \<Rightarrow> sr_online_percent a - sr_online_percent b)"

definition sites_filtered :: "string \<Rightarrow> site_row list \<Rightarrow> site_row list" where
  "sites_filtered search ss = filter (\<lambda>s. str_includes (toLowerCase (sr_name s)) (toLowerCase search)) ss"

definition sites_shown :: "(string \<Rightarrow> string \<Rightarrow> int) \<Rightarrow> string \<Rightarrow> site_table \<Rightarrow> site_row list \<Rightarrow> site_row list" where
  "sites_shown lc search t ss = js_sort (directed (st_asc t) (compare_site lc (st_sortBy t))) (sites_filtered search ss)"

definition site_delete :: "string \<Rightarrow> site_table \<Rightarrow> api_request option" where
  "site_delete tenantId t = map_option (\<lambda>s. sitesApi tenantId (Sites_delete (sr_id s))) (st_deleteTarget t)"

section \<open>Pages\<close>

text \<open>\<open>Math.ceil(total / size)\<close>; the quotient of integers below \<open>2\<^sup>5\<^sup>2\<close> is rounded to no other ceiling.\<close>

definition total_pages :: "nat \<Rightarrow> nat \<Rightarrow> nat" where
  "total_pages tot psz = (tot + psz - 1) div psz"

definition startItem :: "nat \<Rightarrow> nat \<Rightarrow> nat" where
  "startItem page psz = (page - 1) * psz + 1"

definition endItem :: "nat \<Rightarrow> nat \<Rightarrow> nat \<Rightarrow> nat" where
  "endItem page psz tot = min (page * psz) tot"

text \<open>The state of a log table: the page, its size and the filters.\<close>

record log_table =
  lt_page :: nat
  lt_perPage :: nat
  lt_justification :: string
  lt_action :: string
  lt_dateFrom :: string
  lt_dateTo :: string
  lt_userSearch :: string
  lt_expandedId :: "string option"

definition log_table_init :: log_table where
  "log_table_init = \<lparr>lt_page = 1, lt_perPage = 50, lt_justification = [], lt_action = [], lt_dateFrom = [], lt_dateTo = [],
     lt_userSearch = [], lt_expandedId = None\<rparr>"

datatype log_event =
    Log_justification string | Log_action string | Log_from string | Log_to string | Log_user string
  | Log_perPage nat | Log_first | Log_previous | Log_next | Log_last | Log_toggle string

text \<open>\<open>tot\<close> is the number of entries of the last answer.\<close>

fun log_step :: "nat \<Rightarrow> log_event \<Rightarrow> log_table \<Rightarrow> log_table" where
  "log_step tot (Log_justification v) t = t\<lparr>lt_justification := v, lt_page := 1\<rparr>"
| "log_step tot (Log_action v) t = t\<lparr>lt_action := v, lt_page := 1\<rparr>"
| "log_step tot (Log_from v) t = t\<lparr>lt_dateFrom := v, lt_page := 1\<rparr>"
| "log_step tot (Log_to v) t = t\<lparr>lt_dateTo := v, lt_page := 1\<rparr>"
| "log_step tot (Log_user v) t = t\<lparr>lt_userSearch := v\<rparr>"
| "log_step tot (Log_perPage n) t = (if n \<in> set [25, 50, 100] then t\<lparr>lt_perPage := n, lt_page := 1\<rparr> else t)"
| "log_step tot Log_first t = (if lt_page t \<le> 1 then t else t\<lparr>lt_page := 1\<rparr>)"
| "log_step tot Log_previous t = (if lt_page t \<le> 1 then t else t\<lparr>lt_page := lt_page t - 1\<rparr>)"
| "log_step tot Log_next t = (if total_pages tot (lt_perPage t) \<le> lt_page t then t else t\<lparr>lt_page := lt_page t + 1\<rparr>)"
| "log_step tot Log_last t =
     (if total_pages tot (lt_perPage t) \<le> lt_page t then t else t\<lparr>lt_page := total_pages tot (lt_perPage t)\<rparr>)"
| "log_step tot (Log_toggle i) t = t\<lparr>lt_expandedId := (if lt_expandedId t = Some i then None else Some i)\<rparr>"

text \<open>The parameters of the query and of the export; \<open>isoTime\<close> stands for \<open>new Date(s).toISOString()\<close>, which depends on
  the time zone.\<close>

definition log_filters :: "(string \<Rightarrow> string) \<Rightarrow> log_table \<Rightarrow> json obj" where
  "log_filters isoTime t = opt_str ''justification'' (Some (lt_justification t)) @ opt_str ''action'' (Some (lt_action t))
     @ (if lt_dateFrom t \<noteq> [] then [(''date_from'', JStr (isoTime (lt_dateFrom t)))] else [])
     @ (if lt_dateTo t \<noteq> [] then [(''date_to'', JStr (isoTime (lt_dateTo t @ ''T23:59:59'')))] else [])"

definition log_params :: "(string \<Rightarrow> string) \<Rightarrow> log_table \<Rightarrow> json obj" where
  "log_params isoTime t = [(''page'', JNum (int (lt_page t))), (''per_page'', JNum (int (lt_perPage t)))] @ log_filters isoTime t"

text \<open>The search for a user works on the page that was loaded.\<close>

definition filteredItems :: "log_table \<Rightarrow> string option list \<Rightarrow> string option list" where
  "filteredItems t emails = (if lt_userSearch t = [] then emails
     else filter (\<lambda>e. case e of Some m \<Rightarrow> str_includes (toLowerCase m) (toLowerCase (lt_userSearch t)) | None \<Rightarrow> False) emails)"

definition formatRelativeTime :: "int \<Rightarrow> int \<Rightarrow> string" where
  "formatRelativeTime now then' =
     (let diffMs = now - then'; seconds = diffMs div 1000; minutes = seconds div 60; hours = minutes div 60;
          days = hours div 24; weeks = days div 7; months = days div 30
      in if diffMs < 0 then ''just now'' else if seconds < 60 then ''just now''
         else if minutes < 60 then string_of_int minutes @ ''m ago''
         else if hours < 24 then string_of_int hours @ ''h ago''
         else if days < 7 then string_of_int days @ ''d ago''
         else if weeks < 4 then string_of_int weeks @ ''w ago''
         else string_of_int months @ ''mo ago'')"

section \<open>The fleet\<close>

record fleet_search =
  fs_search :: "string option"
  fs_status :: "string option"
  fs_deviceType :: "string option"
  fs_sortBy :: string
  fs_asc :: bool
  fs_page :: nat
  fs_pageSize :: nat

definition fleet_search_init :: fleet_search where
  "fleet_search_init = \<lparr>fs_search = None, fs_status = None, fs_deviceType = None, fs_sortBy = ''hostname'', fs_asc = True,
     fs_page = 1, fs_pageSize = 25\<rparr>"

definition fleet_query :: "fleet_search \<Rightarrow> json obj" where
  "fleet_query f = opt ''search'' (map_option JStr (fs_search f)) @ opt ''status'' (map_option JStr (fs_status f))
     @ opt ''device_type'' (map_option JStr (fs_deviceType f))
     @ [(''sort_by'', JStr (fs_sortBy f)), (''sort_dir'', JStr (if fs_asc f then ''asc'' else ''desc'')),
        (''page'', JNum (int (fs_page f))), (''page_size'', JNum (int (fs_pageSize f)))]"

definition fleet_handleSort :: "string \<Rightarrow> fleet_search \<Rightarrow> fleet_search" where
  "fleet_handleSort col f = f\<lparr>fs_asc := (if col = fs_sortBy f then \<not> fs_asc f else True), fs_sortBy := col, fs_page := 1\<rparr>"

text \<open>What the table keeps: the selected devices, the row under the keyboard, the dialog that assigns a site.\<close>

record fleet_table =
  ft_selectedIds :: "string list"
  ft_selectedIndex :: int
  ft_bulkAssignOpen :: bool
  ft_bulkSiteId :: string
  ft_assigning :: bool

definition fleet_table_init :: fleet_table where
  "fleet_table_init = \<lparr>ft_selectedIds = [], ft_selectedIndex = - 1, ft_bulkAssignOpen = False, ft_bulkSiteId = [], ft_assigning = False\<rparr>"

definition toggleSelection :: "string \<Rightarrow> fleet_table \<Rightarrow> fleet_table" where
  "toggleSelection i t = t\<lparr>ft_selectedIds :=
     (if i \<in> set (ft_selectedIds t) then filter (\<lambda>x. x \<noteq> i) (ft_selectedIds t) else ft_selectedIds t @ [i])\<rparr>"

definition toggleSelectAll :: "string list \<Rightarrow> fleet_table \<Rightarrow> fleet_table" where
  "toggleSelectAll items t = t\<lparr>ft_selectedIds :=
     (if length (ft_selectedIds t) = length items \<and> 0 < length items then [] else set_of_list items)\<rparr>"

text \<open>The keys j, k and Enter; the last gives the device to open.\<close>

definition key_j :: "string list \<Rightarrow> fleet_table \<Rightarrow> fleet_table" where
  "key_j items t = (if items = [] then t else t\<lparr>ft_selectedIndex := min (ft_selectedIndex t + 1) (int (length items) - 1)\<rparr>)"

definition key_k :: "string list \<Rightarrow> fleet_table \<Rightarrow> fleet_table" where
  "key_k items t = (if items = [] then t else t\<lparr>ft_selectedIndex := max (ft_selectedIndex t - 1) 0\<rparr>)"

definition key_enter :: "string list \<Rightarrow> fleet_table \<Rightarrow> string option" where
  "key_enter items t = (if 0 \<le> ft_selectedIndex t \<and> ft_selectedIndex t < int (length items)
     then Some (items ! nat (ft_selectedIndex t)) else None)"

definition bulk_assign :: "string \<Rightarrow> fleet_table \<Rightarrow> api_request option \<times> fleet_table" where
  "bulk_assign tenantId t = (if ft_bulkSiteId t = [] \<or> ft_assigning t then (None, t)
     else (Some (sitesApi tenantId (Sites_bulkAssign (ft_bulkSiteId t) (ft_selectedIds t))), t\<lparr>ft_assigning := True\<rparr>))"

definition bulk_assigned :: "bool \<Rightarrow> fleet_table \<Rightarrow> fleet_table" where
  "bulk_assigned ok t = (if ok then t\<lparr>ft_assigning := False, ft_selectedIds := [], ft_bulkAssignOpen := False, ft_bulkSiteId := []\<rparr>
     else t\<lparr>ft_assigning := False\<rparr>)"

section \<open>The device log\<close>

definition getTopicColor :: "string \<Rightarrow> string \<times> string" where
  "getTopicColor topics = (let t = toLowerCase topics in
     if str_includes t ''critical'' \<or> str_includes t ''error'' then (''bg-error/10'', ''text-error'')
     else if str_includes t ''warning'' then (''bg-warning/10'', ''text-warning'')
     else if str_includes t ''info'' then (''bg-accent/10'', ''text-accent'')
     else (''bg-elevated'', ''text-text-muted''))"

definition isErrorEntry :: "string \<Rightarrow> bool" where
  "isErrorEntry topics = (let t = toLowerCase topics in str_includes t ''error'' \<or> str_includes t ''critical'')"

definition TOPIC_OPTIONS :: "string list" where
  "TOPIC_OPTIONS = [''system'', ''firewall'', ''dhcp'', ''wireless'', ''interface'', ''error'', ''warning'', ''info'', ''critical'',
     ''dns'', ''ppp'', ''ipsec'', ''wireguard'', ''ospf'', ''bgp'']"

text \<open>Sorting without a comparator goes by code units.\<close>

definition codes :: "string \<Rightarrow> nat list" where
  "codes s = map of_char s"

definition compare_codes :: "string \<Rightarrow> string \<Rightarrow> int" where
  "compare_codes a b = (if codes a < codes b then - 1 else if codes a = codes b then 0 else 1)"

definition uniqueTopics :: "string list option \<Rightarrow> string list" where
  "uniqueTopics logs = (case logs of
      None \<Rightarrow> TOPIC_OPTIONS
    | Some ts \<Rightarrow> js_sort compare_codes (set_of_list (TOPIC_OPTIONS @
        concat (map (\<lambda>t. map js_trim (split_on (CHR '','') t)) (filter (\<lambda>t. t \<noteq> []) ts)))))"

text \<open>The search field with its delay of 300 milliseconds: the text, the query in use and the pending timer.\<close>

record log_search =
  lsr_input :: string
  lsr_query :: string
  lsr_timer :: "(nat \<times> string) option"

definition log_search_init :: log_search where
  "log_search_init = \<lparr>lsr_input = [], lsr_query = [], lsr_timer = None\<rparr>"

definition fire_timer :: "nat \<Rightarrow> log_search \<Rightarrow> log_search" where
  "fire_timer now s = (case lsr_timer s of
      Some (due, v) \<Rightarrow> if due \<le> now then s\<lparr>lsr_query := v, lsr_timer := None\<rparr> else s
    | None \<Rightarrow> s)"

definition handleSearchChange :: "nat \<times> string \<Rightarrow> log_search \<Rightarrow> log_search" where
  "handleSearchChange e s = (fire_timer (fst e) s)\<lparr>lsr_input := snd e, lsr_timer := Some (fst e + 300, snd e)\<rparr>"

section \<open>Properties of sorted tables\<close>

lemma first_difference_le:
  "first_difference (map (\<lambda>i. p i - q i) is) \<le> 0 \<longleftrightarrow> map p is \<le> map (q :: nat \<Rightarrow> int) is"
  by (induction "is") (auto simp: Cons_le_Cons)

lemma first_difference_uminus: "first_difference (map (\<lambda>i. q i - p i) is) = - first_difference (map (\<lambda>i. p i - q i) is)"
  by (induction "is") auto

lemma directed_comparator: "row_comparator cmp \<Longrightarrow> row_comparator (directed asc cmp)"
proof -
  assume "row_comparator cmp"
  then have "sort_column cmp" by (rule sort_column.intro)
  then show ?thesis by (rule sort_column.directed_axioms)
qed

definition ip_key :: "string \<Rightarrow> int list" where
  "ip_key ip = map (ip_part ip) [0, 1, 2, 3]"

lemma compare_ip_le: "compare_ip a b \<le> 0 \<longleftrightarrow> ip_key a \<le> ip_key b"
  by (simp only: compare_ip_def ip_key_def first_difference_le)

lemma compare_ip_swap: "compare_ip b a = - compare_ip a b"
  unfolding compare_ip_def by (rule first_difference_uminus)

interpretation ip_order: row_comparator compare_ip
proof
  show "compare_ip y x < 0 \<longleftrightarrow> 0 < compare_ip x y" for x y using compare_ip_swap [of y x] by simp
qed (simp add: compare_ip_le)

interpretation code_order: row_comparator compare_codes
  by unfold_locales (auto simp: compare_codes_def split: if_splits)

interpretation ip_column: sort_column "\<lambda>a b. compare_ip (cd_ip a) (cd_ip b)" asc for asc
  by unfold_locales (fact ip_order.cmp_swap, fact ip_order.cmp_trans)

lemma row_comparator_pull: "row_comparator lc \<Longrightarrow> row_comparator (\<lambda>a b. lc (g a) (g b))"
  by (auto simp: row_comparator_def)

lemma client_comparator: "row_comparator lc \<Longrightarrow> row_comparator (compare_client lc f)"
  using row_comparator_pull [of lc "\<lambda>a. case cd_hostname a of None \<Rightarrow> [] | Some h \<Rightarrow> h"]
  by (cases f) (simp_all add: compare_client_def [abs_def] row_comparator_pull ip_column.row_comparator_axioms)

lemma site_comparator: "row_comparator lc \<Longrightarrow> row_comparator (compare_site lc f)"
  by (cases f) (simp_all add: compare_site_def [abs_def] row_comparator_pull, (unfold_locales, auto)+)

lemma js_sort_key: "(\<And>x y. cmp x y \<le> 0 \<longleftrightarrow> k x \<le> k y) \<Longrightarrow> js_sort cmp xs = sort_key k xs"
proof -
  assume le: "\<And>x y. cmp x y \<le> 0 \<longleftrightarrow> k x \<le> k y"
  have "insert_cmp cmp x ys = insort_key k x ys" for x ys by (induction ys) (simp_all add: le)
  then show ?thesis by (simp add: js_sort_def sort_key_def cong: foldr_cong)
qed

text \<open>A table in order: all rows and no others, sorted, and rows that compare equal in their original order.\<close>

definition ordered_rows :: "('a \<Rightarrow> 'a \<Rightarrow> int) \<Rightarrow> 'a list \<Rightarrow> 'a list \<Rightarrow> bool" where
  "ordered_rows cmp rows table \<longleftrightarrow> mset table = mset rows \<and> sorted_wrt (\<lambda>a b. cmp a b \<le> 0) table
     \<and> (\<forall>z. filter (\<lambda>y. cmp z y = 0) table = filter (\<lambda>y. cmp z y = 0) rows)"

lemma ordered_directed: "row_comparator cmp \<Longrightarrow> ordered_rows (directed asc cmp) rows (js_sort (directed asc cmp) rows)"
proof -
  assume "row_comparator cmp"
  then have "row_comparator (directed asc cmp)" by (rule directed_comparator)
  then show ?thesis
    by (simp add: ordered_rows_def row_comparator.sort_sorted row_comparator.sort_stable)
qed


definition table_client :: "string \<Rightarrow> client_device" where
  "table_client ip = \<lparr>cd_mac = ''AA'', cd_ip = ip, cd_interface = ''ether1'', cd_hostname = None, cd_status = ''stale'', cd_is_wireless = False\<rparr>"


lemma topics_sorted: "sorted_wrt (\<lambda>a b. codes a \<le> codes b) (uniqueTopics (Some ts)) \<and> set TOPIC_OPTIONS \<subseteq> set (uniqueTopics (Some ts))"
proof
  have "compare_codes a b \<le> 0 \<longleftrightarrow> codes a \<le> codes b" for a b by (auto simp: compare_codes_def)
  then show "sorted_wrt (\<lambda>a b. codes a \<le> codes b) (uniqueTopics (Some ts))"
    using code_order.sort_sorted by (simp add: uniqueTopics_def)
  have "set (js_sort compare_codes xs) = set xs" for xs by (metis mset_js_sort set_mset_mset)
  then show "set TOPIC_OPTIONS \<subseteq> set (uniqueTopics (Some ts))" by (auto simp: uniqueTopics_def)
qed

section \<open>Properties of pages\<close>

lemma total_pages_le: "0 < psz \<Longrightarrow> 1 \<le> n \<Longrightarrow> n \<le> tot \<Longrightarrow> (n - 1) div psz + 1 \<le> total_pages tot psz"
proof -
  assume a: "0 < psz" "1 \<le> n" "n \<le> tot"
  have "(n - 1) div psz + 1 = (n - 1 + psz) div psz" using a(1) by (simp only: div_add_self2 neq0_conv)
  also have "\<dots> \<le> (tot + psz - 1) div psz" using a by (intro div_le_mono) simp
  finally show ?thesis by (simp add: total_pages_def)
qed

lemma on_page:
  assumes "0 < psz" "1 \<le> p" "1 \<le> n" "n \<le> tot"
  shows "startItem p psz \<le> n \<and> n \<le> endItem p psz tot \<longleftrightarrow> p = (n - 1) div psz + 1"
proof -
  obtain q where p: "p = Suc q" using assms(2) by (cases p) auto
  have "startItem p psz \<le> n \<and> n \<le> endItem p psz tot \<longleftrightarrow> q * psz \<le> n - 1 \<and> n - 1 < Suc q * psz"
    using assms p by (auto simp: startItem_def endItem_def)
  also have "\<dots> \<longleftrightarrow> (n - 1) div psz = q"
    using assms(1) div_nat_eqI [of psz q "n - 1"] div_times_less_eq_dividend [of "n - 1" psz] dividend_less_div_times [of psz "n - 1"]
    by (auto simp: mult.commute)
  finally show ?thesis using p by auto
qed

definition log_inv :: "nat \<Rightarrow> log_table \<Rightarrow> bool" where
  "log_inv tot t \<longleftrightarrow> 1 \<le> lt_page t \<and> lt_page t \<le> max 1 (total_pages tot (lt_perPage t)) \<and> lt_perPage t \<in> {25, 50, 100}"

interpretation log_pages: event_machine "log_step tot" "log_inv tot"
proof
  fix t e
  assume "log_inv tot t"
  then show "log_inv tot (log_step tot e t)" by (cases e) (auto simp: log_inv_def)
qed

text \<open>Paging shows every entry once. While the number of entries stays the same, no sequence of clicks, filters and page sizes
  leaves the existing pages; and the items announced for the pages from first to last are each entry from one to the total on
  exactly one page.\<close>
theorem pages_partition:
  "log_inv tot (fold (log_step tot) es log_table_init)
   \<and> (0 < psz \<and> 1 \<le> n \<and> n \<le> tot \<longrightarrow>
      (\<exists>!p. 1 \<le> p \<and> p \<le> total_pages tot psz \<and> startItem p psz \<le> n \<and> n \<le> endItem p psz tot))"
proof
  show "log_inv tot (fold (log_step tot) es log_table_init)"
    by (rule log_pages.run_inv) (simp add: log_inv_def log_table_init_def)
  show "0 < psz \<and> 1 \<le> n \<and> n \<le> tot \<longrightarrow>
      (\<exists>!p. 1 \<le> p \<and> p \<le> total_pages tot psz \<and> startItem p psz \<le> n \<and> n \<le> endItem p psz tot)"
    using on_page [of psz _ n tot] total_pages_le [of psz n tot] by (metis le_add2)
qed

theorem pages_partition_witness:
  "\<exists>!p. 1 \<le> p \<and> p \<le> total_pages 51 25 \<and> startItem p 25 \<le> 51 \<and> (51::nat) \<le> endItem p 25 51"
  using pages_partition [of 51 "[]" 25 51] by simp

text \<open>Four weeks and more are shown in months of thirty days, which is no month at all before the thirtieth day.\<close>

lemma zero_months_ago:
  assumes "28 \<le> d" "d < 30"
  shows "formatRelativeTime (then' + d * 86400000) then' = ''0mo ago''"
proof -
  from assms have "d = 28 \<or> d = 29" by linarith
  moreover have "string_of_int 0 = ''0''" by code_simp
  ultimately show ?thesis by (auto simp: formatRelativeTime_def Let_def)
qed

section \<open>Properties of selection and search\<close>

lemma enter_opens_row: "key_enter items t = Some d \<Longrightarrow> d \<in> set items"
  by (auto simp: key_enter_def split: if_splits)

lemma select_all_size: "length (ft_selectedIds t) = length items \<Longrightarrow> items \<noteq> [] \<Longrightarrow> ft_selectedIds (toggleSelectAll items t) = []"
  by (simp add: toggleSelectAll_def)

lemma search_settles:
  assumes "es \<noteq> []" "fst (last es) + 300 \<le> now"
  shows "lsr_query (fire_timer now (fold handleSearchChange es s)) = snd (last es)"
  using assms by (cases es rule: rev_cases) (auto simp: handleSearchChange_def fire_timer_def split: option.splits if_splits)

end
