(* ===== verification/SnmpProfiles.thy ===== *)
theory SnmpProfiles
  imports Onboarding "HOL-Library.Multiset" "HOL-Library.Sublist"
begin

text \<open>
  The SNMP profile editor (\<^verbatim>\<open>components/settings/SNMPProfileEditorPage.tsx\<close>) and the tree of object identifiers it
  selects from (\<^verbatim>\<open>components/settings/OIDTreeBrowser.tsx\<close>). A profile collects identifiers in three poll groups.
\<close>

section \<open>The tree browser\<close>

text \<open>A node of a parsed MIB; absent \<open>children\<close> are an empty list.\<close>

datatype oid_node = OIDNode (node_oid: string) (node_name: string) (node_type: "string option") (node_children: "oid_node list")

record flat_row =
  fr_node :: oid_node
  fr_depth :: nat
  fr_hasChildren :: bool
  fr_isExpanded :: bool

fun flattenNode :: "string list \<Rightarrow> nat \<Rightarrow> oid_node \<Rightarrow> flat_row list" where
  "flattenNode expanded depth (OIDNode i n ty cs) =
     \<lparr>fr_node = OIDNode i n ty cs, fr_depth = depth, fr_hasChildren = 0 < length cs, fr_isExpanded = i \<in> set expanded\<rparr>
     # (if 0 < length cs \<and> i \<in> set expanded then concat (map (flattenNode expanded (depth + 1)) cs) else [])"

definition flattenTree :: "oid_node list \<Rightarrow> string list \<Rightarrow> nat \<Rightarrow> flat_row list" where
  "flattenTree nodes expanded depth = concat (map (flattenNode expanded depth) nodes)"

fun countNode :: "oid_node \<Rightarrow> nat" where
  "countNode (OIDNode i n ty cs) = 1 + sum_list (map countNode cs)"

definition countAllNodes :: "oid_node list \<Rightarrow> nat" where
  "countAllNodes nodes = sum_list (map countNode nodes)"

text \<open>\<open>set.add\<close> in the order of the traversal.\<close>

definition set_add :: "string \<Rightarrow> string list \<Rightarrow> string list" where
  "set_add x s = (if x \<in> set s then s else s @ [x])"

fun collectNode :: "oid_node \<Rightarrow> string list \<Rightarrow> string list" where
  "collectNode (OIDNode i n ty cs) s = fold collectNode cs (set_add i s)"

definition collectAllOids :: "oid_node list \<Rightarrow> string list \<Rightarrow> string list" where
  "collectAllOids nodes s = fold collectNode nodes s"

record tree_browser =
  tb_expanded :: "string list"
  tb_search :: string

definition filteredRows :: "oid_node list \<Rightarrow> tree_browser \<Rightarrow> flat_row list" where
  "filteredRows nodes b = (let rows = flattenTree nodes (tb_expanded b) 0; term = toLowerCase (tb_search b) in
     if js_trim (tb_search b) = [] then rows
     else filter (\<lambda>r. str_includes (toLowerCase (node_name (fr_node r))) term \<or> str_includes (toLowerCase (node_oid (fr_node r))) term) rows)"

definition toggleExpand :: "string \<Rightarrow> tree_browser \<Rightarrow> tree_browser" where
  "toggleExpand i b = b\<lparr>tb_expanded := (if i \<in> set (tb_expanded b) then filter (\<lambda>x. x \<noteq> i) (tb_expanded b) else tb_expanded b @ [i])\<rparr>"

definition expandAll :: "oid_node list \<Rightarrow> tree_browser \<Rightarrow> tree_browser" where
  "expandAll nodes b = b\<lparr>tb_expanded := collectAllOids nodes []\<rparr>"

definition collapseAll :: "tree_browser \<Rightarrow> tree_browser" where
  "collapseAll b = b\<lparr>tb_expanded := []\<rparr>"

text \<open>A checkbox is drawn for leaves and for inner nodes with a type.\<close>

definition isSelectable :: "flat_row \<Rightarrow> bool" where
  "isSelectable r \<longleftrightarrow> \<not> fr_hasChildren r \<or> (case node_type (fr_node r) of Some ty \<Rightarrow> ty \<noteq> [] | None \<Rightarrow> False)"

section \<open>Profiles\<close>

record poll_oid =
  po_oid :: string
  po_name :: string
  po_type :: string

record poll_group =
  pg_multiplier :: int
  pg_label :: string
  pg_scalars :: "poll_oid list"
  pg_tables :: "json list"

datatype group_key = Fast | Standard | Slow

record poll_groups =
  gr_fast :: poll_group
  gr_standard :: poll_group
  gr_slow :: poll_group

fun get_group :: "group_key \<Rightarrow> poll_groups \<Rightarrow> poll_group" where
  "get_group Fast g = gr_fast g"
| "get_group Standard g = gr_standard g"
| "get_group Slow g = gr_slow g"

fun set_group :: "group_key \<Rightarrow> poll_group \<Rightarrow> poll_groups \<Rightarrow> poll_groups" where
  "set_group Fast v g = g\<lparr>gr_fast := v\<rparr>"
| "set_group Standard v g = g\<lparr>gr_standard := v\<rparr>"
| "set_group Slow v g = g\<lparr>gr_slow := v\<rparr>"

definition buildEmptyPollGroups :: poll_groups where
  "buildEmptyPollGroups = \<lparr>
     gr_fast = \<lparr>pg_multiplier = 1, pg_label = ''Fast (every poll)'', pg_scalars = [], pg_tables = []\<rparr>,
     gr_standard = \<lparr>pg_multiplier = 5, pg_label = ''Standard (5x interval)'', pg_scalars = [], pg_tables = []\<rparr>,
     gr_slow = \<lparr>pg_multiplier = 30, pg_label = ''Slow (30x interval)'', pg_scalars = [], pg_tables = []\<rparr>\<rparr>"

text \<open>\<open>profile_data\<close> as the editor casts it: the stored groups, each with optional lists.\<close>

record stored_group =
  sg_multiplier :: int
  sg_scalars :: "poll_oid list option"
  sg_tables :: "json list option"

type_synonym profile_data = "(group_key \<rightharpoonup> stored_group) option"

record snmp_profile =
  sp_id :: string
  sp_name :: string
  sp_description :: "string option"
  sp_category :: "string option"
  sp_sys_object_id :: "string option"
  sp_is_system :: bool
  sp_data :: profile_data

record snmp_editor =
  sn_editing :: bool
  sn_editingProfileId :: "string option"
  sn_name :: string
  sn_description :: string
  sn_vendor :: string
  sn_category :: string
  sn_sysObjectId :: string
  sn_pollGroups :: poll_groups
  sn_activePollGroup :: group_key
  sn_selectedOids :: "string list"
  sn_parsedNodes :: "oid_node list"
  sn_parsedModuleName :: "string option"
  sn_manualOid :: string
  sn_manualName :: string
  sn_manualType :: string
  sn_manualGroup :: group_key
  sn_saving :: bool

definition editor_init :: snmp_editor where
  "editor_init = \<lparr>sn_editing = False, sn_editingProfileId = None, sn_name = [], sn_description = [], sn_vendor = [],
     sn_category = ''generic'', sn_sysObjectId = [], sn_pollGroups = buildEmptyPollGroups, sn_activePollGroup = Standard,
     sn_selectedOids = [], sn_parsedNodes = [], sn_parsedModuleName = None, sn_manualOid = [], sn_manualName = [],
     sn_manualType = ''gauge32'', sn_manualGroup = Standard, sn_saving = False\<rparr>"

definition resetAndGoToList :: "snmp_editor \<Rightarrow> snmp_editor" where
  "resetAndGoToList s = s\<lparr>sn_editing := False, sn_editingProfileId := None, sn_name := [], sn_description := [], sn_vendor := [],
     sn_category := ''generic'', sn_sysObjectId := [], sn_pollGroups := buildEmptyPollGroups, sn_activePollGroup := Standard,
     sn_selectedOids := [], sn_parsedNodes := [], sn_parsedModuleName := None, sn_manualOid := [], sn_manualName := []\<rparr>"

definition openCreate :: "snmp_editor \<Rightarrow> snmp_editor" where
  "openCreate s = (resetAndGoToList s)\<lparr>sn_editing := True\<rparr>"

text \<open>The loop over the three keys, and the identifiers of all groups.\<close>

definition load_group :: "(group_key \<rightharpoonup> stored_group) \<Rightarrow> group_key \<Rightarrow> poll_groups \<Rightarrow> poll_groups" where
  "load_group pd k g = (case pd k of
      None \<Rightarrow> g
    | Some sg \<Rightarrow> set_group k ((get_group k g)\<lparr>pg_multiplier := sg_multiplier sg,
        pg_scalars := (case sg_scalars sg of None \<Rightarrow> [] | Some xs \<Rightarrow> xs),
        pg_tables := (case sg_tables sg of None \<Rightarrow> [] | Some xs \<Rightarrow> xs)\<rparr>) g)"

definition load_groups :: "(group_key \<rightharpoonup> stored_group) \<Rightarrow> poll_groups" where
  "load_groups pd = fold (load_group pd) [Fast, Standard, Slow] buildEmptyPollGroups"

definition group_oids :: "poll_groups \<Rightarrow> string list" where
  "group_oids g = map po_oid (concat (map (\<lambda>k. pg_scalars (get_group k g)) [Fast, Standard, Slow]))"

definition openClone :: "snmp_profile \<Rightarrow> snmp_editor \<Rightarrow> snmp_editor" where
  "openClone p s =
     (let r = (resetAndGoToList s)\<lparr>sn_name := sp_name p @ '' (custom)'',
          sn_description := (case sp_description p of None \<Rightarrow> [] | Some d \<Rightarrow> d),
          sn_category := (case sp_category p of None \<Rightarrow> ''generic'' | Some c \<Rightarrow> c)\<rparr>
      in (case sp_data p of
          None \<Rightarrow> r
        | Some pd \<Rightarrow> r\<lparr>sn_pollGroups := load_groups pd, sn_selectedOids := set_of_list (group_oids (load_groups pd))\<rparr>)
         \<lparr>sn_editing := True\<rparr>)"

definition openEdit :: "snmp_profile \<Rightarrow> snmp_editor \<Rightarrow> snmp_editor" where
  "openEdit p s =
     (let r = s\<lparr>sn_editingProfileId := Some (sp_id p), sn_name := sp_name p,
          sn_description := (case sp_description p of None \<Rightarrow> [] | Some d \<Rightarrow> d), sn_vendor := [],
          sn_category := (case sp_category p of None \<Rightarrow> ''generic'' | Some c \<Rightarrow> c),
          sn_sysObjectId := (case sp_sys_object_id p of None \<Rightarrow> [] | Some o' \<Rightarrow> o')\<rparr>
      in (case sp_data p of
          None \<Rightarrow> r\<lparr>sn_pollGroups := buildEmptyPollGroups, sn_selectedOids := []\<rparr>
        | Some pd \<Rightarrow> r\<lparr>sn_pollGroups := load_groups pd, sn_selectedOids := set_of_list (group_oids (load_groups pd))\<rparr>)
         \<lparr>sn_parsedNodes := [], sn_parsedModuleName := None, sn_activePollGroup := Standard, sn_editing := True\<rparr>)"

fun key_text :: "group_key \<Rightarrow> string" where
  "key_text Fast = ''fast''" | "key_text Standard = ''standard''" | "key_text Slow = ''slow''"

text \<open>A click on a checkbox of the tree: the identifier leaves all groups or enters the active one.\<close>

definition drop_oid :: "string \<Rightarrow> group_key \<Rightarrow> poll_groups \<Rightarrow> poll_groups" where
  "drop_oid i k g = set_group k ((get_group k g)\<lparr>pg_scalars := filter (\<lambda>s. po_oid s \<noteq> i) (pg_scalars (get_group k g))\<rparr>) g"

definition drop_everywhere :: "string \<Rightarrow> poll_groups \<Rightarrow> poll_groups" where
  "drop_everywhere i g = fold (drop_oid i) [Fast, Standard, Slow] g"

definition push_oid :: "poll_oid \<Rightarrow> group_key \<Rightarrow> poll_groups \<Rightarrow> poll_groups" where
  "push_oid x k g = set_group k ((get_group k g)\<lparr>pg_scalars := pg_scalars (get_group k g) @ [x]\<rparr>) g"

definition handleToggleOid :: "oid_node \<Rightarrow> snmp_editor \<Rightarrow> snmp_editor" where
  "handleToggleOid n s = (let i = node_oid n in
     if i \<in> set (sn_selectedOids s)
     then s\<lparr>sn_selectedOids := filter (\<lambda>x. x \<noteq> i) (sn_selectedOids s),
            sn_pollGroups := drop_everywhere i (sn_pollGroups s)\<rparr>
     else s\<lparr>sn_selectedOids := sn_selectedOids s @ [i],
            sn_pollGroups := push_oid \<lparr>po_oid = i, po_name = node_name n,
              po_type = (case node_type n of None \<Rightarrow> ''string'' | Some ty \<Rightarrow> ty)\<rparr> (sn_activePollGroup s) (sn_pollGroups s)\<rparr>)"

definition remove_at :: "nat \<Rightarrow> 'a list \<Rightarrow> 'a list" where
  "remove_at n xs = take n xs @ drop (Suc n) xs"

definition handleRemoveOid :: "group_key \<Rightarrow> nat \<Rightarrow> snmp_editor \<Rightarrow> snmp_editor" where
  "handleRemoveOid k n s = (let g = get_group k (sn_pollGroups s); xs = pg_scalars g;
       s' = s\<lparr>sn_pollGroups := set_group k (g\<lparr>pg_scalars := remove_at n xs\<rparr>) (sn_pollGroups s)\<rparr>
     in if n < length xs then s'\<lparr>sn_selectedOids := filter (\<lambda>x. x \<noteq> po_oid (xs ! n)) (sn_selectedOids s)\<rparr> else s')"

definition handleManualAdd :: "snmp_editor \<Rightarrow> snmp_editor" where
  "handleManualAdd s = (if js_trim (sn_manualOid s) = [] \<or> js_trim (sn_manualName s) = [] then s
     else s\<lparr>sn_pollGroups := push_oid \<lparr>po_oid = js_trim (sn_manualOid s), po_name = js_trim (sn_manualName s), po_type = sn_manualType s\<rparr>
              (sn_manualGroup s) (sn_pollGroups s),
            sn_selectedOids := set_add (js_trim (sn_manualOid s)) (sn_selectedOids s),
            sn_manualOid := [], sn_manualName := [], sn_manualType := ''gauge32''\<rparr>)"

text \<open>The payload. Empty fields and the category \<open>generic\<close> are left out.\<close>

record snmp_payload =
  pl_name :: string
  pl_data :: profile_data
  pl_description :: "string option"
  pl_vendor :: "string option"
  pl_category :: "string option"
  pl_sys_object_id :: "string option"

definition stored_of :: "poll_group \<Rightarrow> stored_group" where
  "stored_of g = \<lparr>sg_multiplier = pg_multiplier g, sg_scalars = Some (pg_scalars g), sg_tables = Some (pg_tables g)\<rparr>"

definition given_text :: "string \<Rightarrow> string option" where
  "given_text s = (if js_trim s = [] then None else Some (js_trim s))"

definition snmp_payload_of :: "snmp_editor \<Rightarrow> snmp_payload option" where
  "snmp_payload_of s = (if js_trim (sn_name s) = [] then None
     else Some \<lparr>pl_name = js_trim (sn_name s), pl_data = Some (\<lambda>k. Some (stored_of (get_group k (sn_pollGroups s)))),
       pl_description = given_text (sn_description s), pl_vendor = given_text (sn_vendor s),
       pl_category = (if sn_category s \<noteq> ''generic'' then Some (sn_category s) else None),
       pl_sys_object_id = given_text (sn_sysObjectId s)\<rparr>)"

definition oid_json :: "poll_oid \<Rightarrow> json" where
  "oid_json x = JObj [(''oid'', JStr (po_oid x)), (''name'', JStr (po_name x)), (''type'', JStr (po_type x))]"

definition group_json :: "stored_group \<Rightarrow> json" where
  "group_json g = JObj [(''interval_multiplier'', JNum (sg_multiplier g)),
     (''scalars'', JArr (map oid_json (case sg_scalars g of None \<Rightarrow> [] | Some xs \<Rightarrow> xs))),
     (''tables'', JArr (case sg_tables g of None \<Rightarrow> [] | Some xs \<Rightarrow> xs))]"

definition payload_json :: "snmp_payload \<Rightarrow> json" where
  "payload_json pl = JObj ([(''name'', JStr (pl_name pl)), (''profile_data'', JObj [(''version'', JNum 1),
       (''poll_groups'', JObj (case pl_data pl of None \<Rightarrow> [] | Some pd \<Rightarrow>
          concat (map (\<lambda>k. case pd k of None \<Rightarrow> [] | Some g \<Rightarrow> [(key_text k, group_json g)]) [Fast, Standard, Slow])))])]
     @ opt ''description'' (map_option JStr (pl_description pl)) @ opt ''vendor'' (map_option JStr (pl_vendor pl))
     @ opt ''category'' (map_option JStr (pl_category pl)) @ opt ''sys_object_id'' (map_option JStr (pl_sys_object_id pl)))"

definition save_request :: "string \<Rightarrow> snmp_editor \<Rightarrow> snmp_payload \<Rightarrow> api_request" where
  "save_request tenantId s pl = snmpProfilesApi tenantId (case sn_editingProfileId s of
      Some i \<Rightarrow> if i = [] then Snmp_create (payload_json pl) else Snmp_update i (payload_json pl)
    | None \<Rightarrow> Snmp_create (payload_json pl))"

text \<open>What the user and the server do. Saving is offered with a name and while no save is under way; the answer to a save comes at any time.\<close>

datatype snmp_event =
    Sn_create | Sn_clone snmp_profile | Sn_edit snmp_profile | Sn_delete snmp_profile bool | Sn_cancel
  | Sn_name string | Sn_description string | Sn_vendor string | Sn_category string | Sn_sysObjectId string
  | Sn_active group_key | Sn_toggle oid_node | Sn_remove group_key nat
  | Sn_manualOid string | Sn_manualName string | Sn_manualType string | Sn_manualGroup group_key | Sn_add
  | Sn_save | Sn_saved bool | Sn_parsed "oid_node list" string

definition profile_enabled :: "bool \<Rightarrow> snmp_event \<Rightarrow> snmp_editor \<Rightarrow> bool" where
  "profile_enabled userCanWrite e s = (case e of
      Sn_create \<Rightarrow> userCanWrite \<and> \<not> sn_editing s
    | Sn_clone p \<Rightarrow> userCanWrite \<and> \<not> sn_editing s \<and> sp_is_system p
    | Sn_edit p \<Rightarrow> userCanWrite \<and> \<not> sn_editing s \<and> \<not> sp_is_system p
    | Sn_delete p _ \<Rightarrow> userCanWrite \<and> \<not> sn_editing s \<and> \<not> sp_is_system p
    | Sn_saved _ \<Rightarrow> sn_saving s
    | Sn_parsed _ _ \<Rightarrow> True
    | Sn_save \<Rightarrow> sn_editing s \<and> js_trim (sn_name s) \<noteq> [] \<and> \<not> sn_saving s
    | _ \<Rightarrow> sn_editing s)"

fun snmp_handle :: "snmp_event \<Rightarrow> snmp_editor \<Rightarrow> snmp_editor" where
  "snmp_handle Sn_create s = openCreate s"
| "snmp_handle (Sn_clone p) s = openClone p s"
| "snmp_handle (Sn_edit p) s = openEdit p s"
| "snmp_handle (Sn_delete p confirmed) s = s"
| "snmp_handle Sn_cancel s = resetAndGoToList s"
| "snmp_handle (Sn_name v) s = s\<lparr>sn_name := v\<rparr>"
| "snmp_handle (Sn_description v) s = s\<lparr>sn_description := v\<rparr>"
| "snmp_handle (Sn_vendor v) s = s\<lparr>sn_vendor := v\<rparr>"
| "snmp_handle (Sn_category v) s = s\<lparr>sn_category := v\<rparr>"
| "snmp_handle (Sn_sysObjectId v) s = s\<lparr>sn_sysObjectId := v\<rparr>"
| "snmp_handle (Sn_active k) s = s\<lparr>sn_activePollGroup := k\<rparr>"
| "snmp_handle (Sn_toggle n) s = handleToggleOid n s"
| "snmp_handle (Sn_remove k i) s = handleRemoveOid k i s"
| "snmp_handle (Sn_manualOid v) s = s\<lparr>sn_manualOid := v\<rparr>"
| "snmp_handle (Sn_manualName v) s = s\<lparr>sn_manualName := v\<rparr>"
| "snmp_handle (Sn_manualType v) s = s\<lparr>sn_manualType := v\<rparr>"
| "snmp_handle (Sn_manualGroup k) s = s\<lparr>sn_manualGroup := k\<rparr>"
| "snmp_handle Sn_add s = handleManualAdd s"
| "snmp_handle Sn_save s = s\<lparr>sn_saving := True\<rparr>"
| "snmp_handle (Sn_saved ok) s = (if ok then (resetAndGoToList s)\<lparr>sn_saving := False\<rparr> else s\<lparr>sn_saving := False\<rparr>)"
| "snmp_handle (Sn_parsed ns m) s = s\<lparr>sn_parsedNodes := ns, sn_parsedModuleName := Some m\<rparr>"

definition snmp_step :: "bool \<Rightarrow> snmp_event \<Rightarrow> snmp_editor \<Rightarrow> snmp_editor" where
  "snmp_step w e s = (if profile_enabled w e s then snmp_handle e s else s)"

definition snmp_sent :: "bool \<Rightarrow> string \<Rightarrow> snmp_event \<Rightarrow> snmp_editor \<Rightarrow> api_request option" where
  "snmp_sent w tenantId e s = (if \<not> profile_enabled w e s then None else case e of
      Sn_save \<Rightarrow> map_option (save_request tenantId s) (snmp_payload_of s)
    | Sn_delete p confirmed \<Rightarrow> if confirmed then Some (snmpProfilesApi tenantId (Snmp_delete (sp_id p))) else None
    | _ \<Rightarrow> None)"

text \<open>The flat table: each identifier with its group and position.\<close>

definition allOids :: "snmp_editor \<Rightarrow> (poll_oid \<times> group_key \<times> nat) list" where
  "allOids s = concat (map (\<lambda>k. let xs = pg_scalars (get_group k (sn_pollGroups s)) in map (\<lambda>i. (xs ! i, k, i)) [0..<length xs]) [Fast, Standard, Slow])"

section \<open>Properties of the tree\<close>

text \<open>The nodes in the order of the document.\<close>

fun preorder_node :: "oid_node \<Rightarrow> oid_node list" where
  "preorder_node (OIDNode i n ty cs) = OIDNode i n ty cs # concat (map preorder_node cs)"

definition preorder_nodes :: "oid_node list \<Rightarrow> oid_node list" where
  "preorder_nodes nodes = concat (map preorder_node nodes)"

lemma subseq_concat: "(\<And>x. x \<in> set xs \<Longrightarrow> subseq (f x) (g x)) \<Longrightarrow> subseq (concat (map f xs)) (concat (map g xs))"
  by (induction xs) (auto intro: list_emb_append_mono)

lemma flatten_node_subseq: "subseq (map fr_node (flattenNode E d n)) (preorder_node n)"
proof (induction E d n rule: flattenNode.induct)
  case (1 E d i n ty cs)
  have "subseq (concat (map (\<lambda>c. map fr_node (flattenNode E (d + 1) c)) cs)) (concat (map preorder_node cs))"
    if "0 < length cs \<and> i \<in> set E" by (rule subseq_concat) (use 1 that in auto)
  then show ?case by (auto simp: map_concat comp_def)
qed

lemma flatten_node_all:
  "(\<And>m. m \<in> set (preorder_node n) \<Longrightarrow> node_oid m \<in> set E) \<Longrightarrow> map fr_node (flattenNode E d n) = preorder_node n"
proof (induction E d n rule: flattenNode.induct)
  case (1 E d i n ty cs)
  have ex: "i \<in> set E" using 1(2) by force
  have "map fr_node (flattenNode E (d + 1) c) = preorder_node c" if "c \<in> set cs" for c
    using 1(1) [of c] 1(2) that ex by (cases cs) auto
  then show ?case using ex by (auto simp: map_concat comp_def intro!: arg_cong [where f = concat])
qed

lemma set_set_add [simp]: "set (set_add x s) = insert x (set s)"
  by (auto simp: set_add_def)

lemma collect_node_set: "set (collectNode n s) = set s \<union> node_oid ` set (preorder_node n)"
proof (induction n s rule: collectNode.induct)
  case (1 i n ty cs s)
  have "set (fold collectNode xs a) = set a \<union> (\<Union>c\<in>set xs. node_oid ` set (preorder_node c))"
    if "set xs \<subseteq> set cs" for xs a
    using that
  proof (induction xs arbitrary: a)
    case (Cons c xs)
    then show ?case using 1 [of c a] by auto
  qed simp
  from this [of cs "set_add i s"] show ?case by auto
qed

lemma length_preorder: "length (preorder_node n) = countNode n"
  by (induction n rule: countNode.induct) (simp add: length_concat comp_def cong: map_cong)

lemma collect_all_set: "set (collectAllOids nodes s) = set s \<union> node_oid ` set (preorder_nodes nodes)"
  unfolding collectAllOids_def preorder_nodes_def
  by (induction nodes arbitrary: s) (auto simp: collect_node_set)

text \<open>The tree browser shows the tree. Whatever is expanded, the rows are nodes of the tree in its order, none twice; collapsed it shows
  the roots; and after expanding all it shows every node, as many rows as it announces in total.\<close>
theorem oid_tree_rows:
  "subseq (map fr_node (filteredRows nodes b)) (preorder_nodes nodes)
   \<and> (tb_search b = [] \<longrightarrow> map fr_node (filteredRows nodes (collapseAll b)) = nodes
        \<and> map fr_node (filteredRows nodes (expandAll nodes b)) = preorder_nodes nodes
        \<and> length (filteredRows nodes (expandAll nodes b)) = countAllNodes nodes)"
proof (intro conjI impI)
  have all: "subseq (map fr_node (flattenTree nodes E 0)) (preorder_nodes nodes)" for E
    unfolding flattenTree_def preorder_nodes_def by (simp add: map_concat comp_def subseq_concat flatten_node_subseq)
  have "subseq (map fr_node (filteredRows nodes b)) (map fr_node (flattenTree nodes (tb_expanded b) 0))"
    by (auto simp: filteredRows_def Let_def intro: subseq_map)
  then show "subseq (map fr_node (filteredRows nodes b)) (preorder_nodes nodes)" using all subseq_order.trans by blast
  assume s: "tb_search b = []"
  have t: "js_trim [] = []" by code_simp
  have "map fr_node (flattenNode [] d n) = [n]" for d n by (cases n) simp
  then show "map fr_node (filteredRows nodes (collapseAll b)) = nodes"
    using s by (simp add: filteredRows_def collapseAll_def flattenTree_def map_concat comp_def t Let_def)
  have "map fr_node (flattenNode (collectAllOids nodes []) 0 n) = preorder_node n" if "n \<in> set nodes" for n
    by (rule flatten_node_all) (use that in \<open>auto simp: collect_all_set preorder_nodes_def\<close>)
  then show e: "map fr_node (filteredRows nodes (expandAll nodes b)) = preorder_nodes nodes"
    using s by (simp add: filteredRows_def expandAll_def flattenTree_def preorder_nodes_def map_concat comp_def t Let_def cong: map_cong)
  have "length (preorder_nodes nodes) = countAllNodes nodes"
    by (simp add: preorder_nodes_def countAllNodes_def length_concat comp_def length_preorder)
  then show "length (filteredRows nodes (expandAll nodes b)) = countAllNodes nodes" by (metis e length_map)
qed

definition demo_tree :: "oid_node list" where
  "demo_tree = [OIDNode ''1.3'' ''org'' None [OIDNode ''1.3.6'' ''dod'' None [], OIDNode ''1.3.7'' ''temp'' (Some ''gauge32'') []]]"

theorem oid_tree_rows_witness:
  "countAllNodes demo_tree = 3 \<and> length (filteredRows demo_tree (expandAll demo_tree \<lparr>tb_expanded = [], tb_search = []\<rparr>)) = 3"
  using oid_tree_rows [of demo_tree "\<lparr>tb_expanded = [], tb_search = []\<rparr>"] by (simp add: demo_tree_def countAllNodes_def)

text \<open>The search works on the expanded part only: it finds nothing below a collapsed node.\<close>

lemma search_misses_collapsed:
  "filteredRows demo_tree \<lparr>tb_expanded = [], tb_search = ''temp''\<rparr> = []" by code_simp

section \<open>Properties of the editor\<close>

lemma get_set_group [simp]: "get_group k (set_group k' v g) = (if k = k' then v else get_group k g)"
  by (cases k; cases k') simp_all

lemma mset_oids_set_group:
  "mset (group_oids (set_group k v g)) + mset (map po_oid (pg_scalars (get_group k g))) = mset (map po_oid (pg_scalars v)) + mset (group_oids g)"
  by (cases k) (simp_all add: group_oids_def)

lemma mset_push: "mset (group_oids (push_oid x k g)) = add_mset (po_oid x) (mset (group_oids g))"
  by (cases k) (simp_all add: push_oid_def group_oids_def)

lemma oids_drop [simp]: "group_oids (drop_everywhere i g) = filter (\<lambda>x. x \<noteq> i) (group_oids g)"
  by (simp add: drop_everywhere_def drop_oid_def group_oids_def filter_map comp_def)

lemma mset_remove_at: "n < length xs \<Longrightarrow> mset xs = add_mset (xs ! n) (mset (remove_at n xs))"
  unfolding remove_at_def by (subst id_take_nth_drop [of n xs]) simp_all

lemma remove_at_out: "\<not> n < length xs \<Longrightarrow> remove_at n xs = xs"
  by (simp add: remove_at_def)

lemma mset_remove:
  assumes "n < length (pg_scalars (get_group k g))"
  shows "mset (group_oids g) = add_mset (po_oid (pg_scalars (get_group k g) ! n))
    (mset (group_oids (set_group k ((get_group k g)\<lparr>pg_scalars := remove_at n (pg_scalars (get_group k g))\<rparr>) g)))"
proof -
  let ?xs = "pg_scalars (get_group k g)"
  have "mset (map po_oid ?xs) = add_mset (po_oid (?xs ! n)) (mset (map po_oid (remove_at n ?xs)))"
    by (simp add: mset_remove_at [OF assms])
  then show ?thesis
    using mset_oids_set_group [of k "(get_group k g)\<lparr>pg_scalars := remove_at n ?xs\<rparr>" g] by auto
qed

definition group_labels :: "poll_groups \<Rightarrow> string list" where
  "group_labels g = map (\<lambda>k. pg_label (get_group k g)) [Fast, Standard, Slow]"

definition snmp_inv :: "snmp_editor \<Rightarrow> bool" where
  "snmp_inv s \<longleftrightarrow> set (sn_selectedOids s) \<subseteq> set (group_oids (sn_pollGroups s))
     \<and> group_labels (sn_pollGroups s) = group_labels buildEmptyPollGroups
     \<and> (\<not> sn_editing s \<longrightarrow> sn_pollGroups s = buildEmptyPollGroups \<and> sn_editingProfileId s = None)"

text \<open>As long as no identifier is collected twice, the checked boxes are exactly the collected identifiers.\<close>

definition snmp_exact :: "snmp_editor \<Rightarrow> bool" where
  "snmp_exact s \<longleftrightarrow> distinct (group_oids (sn_pollGroups s)) \<and> set (sn_selectedOids s) = set (group_oids (sn_pollGroups s))"

definition profile_oids :: "snmp_profile \<Rightarrow> string list" where
  "profile_oids p = (case sp_data p of None \<Rightarrow> [] | Some pd \<Rightarrow> group_oids (load_groups pd))"

definition enters_once :: "snmp_event \<Rightarrow> snmp_editor \<Rightarrow> bool" where
  "enters_once e s = (case e of
      Sn_add \<Rightarrow> js_trim (sn_manualOid s) \<notin> set (group_oids (sn_pollGroups s))
    | Sn_clone p \<Rightarrow> distinct (profile_oids p)
    | Sn_edit p \<Rightarrow> distinct (profile_oids p)
    | _ \<Rightarrow> True)"

fun all_once :: "bool \<Rightarrow> snmp_event list \<Rightarrow> snmp_editor \<Rightarrow> bool" where
  "all_once w [] s = True"
| "all_once w (e # es) s \<longleftrightarrow> enters_once e s \<and> all_once w es (snmp_step w e s)"

lemma group_oids_empty [simp]: "group_oids buildEmptyPollGroups = []"
  by (simp add: group_oids_def buildEmptyPollGroups_def)

lemma labels [simp]:
  "group_labels (load_groups pd) = group_labels buildEmptyPollGroups"
  "group_labels (drop_everywhere i g) = group_labels g"
  "group_labels (push_oid x k g) = group_labels g"
  "pg_label v = pg_label (get_group k g) \<Longrightarrow> group_labels (set_group k v g) = group_labels g"
  by (cases k; simp add: group_labels_def load_groups_def load_group_def drop_everywhere_def drop_oid_def push_oid_def split: option.splits)+

lemma set_push [simp]: "set (group_oids (push_oid x k g)) = insert (po_oid x) (set (group_oids g))"
  using mset_push [of x k g, THEN arg_cong [where f = set_mset]] by simp

lemma distinct_push [simp]: "distinct (group_oids (push_oid x k g)) \<longleftrightarrow> po_oid x \<notin> set (group_oids g) \<and> distinct (group_oids g)"
  using mset_eq_imp_distinct_iff [of "group_oids (push_oid x k g)" "po_oid x # group_oids g"] mset_push [of x k g] by simp

lemma toggle_inv: "snmp_inv s \<Longrightarrow> sn_editing s \<Longrightarrow> snmp_inv (handleToggleOid n s)"
  by (auto simp: snmp_inv_def handleToggleOid_def Let_def)

lemma toggle_exact: "snmp_exact s \<Longrightarrow> snmp_exact (handleToggleOid n s)"
  by (auto simp: snmp_exact_def handleToggleOid_def Let_def)

lemma remove_oids:
  fixes n :: nat and k :: group_key and s :: snmp_editor
  defines "s' \<equiv> handleRemoveOid k n s"
  shows "sn_editing s' = sn_editing s" "group_labels (sn_pollGroups s') = group_labels (sn_pollGroups s)"
    and "n < length (pg_scalars (get_group k (sn_pollGroups s))) \<Longrightarrow>
      mset (group_oids (sn_pollGroups s)) = add_mset (po_oid (pg_scalars (get_group k (sn_pollGroups s)) ! n)) (mset (group_oids (sn_pollGroups s')))"
    and "n < length (pg_scalars (get_group k (sn_pollGroups s))) \<Longrightarrow>
      sn_selectedOids s' = filter (\<lambda>x. x \<noteq> po_oid (pg_scalars (get_group k (sn_pollGroups s)) ! n)) (sn_selectedOids s)"
    and "\<not> n < length (pg_scalars (get_group k (sn_pollGroups s))) \<Longrightarrow> sn_selectedOids s' = sn_selectedOids s \<and> group_oids (sn_pollGroups s') = group_oids (sn_pollGroups s)"
  using mset_remove [of n k "sn_pollGroups s"]
  by (simp_all add: s'_def handleRemoveOid_def Let_def remove_at_out)
     (cases k; simp add: group_oids_def)

lemma remove_inv: "snmp_inv s \<Longrightarrow> sn_editing s \<Longrightarrow> snmp_inv (handleRemoveOid k n s)"
proof (cases "n < length (pg_scalars (get_group k (sn_pollGroups s)))")
  case True
  assume a: "snmp_inv s" "sn_editing s"
  show ?thesis using a remove_oids(3) [OF True, THEN arg_cong [where f = set_mset]]
    unfolding snmp_inv_def by (auto simp: remove_oids(1, 2) remove_oids(4) [OF True])
qed (auto simp: snmp_inv_def remove_oids)

lemma remove_exact: "snmp_exact s \<Longrightarrow> snmp_exact (handleRemoveOid k n s)"
proof (cases "n < length (pg_scalars (get_group k (sn_pollGroups s)))")
  case True
  assume a: "snmp_exact s"
  let ?x = "po_oid (pg_scalars (get_group k (sn_pollGroups s)) ! n)" and ?g = "group_oids (sn_pollGroups (handleRemoveOid k n s))"
  have m: "mset (group_oids (sn_pollGroups s)) = mset (?x # ?g)" using remove_oids(3) [OF True] by simp
  have "set (group_oids (sn_pollGroups s)) = insert ?x (set ?g)" "distinct (?x # ?g)"
    using a mset_eq_setD [OF m] mset_eq_imp_distinct_iff [OF m] by (auto simp: snmp_exact_def)
  then show ?thesis using a by (auto simp: snmp_exact_def remove_oids(4) [OF True])
qed (simp add: snmp_exact_def remove_oids)

lemma load_inv:
  "snmp_inv (openClone p s)" "snmp_inv (openEdit p s)"
  "distinct (profile_oids p) \<Longrightarrow> snmp_exact (openClone p s)" "distinct (profile_oids p) \<Longrightarrow> snmp_exact (openEdit p s)"
  by (auto simp: snmp_inv_def snmp_exact_def openClone_def openEdit_def profile_oids_def resetAndGoToList_def Let_def split: option.splits)

lemma step_inv_all: "snmp_inv s \<Longrightarrow> snmp_inv (snmp_step w e s)"
  by (cases e) (simp_all add: snmp_step_def profile_enabled_def toggle_inv remove_inv load_inv openCreate_def
      handleManualAdd_def resetAndGoToList_def, auto simp: snmp_inv_def)

interpretation snmp: event_machine "snmp_step w" snmp_inv
  by unfold_locales (rule step_inv_all)

lemma step_exact: "snmp_exact s \<Longrightarrow> enters_once e s \<Longrightarrow> snmp_exact (snmp_step w e s)"
  by (cases e) (simp_all add: snmp_step_def toggle_exact remove_exact load_inv enters_once_def openCreate_def
      handleManualAdd_def resetAndGoToList_def, auto simp: snmp_exact_def)

lemma run_exact: "snmp_exact s \<Longrightarrow> all_once w es s \<Longrightarrow> snmp_exact (fold (snmp_step w) es s)"
  by (induction es arbitrary: s) (auto intro: step_exact)

lemma snmp_init: "snmp_inv editor_init" "snmp_exact editor_init"
  by (simp_all add: snmp_inv_def snmp_exact_def editor_init_def)

text \<open>The profile editor collects what is checked. After any sequence of clicks, entries, loaded profiles and answers every checked
  identifier is in a poll group, and as long as none was entered twice the checked ones are exactly those in the groups,
  each once. Outside the editing view nothing is left of an earlier profile.\<close>
theorem snmp_selection:
  "let s = fold (snmp_step w) es editor_init in
     set (sn_selectedOids s) \<subseteq> set (group_oids (sn_pollGroups s))
     \<and> (all_once w es editor_init \<longrightarrow> distinct (group_oids (sn_pollGroups s)) \<and> set (sn_selectedOids s) = set (group_oids (sn_pollGroups s)))
     \<and> (\<not> sn_editing s \<longrightarrow> group_oids (sn_pollGroups s) = [] \<and> sn_editingProfileId s = None)"
  using snmp.run_inv [OF snmp_init(1), of w es] run_exact [OF snmp_init(2), of w es]
  by (auto simp: snmp_inv_def snmp_exact_def Let_def)

definition demo_node :: oid_node where
  "demo_node = OIDNode ''1.3.7'' ''temp'' None []"

definition demo_session_events :: "snmp_event list" where
  "demo_session_events = [Sn_create, Sn_toggle demo_node, Sn_manualOid '' 1.3.9 '', Sn_manualName ''rate'', Sn_manualGroup Fast, Sn_add, Sn_name ''AP'']"

theorem snmp_selection_witness:
  "all_once True demo_session_events editor_init
   \<and> (let s = fold (snmp_step True) demo_session_events editor_init in
        group_oids (sn_pollGroups s) = [''1.3.9'', ''1.3.7''] \<and> set (sn_selectedOids s) = set (group_oids (sn_pollGroups s)))"
proof -
  have "all_once True demo_session_events editor_init" by code_simp
  moreover have "group_oids (sn_pollGroups (fold (snmp_step True) demo_session_events editor_init)) = [''1.3.9'', ''1.3.7'']" by code_simp
  ultimately show ?thesis using snmp_selection [of True demo_session_events] by (simp add: Let_def)
qed

text \<open>Entered twice and removed once, an identifier stays collected but is shown unchecked.\<close>

lemma duplicate_unchecked:
  "let s = fold (snmp_step True) [Sn_create, Sn_toggle demo_node, Sn_manualOid ''1.3.7'', Sn_manualName ''t'', Sn_add, Sn_remove Standard 1] editor_init
   in group_oids (sn_pollGroups s) = [''1.3.7''] \<and> sn_selectedOids s = []"
  by code_simp

lemma load_stored:
  assumes "group_labels g = group_labels buildEmptyPollGroups"
  shows "load_groups (\<lambda>k. Some (stored_of (get_group k g))) = g"
  using assms by (simp add: load_groups_def load_group_def stored_of_def group_labels_def buildEmptyPollGroups_def)

text \<open>C36: A saved profile opens as it was saved. From every reachable state of the editor a profile with a name is saved under it, to the
  profile that is edited or to a new one, and opening a profile with the stored data, from any state, shows the same poll groups with
  the same intervals, identifiers and tables, all of them checked.\<close>
theorem snmp_profile_roundtrip:
  assumes s: "s = fold (snmp_step w) es editor_init" and "sn_editing s" "\<not> sn_saving s" "js_trim (sn_name s) \<noteq> []"
  shows "\<exists>pl. snmp_sent w tenantId Sn_save s = Some (save_request tenantId s pl) \<and> pl_name pl = js_trim (sn_name s)
    \<and> (\<forall>p t. sp_data p = pl_data pl \<longrightarrow> sn_pollGroups (openEdit p t) = sn_pollGroups s
         \<and> set (sn_selectedOids (openEdit p t)) = set (group_oids (sn_pollGroups s)))"
proof -
  obtain pl where pl: "snmp_payload_of s = Some pl" "pl_name pl = js_trim (sn_name s)"
      "pl_data pl = Some (\<lambda>k. Some (stored_of (get_group k (sn_pollGroups s))))"
    using assms(4) by (simp add: snmp_payload_of_def)
  have "snmp_inv s" unfolding s by (rule snmp.run_inv) (rule snmp_init)
  then have "load_groups (\<lambda>k. Some (stored_of (get_group k (sn_pollGroups s)))) = sn_pollGroups s"
    by (intro load_stored) (simp add: snmp_inv_def)
  then have "sn_pollGroups (openEdit p t) = sn_pollGroups s \<and> set (sn_selectedOids (openEdit p t)) = set (group_oids (sn_pollGroups s))"
    if "sp_data p = pl_data pl" for p t using that pl(3) by (simp add: openEdit_def Let_def)
  moreover have "snmp_sent w tenantId Sn_save s = Some (save_request tenantId s pl)"
    using assms pl(1) by (simp add: snmp_sent_def profile_enabled_def)
  ultimately show ?thesis using pl(2) by blast
qed

theorem snmp_profile_roundtrip_witness:
  "\<exists>pl. snmp_sent True ''t1'' Sn_save (fold (snmp_step True) demo_session_events editor_init)
      = Some (save_request ''t1'' (fold (snmp_step True) demo_session_events editor_init) pl) \<and> pl_name pl = ''AP''
    \<and> (\<forall>p t. sp_data p = pl_data pl \<longrightarrow>
         group_oids (sn_pollGroups (openEdit p t)) = [''1.3.9'', ''1.3.7''])"
proof -
  let ?s = "fold (snmp_step True) demo_session_events editor_init"
  have "sn_editing ?s" "\<not> sn_saving ?s" "js_trim (sn_name ?s) = ''AP''" "group_oids (sn_pollGroups ?s) = [''1.3.9'', ''1.3.7'']"
    by code_simp+
  then show ?thesis using snmp_profile_roundtrip [OF refl, of True demo_session_events "''t1''"] by auto
qed

text \<open>The answer to a save resets the editor, whatever is being edited by then.\<close>

lemma late_answer_resets: "sn_saving s \<Longrightarrow> \<not> sn_editing (snmp_step w (Sn_saved True) s) \<and> sn_name (snmp_step w (Sn_saved True) s) = []"
  by (simp add: snmp_step_def profile_enabled_def resetAndGoToList_def)

text \<open>Nothing is sent for a user who may not write, and system profiles are neither changed nor deleted.\<close>

lemma snmp_reader_silent: "snmp_sent False tenantId e (fold (snmp_step False) es editor_init) = None"
proof -
  have "\<not> sn_editing (fold (snmp_step False) es editor_init) \<and> \<not> sn_saving (fold (snmp_step False) es editor_init)"
  proof (induction es rule: rev_induct)
    case (snoc e es)
    then show ?case by (cases e) (simp_all add: snmp_step_def profile_enabled_def)
  qed (simp add: editor_init_def)
  then show ?thesis by (cases e) (simp_all add: snmp_sent_def profile_enabled_def)
qed

end
