(* ===== verification/Upkeep.thy ===== *)
theory Upkeep
  imports Onboarding
begin

text \<open>
  Pages that look after the fleet: the first-time setup (\<^verbatim>\<open>components/setup/SetupWizard.tsx\<close>), firmware upgrades
  (\<^verbatim>\<open>components/firmware/FirmwarePage.tsx\<close>, \<^verbatim>\<open>UpgradeProgressModal.tsx\<close>), maintenance windows
  (\<^verbatim>\<open>components/maintenance/MaintenanceForm.tsx\<close>) and alert rules with their channels
  (\<^verbatim>\<open>components/alerts/AlertRulesPage.tsx\<close>, \<^verbatim>\<open>lib/smtpPresets.ts\<close>).
\<close>

section \<open>First-time setup\<close>

definition create_tenant :: "string \<Rightarrow> string \<Rightarrow> api_request option" where
  "create_tenant nm contactEmail = (if js_trim nm = [] then None
     else Some (tenantsApi (Tenants_create (JObj ([(''name'', JStr (js_trim nm))]
       @ opt_str ''contact_email'' (Some (js_trim contactEmail)))))))"

record setup_form =
  suf_hostname :: string
  suf_ip_address :: string
  suf_api_ssl_port :: string
  suf_username :: string
  suf_password :: string

definition setup_form_init :: setup_form where
  "setup_form_init = \<lparr>suf_hostname = [], suf_ip_address = [], suf_api_ssl_port = ''8729'', suf_username = [], suf_password = []\<rparr>"

definition setup_add_device :: "string \<Rightarrow> setup_form \<Rightarrow> api_request option" where
  "setup_add_device tenantId f =
     (if js_trim (suf_ip_address f) = [] \<or> js_trim (suf_username f) = [] \<or> js_trim (suf_password f) = [] then None
      else Some (devicesApi tenantId (Devices_create (JObj [
        (''hostname'', JStr (if js_trim (suf_hostname f) = [] then js_trim (suf_ip_address f) else js_trim (suf_hostname f))),
        (''ip_address'', JStr (js_trim (suf_ip_address f))),
        (''api_ssl_port'', JNum (case parseInt 10 (suf_api_ssl_port f) of None \<Rightarrow> 8729 | Some n \<Rightarrow> if n = 0 then 8729 else n)),
        (''username'', JStr (js_trim (suf_username f))),
        (''password'', JStr (suf_password f))]))))"

text \<open>The verification of the device. Timers are numbered; \<open>vs_intervals\<close> and \<open>vs_timeouts\<close> are those the browser still runs, the
  references are those the component remembers.\<close>

datatype verify_state = Vs_polling | Vs_online | Vs_timeout

record verify_run =
  vs_status :: verify_state
  vs_intervalRef :: "nat option"
  vs_timeoutRef :: "nat option"
  vs_intervals :: "nat set"
  vs_timeouts :: "nat set"
  vs_fresh :: nat
  vs_inflight :: nat
  vs_mounted :: bool

definition clear_ref :: "nat option \<Rightarrow> nat set \<Rightarrow> nat set" where
  "clear_ref r ts = (case r of None \<Rightarrow> ts | Some i \<Rightarrow> ts - {i})"

definition verify_cleanup :: "verify_run \<Rightarrow> verify_run" where
  "verify_cleanup v = v\<lparr>vs_intervals := clear_ref (vs_intervalRef v) (vs_intervals v), vs_intervalRef := None,
     vs_timeouts := clear_ref (vs_timeoutRef v) (vs_timeouts v), vs_timeoutRef := None\<rparr>"

definition startPolling :: "verify_run \<Rightarrow> verify_run" where
  "startPolling v = (let c = verify_cleanup (v\<lparr>vs_status := Vs_polling\<rparr>); n = vs_fresh v in
     c\<lparr>vs_inflight := vs_inflight c + 1, vs_intervalRef := Some n, vs_intervals := insert n (vs_intervals c),
       vs_timeoutRef := Some (n + 1), vs_timeouts := insert (n + 1) (vs_timeouts c), vs_fresh := n + 2\<rparr>)"

definition verify_mount :: verify_run where
  "verify_mount = startPolling \<lparr>vs_status = Vs_polling, vs_intervalRef = None, vs_timeoutRef = None, vs_intervals = {},
     vs_timeouts = {}, vs_fresh = 0, vs_inflight = 0, vs_mounted = True\<rparr>"

datatype setup_poll_event = Ve_tick nat | Ve_answer bool | Ve_timeout nat | Ve_wait_longer | Ve_unmount

text \<open>A tick of a running interval polls; an answer tells whether the device is online, a failed request counts as not;
  the timeout fires once.\<close>

fun setup_verify_step :: "setup_poll_event \<Rightarrow> verify_run \<Rightarrow> verify_run" where
  "setup_verify_step (Ve_tick i) v = (if i \<in> vs_intervals v then v\<lparr>vs_inflight := vs_inflight v + 1\<rparr> else v)"
| "setup_verify_step (Ve_answer online) v = (if vs_inflight v = 0 then v
     else let w = v\<lparr>vs_inflight := vs_inflight v - 1\<rparr> in
       if online then (verify_cleanup w)\<lparr>vs_status := Vs_online\<rparr> else w)"
| "setup_verify_step (Ve_timeout i) v = (if i \<notin> vs_timeouts v then v
     else v\<lparr>vs_timeouts := vs_timeouts v - {i}, vs_intervals := clear_ref (vs_intervalRef v) (vs_intervals v), vs_intervalRef := None,
       vs_status := (if vs_status v = Vs_polling then Vs_timeout else vs_status v)\<rparr>)"
| "setup_verify_step Ve_wait_longer v = (if vs_mounted v \<and> vs_status v = Vs_timeout then startPolling v else v)"
| "setup_verify_step Ve_unmount v = (if vs_mounted v then (verify_cleanup v)\<lparr>vs_mounted := False\<rparr> else v)"

text \<open>The wizard around the steps.\<close>

record setup_wizard =
  su_step :: nat
  su_tenantId :: "string option"
  su_deviceId :: "string option"
  su_creating :: bool
  su_adding :: bool
  su_location :: string

definition setup_init :: setup_wizard where
  "setup_init = \<lparr>su_step = 1, su_tenantId = None, su_deviceId = None, su_creating = False, su_adding = False, su_location = ''/setup''\<rparr>"

definition SYSTEM_TENANT :: string where
  "SYSTEM_TENANT = ''00000000-0000-0000-0000-000000000000''"

text \<open>The answer to the list of organisations. The guard reads \<open>tenantId\<close> of the first rendering, which is null.\<close>

definition tenants_listed :: "string list \<Rightarrow> setup_wizard \<Rightarrow> setup_wizard" where
  "tenants_listed ts s = (case filter (\<lambda>t. t \<noteq> SYSTEM_TENANT) ts of
      [] \<Rightarrow> s
    | t # _ \<Rightarrow> if su_location s = ''/setup'' then s\<lparr>su_tenantId := Some t, su_step := 2\<rparr> else s)"

text \<open>Requests are sent from their step; the answer is handled by the wizard whatever step it shows by then.\<close>

datatype setup_event =
    Su_listed "string list" | Su_create | Su_tenant "string option" | Su_add | Su_device "string option" | Su_dashboard

fun setup_step :: "setup_event \<Rightarrow> setup_wizard \<Rightarrow> setup_wizard" where
  "setup_step (Su_listed ts) s = tenants_listed ts s"
| "setup_step Su_create s = (if su_step s = 1 then s\<lparr>su_creating := True\<rparr> else s)"
| "setup_step (Su_tenant r) s = (if \<not> su_creating s then s
     else case r of None \<Rightarrow> s\<lparr>su_creating := False\<rparr> | Some t \<Rightarrow> s\<lparr>su_creating := False, su_tenantId := Some t, su_step := 2\<rparr>)"
| "setup_step Su_add s = (if su_step s = 2 then s\<lparr>su_adding := True\<rparr> else s)"
| "setup_step (Su_device r) s = (if \<not> su_adding s then s
     else case r of None \<Rightarrow> s\<lparr>su_adding := False\<rparr> | Some d \<Rightarrow> s\<lparr>su_adding := False, su_deviceId := Some d, su_step := 3\<rparr>)"
| "setup_step Su_dashboard s = (if su_step s = 1 then s else s\<lparr>su_location := ''/''\<rparr>)"

text \<open>What the card shows: a step with the identifiers it needs.\<close>

definition card_shown :: "setup_wizard \<Rightarrow> bool" where
  "card_shown s \<longleftrightarrow> su_step s = 1 \<or> su_step s = 2 \<and> su_tenantId s \<notin> {None, Some []}
     \<or> su_step s = 3 \<and> su_tenantId s \<notin> {None, Some []} \<and> su_deviceId s \<notin> {None, Some []}"

section \<open>Firmware upgrades\<close>

record fw_device =
  fd_id :: string
  fd_version :: "string option"
  fd_architecture :: "string option"
  fd_latest :: "string option"
  fd_channel :: string
  fd_up_to_date :: bool

record version_group =
  vg_version :: string
  vg_is_latest :: bool
  vg_devices :: "fw_device list"

definition text_of :: "string option \<Rightarrow> string" where
  "text_of s = (case s of None \<Rightarrow> [] | Some t \<Rightarrow> t)"

definition firstOutdated :: "version_group \<Rightarrow> fw_device option" where
  "firstOutdated g = find (\<lambda>d. \<not> fd_up_to_date d \<and> text_of (fd_latest d) \<noteq> []) (vg_devices g)"

definition latestVersion :: "version_group \<Rightarrow> string" where
  "latestVersion g = (case firstOutdated g of None \<Rightarrow> [] | Some d \<Rightarrow> text_of (fd_latest d))"

definition upgrade_channel :: "version_group \<Rightarrow> string" where
  "upgrade_channel g = (case firstOutdated g of None \<Rightarrow> ''stable'' | Some d \<Rightarrow> fd_channel d)"

definition major_of :: "string \<Rightarrow> string" where
  "major_of v = hd (split_on (CHR ''.'') v)"

definition hasMajorChange :: "fw_device list \<Rightarrow> string \<Rightarrow> bool" where
  "hasMajorChange ds target \<longleftrightarrow> (\<exists>d\<in>set ds. text_of (fd_version d) \<noteq> [] \<and> major_of (text_of (fd_version d)) \<noteq> major_of target)"

definition upgrade_request :: "string \<Rightarrow> fw_device list \<Rightarrow> string \<Rightarrow> string \<Rightarrow> bool \<Rightarrow> api_request" where
  "upgrade_request tenantId ds target channel confirmed =
     (let ok = JBool (if hasMajorChange ds target then confirmed else False) in
      if 1 < length ds then firmwareApi tenantId (Firmware_startMassUpgrade (JObj [
          (''device_ids'', JArr (map (JStr \<circ> fd_id) ds)), (''target_version'', JStr target), (''channel'', JStr channel),
          (''confirmed_major_upgrade'', ok)]))
      else firmwareApi tenantId (Firmware_startUpgrade (JObj [
          (''device_id'', JStr (fd_id (hd ds))), (''target_version'', JStr target),
          (''architecture'', JStr (text_of (fd_architecture (hd ds)))), (''channel'', JStr channel),
          (''confirmed_major_upgrade'', ok)])))"

text \<open>The dialog exists while there is a target; its state, with the progress it would show, goes with it.\<close>

record fw_dialog =
  ud_confirmed :: bool
  ud_pending :: bool
  ud_progress :: "string option"

record version_card =
  vc_target :: "fw_device list option"
  vc_dialog :: "fw_dialog option"
  vc_inflight :: nat

definition version_card_init :: version_card where
  "version_card_init = \<lparr>vc_target = None, vc_dialog = None, vc_inflight = 0\<rparr>"

text \<open>Rendering: \<open>upgradeTarget && latestVersion\<close> mounts the dialog with fresh state or keeps the mounted one.\<close>

definition render_dialog :: "version_group \<Rightarrow> version_card \<Rightarrow> version_card" where
  "render_dialog g c = (if vc_target c \<noteq> None \<and> latestVersion g \<noteq> []
     then (case vc_dialog c of
         None \<Rightarrow> c\<lparr>vc_dialog := Some \<lparr>ud_confirmed = False, ud_pending = False, ud_progress = None\<rparr>\<rparr>
       | Some _ \<Rightarrow> c)
     else c\<lparr>vc_dialog := None\<rparr>)"

datatype card_event = Vc_upgrade_all | Vc_upgrade fw_device | Vc_confirm bool | Vc_close | Vc_start | Vc_started string | Vc_failed

definition card_enabled :: "bool \<Rightarrow> version_group \<Rightarrow> card_event \<Rightarrow> version_card \<Rightarrow> bool" where
  "card_enabled canUpgrade g e c = (case e of
      Vc_upgrade_all \<Rightarrow> vc_dialog c = None \<and> canUpgrade \<and> \<not> vg_is_latest g \<and> vg_version g \<noteq> ''unknown'' \<and> latestVersion g \<noteq> []
    | Vc_upgrade d \<Rightarrow> vc_dialog c = None \<and> canUpgrade \<and> d \<in> set (vg_devices g) \<and> \<not> fd_up_to_date d \<and> text_of (fd_latest d) \<noteq> []
    | Vc_confirm _ \<Rightarrow> (case (vc_target c, vc_dialog c) of (Some ds, Some _) \<Rightarrow> hasMajorChange ds (latestVersion g) | _ \<Rightarrow> False)
    | Vc_start \<Rightarrow> (case (vc_target c, vc_dialog c) of
        (Some ds, Some d) \<Rightarrow> \<not> ud_pending d \<and> (hasMajorChange ds (latestVersion g) \<longrightarrow> ud_confirmed d) | _ \<Rightarrow> False)
    | Vc_close \<Rightarrow> vc_dialog c \<noteq> None
    | _ \<Rightarrow> 0 < vc_inflight c)"

fun card_handle :: "version_group \<Rightarrow> card_event \<Rightarrow> version_card \<Rightarrow> version_card" where
  "card_handle g Vc_upgrade_all c = c\<lparr>vc_target := Some (filter (\<lambda>d. \<not> fd_up_to_date d) (vg_devices g))\<rparr>"
| "card_handle g (Vc_upgrade d) c = c\<lparr>vc_target := Some [d]\<rparr>"
| "card_handle g (Vc_confirm b) c = c\<lparr>vc_dialog := map_option (\<lambda>d. d\<lparr>ud_confirmed := b\<rparr>) (vc_dialog c)\<rparr>"
| "card_handle g Vc_close c = c\<lparr>vc_target := None\<rparr>"
| "card_handle g Vc_start c = c\<lparr>vc_dialog := map_option (\<lambda>d. d\<lparr>ud_pending := True\<rparr>) (vc_dialog c), vc_inflight := vc_inflight c + 1\<rparr>"
| "card_handle g (Vc_started i) c = c\<lparr>vc_target := None, vc_inflight := vc_inflight c - 1,
     vc_dialog := map_option (\<lambda>d. d\<lparr>ud_pending := False, ud_progress := Some i\<rparr>) (vc_dialog c)\<rparr>"
| "card_handle g Vc_failed c = c\<lparr>vc_inflight := vc_inflight c - 1, vc_dialog := map_option (\<lambda>d. d\<lparr>ud_pending := False\<rparr>) (vc_dialog c)\<rparr>"

definition card_step :: "bool \<Rightarrow> version_group \<Rightarrow> card_event \<Rightarrow> version_card \<Rightarrow> version_card" where
  "card_step w g e c = (if card_enabled w g e c then render_dialog g (card_handle g e c) else c)"

definition card_sent :: "bool \<Rightarrow> string \<Rightarrow> version_group \<Rightarrow> card_event \<Rightarrow> version_card \<Rightarrow> api_request option" where
  "card_sent w tenantId g e c = (if e = Vc_start \<and> card_enabled w g e c
     then (case (vc_target c, vc_dialog c) of
         (Some ds, Some d) \<Rightarrow> Some (upgrade_request tenantId ds (latestVersion g) (upgrade_channel g) (ud_confirmed d))
       | _ \<Rightarrow> None)
     else None)"

text \<open>The progress of an upgrade: live status first, polled status otherwise; when to ask again.\<close>

definition STATUS_STEPS :: "string list" where
  "STATUS_STEPS = [''pending'', ''downloading'', ''uploading'', ''rebooting'', ''verifying'', ''completed'']"

definition indexOf :: "string list \<Rightarrow> string \<Rightarrow> int" where
  "indexOf xs x = (case index_of x xs of None \<Rightarrow> - 1 | Some i \<Rightarrow> int i)"

datatype step_look = Look_done | Look_active | Look_muted

definition statusStep :: "string \<Rightarrow> string \<Rightarrow> step_look" where
  "statusStep step current =
     (let isDone = current = ''completed'' \<or> indexOf STATUS_STEPS step < indexOf STATUS_STEPS current \<and> current \<noteq> ''failed''
      in if isDone then Look_done else if step = current then Look_active else Look_muted)"

definition single_refetch :: "string option \<Rightarrow> string option \<Rightarrow> nat option" where
  "single_refetch sseStatus polled =
     (let status = (case sseStatus of Some s \<Rightarrow> Some s | None \<Rightarrow> polled) in
      if status = Some ''completed'' \<or> status = Some ''failed'' then None else Some 15000)"

record rollout_status =
  ro_total :: int
  ro_completed :: int
  ro_failed :: int
  ro_paused :: int

definition mass_refetch :: "rollout_status option \<Rightarrow> nat option" where
  "mass_refetch r = (case r of
      None \<Rightarrow> Some 5000
    | Some d \<Rightarrow> if ro_total d \<le> ro_completed d + ro_failed d then None else if 0 < ro_paused d then None else Some 15000)"

text \<open>\<open>Math.round(x)\<close> of a quotient of integers: halves are rounded up.\<close>

definition upgrade_progressPct :: "rollout_status \<Rightarrow> int" where
  "upgrade_progressPct r = (if 0 < ro_total r then (200 * (ro_completed r + ro_failed r) + ro_total r) div (2 * ro_total r) else 0)"

section \<open>Maintenance windows\<close>

record maintenance_window =
  mw_id :: string
  mw_name :: string
  mw_start_at :: string
  mw_end_at :: string
  mw_suppress :: bool
  mw_notes :: "string option"
  mw_device_ids :: "string list"

record maintenance_form =
  mf_name :: string
  mf_startAt :: string
  mf_endAt :: string
  mf_suppressAlerts :: bool
  mf_notes :: string
  mf_allDevices :: bool
  mf_selectedDevices :: "string list"

definition maintenance_reset :: maintenance_form where
  "maintenance_reset = \<lparr>mf_name = [], mf_startAt = [], mf_endAt = [], mf_suppressAlerts = True, mf_notes = [], mf_allDevices = True, mf_selectedDevices = []\<rparr>"

text \<open>The effect when the window or \<open>open\<close> changes; \<open>toLocal\<close> is \<open>toDatetimeLocal\<close>, which depends on the time zone.\<close>

definition maintenance_fill :: "(string \<Rightarrow> string) \<Rightarrow> maintenance_window option \<Rightarrow> maintenance_form" where
  "maintenance_fill toLocal w = (case w of
      None \<Rightarrow> maintenance_reset
    | Some m \<Rightarrow> \<lparr>mf_name = mw_name m, mf_startAt = toLocal (mw_start_at m), mf_endAt = toLocal (mw_end_at m),
        mf_suppressAlerts = mw_suppress m, mf_notes = text_of (mw_notes m), mf_allDevices = mw_device_ids m = [],
        mf_selectedDevices = mw_device_ids m\<rparr>)"

definition maintenance_toggleDevice :: "string \<Rightarrow> maintenance_form \<Rightarrow> maintenance_form" where
  "maintenance_toggleDevice d f = f\<lparr>mf_selectedDevices :=
     (if d \<in> set (mf_selectedDevices f) then filter (\<lambda>x. x \<noteq> d) (mf_selectedDevices f) else mf_selectedDevices f @ [d])\<rparr>"

text \<open>\<open>time\<close> is \<open>new Date(s).getTime()\<close>, \<open>None\<close> for an invalid date; \<open>iso\<close> gives the text of a time. An invalid date compares
  false and throws in \<open>toISOString\<close>.\<close>

datatype maintenance_outcome = Mw_refused string | Mw_throws | Mw_sends api_request

definition maintenance_submit ::
    "(string \<Rightarrow> int option) \<Rightarrow> (int \<Rightarrow> string) \<Rightarrow> string \<Rightarrow> maintenance_window option \<Rightarrow> maintenance_form \<Rightarrow> maintenance_outcome" where
  "maintenance_submit time isoText tenantId w f =
     (if js_trim (mf_name f) = [] then Mw_refused ''Name is required''
      else if mf_startAt f = [] \<or> mf_endAt f = [] then Mw_refused ''Start and end times are required''
      else if (case (time (mf_endAt f), time (mf_startAt f)) of (Some b, Some a) \<Rightarrow> b \<le> a | _ \<Rightarrow> False)
        then Mw_refused ''End time must be after start time''
      else if \<not> mf_allDevices f \<and> mf_selectedDevices f = [] then Mw_refused ''Select at least one device or choose \"All Devices\"''
      else case (time (mf_startAt f), time (mf_endAt f)) of
          (Some a, Some b) \<Rightarrow>
            (let data = JObj ([(''name'', JStr (js_trim (mf_name f))),
                 (''device_ids'', JArr (map JStr (if mf_allDevices f then [] else mf_selectedDevices f))),
                 (''start_at'', JStr (isoText a)), (''end_at'', JStr (isoText b)), (''suppress_alerts'', JBool (mf_suppressAlerts f))]
                 @ opt_str ''notes'' (Some (js_trim (mf_notes f))))
             in Mw_sends (maintenanceApi tenantId (case w of None \<Rightarrow> Maint_create data | Some m \<Rightarrow> Maint_update (mw_id m) data)))
        | _ \<Rightarrow> Mw_throws)"

section \<open>Alert rules and notification channels\<close>

record alert_rule =
  ar_id :: string
  ar_name :: string
  ar_metric :: string
  ar_operator :: string
  ar_threshold :: int
  ar_duration_polls :: int
  ar_severity :: string
  ar_enabled :: bool
  ar_is_default :: bool
  ar_channel_ids :: "string list"

record alert_form =
  rf_name :: string
  rf_metric :: string
  rf_operator :: string
  rf_threshold :: string
  rf_durationPolls :: string
  rf_severity :: string
  rf_enabled :: bool
  rf_channels :: "string list"

definition rule_form_of :: "alert_rule option \<Rightarrow> alert_form" where
  "rule_form_of r = (case r of
      None \<Rightarrow> \<lparr>rf_name = [], rf_metric = ''cpu_load'', rf_operator = ''gt'', rf_threshold = ''90'', rf_durationPolls = ''3'',
        rf_severity = ''warning'', rf_enabled = True, rf_channels = []\<rparr>
    | Some a \<Rightarrow> \<lparr>rf_name = ar_name a, rf_metric = ar_metric a, rf_operator = ar_operator a,
        rf_threshold = string_of_int (ar_threshold a), rf_durationPolls = string_of_int (ar_duration_polls a),
        rf_severity = ar_severity a, rf_enabled = ar_enabled a, rf_channels = ar_channel_ids a\<rparr>)"

definition rule_toggleChannel :: "string \<Rightarrow> alert_form \<Rightarrow> alert_form" where
  "rule_toggleChannel c f = f\<lparr>rf_channels := (if c \<in> set (rf_channels f) then filter (\<lambda>x. x \<noteq> c) (rf_channels f) else rf_channels f @ [c])\<rparr>"

text \<open>\<open>Number(s)\<close> in a body: what is not a number becomes null.\<close>

definition num_json :: "string \<Rightarrow> json" where
  "num_json s = (case Number_int s of None \<Rightarrow> JNull | Some n \<Rightarrow> JNum n)"

definition rule_submit :: "string \<Rightarrow> alert_rule option \<Rightarrow> alert_form \<Rightarrow> api_request" where
  "rule_submit tenantId r f =
     (let data = JObj [(''name'', JStr (rf_name f)), (''metric'', JStr (rf_metric f)), (''operator'', JStr (rf_operator f)),
        (''threshold'', num_json (rf_threshold f)), (''duration_polls'', num_json (rf_durationPolls f)), (''severity'', JStr (rf_severity f)),
        (''enabled'', JBool (rf_enabled f)), (''channel_ids'', JArr (map JStr (rf_channels f)))]
      in alertsApi tenantId (case r of None \<Rightarrow> Alerts_createAlertRule data | Some a \<Rightarrow> Alerts_updateAlertRule (ar_id a) data))"

record smtp_preset =
  pr_id :: string
  pr_host :: string
  pr_port :: nat
  pr_useTls :: bool

definition SMTP_PRESETS :: "smtp_preset list" where
  "SMTP_PRESETS = [
     \<lparr>pr_id = ''gmail'', pr_host = ''smtp.gmail.com'', pr_port = 587, pr_useTls = False\<rparr>,
     \<lparr>pr_id = ''microsoft365'', pr_host = ''smtp.office365.com'', pr_port = 587, pr_useTls = False\<rparr>,
     \<lparr>pr_id = ''fastmail'', pr_host = ''smtp.fastmail.com'', pr_port = 465, pr_useTls = True\<rparr>,
     \<lparr>pr_id = ''sendgrid'', pr_host = ''smtp.sendgrid.net'', pr_port = 587, pr_useTls = False\<rparr>,
     \<lparr>pr_id = ''amazon_ses'', pr_host = ''email-smtp.us-east-1.amazonaws.com'', pr_port = 587, pr_useTls = False\<rparr>,
     \<lparr>pr_id = ''mailpit'', pr_host = ''mailpit'', pr_port = 1025, pr_useTls = False\<rparr>,
     \<lparr>pr_id = ''custom'', pr_host = [], pr_port = 587, pr_useTls = False\<rparr>]"

record notify_channel =
  nc_id :: string
  nc_name :: string
  nc_type :: string
  nc_smtp_host :: "string option"
  nc_smtp_port :: "nat option"
  nc_smtp_user :: "string option"
  nc_smtp_use_tls :: "bool option"
  nc_from :: "string option"
  nc_to :: "string option"
  nc_webhook_url :: "string option"
  nc_slack_webhook_url :: "string option"

record channel_form =
  cf_type :: string
  cf_name :: string
  cf_smtpHost :: string
  cf_smtpPort :: string
  cf_smtpUser :: string
  cf_smtpPassword :: string
  cf_smtpUseTls :: bool
  cf_from :: string
  cf_to :: string
  cf_smtpProvider :: string
  cf_webhookUrl :: string
  cf_slackWebhookUrl :: string

definition channel_form_of :: "notify_channel option \<Rightarrow> channel_form" where
  "channel_form_of ch = (case ch of
      None \<Rightarrow> \<lparr>cf_type = ''email'', cf_name = [], cf_smtpHost = [], cf_smtpPort = ''587'', cf_smtpUser = [], cf_smtpPassword = [],
        cf_smtpUseTls = True, cf_from = [], cf_to = [], cf_smtpProvider = ''custom'', cf_webhookUrl = [], cf_slackWebhookUrl = []\<rparr>
    | Some c \<Rightarrow> \<lparr>cf_type = nc_type c, cf_name = nc_name c, cf_smtpHost = text_of (nc_smtp_host c),
        cf_smtpPort = string_of_int (int (case nc_smtp_port c of None \<Rightarrow> 587 | Some p \<Rightarrow> p)), cf_smtpUser = text_of (nc_smtp_user c),
        cf_smtpPassword = [], cf_smtpUseTls = (case nc_smtp_use_tls c of None \<Rightarrow> True | Some b \<Rightarrow> b),
        cf_from = text_of (nc_from c), cf_to = text_of (nc_to c), cf_smtpProvider = ''custom'',
        cf_webhookUrl = text_of (nc_webhook_url c), cf_slackWebhookUrl = text_of (nc_slack_webhook_url c)\<rparr>)"

definition handleProviderChange :: "string \<Rightarrow> channel_form \<Rightarrow> channel_form" where
  "handleProviderChange i f = (case find (\<lambda>p. pr_id p = i) SMTP_PRESETS of
      Some p \<Rightarrow> if i \<noteq> ''custom''
        then f\<lparr>cf_smtpProvider := i, cf_smtpHost := pr_host p, cf_smtpPort := string_of_int (int (pr_port p)), cf_smtpUseTls := pr_useTls p\<rparr>
        else f\<lparr>cf_smtpProvider := i\<rparr>
    | None \<Rightarrow> f\<lparr>cf_smtpProvider := i\<rparr>)"

text \<open>The test of the connection is offered with a host and a recipient.\<close>

definition handleTestSmtp :: "string \<Rightarrow> channel_form \<Rightarrow> api_request option" where
  "handleTestSmtp tenantId f = (if cf_smtpHost f = [] \<or> cf_to f = [] then None
     else Some (alertsApi tenantId (Alerts_testSmtp (JObj ([(''smtp_host'', JStr (cf_smtpHost f)), (''smtp_port'', num_json (cf_smtpPort f))]
       @ opt_str ''smtp_user'' (Some (cf_smtpUser f)) @ opt_str ''smtp_password'' (Some (cf_smtpPassword f))
       @ [(''smtp_use_tls'', JBool (cf_smtpUseTls f)),
          (''from_address'', JStr (if cf_from f = [] then ''alerts@example.com'' else cf_from f)), (''to_address'', JStr (cf_to f))])))))"

definition channel_body :: "channel_form \<Rightarrow> json obj" where
  "channel_body f = [(''name'', JStr (cf_name f)), (''channel_type'', JStr (cf_type f))]
     @ (if cf_type f = ''email''
        then [(''smtp_host'', JStr (cf_smtpHost f)), (''smtp_port'', num_json (cf_smtpPort f)), (''smtp_user'', JStr (cf_smtpUser f))]
          @ opt_str ''smtp_password'' (Some (cf_smtpPassword f))
          @ [(''smtp_use_tls'', JBool (cf_smtpUseTls f)), (''from_address'', JStr (cf_from f)), (''to_address'', JStr (cf_to f))]
        else if cf_type f = ''slack'' then [(''slack_webhook_url'', JStr (cf_slackWebhookUrl f))]
        else [(''webhook_url'', JStr (cf_webhookUrl f))])"

definition channel_submit :: "string \<Rightarrow> notify_channel option \<Rightarrow> channel_form \<Rightarrow> api_request" where
  "channel_submit tenantId ch f = alertsApi tenantId (case ch of
      None \<Rightarrow> Alerts_createChannel (JObj (channel_body f)) | Some c \<Rightarrow> Alerts_updateChannel (nc_id c) (JObj (channel_body f)))"

text \<open>Deleting asks first; rules that came with the system cannot be deleted.\<close>

definition rule_delete :: "string \<Rightarrow> bool \<Rightarrow> bool \<Rightarrow> alert_rule \<Rightarrow> api_request option" where
  "rule_delete tenantId mayWrite confirmed a =
     (if mayWrite \<and> \<not> ar_is_default a \<and> confirmed then Some (alertsApi tenantId (Alerts_deleteAlertRule (ar_id a))) else None)"

section \<open>Properties of the setup\<close>

definition verify_active :: "verify_run \<Rightarrow> bool" where
  "verify_active v \<longleftrightarrow> vs_mounted v \<and> vs_status v = Vs_polling"

definition verify_inv :: "verify_run \<Rightarrow> bool" where
  "verify_inv v \<longleftrightarrow> (if verify_active v
     then \<exists>i j. vs_intervalRef v = Some i \<and> vs_timeoutRef v = Some j \<and> vs_intervals v = {i} \<and> vs_timeouts v = {j}
     else vs_intervals v = {} \<and> vs_timeouts v = {})"

lemma cleanup_none: "verify_inv v \<Longrightarrow> vs_intervals (verify_cleanup v) = {} \<and> vs_timeouts (verify_cleanup v) = {}"
  by (auto simp: verify_inv_def verify_cleanup_def clear_ref_def split: if_splits option.splits)

lemma cleanup_fields [simp]:
  "vs_mounted (verify_cleanup v) = vs_mounted v" "vs_status (verify_cleanup v) = vs_status v"
  "verify_cleanup (v\<lparr>vs_inflight := n\<rparr>) = (verify_cleanup v)\<lparr>vs_inflight := n\<rparr>"
  "verify_cleanup (v\<lparr>vs_status := st\<rparr>) = (verify_cleanup v)\<lparr>vs_status := st\<rparr>"
  by (simp_all add: verify_cleanup_def)

lemma start_inv: "verify_inv v \<Longrightarrow> vs_mounted v \<Longrightarrow> verify_inv (startPolling v)"
  using cleanup_none [of v] by (simp add: startPolling_def Let_def verify_inv_def [of "_\<lparr>vs_fresh := _\<rparr>"] verify_active_def)

interpretation setup_polls: event_machine setup_verify_step verify_inv
proof
  fix v e
  assume inv: "verify_inv v"
  show "verify_inv (setup_verify_step e v)"
  proof (cases e)
    case (Ve_tick i)
    then show ?thesis using inv by (auto simp: verify_inv_def verify_active_def)
  next
    case (Ve_answer b)
    then show ?thesis using inv cleanup_none [OF inv] by (auto simp: verify_inv_def verify_active_def Let_def)
  next
    case (Ve_timeout i)
    then show ?thesis using inv by (auto simp: verify_inv_def verify_active_def clear_ref_def split: if_splits)
  next
    case Ve_wait_longer
    then show ?thesis using inv start_inv by simp
  next
    case Ve_unmount
    then show ?thesis using inv cleanup_none [OF inv] by (auto simp: verify_inv_def verify_active_def)
  qed
qed

lemma verify_mount_inv: "verify_inv verify_mount"
  by (simp add: verify_mount_def startPolling_def verify_cleanup_def clear_ref_def verify_inv_def verify_active_def Let_def)

text \<open>The setup wizard polls exactly while it says that it verifies. After any sequence of ticks, answers, timeouts and clicks there is
  one interval and one timeout while the component is shown and verifying, and no timer otherwise; and the timeout that is
  pending then ends the verification, so the user is never left waiting.\<close>
theorem setup_polling_bounded:
  "let v = fold setup_verify_step es verify_mount; busy = vs_mounted v \<and> vs_status v = Vs_polling in
     card (vs_intervals v) = (if busy then 1 else 0) \<and> card (vs_timeouts v) = (if busy then 1 else 0)
     \<and> (busy \<longrightarrow> (\<exists>j\<in>vs_timeouts v. let u = setup_verify_step (Ve_timeout j) v in
            vs_status u = Vs_timeout \<and> vs_intervals u = {} \<and> vs_timeouts u = {}))"
  using setup_polls.run_inv [OF verify_mount_inv, of es]
  by (auto simp: verify_inv_def verify_active_def Let_def clear_ref_def split: if_splits)

theorem setup_polling_bounded_witness:
  "let v = fold setup_verify_step [Ve_answer False, Ve_timeout 1, Ve_wait_longer] verify_mount in
     vs_mounted v \<and> vs_status v = Vs_polling \<and> card (vs_intervals v) = 1
     \<and> (\<exists>j\<in>vs_timeouts v. vs_status (setup_verify_step (Ve_timeout j) v) = Vs_timeout)"
proof -
  let ?v = "fold setup_verify_step [Ve_answer False, Ve_timeout 1, Ve_wait_longer] verify_mount"
  have "vs_mounted ?v \<and> vs_status ?v = Vs_polling"
    by (simp add: verify_mount_def startPolling_def verify_cleanup_def clear_ref_def Let_def)
  then show ?thesis using setup_polling_bounded [of "[Ve_answer False, Ve_timeout 1, Ve_wait_longer]"] unfolding Let_def by auto
qed

definition setup_ids :: "setup_event \<Rightarrow> bool" where
  "setup_ids e = (case e of Su_listed ts \<Rightarrow> [] \<notin> set ts | Su_tenant r \<Rightarrow> r \<noteq> Some [] | Su_device r \<Rightarrow> r \<noteq> Some [] | _ \<Rightarrow> True)"

definition setup_inv :: "setup_wizard \<Rightarrow> bool" where
  "setup_inv s \<longleftrightarrow> card_shown s \<and> su_step s \<in> {1, 2, 3} \<and> (su_adding s \<longrightarrow> su_tenantId s \<notin> {None, Some []})"

lemma setup_card_shown: "list_all setup_ids es \<Longrightarrow> card_shown (fold setup_step es setup_init)"
proof -
  have hd: "t \<noteq> []" if "filter (\<lambda>t. t \<noteq> SYSTEM_TENANT) ts = t # xs" "[] \<notin> set ts" for t ts xs
    using that by (metis filter_is_subset list.set_intros(1) subsetD)
  have step: "setup_inv s \<Longrightarrow> setup_ids e \<Longrightarrow> setup_inv (setup_step e s)" for e s
    by (cases e) (auto simp: setup_inv_def card_shown_def setup_ids_def tenants_listed_def dest: hd split: option.splits list.splits)
  have "list_all setup_ids es \<Longrightarrow> setup_inv s \<Longrightarrow> setup_inv (fold setup_step es s)" for s
    by (induction es arbitrary: s) (auto intro: step)
  from this [of setup_init] show "list_all setup_ids es \<Longrightarrow> ?thesis" by (simp add: setup_inv_def card_shown_def setup_init_def)
qed

text \<open>The list of organisations may answer late: it throws the user back from the verification to the second step, and to
  another organisation than the one just created.\<close>

lemma late_list_throws_back:
  "let s = fold setup_step [Su_create, Su_tenant (Some ''new''), Su_add, Su_device (Some ''d''), Su_listed [''old'', ''new'']] setup_init
   in su_step s = 2 \<and> su_tenantId s = Some ''old''"
  by code_simp

section \<open>Properties of firmware upgrades\<close>

definition card_inv :: "bool \<Rightarrow> version_group \<Rightarrow> version_card \<Rightarrow> bool" where
  "card_inv w g c \<longleftrightarrow> (\<forall>ds. vc_target c = Some ds \<longrightarrow> w \<and> ds \<noteq> [] \<and> (\<forall>d\<in>set ds. d \<in> set (vg_devices g) \<and> \<not> fd_up_to_date d))
     \<and> (\<forall>d. vc_dialog c = Some d \<longrightarrow> vc_target c \<noteq> None \<and> latestVersion g \<noteq> [] \<and> ud_progress d = None)"

lemma find_in: "find P xs = Some x \<Longrightarrow> x \<in> set xs \<and> P x"
  by (induction xs) (auto split: if_splits)

lemma latest_outdated: "latestVersion g \<noteq> [] \<Longrightarrow> \<exists>d\<in>set (vg_devices g). \<not> fd_up_to_date d \<and> fd_latest d = Some (latestVersion g)"
  by (auto simp: latestVersion_def firstOutdated_def text_of_def dest!: find_in split: option.splits)

interpretation upgrades: event_machine "card_step w g" "card_inv w g"
proof
  fix c e
  assume inv: "card_inv w g c"
  show "card_inv w g (card_step w g e c)"
  proof (cases e)
    case Vc_upgrade_all
    then show ?thesis using inv latest_outdated [of g]
      by (auto simp: card_step_def card_enabled_def render_dialog_def card_inv_def filter_empty_conv split: option.splits)
  next
    case (Vc_upgrade d)
    then show ?thesis using inv
      by (auto simp: card_step_def card_enabled_def render_dialog_def card_inv_def split: option.splits)
  qed (use inv in \<open>auto simp: card_step_def render_dialog_def card_inv_def split: option.splits\<close>)
qed

lemma card_init_inv: "card_inv w g version_card_init"
  by (simp add: card_inv_def version_card_init_def)


definition fw_demo :: "string \<Rightarrow> string \<Rightarrow> string \<Rightarrow> fw_device" where
  "fw_demo i latest ch = \<lparr>fd_id = i, fd_version = Some ''6.49'', fd_architecture = Some ''arm'', fd_latest = Some latest, fd_channel = ch, fd_up_to_date = False\<rparr>"

definition fw_demo_group :: version_group where
  "fw_demo_group = \<lparr>vg_version = ''6.49'', vg_is_latest = False, vg_devices = [fw_demo ''d1'' ''7.16'' ''stable'', fw_demo ''d2'' ''6.50'' ''long-term'']\<rparr>"


text \<open>The dialog closes when the upgrade has started, and its progress with it: no state ever shows the progress.\<close>

lemma progress_never_shown: "vc_dialog (fold (card_step w g) es version_card_init) = Some d \<Longrightarrow> ud_progress d = None"
  using upgrades.run_inv [OF card_init_inv, of w g es] by (simp add: card_inv_def)

text \<open>The upgrade of a single device takes version and channel of the first outdated device of the group, not its own: the second
  device, on the long-term channel, is sent to another major version.\<close>

lemma single_upgrade_other_version:
  "vc_target (fold (card_step True fw_demo_group) [Vc_upgrade (fw_demo ''d2'' ''6.50'' ''long-term'')] version_card_init) = Some [fw_demo ''d2'' ''6.50'' ''long-term'']
   \<and> latestVersion fw_demo_group = ''7.16'' \<and> upgrade_channel fw_demo_group = ''stable''"
  by code_simp

text \<open>A failed job has no step that looks active: the step that failed is not shown.\<close>

lemma failure_not_marked: "s \<in> set STATUS_STEPS \<Longrightarrow> statusStep s ''failed'' = Look_muted"
  by (auto simp: STATUS_STEPS_def statusStep_def)

lemma upgrade_progress_range:
  "0 \<le> ro_completed r \<Longrightarrow> 0 \<le> ro_failed r \<Longrightarrow> ro_completed r + ro_failed r \<le> ro_total r \<Longrightarrow>
   0 \<le> upgrade_progressPct r \<and> upgrade_progressPct r \<le> 100"
proof -
  assume a: "0 \<le> ro_completed r" "0 \<le> ro_failed r" "ro_completed r + ro_failed r \<le> ro_total r"
  show ?thesis
  proof (cases "0 < ro_total r")
    case True
    have "(200 * (ro_completed r + ro_failed r) + ro_total r) div (2 * ro_total r) \<le> (201 * ro_total r) div (2 * ro_total r)"
      using a True by (intro zdiv_mono1) auto
    also have "\<dots> = 201 div 2" using True by (simp add: mult.commute [of _ "ro_total r"] div_mult_mult1)
    finally show ?thesis using True a by (simp add: upgrade_progressPct_def pos_imp_zdiv_nonneg_iff)
  qed (simp add: upgrade_progressPct_def)
qed

section \<open>Properties of maintenance windows and alert channels\<close>

text \<open>A maintenance window is sent exactly when it makes sense: with a name, two valid times of which the end is later, and all
  devices or a selection of them; the request carries the times and either no device, for all, or the selected ones.
  With two valid times the form never fails: it sends or tells why not.\<close>
theorem maintenance_window_spec:
  assumes "time (mf_startAt f) = Some a" "time (mf_endAt f) = Some b"
  shows "((\<exists>r. maintenance_submit time isoText tenantId w f = Mw_sends r) \<longleftrightarrow>
      js_trim (mf_name f) \<noteq> [] \<and> mf_startAt f \<noteq> [] \<and> mf_endAt f \<noteq> [] \<and> a < b \<and> (mf_allDevices f \<or> mf_selectedDevices f \<noteq> []))
    \<and> maintenance_submit time isoText tenantId w f \<noteq> Mw_throws
    \<and> (\<forall>r. maintenance_submit time isoText tenantId w f = Mw_sends r \<longrightarrow>
      (\<exists>data. r = maintenanceApi tenantId (case w of None \<Rightarrow> Maint_create (JObj data) | Some m \<Rightarrow> Maint_update (mw_id m) (JObj data))
        \<and> obj_get data ''start_at'' = Some (JStr (isoText a)) \<and> obj_get data ''end_at'' = Some (JStr (isoText b))
        \<and> obj_get data ''device_ids'' = Some (JArr (map JStr (if mf_allDevices f then [] else mf_selectedDevices f)))))"
proof (intro conjI allI impI)
  show "(\<exists>r. maintenance_submit time isoText tenantId w f = Mw_sends r) \<longleftrightarrow>
      js_trim (mf_name f) \<noteq> [] \<and> mf_startAt f \<noteq> [] \<and> mf_endAt f \<noteq> [] \<and> a < b \<and> (mf_allDevices f \<or> mf_selectedDevices f \<noteq> [])"
    using assms by (auto simp: maintenance_submit_def Let_def)
  show "maintenance_submit time isoText tenantId w f \<noteq> Mw_throws"
    using assms by (auto simp: maintenance_submit_def Let_def)
  fix r
  assume "maintenance_submit time isoText tenantId w f = Mw_sends r"
  then show "\<exists>data. r = maintenanceApi tenantId (case w of None \<Rightarrow> Maint_create (JObj data) | Some m \<Rightarrow> Maint_update (mw_id m) (JObj data))
        \<and> obj_get data ''start_at'' = Some (JStr (isoText a)) \<and> obj_get data ''end_at'' = Some (JStr (isoText b))
        \<and> obj_get data ''device_ids'' = Some (JArr (map JStr (if mf_allDevices f then [] else mf_selectedDevices f)))"
    using assms by (auto simp: maintenance_submit_def Let_def obj_get_def split: if_splits)
qed

definition mw_demo :: maintenance_form where
  "mw_demo = maintenance_reset\<lparr>mf_name := ''night'', mf_startAt := ''1'', mf_endAt := ''22''\<rparr>"

theorem maintenance_window_spec_witness:
  "\<exists>r. maintenance_submit (\<lambda>s. Some (int (length s))) (\<lambda>t. string_of_int t) ''t'' None mw_demo = Mw_sends r"
proof -
  have "js_trim (mf_name mw_demo) \<noteq> [] \<and> mf_startAt mw_demo \<noteq> [] \<and> mf_endAt mw_demo \<noteq> [] \<and> int (length (mf_startAt mw_demo)) < int (length (mf_endAt mw_demo))
      \<and> mf_allDevices mw_demo" by code_simp
  then show ?thesis
    using maintenance_window_spec [of "\<lambda>s. Some (int (length s))" mw_demo, OF refl refl] by blast
qed

text \<open>Opening a window for editing selects its devices again, and no device stands for all.\<close>

lemma maintenance_refill: "mf_allDevices (maintenance_fill toLocal (Some m)) \<longleftrightarrow> mw_device_ids m = []"
  "(if mf_allDevices (maintenance_fill toLocal (Some m)) then [] else mf_selectedDevices (maintenance_fill toLocal (Some m))) = mw_device_ids m"
  by (simp_all add: maintenance_fill_def)

text \<open>A channel is saved with the fields of its own kind only, whatever was typed for another kind, and without a password unless one was typed.\<close>

lemma channel_kind_only:
  "cf_type f = ''email'' \<or> cf_type f = ''slack'' \<or> cf_type f = ''webhook'' \<Longrightarrow>
   (obj_get (channel_body f) ''webhook_url'' \<noteq> None \<longleftrightarrow> cf_type f = ''webhook'')
   \<and> (obj_get (channel_body f) ''slack_webhook_url'' \<noteq> None \<longleftrightarrow> cf_type f = ''slack'')
   \<and> (obj_get (channel_body f) ''smtp_host'' \<noteq> None \<longleftrightarrow> cf_type f = ''email'')
   \<and> (obj_get (channel_body f) ''smtp_password'' \<noteq> None \<longleftrightarrow> cf_type f = ''email'' \<and> cf_smtpPassword f \<noteq> [])"
  by (elim disjE) (simp_all add: channel_body_def obj_get_def opt_str_def)

text \<open>The test of a saved channel is sent without its password, which the form does not know.\<close>

lemma saved_channel_tested_without_password:
  "cf_smtpPassword (channel_form_of (Some ch)) = [] \<and> opt_str ''smtp_password'' (Some (cf_smtpPassword (channel_form_of (Some ch)))) = []"
  by (simp add: channel_form_of_def opt_str_def)

text \<open>Choosing a provider takes over its server; only the preset that speaks TLS from the start asks for it.\<close>

lemma provider_tls: "p \<in> set SMTP_PRESETS \<Longrightarrow> pr_id p \<noteq> ''custom'' \<Longrightarrow>
    cf_smtpHost (handleProviderChange (pr_id p) f) = pr_host p \<and> cf_smtpUseTls (handleProviderChange (pr_id p) f) = (pr_port p = 465)"
  unfolding SMTP_PRESETS_def handleProviderChange_def list.set insert_iff by (elim disjE) simp_all

end
