(* ===== verification/Administration.thy ===== *)
theory Administration
  imports Onboarding
begin

text \<open>
  Administration: the template editor (\<^verbatim>\<open>components/templates/TemplateEditor.tsx\<close>), credential profiles
  (\<^verbatim>\<open>components/settings/CredentialProfilesPage.tsx\<close>), the certificate dialogs
  (\<^verbatim>\<open>components/certificates/BulkDeployDialog.tsx\<close>, \<^verbatim>\<open>DeployCertDialog.tsx\<close>), the VPN tunnels of a device
  (\<^verbatim>\<open>lib/networkApi.ts\<close>) and the mode of the configuration pages (\<^verbatim>\<open>hooks/useSimpleConfig.ts\<close>).
\<close>

section \<open>The template editor\<close>

definition ident_start :: "char \<Rightarrow> bool" where
  "ident_start c \<longleftrightarrow> (let n = (of_char c :: nat) in 97 \<le> n \<and> n \<le> 122 \<or> 65 \<le> n \<and> n \<le> 90 \<or> n = 95)"

definition ident_char :: "char \<Rightarrow> bool" where
  "ident_char c \<longleftrightarrow> ident_start c \<or> is_digit 10 c"

text \<open>The pattern \<open>\{\{\s*([a-zA-Z_][a-zA-Z0-9_]*)\s*\}\}\<close> at the start of a text: the name and what follows. The parts exclude
  each other's first characters, so the match is found without backtracking.\<close>

fun match_var :: "string \<Rightarrow> (string \<times> string) option" where
  "match_var (a # b # s) =
     (if a = CHR ''{'' \<and> b = CHR ''{'' then
        (let s1 = dropWhile is_space s; nm = takeWhile ident_char s1; s2 = dropWhile is_space (dropWhile ident_char s1)
         in if nm \<noteq> [] \<and> ident_start (hd nm) \<and> startsWith s2 ''}}'' then Some (nm, drop 2 s2) else None)
      else None)"
| "match_var s = None"

lemma match_var_shorter: "match_var s = Some (nm, r) \<Longrightarrow> length r < length s"
proof (induction s rule: match_var.induct)
  case (1 a b s)
  then show ?case
    using length_dropWhile_le [of is_space s] length_dropWhile_le [of ident_char "dropWhile is_space s"]
      length_dropWhile_le [of is_space "dropWhile ident_char (dropWhile is_space s)"]
    by (auto simp: Let_def split: if_splits)
qed simp_all

text \<open>\<open>regex.exec\<close> in a loop: the leftmost match, then on behind it.\<close>

function scan_vars :: "string \<Rightarrow> string list" where
  "scan_vars [] = []"
| "scan_vars (c # s) = (case match_var (c # s) of Some (nm, r) \<Rightarrow> nm # scan_vars r | None \<Rightarrow> scan_vars s)"
  by pat_completeness auto

termination
  by (relation "measure length") (auto dest: match_var_shorter)

record template_var =
  tv_name :: string
  tv_type :: string
  tv_default :: "string option"
  tv_description :: "string option"

definition new_var :: "string \<Rightarrow> template_var" where
  "new_var nm = \<lparr>tv_name = nm, tv_type = ''string'', tv_default = None, tv_description = None\<rparr>"

definition detected :: "string \<Rightarrow> string list" where
  "detected content = set_of_list (filter (\<lambda>nm. nm \<noteq> ''device'') (scan_vars content))"

record template_editor =
  te_name :: string
  te_description :: string
  te_content :: string
  te_tags :: "string list"
  te_tagInput :: string
  te_variables :: "template_var list"
  te_saving :: bool
  te_error :: "string option"

definition addTag :: "template_editor \<Rightarrow> template_editor" where
  "addTag e = (let t = js_trim (te_tagInput e) in
     if t \<noteq> [] \<and> t \<notin> set (te_tags e) then e\<lparr>te_tags := te_tags e @ [t], te_tagInput := []\<rparr> else e)"

definition removeTag :: "string \<Rightarrow> template_editor \<Rightarrow> template_editor" where
  "removeTag t e = e\<lparr>te_tags := filter (\<lambda>x. x \<noteq> t) (te_tags e)\<rparr>"

definition detectVariables :: "template_editor \<Rightarrow> template_editor" where
  "detectVariables e = e\<lparr>te_variables := te_variables e
     @ map new_var (filter (\<lambda>nm. nm \<notin> set (map tv_name (te_variables e))) (detected (te_content e)))\<rparr>"

definition updateVariable :: "nat \<Rightarrow> (template_var \<Rightarrow> template_var) \<Rightarrow> template_editor \<Rightarrow> template_editor" where
  "updateVariable i f e = (if i < length (te_variables e) then e\<lparr>te_variables := (te_variables e)[i := f (te_variables e ! i)]\<rparr> else e)"

definition removeVariable :: "nat \<Rightarrow> template_editor \<Rightarrow> template_editor" where
  "removeVariable i e = e\<lparr>te_variables := take i (te_variables e) @ drop (Suc i) (te_variables e)\<rparr>"

definition addVariable :: "template_editor \<Rightarrow> template_editor" where
  "addVariable e = e\<lparr>te_variables := te_variables e @ [new_var []]\<rparr>"

text \<open>What is handed to \<open>onSave\<close>, or the message.\<close>

record template_data =
  td_name :: string
  td_description :: "string option"
  td_content :: string
  td_variables :: "template_var list"
  td_tags :: "string list"

definition template_handleSave :: "template_editor \<Rightarrow> string + template_data" where
  "template_handleSave e =
     (if js_trim (te_name e) = [] then Inl ''Template name is required''
      else if js_trim (te_content e) = [] then Inl ''Template content is required''
      else Inr \<lparr>td_name = js_trim (te_name e), td_description = (if js_trim (te_description e) = [] then None else Some (js_trim (te_description e))),
        td_content = te_content e, td_variables = filter (\<lambda>v. js_trim (tv_name v) \<noteq> []) (te_variables e), td_tags = te_tags e\<rparr>)"

definition template_saving :: "template_editor \<Rightarrow> template_editor \<times> template_data option" where
  "template_saving e = (if te_saving e then (e, None) else case template_handleSave e of
      Inl m \<Rightarrow> (e\<lparr>te_error := Some m\<rparr>, None)
    | Inr d \<Rightarrow> (e\<lparr>te_saving := True, te_error := None\<rparr>, Some d))"

definition template_saved :: "string option \<Rightarrow> template_editor \<Rightarrow> template_editor" where
  "template_saved failure e = (case failure of
      None \<Rightarrow> e\<lparr>te_saving := False\<rparr>
    | Some m \<Rightarrow> e\<lparr>te_error := Some m, te_saving := False\<rparr>)"

section \<open>Credential profiles\<close>

text \<open>The form is an object with optional properties; the security level and protocols are shown with a default when absent.\<close>

record credential_page =
  cr_dialogOpen :: bool
  cr_editing :: "string option"
  cr_form :: "string obj"
  cr_pending :: bool

definition cred_empty_form :: "string obj" where
  "cred_empty_form = [(''name'', []), (''credential_type'', ''routeros'')]"

definition cred_closeDialog :: "credential_page \<Rightarrow> credential_page" where
  "cred_closeDialog p = p\<lparr>cr_dialogOpen := False, cr_editing := None, cr_form := cred_empty_form\<rparr>"

definition cred_openCreateDialog :: "credential_page \<Rightarrow> credential_page" where
  "cred_openCreateDialog p = p\<lparr>cr_editing := None, cr_form := cred_empty_form, cr_dialogOpen := True\<rparr>"

definition cred_handleEdit :: "string \<Rightarrow> string \<Rightarrow> string option \<Rightarrow> string \<Rightarrow> credential_page \<Rightarrow> credential_page" where
  "cred_handleEdit i nm desc ty p = p\<lparr>cr_editing := Some i,
     cr_form := [(''name'', nm), (''description'', case desc of None \<Rightarrow> [] | Some d \<Rightarrow> d), (''credential_type'', ty)], cr_dialogOpen := True\<rparr>"

definition cred_updateForm :: "string \<Rightarrow> string \<Rightarrow> credential_page \<Rightarrow> credential_page" where
  "cred_updateForm k v p = p\<lparr>cr_form := obj_set k v (cr_form p)\<rparr>"

definition cred_payload :: "string obj \<Rightarrow> string obj" where
  "cred_payload f = obj_set ''credential_type'' (case obj_get f ''credential_type'' of None \<Rightarrow> [] | Some v \<Rightarrow> v)
     (obj_set ''name'' (case obj_get f ''name'' of None \<Rightarrow> [] | Some v \<Rightarrow> v) (filter (\<lambda>(k, v). v \<noteq> []) f))"

definition cred_handleSave :: "string \<Rightarrow> credential_page \<Rightarrow> api_request option" where
  "cred_handleSave tenantId p =
     (if js_trim (case obj_get (cr_form p) ''name'' of None \<Rightarrow> [] | Some v \<Rightarrow> v) = [] \<or> cr_pending p then None
      else let data = JObj (map (\<lambda>(k, v). (k, JStr v)) (cred_payload (cr_form p))) in
        Some (credentialProfilesApi tenantId (case cr_editing p of None \<Rightarrow> Cred_create data | Some i \<Rightarrow> Cred_update i data)))"

definition cred_saved :: "bool \<Rightarrow> credential_page \<Rightarrow> credential_page" where
  "cred_saved ok p = (if ok then (cred_closeDialog p)\<lparr>cr_pending := False\<rparr> else p\<lparr>cr_pending := False\<rparr>)"

definition cred_handleDelete :: "string \<Rightarrow> bool \<Rightarrow> string \<Rightarrow> api_request option" where
  "cred_handleDelete tenantId confirmed i = (if confirmed then Some (credentialProfilesApi tenantId (Cred_delete i)) else None)"

definition shown_level :: "credential_page \<Rightarrow> string" where
  "shown_level p = (case obj_get (cr_form p) ''security_level'' of None \<Rightarrow> ''no_auth_no_priv'' | Some l \<Rightarrow> l)"

text \<open>The fields that the dialog shows.\<close>

definition cred_shown :: "credential_page \<Rightarrow> string list" where
  "cred_shown p = [''credential_type'', ''name'', ''description''] @
     (let ty = (case obj_get (cr_form p) ''credential_type'' of None \<Rightarrow> [] | Some v \<Rightarrow> v); lv = shown_level p in
      if ty = ''routeros'' then [''username'', ''password'']
      else if ty = ''snmp_v2c'' then [''community'']
      else if ty = ''snmp_v3'' then [''username'', ''security_level'']
        @ (if lv = ''auth_no_priv'' \<or> lv = ''auth_priv'' then [''auth_protocol'', ''auth_passphrase''] else [])
        @ (if lv = ''auth_priv'' then [''priv_protocol'', ''priv_passphrase''] else [])
      else [])"

section \<open>Certificates\<close>

text \<open>Devices that have a certificate, or are getting one, are not offered.\<close>

record device_cert =
  dc_device_id :: string
  dc_status :: string

definition cert_available :: "device_cert list \<Rightarrow> string list \<Rightarrow> string list" where
  "cert_available certs ds = filter (\<lambda>d. d \<notin> set (map dc_device_id (filter (\<lambda>c. dc_status c = ''deployed'' \<or> dc_status c = ''deploying'') certs))) ds"

record bulk_result =
  br_success :: nat
  br_failed :: nat
  br_errors :: "(string \<times> string) list"

datatype bulk_cert_step = Bc_select | Bc_deploying | Bc_results

record bulk_deploy =
  bd_selected :: "string list"
  bd_step :: bulk_cert_step
  bd_result :: "bulk_result option"
  bd_open :: bool

definition bulk_deploy_init :: bulk_deploy where
  "bulk_deploy_init = \<lparr>bd_selected = [], bd_step = Bc_select, bd_result = None, bd_open = True\<rparr>"

definition cert_toggleDevice :: "string \<Rightarrow> bulk_deploy \<Rightarrow> bulk_deploy" where
  "cert_toggleDevice i b = b\<lparr>bd_selected := (if i \<in> set (bd_selected b) then filter (\<lambda>x. x \<noteq> i) (bd_selected b) else bd_selected b @ [i])\<rparr>"

definition cert_selectAll :: "string list \<Rightarrow> bulk_deploy \<Rightarrow> bulk_deploy" where
  "cert_selectAll available b = b\<lparr>bd_selected := set_of_list available\<rparr>"

definition cert_deselectAll :: "bulk_deploy \<Rightarrow> bulk_deploy" where
  "cert_deselectAll b = b\<lparr>bd_selected := []\<rparr>"

record cert_response =
  cs_device_id :: string
  cs_success :: bool
  cs_error :: "string option"

definition bulk_result_of :: "cert_response list \<Rightarrow> bulk_result" where
  "bulk_result_of rs = (let failed = filter (\<lambda>r. \<not> cs_success r) rs in
     \<lparr>br_success = length (filter cs_success rs), br_failed = length failed,
      br_errors = map (\<lambda>f. (cs_device_id f, case cs_error f of None \<Rightarrow> ''Unknown error'' | Some e \<Rightarrow> e)) failed\<rparr>)"

definition bulk_handleDeploy :: "string \<Rightarrow> bulk_deploy \<Rightarrow> api_request option \<times> bulk_deploy" where
  "bulk_handleDeploy tenantId b = (if bd_selected b = [] then (None, b)
     else (Some (certificatesApi (Cert_bulkDeploy (bd_selected b) (Some tenantId))), b\<lparr>bd_step := Bc_deploying\<rparr>))"

text \<open>The answer, for the devices selected when it was asked for.\<close>

definition bulk_deployed :: "string list \<Rightarrow> string option + cert_response list \<Rightarrow> bulk_deploy \<Rightarrow> bulk_deploy" where
  "bulk_deployed asked ans b = (case ans of
      Inr rs \<Rightarrow> b\<lparr>bd_result := Some (bulk_result_of rs), bd_step := Bc_results\<rparr>
    | Inl detail \<Rightarrow> b\<lparr>bd_result := Some \<lparr>br_success = 0, br_failed = length asked,
        br_errors = [(''bulk'', case detail of Some m \<Rightarrow> if m = [] then ''Bulk deployment failed'' else m | None \<Rightarrow> ''Bulk deployment failed'')]\<rparr>,
        bd_step := Bc_results\<rparr>)"

definition bulk_handleClose :: "bulk_deploy \<Rightarrow> bulk_deploy" where
  "bulk_handleClose b = b\<lparr>bd_open := False, bd_selected := [], bd_step := Bc_select, bd_result := None\<rparr>"

section \<open>VPN tunnels of a device\<close>

record vpn_tunnel =
  vt_type :: string
  vt_remote_endpoint :: string
  vt_status :: string
  vt_uptime :: "string option"
  vt_rx_bytes :: "string option"
  vt_tx_bytes :: "string option"
  vt_local_address :: "string option"
  vt_public_key :: "string option"
  vt_last_handshake :: "string option"
  vt_state :: "string option"

definition or_null :: "entry \<Rightarrow> string \<Rightarrow> string option" where
  "or_null e k = (if field e k = [] then None else Some (field e k))"

definition or_text :: "string \<Rightarrow> string \<Rightarrow> string" where
  "or_text a b = (if a = [] then b else a)"

definition parseWireGuardPeers :: "entry list \<Rightarrow> vpn_tunnel list" where
  "parseWireGuardPeers = map (\<lambda>e. \<lparr>vt_type = ''wireguard'',
     vt_remote_endpoint = or_text (field e ''current-endpoint-address'') (or_text (field e ''endpoint-address'') ''unknown''),
     vt_status = (if field e ''current-endpoint-address'' \<noteq> [] then ''connected'' else ''waiting''),
     vt_uptime = None, vt_rx_bytes = or_null e ''rx'', vt_tx_bytes = or_null e ''tx'', vt_local_address = or_null e ''allowed-address'',
     vt_public_key = or_null e ''public-key'', vt_last_handshake = or_null e ''last-handshake'', vt_state = None\<rparr>)"

definition parseIpsecPeers :: "entry list \<Rightarrow> vpn_tunnel list" where
  "parseIpsecPeers = map (\<lambda>e. \<lparr>vt_type = ''ipsec'', vt_remote_endpoint = or_text (field e ''remote-address'') ''unknown'',
     vt_status = or_text (field e ''state'') ''established'', vt_uptime = or_null e ''uptime'',
     vt_rx_bytes = or_null e ''rx-bytes'', vt_tx_bytes = or_null e ''tx-bytes'', vt_local_address = or_null e ''local-address'',
     vt_public_key = None, vt_last_handshake = None, vt_state = or_null e ''state''\<rparr>)"

definition parseL2tpServers :: "entry list \<Rightarrow> vpn_tunnel list" where
  "parseL2tpServers es = map (\<lambda>e. \<lparr>vt_type = ''l2tp'', vt_remote_endpoint = or_text (field e ''client-address'') (or_text (field e ''name'') ''unknown''),
     vt_status = (if field e ''running'' = ''true'' then ''connected'' else ''inactive''), vt_uptime = or_null e ''uptime'',
     vt_rx_bytes = None, vt_tx_bytes = None, vt_local_address = or_null e ''local-address'',
     vt_public_key = None, vt_last_handshake = None, vt_state = None\<rparr>)
     (filter (\<lambda>e. field e ''running'' = ''true'' \<or> field e ''client-address'' \<noteq> []) es)"

text \<open>A settled browse: rejected, or an answer with its flag and entries.\<close>

type_synonym browse_answer = "(bool \<times> entry list) option"

definition browsed :: "browse_answer \<Rightarrow> entry list" where
  "browsed a = (case a of Some (True, es) \<Rightarrow> es | _ \<Rightarrow> [])"

definition getVpnTunnels :: "browse_answer \<Rightarrow> browse_answer \<Rightarrow> browse_answer \<Rightarrow> vpn_tunnel list" where
  "getVpnTunnels wg ipsec l2tp = parseWireGuardPeers (browsed wg) @ parseIpsecPeers (browsed ipsec) @ parseL2tpServers (browsed l2tp)"

section \<open>The mode of the configuration pages\<close>

text \<open>The stored text, \<open>None\<close> inside for one that does not parse.\<close>

type_synonym mode_storage = "string obj option option"

definition readPrefs :: "mode_storage \<Rightarrow> string obj" where
  "readPrefs st = (case st of Some (Some prefs) \<Rightarrow> prefs | _ \<Rightarrow> [])"

definition mount_mode :: "string \<Rightarrow> mode_storage \<Rightarrow> string" where
  "mount_mode deviceId st = (case obj_get (readPrefs st) deviceId of None \<Rightarrow> ''standard'' | Some m \<Rightarrow> m)"

definition toggleMode :: "string \<Rightarrow> string \<Rightarrow> mode_storage \<Rightarrow> string \<times> mode_storage" where
  "toggleMode deviceId newMode st = (newMode, Some (Some (obj_set deviceId newMode (readPrefs st))))"

section \<open>Properties of the template editor\<close>

text \<open>A template as its author means it: text without braces, and placeholders.\<close>

datatype template_part = Plain string | Place string string string

fun part_text :: "template_part \<Rightarrow> string" where
  "part_text (Plain s) = s"
| "part_text (Place a nm b) = ''{{'' @ a @ nm @ b @ ''}}''"

fun part_ok :: "template_part \<Rightarrow> bool" where
  "part_ok (Plain s) \<longleftrightarrow> CHR ''{'' \<notin> set s"
| "part_ok (Place a nm b) \<longleftrightarrow> list_all is_space a \<and> list_all is_space b \<and> nm \<noteq> [] \<and> ident_start (hd nm) \<and> list_all ident_char nm"

fun part_names :: "template_part \<Rightarrow> string list" where
  "part_names (Plain s) = []"
| "part_names (Place a nm b) = [nm]"

lemma ident_no_space: "ident_char c \<Longrightarrow> \<not> is_space c \<and> c \<noteq> CHR ''}''"
  by (auto simp: ident_char_def ident_start_def is_space_def is_digit_def digit_of_def Let_def split: if_splits)

lemma space_no_brace: "is_space c \<Longrightarrow> \<not> ident_char c \<and> c \<noteq> CHR ''}''"
  using ident_no_space by (auto simp: is_space_def)

lemma takeWhile_split: "list_all P xs \<Longrightarrow> ys = [] \<or> \<not> P (hd ys) \<Longrightarrow> takeWhile P (xs @ ys) = xs \<and> dropWhile P (xs @ ys) = ys"
  by (induction xs) (cases ys; auto)+

lemma match_place:
  assumes "part_ok (Place a nm b)"
  shows "match_var (part_text (Place a nm b) @ r) = Some (nm, r)"
proof -
  let ?tail = "''}}'' @ r"
  have nm: "nm \<noteq> []" "ident_char (hd nm)" "list_all ident_char nm" and a: "list_all is_space a" and b: "list_all is_space b"
    using assms by (auto simp: ident_char_def)
  have 1: "dropWhile is_space (a @ nm @ b @ ?tail) = nm @ b @ ?tail"
    using takeWhile_split [OF a, of "nm @ b @ ?tail"] nm ident_no_space by auto
  have "\<not> ident_char (hd (b @ ?tail))"
    using b space_no_brace ident_no_space [of "CHR ''}''"] by (cases b) auto
  then have 2: "takeWhile ident_char (nm @ b @ ?tail) = nm" "dropWhile ident_char (nm @ b @ ?tail) = b @ ?tail"
    using takeWhile_split [OF nm(3), of "b @ ?tail"] by auto
  have 3: "dropWhile is_space (b @ ?tail) = ?tail"
    using takeWhile_split [OF b, of ?tail] by (simp add: is_space_def)
  have "match_var (CHR ''{'' # CHR ''{'' # a @ nm @ b @ ?tail) = Some (nm, r)"
    using assms by (simp only: match_var.simps Let_def 1 2 3) (simp add: startsWith_def)
  then show ?thesis by simp
qed

lemma scan_plain: "CHR ''{'' \<notin> set s \<Longrightarrow> scan_vars (s @ t) = scan_vars t"
proof (induction s)
  case (Cons c s)
  have "match_var (c # x) = None" for x using Cons(2) by (cases x) auto
  then show ?case using Cons by simp
qed simp

lemma scan_parts: "list_all part_ok ps \<Longrightarrow> scan_vars (concat (map part_text ps)) = concat (map part_names ps)"
proof (induction ps)
  case (Cons p ps)
  show ?case
  proof (cases p)
    case (Plain s)
    then show ?thesis using Cons by (simp add: scan_plain)
  next
    case (Place a nm b)
    have "match_var (part_text p @ concat (map part_text ps)) = Some (nm, concat (map part_text ps))"
      using Cons(2) Place match_place by auto
    then show ?thesis using Cons Place by simp
  qed
qed simp


definition demo_template :: template_editor where
  "demo_template = \<lparr>te_name = ''t'', te_description = [], te_content = ''/ip address add address={{ ip}} interface={{lan }}'', te_tags = [], te_tagInput = [],
     te_variables = [new_var ''lan''], te_saving = False, te_error = None\<rparr>"


section \<open>Properties of the other pages\<close>

text \<open>The level that the dialog shows for a new SNMPv3 profile is not part of what it sends, and the server requires it.\<close>

lemma level_shown_not_sent:
  "let p = fold (\<lambda>(k, v). cred_updateForm k v) [(''credential_type'', ''snmp_v3''), (''name'', ''v3''), (''username'', ''u'')]
       (cred_openCreateDialog \<lparr>cr_dialogOpen = False, cr_editing = None, cr_form = cred_empty_form, cr_pending = False\<rparr>)
   in ''security_level'' \<in> set (cred_shown p) \<and> shown_level p = ''no_auth_no_priv'' \<and> obj_get (cred_payload (cr_form p)) ''security_level'' = None"
  by code_simp

text \<open>What was typed for one kind of credentials is sent along with another kind that no longer shows it.\<close>

lemma hidden_field_sent:
  "let p = fold (\<lambda>(k, v). cred_updateForm k v) [(''name'', ''x''), (''password'', ''secret''), (''credential_type'', ''snmp_v2c''), (''community'', ''c'')]
       (cred_openCreateDialog \<lparr>cr_dialogOpen = False, cr_editing = None, cr_form = cred_empty_form, cr_pending = False\<rparr>)
   in ''password'' \<notin> set (cred_shown p) \<and> obj_get (cred_payload (cr_form p)) ''password'' = Some ''secret''"
  by code_simp

text \<open>Every answer of a bulk deployment is counted once, and every failure has its message.\<close>

lemma bulk_result_counts:
  "br_success (bulk_result_of rs) + br_failed (bulk_result_of rs) = length rs
   \<and> map fst (br_errors (bulk_result_of rs)) = map cs_device_id (filter (\<lambda>r. \<not> cs_success r) rs)"
  by (simp add: bulk_result_of_def Let_def comp_def sum_length_filter_compl)

text \<open>A dialog closed while it deploys shows the results of that deployment when it is opened again.\<close>

lemma results_after_close: "bd_step (bulk_deployed ds (Inr rs) (bulk_handleClose b)) = Bc_results"
  by (simp add: bulk_deployed_def)

text \<open>Whatever a device answers, or does not, each tunnel that is listed names its other end.\<close>

lemma tunnels_named: "t \<in> set (getVpnTunnels wg ipsec l2tp) \<Longrightarrow> vt_remote_endpoint t \<noteq> [] \<and> vt_status t \<noteq> []"
  by (auto simp: getVpnTunnels_def parseWireGuardPeers_def parseIpsecPeers_def parseL2tpServers_def or_text_def split: if_splits)

text \<open>The chosen mode is found again, also when the stored text was damaged, and choosing it for one device changes no other.\<close>

lemma mode_remembered:
  "mount_mode d' (snd (toggleMode d m st)) = (if d' = d then m else mount_mode d' st)"
  by (simp add: mount_mode_def toggleMode_def readPrefs_def)

end
