(* ===== verification/Spec2Isabelle.thy ===== *)
theory Spec2Isabelle
  imports SecretKey Srp Keys KeyStore DataEncryption Errors ApiClient Account ConfigPanel EventStream AdoptionWizard PanelProperties SimplePanels Rollouts AppShell ApiRoutes Onboarding RemoteAccess EditorPage Tables SnmpProfiles Upkeep Administration
begin

text \<open>
  The Other Dude: a verification development for the web client of a MikroTik fleet manager
  (\<^verbatim>\<open>src/frontend/src\<close>, TypeScript). Source paths below are relative to that directory.

  \<^bold>\<open>The program.\<close> A tenant's users manage routers through a browser. Four layers meet there.
  \<^item> The cryptographic core: a printed Secret Key and a password give, by two-secret key derivation, the key
    that unlocks the vault key and the SRP-6a secret that proves the password to the server without sending it.
  \<^item> The session: registration, login, upgrade of old accounts, password change, the route guard, the HTTP
    client that renews an expired token once for all waiting requests, and the stream of live events.
  \<^item> The configuration panels: each shows entries of a device, collects changes in a dialog, stages them in the
    panel hook, shows them as a RouterOS script and applies them one after the other through the editor API.
  \<^item> The fleet: finding, adding and adopting devices, operations on many devices at once, remote sessions,
    tables, and the pages of settings around them.

  \<^bold>\<open>Conventions.\<close> Data are records and datatypes with the fields of the source; handlers are functions from
  state to state, together with the requests they send; an asynchronous answer is an argument of the handler that receives
  it, or an event of a step function, so that answers may come in any order, late or after the component is gone. A
  thrown value is the left summand of \<open>Errors.thrown + 'a\<close>; in \<open>Actions\<close> the state written before the exception is
  kept. \<open>NaN\<close> and missing values are \<open>None\<close>. Numbers are integers where the source uses them as such; bytes are words.
  Strings are lists of characters of one byte: text beyond Latin-1 and surrogate pairs are outside the model.

  \<^bold>\<open>Parameters.\<close> What the browser, libraries and the server do is an argument: WebCrypto (\<open>subtle\<close>, with SHA-256,
  HKDF, PBKDF2, AES-GCM), \<open>localeCompare\<close>, the password meter \<open>zxcvbn\<close>, random bytes, clocks and time zones, the answers
  of the server and of the devices, \<open>crypto.randomUUID\<close>. Theorems name what they need of them (decryption inverts
  encryption, the group of SRP has the stated order, a comparison is a total preorder), and each such theorem
  has a witness with concrete functions in their place.

  \<^bold>\<open>Theories.\<close>
  \<^item> \<open>Prelude\<close>, \<open>Bytes\<close>, \<open>Regex\<close>, \<open>Actions\<close>: strings, objects as ordered association lists, \<open>parseInt\<close> and \<open>Number\<close>; hex, base64 and
    UTF-8; anchored regular expressions as matchers; handlers that may throw. \<open>Prelude\<close> holds the collections of
    simplification rules and the locale \<open>event_machine\<close>: an invariant kept by each event holds after every run.
  \<^item> \<open>SecretKey\<close> (\<^verbatim>\<open>lib/crypto/secretKey.ts\<close>, \<^verbatim>\<open>components/auth/SecretKeyInput.tsx\<close>), \<open>Srp\<close> (\<^verbatim>\<open>lib/crypto/srp.ts\<close>),
    \<open>Keys\<close> (\<^verbatim>\<open>lib/crypto/keys.ts\<close>, \<^verbatim>\<open>worker.ts\<close>), \<open>KeyStore\<close> (\<^verbatim>\<open>keyStore.ts\<close>), \<open>DataEncryption\<close> (\<^verbatim>\<open>dataEncryption.ts\<close>,
    \<^verbatim>\<open>lib/diffUtils.ts\<close>), \<open>Registration\<close> (\<^verbatim>\<open>registration.ts\<close>). Shown: the printed key parses back to the
    generated bytes; the Montgomery ladder is modular exponentiation; both sides of SRP compute the same session key
    and the server's proof is accepted exactly when it is right; the worker derives what the main thread derives;
    decryption inverts encryption. The key store is the dictionary that the locale in \<open>KeyStore\<close> promises to its clients.
  \<^item> \<open>Errors\<close> (\<^verbatim>\<open>lib/errors.ts\<close>), \<open>ApiClient\<close> (interceptor of \<^verbatim>\<open>lib/api.ts\<close>), \<open>Auth\<close> (\<^verbatim>\<open>lib/auth.ts\<close>), \<open>Account\<close> (login, upgrade,
    password and reset pages), \<open>EventStream\<close> (\<^verbatim>\<open>hooks/useEventStream.ts\<close>), \<open>AppShell\<close> (\<^verbatim>\<open>routes/_authenticated.tsx\<close>,
    \<^verbatim>\<open>hooks/useShortcut.ts\<close>, \<^verbatim>\<open>lib/store.ts\<close>, \<^verbatim>\<open>lib/theme.ts\<close>, \<^verbatim>\<open>lib/utils.ts\<close>). Shown: an honest server lets the user in and gives
    the vault back, a failed login leaves no key behind, no state claims a session without a user, at most one token refresh runs and
    frees all that wait for it, the event stream always has a source, an exchange or a timer, so it never stops retrying.
  \<^item> \<open>ConfigPanel\<close> (\<^verbatim>\<open>lib/configPanelTypes.ts\<close>, \<^verbatim>\<open>hooks/useConfigPanel.ts\<close>, \<^verbatim>\<open>lib/configEditorApi.ts\<close>), \<open>Staging\<close> (the contract
    \<open>staging_table\<close> between a table and its panel), and the tables in \<open>AddressPanels\<close>, \<open>DhcpPanels\<close>, \<open>FirewallPanels\<close>,
    \<open>KeyedPanels\<close>, \<open>SystemPanels\<close>, \<open>InterfacePanels\<close>, \<open>QueueTree\<close>, with the simple mode in \<open>SimpleSchema\<close> and \<open>SimplePanels\<close> and the validators in
    \<open>NetAddress\<close>. \<open>PanelProperties\<close> joins them: every change any table stages is well formed, well-formed changes can be
    delivered, the script reads back as the change, changes are applied in order. Validators are characterised by the
    addresses they accept; the queue tree builder, which can meet cycles in the data of a device, always ends.
  \<^item> \<open>Onboarding\<close> (adding, bulk adding, subnet scan), \<open>AdoptionVerify\<close> and \<open>AdoptionWizard\<close> (the adoption wizard and its verification),
    \<open>Rollouts\<close> (bulk commands, batch configuration, template push), \<open>RemoteAccess\<close> (SSH terminal, WinBox tunnel and
    remote WinBox), \<open>EditorPage\<close> (configuration editor, command executor, diagnostic tools), \<open>ApiRoutes\<close> (requests of all \<^verbatim>\<open>lib/*Api.ts\<close>
    modules), \<open>Tables\<close> (sorting, selection, pages), \<open>SnmpProfiles\<close> (SNMP profile editor and its tree),
    \<open>Upkeep\<close> (setup wizard, firmware upgrades, maintenance windows, alert channels), \<open>Administration\<close> (template editor,
    credential profiles, bulk certificates, VPN tunnels, configuration mode).
    Shown: what is sent is what was selected and confirmed, blocked commands never leave, every device of a run gets
    a final state, progress and sessions keep their invariants, requests of tenant modules stay inside the tenant.
  \<^item> This theory: registration followed by login, across all of the cryptographic core.

  \<^bold>\<open>Interfaces.\<close> \<open>event_machine\<close> (state machines, interpreted for each of them), \<open>staging_table\<close> (interpreted for each table), the
  dictionary of \<open>KeyStore\<close>, \<open>row_comparator\<close> and \<open>sort_column\<close> in \<open>Tables\<close>; clients use the laws through the interpretations.

  \<^bold>\<open>Termination and fuel.\<close> Loops over data are recursive functions on lists or on a decreasing measure. Two functions take fuel:
  the queue tree builder gets the number of entries, since each recursive call descends to an entry not on its path,
  and the adoption wizard's driver gets twice the devices plus twice the polling attempts, which bounds the probes and polls
  of a verification run; for both it is proved that this fuel is enough. Polling that goes on until an answer comes is
  an event machine with no bound.

  \<^bold>\<open>Not modelled.\<close> The rendering of components, style sheets, charts, maps and animations, since they compute no state; React's
  scheduling beyond the order of events; toasts; the cache of the query library, whose results are the arguments of the
  models; the generated route tree and type declarations; typed text outside Latin-1; rounding of floating-point numbers.
  The Python backend, the Go poller, the WinBox worker and the deployment files are other programs, which appear here by
  their answers only.
\<close>

section \<open>From registration to login\<close>

text \<open>C1: A registered user gets in, and gets the vault back. If the server stores what
  \<open>performRegistration\<close> sent, answers the login as SRP-6a prescribes for the stored verifier, and
  accepts a client whose proof matches, then on a device without a stored key the login with the
  same password and the printed Secret Key succeeds: the user is authenticated, the vault key and
  the private key in the key store are those generated at registration, now non-extractable,
  and the Secret Key is stored for the next login.\<close>
theorem registered_user_logs_in:
  assumes grp: "2 < grp_N grp" "grp_g grp ^ nat (grp_N grp - 1) mod grp_N grp = 1"
    and sha: "sha = sc_digest sc" "\<And>m. sha m \<noteq> []"
    and hkdf: "\<And>key salt info out. sc_hkdf sc key salt info = Inr out \<Longrightarrow> out \<noteq> []"
    and wrap: "wrap_documented sc restrict"
    and reg: "performRegistration sc grp None src email pw = Inr reg" "length (rnd_secretKey src) = 16"
    and gen: "gen_rsa src = Inr (publicKey, privateKey)" "gen_vaultKey src = Inr vaultKey"
    and env: "ae_sc env = sc" "ae_group env = grp" "ae_worker_error env = None"
      "ae_get_fault env = None" "ae_put_fault env = None" "ae_me env = Inr user"
    and device: "getSecretKey None email (se_keys s) = Inr None"
    and init: "ae_srpInit env email = Inr init" "si_pbkdf2_salt init = pbkdf2_salt (rg_keyBundle reg)"
      "si_hkdf_salt init = hkdf_salt (rg_keyBundle reg)" "si_salt init = rg_srp_salt reg"
    and server: "BigInt_hex (rg_srp_verifier reg) = Inr v" "srp_k sha grp = Inr k"
      "B = server_B grp k v b" "BigInt_hex (si_server_public init) = Inr B"
    and client: "new_SRPClient grp email (ae_rnd env) = Inr c"
    and scramble: "srp_u sha grp (cl_A c) B = Inr u" "u \<noteq> 0" "B \<noteq> 0"
    and K: "K = sha (bigintToBytes (server_S grp (cl_A c) v u b))"
    and verify: "\<And>p. sv_client_proof p = bytesToHex (client_M1 sha c (si_salt init) B K) \<Longrightarrow>
      ae_srpVerify env p = Inr \<lparr>sr_server_proof = bytesToHex (sha (hexToBytes (sv_client_public p)
          @ hexToBytes (sv_client_proof p) @ K)), sr_encrypted_key_set = Some (rg_keyBundle reg)\<rparr>"
  shows "\<exists>s'. srpLogin env email pw (Some (rg_secretKey reg)) s = (s', Inr ())
    \<and> isAuthenticated (se_auth s') \<and> au_user (se_auth s') = Some user \<and> \<not> isLoading (se_auth s')
    \<and> getVaultKey (se_keys s') = Some (restrict False [''encrypt'', ''decrypt''] vaultKey)
    \<and> getPrivateKey (se_keys s') = Some (restrict False [''decrypt''] privateKey)
    \<and> getSecretKey None email (se_keys s') = Inr (Some (rnd_secretKey src))"
proof -
  obtain auk srpX wpriv wvault where
    avail: "sc_available sc"
    and derive: "deriveKeysInWorker sc None (registration_params src email pw) = Inr (auk, srpX)"
    and v: "computeVerifier grp (bytesToHex srpX) = Inr (rg_srp_verifier reg)"
    and wpriv: "sc_wrap sc ''pkcs8'' privateKey auk (rnd_privateKeyNonce src) = Inr wpriv"
    and wvault: "sc_wrap sc ''raw'' vaultKey auk (rnd_vaultKeyNonce src) = Inr wvault"
    and key: "rg_secretKey reg = formatSecretKey (rnd_secretKey src)"
    and salts: "pbkdf2_salt (rg_keyBundle reg) = toBase64 (rnd_pbkdf2Salt src)"
      "hkdf_salt (rg_keyBundle reg) = toBase64 (rnd_hkdfSalt src)"
    and kb: "encrypted_vault_key (rg_keyBundle reg) = toBase64 wvault"
      "vault_key_nonce (rg_keyBundle reg) = toBase64 (rnd_vaultKeyNonce src)"
      "encrypted_private_key (rg_keyBundle reg) = toBase64 wpriv"
      "private_key_nonce (rg_keyBundle reg) = toBase64 (rnd_privateKeyNonce src)"
    using reg(1) gen by (elim performRegistration_Inr) simp
  have params: "registration_params src email pw =
      srp_params email pw (rnd_secretKey src) (rnd_pbkdf2Salt src) (rnd_hkdfSalt src)"
    by (simp add: registration_params_def srp_params_def generateSecretKey_def)
  have run: "srp_handshake env email pw (rnd_secretKey src) t =
      (t\<lparr>se_auth := (se_auth t)\<lparr>isDerivingKeys := False, au_user := Some user, isAuthenticated := True,
            isLoading := False, needsSecretKey := False\<rparr>,
         se_keys := db_store email (rnd_secretKey src) (setPrivateKey (restrict False [''decrypt''] privateKey)
           (setVaultKey (restrict False [''encrypt'', ''decrypt''] vaultKey) (setAUK auk (se_keys t))))\<rparr>, Inr ())" for t
    by (rule srp_handshake_run [OF grp sha hkdf wrap derive [unfolded params] v wvault wpriv kb env(1-3,5,6) init(1)
          init(2) [unfolded salts] init(3) [unfolded salts] server client scramble K verify])
  have i: "rg_secretKey reg \<noteq> []" "parseSecretKey (rg_secretKey reg) = Some (rnd_secretKey src)"
    using secret_key.dec_enc [OF reg(2)] by (simp_all add: key formatSecretKey_def)
  show ?thesis
    by (rule srpLogin_run [where sk = "rnd_secretKey src" and i = "rg_secretKey reg"])
      (use device i in \<open>simp_all add: avail env db_ops run\<close>, simp add: key_store_defs db_store_def db_get_def)
qed

text \<open>A registration and a server to run it against.\<close>

definition demo_source :: "unit reg_source" where
  "demo_source = \<lparr>rnd_secretKey = replicate 16 7, rnd_pbkdf2Salt = [1], rnd_hkdfSalt = [2], rnd_srpSalt = [5],
     gen_rsa = Inr ((), ()), rnd_privateKeyNonce = [8], gen_vaultKey = Inr (), rnd_vaultKeyNonce = [9]\<rparr>"

definition demo_reg :: registration_result where
  "demo_reg = \<lparr>rg_secretKey = formatSecretKey (replicate 16 7), rg_secretKeyRaw = replicate 16 7,
     rg_srp_salt = reg_toHex [5], rg_srp_verifier = ''10'',
     rg_keyBundle = \<lparr>encrypted_private_key = toBase64 [], private_key_nonce = toBase64 [8],
       encrypted_vault_key = toBase64 [], vault_key_nonce = toBase64 [9], public_key = toBase64 [],
       pbkdf2_salt = toBase64 [1], hkdf_salt = toBase64 [2]\<rparr>\<rparr>"

definition demo_server :: "unit auth_env" where
  "demo_server = demo_env
     \<lparr>ae_srpInit := \<lambda>_. Inr \<lparr>si_salt = rg_srp_salt demo_reg, si_server_public = ''f'', si_session_id = ''s'',
        si_pbkdf2_salt = pbkdf2_salt (rg_keyBundle demo_reg), si_hkdf_salt = hkdf_salt (rg_keyBundle demo_reg)\<rparr>,
      ae_srpVerify := \<lambda>_. Inr \<lparr>sr_server_proof = ''03'', sr_encrypted_key_set = Some (rg_keyBundle demo_reg)\<rparr>\<rparr>"

lemma demo_registration: "performRegistration demo_subtle demo_group None demo_source ''a'' ''pw'' = Inr demo_reg"
proof -
  have "computeVerifier demo_group (reg_toHex [4]) = Inr ''10''" by code_simp
  moreover have "deriveKeysInWorker demo_subtle None (registration_params demo_source ''a'' ''pw'') = Inr ((), [4])"
    by (simp add: registration_params_def demo_keys(2) [unfolded srp_params_def])
  ultimately show ?thesis
    by (simp add: performRegistration_def demo_reg_def demo_source_def generateSecretKey_def
        assertWebCryptoAvailable_def demo_subtle_def)
qed

theorem registered_user_logs_in_witness:
  "\<exists>s'. srpLogin demo_server ''a'' ''pw'' (Some (formatSecretKey (replicate 16 7))) session_init = (s', Inr ())
    \<and> isAuthenticated (se_auth s') \<and> getVaultKey (se_keys s') = Some ()"
proof -
  have "\<exists>s'. srpLogin demo_server ''a'' ''pw'' (Some (rg_secretKey demo_reg)) session_init = (s', Inr ())
    \<and> isAuthenticated (se_auth s')
    \<and> au_user (se_auth s') = Some \<lparr>um_id = ''1'', um_email = ''a'', um_name = ''A'', um_role = ''operator'',
                  um_tenant_id = None, um_auth_version = 2\<rparr> \<and> \<not> isLoading (se_auth s')
    \<and> getVaultKey (se_keys s') = Some ((\<lambda>_ _ _. ()) False [''encrypt'', ''decrypt''] ())
    \<and> getPrivateKey (se_keys s') = Some ((\<lambda>_ _ _. ()) False [''decrypt''] ())
    \<and> getSecretKey None ''a'' (se_keys s') = Inr (Some (rnd_secretKey demo_source))"
  proof (rule registered_user_logs_in [where k = 3 and u = 3 and b = 7 and v = 16 and B = 15
        and sc = demo_subtle and grp = demo_group and c = demo_client and K = "[3]" and sha = "\<lambda>_. [3]"
        and reg = demo_reg and publicKey = "()" and privateKey = "()" and vaultKey = "()"
        and init = "\<lparr>si_salt = rg_srp_salt demo_reg, si_server_public = ''f'',
        si_session_id = ''s'', si_pbkdf2_salt = pbkdf2_salt (rg_keyBundle demo_reg),
        si_hkdf_salt = hkdf_salt (rg_keyBundle demo_reg)\<rparr>" and restrict = "\<lambda>_ _ _. ()"])
    show "performRegistration demo_subtle demo_group None demo_source ''a'' ''pw'' = Inr demo_reg"
      by (rule demo_registration)
    show "wrap_documented demo_subtle (\<lambda>_ _ _. ())" by (simp add: wrap_documented_def demo_subtle_def)
    show "srp_k (\<lambda>_. [3]) demo_group = Inr 3" "srp_u (\<lambda>_. [3]) demo_group (cl_A demo_client) 15 = Inr 3" by code_simp+
    have "BigInt_hex ''10'' = Inr 16" by code_simp
    then show "BigInt_hex (rg_srp_verifier demo_reg) = Inr 16" by (simp add: demo_reg_def)
    have "BigInt_hex ''f'' = Inr 15" by code_simp
    then show "BigInt_hex (si_server_public \<lparr>si_salt = rg_srp_salt demo_reg, si_server_public = ''f'',
        si_session_id = ''s'', si_pbkdf2_salt = pbkdf2_salt (rg_keyBundle demo_reg),
        si_hkdf_salt = hkdf_salt (rg_keyBundle demo_reg)\<rparr>) = Inr 15" by simp
    show "ae_srpVerify demo_server p = Inr \<lparr>sr_server_proof = bytesToHex [3],
        sr_encrypted_key_set = Some (rg_keyBundle demo_reg)\<rparr>" for p
    proof -
      have "bytesToHex [3] = ''03''" by code_simp
      then show ?thesis by (simp add: demo_server_def)
    qed
    show "new_SRPClient demo_group ''a'' (ae_rnd demo_server) = Inr demo_client"
      using demo_srp(1) by (simp add: demo_server_def demo_env_def)
  qed (auto simp: demo_group_def demo_subtle_def demo_source_def demo_server_def demo_env_def
      session_init_def key_store_defs server_B_def)
  then show ?thesis by (simp add: demo_reg_def) blast
qed

end
